(* ===== verification/Nitella_Prelude.thy ===== *)
theory Nitella_Prelude
  imports Main "HOL-Library.AList" "HOL-Library.Word"
begin

text \<open>
  Shared vocabulary of the development: the Go values the node and the hub are written with.
  \<^item> A Go \<^verbatim>\<open>map\<close> is an association list with distinct keys (\<open>gwf\<close>); the interface the
    components rely on is the locale \<open>go_map\<close>, interpreted here on \<open>gget\<close>, \<open>gput\<close>, \<open>gdel\<close>.
  \<^item> A \<^verbatim>\<open>time.Time\<close> is the number of nanoseconds since Go's zero time, so that \<open>IsZero\<close> is
    \<open>t = 0\<close>; a \<^verbatim>\<open>time.Duration\<close> is a signed 64-bit count of nanoseconds. \<open>Time.Sub\<close> saturates,
    \<open>Duration\<close> arithmetic wraps.
  \<^item> A Go string is a list of bytes (\<open>string\<close>).
\<close>

section \<open>Collections of rewrite rules\<close>

named_theorems go_simps \<open>unfolding of the Go value operations\<close>
named_theorems inv_intros \<open>every operation keeps its component's invariant\<close>

section \<open>Go maps\<close>

type_synonym ('k, 'v) gomap = "('k \<times> 'v) list"

definition gget :: "('k, 'v) gomap \<Rightarrow> 'k \<Rightarrow> 'v option" where
  "gget m k = map_of m k"

definition gput :: "'k \<Rightarrow> 'v \<Rightarrow> ('k, 'v) gomap \<Rightarrow> ('k, 'v) gomap" where
  "gput k v m = AList.update k v m"

definition gdel :: "'k \<Rightarrow> ('k, 'v) gomap \<Rightarrow> ('k, 'v) gomap" where
  "gdel k m = AList.delete k m"

text \<open>
  \<open>gmod\<close> mutates the value a key points to, where the source writes through the pointer it
  looked up; \<open>gkeep\<close> is the loop that ranges over a map and deletes the entries that fail a test.
\<close>

definition gmod :: "'k \<Rightarrow> ('v \<Rightarrow> 'v) \<Rightarrow> ('k, 'v) gomap \<Rightarrow> ('k, 'v) gomap" where
  "gmod k f m = map (\<lambda>(k', v). (k', if k' = k then f v else v)) m"

definition gkeep :: "('k \<Rightarrow> 'v \<Rightarrow> bool) \<Rightarrow> ('k, 'v) gomap \<Rightarrow> ('k, 'v) gomap" where
  "gkeep P m = filter (\<lambda>(k, v). P k v) m"

definition gwf :: "('k, 'v) gomap \<Rightarrow> bool" where
  "gwf m = distinct (map fst m)"

lemma gget_Nil [simp]: "gget [] k = None"
  by (simp add: gget_def)

lemma gget_Cons [simp]: "gget ((k', v) # m) k = (if k' = k then Some v else gget m k)"
  by (simp add: gget_def)

lemma gget_gput [simp]: "gget (gput k v m) k' = (if k' = k then Some v else gget m k')"
  by (simp add: gget_def gput_def update_conv')

lemma gget_gdel [simp]: "gget (gdel k m) k' = (if k' = k then None else gget m k')"
  by (simp add: gget_def gdel_def delete_conv')

lemma gget_gmod [simp]:
  "gget (gmod k f m) k' = (if k' = k then map_option f (gget m k') else gget m k')"
  by (induction m) (auto simp: gget_def gmod_def)

lemma gmod_Nil [simp]: "gmod k f [] = []"
  by (simp add: gmod_def)

lemma gmod_Cons [simp]:
  "gmod k f ((k', v) # m) = (k', if k' = k then f v else v) # gmod k f m"
  by (simp add: gmod_def)

lemma gkeep_Nil [simp]: "gkeep P [] = []"
  by (simp add: gkeep_def)

lemma gkeep_Cons [simp]:
  "gkeep P ((k, v) # m) = (if P k v then (k, v) # gkeep P m else gkeep P m)"
  by (simp add: gkeep_def)

lemma gput_Nil [simp]: "gput k v [] = [(k, v)]"
  by (simp add: gput_def)

lemma gput_Cons [simp]:
  "gput k v ((k', v') # m) = (if k' = k then (k, v) # m else (k', v') # gput k v m)"
  by (simp add: gput_def)

lemma gdel_Nil [simp]: "gdel k [] = []"
  by (simp add: gdel_def)

lemma gdel_Cons [simp]: "gdel k ((k', v) # m) = (if k' = k then gdel k m else (k', v) # gdel k m)"
  by (simp add: gdel_def AList.delete_eq)

lemma gget_notin: "k \<notin> fst ` set m \<Longrightarrow> gget m k = None"
  by (simp add: gget_def map_of_eq_None_iff)

lemma gget_Some_mem: "gget m k = Some v \<Longrightarrow> (k, v) \<in> set m"
  by (simp add: gget_def map_of_SomeD)

lemma gwf_mem_iff: "gwf m \<Longrightarrow> (k, v) \<in> set m \<longleftrightarrow> gget m k = Some v"
  by (simp add: gwf_def gget_def)

lemma gget_gkeep [simp]:
  "gwf m \<Longrightarrow> gget (gkeep P m) k = (case gget m k of None \<Rightarrow> None | Some v \<Rightarrow> if P k v then Some v else None)"
proof (induction m)
  case Nil
  then show ?case by simp
next
  case (Cons a m)
  obtain k' v where a: "a = (k', v)" by (cases a)
  have wf: "gwf m" and notin: "k' \<notin> fst ` set m"
    using Cons.prems by (auto simp: gwf_def a)
  show ?case
    using Cons.IH [OF wf] gget_notin [OF notin] by (auto simp: a)
qed

lemma gwf_Nil [simp]: "gwf []"
  by (simp add: gwf_def)

lemma gwf_gput [simp, intro]: "gwf m \<Longrightarrow> gwf (gput k v m)"
  by (simp add: gwf_def gput_def distinct_update)

lemma gwf_gdel [simp, intro]: "gwf m \<Longrightarrow> gwf (gdel k m)"
  by (simp add: gwf_def gdel_def distinct_delete)

lemma map_fst_gmod [simp]: "map fst (gmod k f m) = map fst m"
  by (induction m) (auto simp: gmod_def)

lemma gwf_gmod [simp, intro]: "gwf m \<Longrightarrow> gwf (gmod k f m)"
  by (simp add: gwf_def)

lemma gwf_gkeep [simp, intro]: "gwf m \<Longrightarrow> gwf (gkeep P m)"
  by (induction m) (auto simp: gwf_def gkeep_def)

lemma length_gmod [simp]: "length (gmod k f m) = length m"
  by (simp add: gmod_def)

lemma length_gkeep_le: "length (gkeep P m) \<le> length m"
  by (simp add: gkeep_def)

lemma length_gput:
  "length (gput k v m) = (if gget m k = None then Suc (length m) else length m)"
  by (induction m) (auto simp: gget_def gput_def)

lemma length_gdel_none: "gget m k = None \<Longrightarrow> gdel k m = m"
  by (induction m) (auto split: if_splits)

lemma length_gdel:
  "gwf m \<Longrightarrow> length (gdel k m) = (if gget m k = None then length m else length m - 1)"
proof (induction m)
  case Nil
  then show ?case by simp
next
  case (Cons a m)
  obtain k' v where a: "a = (k', v)" by (cases a)
  have wf: "gwf m" and notin: "k' \<notin> fst ` set m"
    using Cons.prems by (auto simp: gwf_def a)
  show ?case
  proof (cases "k' = k")
    case True
    with notin have "gget m k = None" by (simp add: gget_notin)
    then show ?thesis by (simp add: a True length_gdel_none)
  next
    case False
    have "gget m k \<noteq> None \<Longrightarrow> length m \<noteq> 0" by auto
    then show ?thesis using Cons.IH [OF wf] False by (auto simp: a)
  qed
qed

text \<open>How many entries of a map satisfy a predicate.\<close>

definition gcount :: "('v \<Rightarrow> bool) \<Rightarrow> ('k, 'v) gomap \<Rightarrow> nat" where
  "gcount P m = length (filter (\<lambda>(_, v). P v) m)"

lemma gcount_Nil [simp]: "gcount P [] = 0"
  by (simp add: gcount_def)

lemma gcount_Cons [simp]: "gcount P ((k, v) # m) = (if P v then 1 else 0) + gcount P m"
  by (simp add: gcount_def)

lemma gcount_le: "gcount P m \<le> length m"
  by (simp add: gcount_def)

lemma gcount_gput:
  "gget m k = None \<Longrightarrow> gcount P (gput k v m) = gcount P m + (if P v then 1 else 0)"
  by (induction m) (auto split: if_splits)

lemma gcount_gdel:
  "gwf m \<Longrightarrow> gget m k = Some v \<Longrightarrow> gcount P m = gcount P (gdel k m) + (if P v then 1 else 0)"
proof (induction m)
  case (Cons a m)
  obtain k' v' where a: "a = (k', v')" by (cases a)
  have wf: "gwf m" and notin: "k' \<notin> fst ` set m"
    using Cons.prems(1) by (auto simp: gwf_def a)
  show ?case
  proof (cases "k' = k")
    case True
    then show ?thesis
      using Cons.prems(2) length_gdel_none [OF gget_notin [OF notin]] by (simp add: a)
  next
    case False
    then show ?thesis
      using Cons.IH [OF wf] Cons.prems(2) by (simp add: a)
  qed
qed simp

subsection \<open>The interface the components use\<close>

text \<open>
  The contract of Go's built-in map. The client lemmas are about \<^verbatim>\<open>len\<close>, which several
  components compare with a limit before they insert.
\<close>

locale go_map =
  fixes get :: "'m \<Rightarrow> 'k \<Rightarrow> 'v option"
    and put :: "'k \<Rightarrow> 'v \<Rightarrow> 'm \<Rightarrow> 'm"
    and del :: "'k \<Rightarrow> 'm \<Rightarrow> 'm"
    and len :: "'m \<Rightarrow> nat"
    and ok :: "'m \<Rightarrow> bool"
  assumes get_put: "get (put k v m) k' = (if k' = k then Some v else get m k')"
    and get_del: "get (del k m) k' = (if k' = k then None else get m k')"
    and len_put: "len (put k v m) = (if get m k = None then Suc (len m) else len m)"
    and len_del: "ok m \<Longrightarrow> len (del k m) = (if get m k = None then len m else len m - 1)"
    and ok_put: "ok m \<Longrightarrow> ok (put k v m)"
    and ok_del: "ok m \<Longrightarrow> ok (del k m)"
begin

lemma len_put_le: "len (put k v m) \<le> Suc (len m)"
  by (simp add: len_put)

lemma len_put_bounded: "len m < n \<Longrightarrow> len (put k v m) \<le> n"
  by (simp add: len_put)

lemma len_del_le: "ok m \<Longrightarrow> len (del k m) \<le> len m"
  by (simp add: len_del)

lemma put_after_del_len:
  "ok m \<Longrightarrow> get m k \<noteq> None \<Longrightarrow> 0 < len m \<Longrightarrow> len (put k' v (del k m)) \<le> len m"
  by (cases "get (del k m) k'") (auto simp: len_put len_del)

end

interpretation gm: go_map gget gput gdel length gwf
  by unfold_locales (auto simp: length_gput length_gdel)

section \<open>Machine integers and time\<close>

text \<open>
  Go's \<^verbatim>\<open>int32\<close> and \<^verbatim>\<open>int64\<close> values are kept as integers; an operation that can leave the
  range is followed by \<open>wrap32\<close> or \<open>wrap64\<close>, the two's complement wrap-around.
\<close>

definition wrap32 :: "int \<Rightarrow> int" where
  "wrap32 x = signed_take_bit 31 x"

definition wrap64 :: "int \<Rightarrow> int" where
  "wrap64 x = signed_take_bit 63 x"

lemma wrap64_word: "wrap64 x = sint (word_of_int x :: 64 word)"
  by (simp add: wrap64_def sint_sbintrunc')

lemma wrap32_word: "wrap32 x = sint (word_of_int x :: 32 word)"
  by (simp add: wrap32_def sint_sbintrunc')

lemma wrap64_id: "- (2 ^ 63) \<le> x \<Longrightarrow> x < 2 ^ 63 \<Longrightarrow> wrap64 x = x"
  by (simp add: wrap64_def signed_take_bit_int_eq_self)

lemma wrap64_range: "- (2 ^ 63) \<le> wrap64 x" "wrap64 x < 2 ^ 63"
  unfolding wrap64_def
  by (rule signed_take_bit_int_greater_eq_minus_exp) (rule signed_take_bit_int_less_exp)

type_synonym gotime = int
type_synonym duration = int

definition minDuration :: duration where
  "minDuration = - (2 ^ 63)"

definition maxDuration :: duration where
  "maxDuration = 2 ^ 63 - 1"

text \<open>\<open>Time.Sub\<close> saturates at the ends of the duration range; \<open>Time.Add\<close> is addition.\<close>

definition time_sub :: "gotime \<Rightarrow> gotime \<Rightarrow> duration" where
  "time_sub t u = max minDuration (min maxDuration (t - u))"

definition second :: duration where
  "second = 1000000000"

definition dur_seconds :: "int \<Rightarrow> duration" where
  "dur_seconds n = wrap64 (n * second)"

text \<open>The conversion \<open>int(d.Seconds())\<close> truncates towards zero.\<close>

definition trunc_seconds :: "duration \<Rightarrow> int" where
  "trunc_seconds d = (if d < 0 then - ((- d) div second) else d div second)"

text \<open>\<open>time.Unix(sec, 0)\<close>: the seconds are shifted from 1970 to Go's zero time.\<close>

definition time_unix :: "int \<Rightarrow> gotime" where
  "time_unix sec = wrap64 (sec + 62135596800) * second"

definition time_Unix :: "gotime \<Rightarrow> int" where
  "time_Unix t = t div second - 62135596800"

lemma time_sub_exact: "\<bar>t - u\<bar> < 2 ^ 63 \<Longrightarrow> time_sub t u = t - u"
  by (simp add: time_sub_def minDuration_def maxDuration_def max_def min_def abs_if split: if_splits)

lemma time_sub_gt: "d < maxDuration \<Longrightarrow> d \<ge> minDuration \<Longrightarrow> time_sub t u > d \<longleftrightarrow> t - u > d"
  by (auto simp: time_sub_def max_def min_def)

lemma dur_seconds_int32: "\<bar>n\<bar> \<le> 2 ^ 31 \<Longrightarrow> dur_seconds n = n * second"
  unfolding dur_seconds_def second_def by (rule wrap64_id) (simp_all add: abs_le_iff)

section \<open>Strings\<close>

fun strings_Contains :: "string \<Rightarrow> string \<Rightarrow> bool" where
  "strings_Contains [] sub = (sub = [])"
| "strings_Contains (c # cs) sub =
     (take (length sub) (c # cs) = sub \<or> strings_Contains cs sub)"

lemma strings_Contains_iff: "strings_Contains s sub \<longleftrightarrow> (\<exists>a b. s = a @ sub @ b)"
proof (induction s)
  case Nil
  then show ?case by auto
next
  case (Cons c cs)
  have pre: "take (length sub) (c # cs) = sub \<longleftrightarrow> (\<exists>b. c # cs = sub @ b)"
    by (metis append_eq_conv_conj append_take_drop_id)
  show ?case
  proof
    assume "strings_Contains (c # cs) sub"
    then show "\<exists>a b. c # cs = a @ sub @ b"
      using Cons.IH pre by (metis append_Cons append_Nil strings_Contains.simps(2))
  next
    assume "\<exists>a b. c # cs = a @ sub @ b"
    then obtain a b where ab: "c # cs = a @ sub @ b" by blast
    show "strings_Contains (c # cs) sub"
    proof (cases a)
      case Nil
      with ab have "take (length sub) (c # cs) = sub" using pre by auto
      then show ?thesis by (simp only: strings_Contains.simps simp_thms)
    next
      case (Cons x xs)
      with ab have "cs = xs @ sub @ b" by simp
      then show ?thesis using \<open>strings_Contains cs sub \<longleftrightarrow> _\<close> by auto
    qed
  qed
qed

text \<open>\<open>strings.Split\<close> with a one-byte separator; the result is never empty.\<close>

fun strings_Split :: "char \<Rightarrow> string \<Rightarrow> string list" where
  "strings_Split sep [] = [[]]"
| "strings_Split sep (c # cs) =
     (if c = sep then [] # strings_Split sep cs
      else case strings_Split sep cs of
             [] \<Rightarrow> [[c]]
           | p # ps \<Rightarrow> (c # p) # ps)"

lemma strings_Split_nonempty [simp]: "strings_Split sep s \<noteq> []"
  by (induction s) (auto split: list.splits)

lemma strings_Split_nosep: "sep \<notin> set s \<Longrightarrow> strings_Split sep s = [s]"
  by (induction s) auto

lemma strings_Split_append:
  "sep \<notin> set s \<Longrightarrow> strings_Split sep (s @ sep # t) = s # strings_Split sep t"
  by (induction s) auto

definition strings_HasSuffix :: "string \<Rightarrow> string \<Rightarrow> bool" where
  "strings_HasSuffix s suf = (length suf \<le> length s \<and> drop (length s - length suf) s = suf)"

definition strings_HasPrefix :: "string \<Rightarrow> string \<Rightarrow> bool" where
  "strings_HasPrefix s pre = (take (length pre) s = pre)"

text \<open>
  \<open>strings.TrimSpace\<close>: the white space runes of Unicode in their UTF-8 encoding are stripped from
  both ends.
\<close>

definition space_runes :: "string list" where
  "space_runes = map (map char_of)
     ([[9], [10], [11], [12], [13], [32], [0xC2, 0x85], [0xC2, 0xA0], [0xE1, 0x9A, 0x80],
       [0xE2, 0x80, 0xA8], [0xE2, 0x80, 0xA9], [0xE2, 0x80, 0xAF], [0xE2, 0x81, 0x9F],
       [0xE3, 0x80, 0x80]] @ map (\<lambda>b. [0xE2, 0x80, b]) [0x80 ..< 0x8B :: nat])"

lemma space_runes_nonempty: "r \<in> set space_runes \<Longrightarrow> r \<noteq> []"
  by (auto simp: space_runes_def)

definition drop_rune :: "string list \<Rightarrow> string \<Rightarrow> string option" where
  "drop_rune rs s =
     (case find (\<lambda>r. r \<noteq> [] \<and> take (length r) s = r) rs of
        None \<Rightarrow> None
      | Some r \<Rightarrow> Some (drop (length r) s))"

lemma drop_rune_shorter: "drop_rune rs s = Some t \<Longrightarrow> length t < length s"
  by (auto simp: drop_rune_def find_Some_iff split: option.splits)
     (metis diff_less length_greater_0_conv take_eq_Nil)

function trim_runes :: "string list \<Rightarrow> string \<Rightarrow> string" where
  "trim_runes rs s = (case drop_rune rs s of None \<Rightarrow> s | Some t \<Rightarrow> trim_runes rs t)"
  by pat_completeness auto
termination
  by (relation "measure (length o snd)") (auto simp: drop_rune_shorter)

declare trim_runes.simps [simp del]

definition strings_TrimSpace :: "string \<Rightarrow> string" where
  "strings_TrimSpace s = rev (trim_runes (map rev space_runes) (rev (trim_runes space_runes s)))"

lemma trim_runes_id: "drop_rune rs s = None \<Longrightarrow> trim_runes rs s = s"
  by (simp add: trim_runes.simps)

text \<open>Decimal and hexadecimal output.\<close>

definition digit_char :: "nat \<Rightarrow> char" where
  "digit_char d = char_of (if d < 10 then 48 + d else 87 + d)"

fun show_nat :: "nat \<Rightarrow> string" where
  "show_nat n = (if n < 10 then [digit_char n] else show_nat (n div 10) @ [digit_char (n mod 10)])"

declare show_nat.simps [simp del]

definition show_int :: "int \<Rightarrow> string" where
  "show_int i = (if i < 0 then CHR ''-'' # show_nat (nat (- i)) else show_nat (nat i))"

definition hex_EncodeToString :: "8 word list \<Rightarrow> string" where
  "hex_EncodeToString bs =
     concat (map (\<lambda>b. [digit_char (unat b div 16), digit_char (unat b mod 16)]) bs)"

section \<open>Stores with expiry and a background sweep\<close>

text \<open>
  Several components keep entries with an expiry time and remove the expired ones from a ticker
  goroutine. Their contract: a sweep that ran earlier never changes what a later look-up answers.
  The lemma lifts it to any number of sweeps in any order.
\<close>

locale swept_store =
  fixes look :: "'s \<Rightarrow> 'q \<Rightarrow> gotime \<Rightarrow> 'r"
    and sweep :: "gotime \<Rightarrow> 's \<Rightarrow> 's"
    and ok :: "'s \<Rightarrow> bool"
  assumes sweep_look: "ok s \<Longrightarrow> t \<le> now \<Longrightarrow> look (sweep t s) q now = look s q now"
    and sweep_ok: "ok s \<Longrightarrow> ok (sweep t s)"
begin

lemma sweeps_look:
  "ok s \<Longrightarrow> (\<And>t. t \<in> set ts \<Longrightarrow> t \<le> now) \<Longrightarrow> look (fold sweep ts s) q now = look s q now"
  by (induction ts arbitrary: s) (auto simp: sweep_look sweep_ok)

end

section \<open>Calls that may not return\<close>

text \<open>A call returns, panics, or waits for a lock that its own goroutine holds.\<close>

datatype 'a outcome = Ret 'a | Panics | Deadlocks

fun obind :: "'a outcome \<Rightarrow> ('a \<Rightarrow> 'b outcome) \<Rightarrow> 'b outcome" where
  "obind (Ret x) f = f x"
| "obind Panics f = Panics"
| "obind Deadlocks f = Deadlocks"

fun returns :: "'a option \<Rightarrow> 'a outcome" where
  "returns None = Panics"
| "returns (Some x) = Ret x"

lemma obind_Ret_iff [simp]: "obind m f = Ret y \<longleftrightarrow> (\<exists>x. m = Ret x \<and> f x = Ret y)"
  by (cases m) auto

lemma returns_Ret_iff [simp]: "returns x = Ret y \<longleftrightarrow> x = Some y"
  by (cases x) auto

lemma obind_Ret_right [simp]: "obind m Ret = m"
  by (cases m) auto

end
