(* ===== verification/Go_Net.thy ===== *)
theory Go_Net
  imports Nitella_Prelude
begin

text \<open>
  The part of Go's \<^verbatim>\<open>net\<close> package that the rule engine and the global rules store call:
  \<open>ParseIP\<close>, \<open>ParseCIDR\<close>, \<open>IPNet.Contains\<close>, \<open>IP.String\<close> and \<open>SplitHostPort\<close>. Addresses are byte
  slices, as in Go: four bytes, sixteen bytes, or none (\<^verbatim>\<open>nil\<close>). The lemmas show that dotted-decimal
  output parses back to the same address and that \<open>Contains\<close> compares the leading bits the
  prefix length names.
\<close>

unbundle bit_operations_syntax

section \<open>Addresses\<close>

type_synonym ip = "8 word list"

definition v4_prefix :: ip where
  "v4_prefix = [0, 0, 0, 0, 0, 0, 0, 0, 0, 0, 255, 255]"

datatype netip_addr = V4 ip | V6 ip

definition addr_as16 :: "netip_addr \<Rightarrow> ip" where
  "addr_as16 a = (case a of V4 b \<Rightarrow> v4_prefix @ b | V6 b \<Rightarrow> b)"

definition addr_bytes :: "netip_addr \<Rightarrow> nat" where
  "addr_bytes a = (case a of V4 _ \<Rightarrow> 4 | V6 _ \<Rightarrow> 16)"

definition ip_To4 :: "ip \<Rightarrow> ip" where
  "ip_To4 ip =
     (if length ip = 4 then ip
      else if length ip = 16 \<and> take 12 ip = v4_prefix then drop 12 ip
      else [])"

section \<open>Parsing\<close>

definition is_digit :: "char \<Rightarrow> bool" where
  "is_digit c = (48 \<le> (of_char c :: nat) \<and> (of_char c :: nat) \<le> 57)"

definition digit_val :: "char \<Rightarrow> nat" where
  "digit_val c = of_char c - 48"

definition hex_val :: "char \<Rightarrow> nat option" where
  "hex_val c = (let n = (of_char c :: nat) in
     if 48 \<le> n \<and> n \<le> 57 then Some (n - 48)
     else if 97 \<le> n \<and> n \<le> 102 then Some (n - 87)
     else if 65 \<le> n \<and> n \<le> 70 then Some (n - 55)
     else None)"

text \<open>
  The loop over a dotted-decimal address: the previous byte, the value and the number of digits of
  the current octet, the octets finished so far.
\<close>

fun ipv4_loop :: "char option \<Rightarrow> nat \<Rightarrow> nat \<Rightarrow> nat list \<Rightarrow> string \<Rightarrow> nat list option" where
  "ipv4_loop prev val digLen fields [] =
     (if length fields < 3 then None else Some (fields @ [val]))"
| "ipv4_loop prev val digLen fields (c # cs) =
     (if is_digit c then
        (if digLen = 1 \<and> val = 0 then None
         else if val * 10 + digit_val c > 255 then None
         else ipv4_loop (Some c) (val * 10 + digit_val c) (Suc digLen) fields cs)
      else if c = CHR ''.'' then
        (if prev = None \<or> cs = [] \<or> prev = Some CHR ''.'' then None
         else if length fields = 3 then None
         else ipv4_loop (Some c) 0 0 (fields @ [val]) cs)
      else None)"

definition parseIPv4Fields :: "string \<Rightarrow> ip option" where
  "parseIPv4Fields s = map_option (map of_nat) (ipv4_loop None 0 0 [] s)"

text \<open>One group of hexadecimal digits: digits read, value, rest of the input.\<close>

fun hex_group :: "nat \<Rightarrow> nat \<Rightarrow> string \<Rightarrow> (nat \<times> nat \<times> string) option" where
  "hex_group off acc [] = Some (off, acc, [])"
| "hex_group off acc (c # cs) =
     (case hex_val c of
        None \<Rightarrow> Some (off, acc, c # cs)
      | Some v \<Rightarrow>
          (if off > 3 then None
           else if acc * 16 + v > 65535 then None
           else hex_group (Suc off) (acc * 16 + v) cs))"

text \<open>
  The group loop of \<open>parseIPv6\<close>: the first argument counts the groups that still fit, the second
  is the address so far, the third the position of the ellipsis.
\<close>

fun ipv6_loop :: "nat \<Rightarrow> ip \<Rightarrow> nat option \<Rightarrow> string \<Rightarrow> (ip \<times> nat option \<times> string) option" where
  "ipv6_loop 0 ip ell s = Some (ip, ell, s)"
| "ipv6_loop (Suc k) ip ell s =
     (case hex_group 0 0 s of
        None \<Rightarrow> None
      | Some (off, acc, r) \<Rightarrow>
          (if off = 0 then None
           else if r \<noteq> [] \<and> hd r = CHR ''.'' then
             (if ell = None \<and> length ip \<noteq> 12 then None
              else if length ip + 4 > 16 then None
              else case parseIPv4Fields s of
                     None \<Rightarrow> None
                   | Some fs \<Rightarrow> Some (ip @ fs, ell, []))
           else
             (let ip' = ip @ [of_nat (acc div 256), of_nat (acc mod 256)] in
              case r of
                [] \<Rightarrow> Some (ip', ell, [])
              | c # r1 \<Rightarrow>
                  (if c \<noteq> CHR '':'' then None
                   else case r1 of
                          [] \<Rightarrow> None
                        | c2 # r2 \<Rightarrow>
                            (if c2 = CHR '':'' then
                               (if ell \<noteq> None then None
                                else if r2 = [] then Some (ip', Some (length ip'), [])
                                else ipv6_loop k ip' (Some (length ip')) r2)
                             else ipv6_loop k ip' ell r1)))))"

definition ipv6_finish :: "ip \<times> nat option \<times> string \<Rightarrow> ip option" where
  "ipv6_finish p =
     (case p of (ip, ell, rest) \<Rightarrow>
        if rest \<noteq> [] then None
        else if length ip < 16 then
          (case ell of
             None \<Rightarrow> None
           | Some e \<Rightarrow> Some (take e ip @ replicate (16 - length ip) 0 @ drop e ip))
        else if ell \<noteq> None then None
        else Some ip)"

definition parseIPv6 :: "string \<Rightarrow> ip option" where
  "parseIPv6 s =
     (if take 2 s = ''::'' then
        (if drop 2 s = [] then Some (replicate 16 0)
         else Option.bind (ipv6_loop 8 [] (Some 0) (drop 2 s)) ipv6_finish)
      else Option.bind (ipv6_loop 8 [] None s) ipv6_finish)"

text \<open>
  \<open>netip.ParseAddr\<close> as \<open>ParseIP\<close> and \<open>ParseCIDR\<close> use it. Both refuse an address with a zone, and
  a \<^verbatim>\<open>%\<close> outside a zone is a syntax error, so every input with a \<^verbatim>\<open>%\<close> fails.
\<close>

fun addr_kind :: "string \<Rightarrow> char option" where
  "addr_kind [] = None"
| "addr_kind (c # cs) = (if c = CHR ''.'' \<or> c = CHR '':'' then Some c else addr_kind cs)"

definition ParseAddr :: "string \<Rightarrow> netip_addr option" where
  "ParseAddr s =
     (if CHR ''%'' \<in> set s then None
      else case addr_kind s of
             None \<Rightarrow> None
           | Some c \<Rightarrow>
               (if c = CHR ''.'' then map_option V4 (parseIPv4Fields s)
                else map_option V6 (parseIPv6 s)))"

definition ParseIP :: "string \<Rightarrow> ip option" where
  "ParseIP s = map_option addr_as16 (ParseAddr s)"

text \<open>\<open>dtoi\<close>: the leading decimal number, \<open>None\<close> when there is none or it is too big.\<close>

fun dtoi_loop :: "nat \<Rightarrow> string \<Rightarrow> (nat \<times> string) option" where
  "dtoi_loop n [] = Some (n, [])"
| "dtoi_loop n (c # cs) =
     (if is_digit c then
        (if n * 10 + digit_val c \<ge> 0xFFFFFF then None
         else dtoi_loop (n * 10 + digit_val c) cs)
      else Some (n, c # cs))"

definition dtoi_full :: "string \<Rightarrow> nat option" where
  "dtoi_full s =
     (if s = [] \<or> \<not> is_digit (hd s) then None
      else case dtoi_loop 0 s of Some (n, []) \<Rightarrow> Some n | _ \<Rightarrow> None)"

definition mask_byte :: "nat \<Rightarrow> 8 word" where
  "mask_byte n = (if n \<ge> 8 then 255 else NOT (drop_bit n 255))"

fun CIDRMask :: "nat \<Rightarrow> nat \<Rightarrow> ip" where
  "CIDRMask n 0 = []"
| "CIDRMask n (Suc l) = mask_byte n # CIDRMask (n - 8) l"

record ipnet =
  net_ip :: ip
  net_mask :: ip

definition and_bytes :: "ip \<Rightarrow> ip \<Rightarrow> ip" where
  "and_bytes a m = map2 (\<lambda>x y. x AND y) a m"

definition all_FF :: "ip \<Rightarrow> bool" where
  "all_FF m = list_all (\<lambda>b. b = 255) m"

definition ip_Mask :: "ip \<Rightarrow> ip \<Rightarrow> ip" where
  "ip_Mask ip m =
     (let m' = (if length m = 16 \<and> length ip = 4 \<and> all_FF (take 12 m) then drop 12 m else m);
          ip' = (if length m' = 4 \<and> length ip = 16 \<and> take 12 ip = v4_prefix then drop 12 ip else ip)
      in if length ip' \<noteq> length m' then [] else and_bytes ip' m')"

definition ParseCIDR :: "string \<Rightarrow> ipnet option" where
  "ParseCIDR s =
     (if CHR ''/'' \<notin> set s then None
      else
        (let addr = takeWhile (\<lambda>c. c \<noteq> CHR ''/'') s;
             mask = tl (dropWhile (\<lambda>c. c \<noteq> CHR ''/'') s)
         in case ParseAddr addr of
              None \<Rightarrow> None
            | Some a \<Rightarrow>
                (case dtoi_full mask of
                   None \<Rightarrow> None
                 | Some n \<Rightarrow>
                     (if n > 8 * addr_bytes a then None
                      else
                        (let m = CIDRMask n (addr_bytes a)
                         in Some \<lparr>net_ip = ip_Mask (addr_as16 a) m, net_mask = m\<rparr>)))))"

definition networkNumberAndMask :: "ipnet \<Rightarrow> ip \<times> ip" where
  "networkNumberAndMask n =
     (let ip = (if ip_To4 (net_ip n) \<noteq> [] then ip_To4 (net_ip n) else net_ip n) in
      if length ip \<noteq> 4 \<and> length ip \<noteq> 16 then ([], [])
      else if length (net_mask n) = 4 then
        (if length ip \<noteq> 4 then ([], []) else (ip, net_mask n))
      else if length (net_mask n) = 16 then
        (if length ip = 4 then (ip, drop 12 (net_mask n)) else (ip, net_mask n))
      else ([], []))"

text \<open>\<open>IPNet.Contains\<close>. A failed \<open>ParseIP\<close> is passed on as \<^verbatim>\<open>nil\<close>, here the empty list.\<close>

definition ipnet_Contains :: "ipnet \<Rightarrow> ip \<Rightarrow> bool" where
  "ipnet_Contains n ip =
     (let (nn, m) = networkNumberAndMask n;
          x = (if ip_To4 ip \<noteq> [] then ip_To4 ip else ip)
      in length x = length nn \<and> and_bytes nn m = and_bytes x m)"

definition nil_ip :: "ip option \<Rightarrow> ip" where
  "nil_ip o_ip = (case o_ip of None \<Rightarrow> [] | Some ip \<Rightarrow> ip)"

text \<open>\<open>SplitHostPort\<close>; the errors are not told apart by any caller.\<close>

definition last_index :: "char \<Rightarrow> string \<Rightarrow> nat option" where
  "last_index c s =
     (if c \<in> set s then Some (length s - 1 - length (takeWhile (\<lambda>x. x \<noteq> c) (rev s))) else None)"

definition first_index :: "char \<Rightarrow> string \<Rightarrow> nat option" where
  "first_index c s = (if c \<in> set s then Some (length (takeWhile (\<lambda>x. x \<noteq> c) s)) else None)"

definition SplitHostPort :: "string \<Rightarrow> (string \<times> string) option" where
  "SplitHostPort hp =
     (case last_index CHR '':'' hp of
        None \<Rightarrow> None
      | Some i \<Rightarrow>
          (if hd hp = CHR ''['' then
             (case first_index CHR '']'' hp of
                None \<Rightarrow> None
              | Some e \<Rightarrow>
                  (if e + 1 = i \<and> CHR ''['' \<notin> set (drop 1 hp) \<and> CHR '']'' \<notin> set (drop (e + 1) hp)
                   then Some (take (e - 1) (drop 1 hp), drop (i + 1) hp)
                   else None))
           else if CHR '':'' \<in> set (take i hp) \<or> CHR ''['' \<in> set hp \<or> CHR '']'' \<in> set hp then None
           else Some (take i hp, drop (i + 1) hp)))"

section \<open>Printing\<close>

fun show_hex :: "nat \<Rightarrow> string" where
  "show_hex n = (if n < 16 then [digit_char n] else show_hex (n div 16) @ [digit_char (n mod 16)])"

declare show_hex.simps [simp del]

fun join_with :: "string \<Rightarrow> string list \<Rightarrow> string" where
  "join_with sep [] = []"
| "join_with sep [x] = x"
| "join_with sep (x # y # ys) = x @ sep @ join_with sep (y # ys)"

definition show_v4 :: "ip \<Rightarrow> string" where
  "show_v4 b = join_with ''.'' (map (\<lambda>x. show_nat (unat x)) b)"

fun v6_groups :: "ip \<Rightarrow> nat list" where
  "v6_groups (a # b # r) = (unat a * 256 + unat b) # v6_groups r"
| "v6_groups _ = []"

text \<open>The longest run of at least two zero groups, the first one among equals.\<close>

definition zero_run :: "nat list \<Rightarrow> (nat \<times> nat) option" where
  "zero_run gs =
     fold (\<lambda>i best.
             let l = length (takeWhile (\<lambda>g. g = 0) (drop i gs));
                 cur = (case best of None \<Rightarrow> 0 | Some (a, b) \<Rightarrow> b - a)
             in if l \<ge> 2 \<and> l > cur then Some (i, i + l) else best)
       [0 ..< length gs] None"

definition show_v6 :: "ip \<Rightarrow> string" where
  "show_v6 b =
     (let gs = v6_groups b in
      case zero_run gs of
        None \<Rightarrow> join_with '':'' (map show_hex gs)
      | Some (i, j) \<Rightarrow>
          join_with '':'' (map show_hex (take i gs)) @ ''::'' @ join_with '':'' (map show_hex (drop j gs)))"

definition ip_String :: "ip \<Rightarrow> string" where
  "ip_String ip =
     (if ip = [] then ''<nil>''
      else if length ip \<noteq> 4 \<and> length ip \<noteq> 16 then CHR ''?'' # hex_EncodeToString ip
      else if length (ip_To4 ip) = 4 then show_v4 (ip_To4 ip)
      else show_v6 ip)"

section \<open>Dotted-decimal addresses parse back\<close>

lemma digit_char_digit [simp]: "d < 10 \<Longrightarrow> is_digit (digit_char d)"
  by (simp add: is_digit_def digit_char_def)

lemma digit_val_digit_char [simp]: "d < 10 \<Longrightarrow> digit_val (digit_char d) = d"
  by (simp add: digit_val_def digit_char_def)

lemma is_digit_not_dot [simp]: "is_digit c \<Longrightarrow> c \<noteq> CHR ''.''"
  by (auto simp: is_digit_def)

lemma digit_char_ne [simp]:
  "d < 10 \<Longrightarrow> digit_char d \<noteq> CHR ''.''" "d < 10 \<Longrightarrow> digit_char d \<noteq> CHR ''%''"
  "d < 10 \<Longrightarrow> digit_char d \<noteq> CHR ''/''" "d < 10 \<Longrightarrow> digit_char d \<noteq> CHR '':''"
  using digit_char_digit by (fastforce simp: is_digit_def)+

lemma show_nat_digits: "c \<in> set (show_nat n) \<Longrightarrow> \<exists>d < 10. c = digit_char d"
proof (induction n rule: show_nat.induct)
  case (1 n)
  show ?case
  proof (cases "n < 10")
    case True
    then show ?thesis using "1.prems" by (auto simp: show_nat.simps [of n])
  next
    case False
    then have "c \<in> set (show_nat (n div 10)) \<or> c = digit_char (n mod 10)"
      using "1.prems" by (auto simp: show_nat.simps [of n])
    moreover have "n mod 10 < 10" by simp
    ultimately show ?thesis using "1.IH" [OF False] by blast
  qed
qed

lemma show_nat_byte:
  assumes "n < 256"
  obtains "n < 10" "show_nat n = [digit_char n]"
  | "10 \<le> n" "n < 100" "show_nat n = [digit_char (n div 10), digit_char (n mod 10)]"
  | "100 \<le> n"
    "show_nat n = [digit_char (n div 100), digit_char (n div 10 mod 10), digit_char (n mod 10)]"
proof -
  consider "n < 10" | "10 \<le> n" "n < 100" | "100 \<le> n" by linarith
  then show ?thesis
  proof cases
    case 1
    then show ?thesis using that(1) by (simp add: show_nat.simps)
  next
    case 2
    have "show_nat n = show_nat (n div 10) @ [digit_char (n mod 10)]"
      using 2 by (subst show_nat.simps) simp
    moreover have "show_nat (n div 10) = [digit_char (n div 10)]"
      using 2 by (subst show_nat.simps) auto
    ultimately show ?thesis using that(2) 2 by simp
  next
    case 3
    have a: "show_nat n = show_nat (n div 10) @ [digit_char (n mod 10)]"
      using 3 by (subst show_nat.simps) simp
    have b: "show_nat (n div 10) = show_nat (n div 10 div 10) @ [digit_char (n div 10 mod 10)]"
      using 3 by (subst show_nat.simps) auto
    have c: "show_nat (n div 10 div 10) = [digit_char (n div 10 div 10)]"
      using 3 assms by (subst show_nat.simps) auto
    have "n div 10 div 10 = n div 100" by (simp add: div_mult2_eq [symmetric])
    then show ?thesis using that(3) 3 a b c by simp
  qed
qed

lemma ipv4_loop_digit:
  "d < 10 \<Longrightarrow> \<not> (digLen = 1 \<and> val = 0) \<Longrightarrow> val * 10 + d \<le> 255 \<Longrightarrow>
     ipv4_loop prev val digLen fs (digit_char d # cs) =
     ipv4_loop (Some (digit_char d)) (val * 10 + d) (Suc digLen) fs cs"
  by auto

lemma ipv4_loop_octet:
  assumes "n < 256"
  shows "\<exists>p k. ipv4_loop prev 0 0 fs (show_nat n @ rest) = ipv4_loop (Some p) n k fs rest
           \<and> p \<noteq> CHR ''.''"
  using assms
proof (cases rule: show_nat_byte)
  case 1
  then show ?thesis by (auto simp: assms intro!: exI [of _ "digit_char n"])
next
  case 2
  define a b where "a = n div 10" and "b = n mod 10"
  have d: "a < 10" "b < 10" "a \<noteq> 0" and n: "n = a * 10 + b"
    using 2 by (auto simp: a_def b_def)
  have "ipv4_loop prev 0 0 fs ([digit_char a, digit_char b] @ rest) =
      ipv4_loop (Some (digit_char b)) (a * 10 + b) (Suc (Suc 0)) fs rest"
    using d assms unfolding n by (simp add: ipv4_loop_digit del: ipv4_loop.simps)
  moreover have "show_nat n = [digit_char a, digit_char b]"
    using 2(3) unfolding a_def b_def .
  ultimately have "ipv4_loop prev 0 0 fs (show_nat n @ rest) =
      ipv4_loop (Some (digit_char b)) n (Suc (Suc 0)) fs rest"
    by (simp only: n [symmetric])
  then show ?thesis using d digit_char_ne by blast
next
  case 3
  define a b c where "a = n div 100" and "b = n div 10 mod 10" and "c = n mod 10"
  have q: "a * 10 + b = n div 10"
    using div_mult_mod_eq [of "n div 10" 10] by (simp add: a_def b_def div_mult2_eq [symmetric])
  then have n: "n = (a * 10 + b) * 10 + c" by (simp add: c_def)
  have d: "a < 10" "b < 10" "c < 10" "a \<noteq> 0"
    using 3 assms by (auto simp: a_def b_def c_def)
  have "ipv4_loop prev 0 0 fs ([digit_char a, digit_char b, digit_char c] @ rest) =
      ipv4_loop (Some (digit_char c)) ((a * 10 + b) * 10 + c) (Suc (Suc (Suc 0))) fs rest"
    using d assms unfolding n by (simp add: ipv4_loop_digit del: ipv4_loop.simps)
  moreover have "show_nat n = [digit_char a, digit_char b, digit_char c]"
    using 3(2) unfolding a_def b_def c_def .
  ultimately have "ipv4_loop prev 0 0 fs (show_nat n @ rest) =
      ipv4_loop (Some (digit_char c)) n (Suc (Suc (Suc 0))) fs rest"
    by (simp only: n [symmetric])
  then show ?thesis using d digit_char_ne by blast
qed

lemma ipv4_loop_octet_dot:
  assumes "n < 256" "length fs < 3" "cs \<noteq> []"
  shows "ipv4_loop prev 0 0 fs (show_nat n @ CHR ''.'' # cs) =
         ipv4_loop (Some CHR ''.'') 0 0 (fs @ [n]) cs"
proof -
  obtain p k where "ipv4_loop prev 0 0 fs (show_nat n @ CHR ''.'' # cs) =
      ipv4_loop (Some p) n k fs (CHR ''.'' # cs)" "p \<noteq> CHR ''.''"
    using ipv4_loop_octet [OF assms(1), of prev fs "CHR ''.'' # cs"] by auto
  then show ?thesis using assms by (simp add: is_digit_def)
qed

lemma ipv4_loop_octet_end:
  assumes "n < 256" "length fs = 3"
  shows "ipv4_loop prev 0 0 fs (show_nat n) = Some (fs @ [n])"
  using ipv4_loop_octet [OF assms(1), of prev fs "[]"] assms(2) by auto

lemma show_nat_ne [simp]: "show_nat n \<noteq> []"
  by (subst show_nat.simps) simp

lemma unat_byte: "unat (x :: 8 word) < 256"
  by (rule less_le_trans [OF unsigned_less]) simp

lemma ipv4_loop_quad:
  fixes a b c d :: "8 word"
  shows "ipv4_loop None 0 0 []
      (show_nat (unat a) @ CHR ''.'' # show_nat (unat b) @ CHR ''.'' # show_nat (unat c) @
       CHR ''.'' # show_nat (unat d)) = Some [unat a, unat b, unat c, unat d]"
  apply (subst ipv4_loop_octet_dot [OF unat_byte], simp, simp)
  apply (subst ipv4_loop_octet_dot [OF unat_byte], simp, simp)
  apply (subst ipv4_loop_octet_dot [OF unat_byte], simp, simp)
  apply (subst ipv4_loop_octet_end [OF unat_byte], simp)
  apply simp
  done

lemma parseIPv4Fields_show: "parseIPv4Fields (show_v4 [a, b, c, d]) = Some [a, b, c, d]"
  by (simp add: show_v4_def parseIPv4Fields_def ipv4_loop_quad)

lemma addr_kind_digits:
  "list_all (\<lambda>c. c \<noteq> CHR ''.'' \<and> c \<noteq> CHR '':'') s \<Longrightarrow> addr_kind (s @ t) = addr_kind t"
  by (induction s) simp_all

lemma addr_kind_show_nat: "addr_kind (show_nat n @ t) = addr_kind t"
proof (rule addr_kind_digits)
  show "list_all (\<lambda>c. c \<noteq> CHR ''.'' \<and> c \<noteq> CHR '':'') (show_nat n)"
    unfolding list_all_iff
  proof
    fix c assume "c \<in> set (show_nat n)"
    then obtain d where "d < 10" "c = digit_char d" using show_nat_digits by blast
    then show "c \<noteq> CHR ''.'' \<and> c \<noteq> CHR '':''" by (simp only: digit_char_ne simp_thms)
  qed
qed

lemma addr_kind_show_v4: "addr_kind (show_v4 [a, b, c, d]) = Some CHR ''.''"
  by (simp add: show_v4_def addr_kind_show_nat)

lemma show_v4_chars: "x \<in> set (show_v4 [a, b, c, d]) \<Longrightarrow> x = CHR ''.'' \<or> (\<exists>e < 10. x = digit_char e)"
  by (auto simp: show_v4_def dest: show_nat_digits)

lemma show_v4_free: "CHR ''%'' \<notin> set (show_v4 [a, b, c, d])" "CHR ''/'' \<notin> set (show_v4 [a, b, c, d])"
proof -
  have "CHR ''%'' \<noteq> digit_char e" "CHR ''/'' \<noteq> digit_char e" if "e < 10" for e
    using digit_char_ne(2,3) [OF that] by metis+
  then show "CHR ''%'' \<notin> set (show_v4 [a, b, c, d])" "CHR ''/'' \<notin> set (show_v4 [a, b, c, d])"
    using show_v4_chars [of "CHR ''%''" a b c d] show_v4_chars [of "CHR ''/''" a b c d] by auto
qed

lemma ParseAddr_show_v4: "ParseAddr (show_v4 [a, b, c, d]) = Some (V4 [a, b, c, d])"
  by (simp add: ParseAddr_def addr_kind_show_v4 parseIPv4Fields_show show_v4_free)

lemma ParseIP_show_v4: "ParseIP (show_v4 [a, b, c, d]) = Some (v4_prefix @ [a, b, c, d])"
  by (simp add: ParseIP_def ParseAddr_show_v4 addr_as16_def)

section \<open>What a CIDR block contains\<close>

text \<open>The bits of an address, most significant first.\<close>

definition byte_bits :: "8 word \<Rightarrow> bool list" where
  "byte_bits b = map (bit b) [7, 6, 5, 4, 3, 2, 1, 0]"

definition ip_bits :: "ip \<Rightarrow> bool list" where
  "ip_bits ip = concat (map byte_bits ip)"

lemma length_byte_bits [simp]: "length (byte_bits b) = 8"
  by (simp add: byte_bits_def)

lemma ip_bits_Cons [simp]: "ip_bits (b # bs) = byte_bits b @ ip_bits bs"
  by (simp add: ip_bits_def)

lemma ip_bits_Nil [simp]: "ip_bits [] = []"
  by (simp add: ip_bits_def)

lemma byte_bits_inj: "byte_bits a = byte_bits b \<longleftrightarrow> a = b"
proof
  assume *: "byte_bits a = byte_bits b"
  show "a = b"
  proof (rule bit_word_eqI)
    fix n assume "n < LENGTH(8)"
    then have "n \<in> {7, 6, 5, 4, 3, 2, 1, 0}" by auto
    with * show "bit a n = bit b n" by (auto simp: byte_bits_def)
  qed
qed simp

lemma bit_mask_byte: "k < 8 \<Longrightarrow> bit (mask_byte n) k \<longleftrightarrow> 8 \<le> n + k"
proof -
  assume k: "k < 8"
  have ff: "bit (255 :: 8 word) j \<longleftrightarrow> j < 8" for j
  proof -
    have e: "(255 :: 8 word) = mask 8" by (simp add: mask_eq_exp_minus_1)
    show ?thesis unfolding e bit_mask_iff by simp
  qed
  show ?thesis
    using k ff [of k] ff [of "n + k"] by (auto simp: mask_byte_def bit_not_iff bit_drop_bit_eq)
qed

lemma take_byte_bits: "take n (byte_bits a) = take n (byte_bits b) \<longleftrightarrow> (\<forall>k < 8. 8 \<le> n + k \<longrightarrow> bit a k = bit b k)"
proof -
  have "take n (byte_bits a) = take n (byte_bits b) \<longleftrightarrow>
      (\<forall>i < min n 8. byte_bits a ! i = byte_bits b ! i)"
    by (auto simp: list_eq_iff_nth_eq)
  also have "\<dots> \<longleftrightarrow> (\<forall>i < min n 8. bit a (7 - i) = bit b (7 - i))"
  proof -
    have "byte_bits x ! i = bit x (7 - i)" if "i < 8" for x i
    proof -
      have "i \<in> {0, 1, 2, 3, 4, 5, 6, 7}" using that by auto
      then show ?thesis by (auto simp: byte_bits_def)
    qed
    then show ?thesis by simp
  qed
  also have "\<dots> \<longleftrightarrow> (\<forall>k < 8. 8 \<le> n + k \<longrightarrow> bit a k = bit b k)"
  proof
    assume *: "\<forall>i < min n 8. bit a (7 - i) = bit b (7 - i)"
    show "\<forall>k < 8. 8 \<le> n + k \<longrightarrow> bit a k = bit b k"
    proof (intro allI impI)
      fix k :: nat assume "k < 8" "8 \<le> n + k"
      then have "7 - k < min n 8" "7 - (7 - k) = k" by auto
      with * show "bit a k = bit b k" by metis
    qed
  next
    assume "\<forall>k < 8. 8 \<le> n + k \<longrightarrow> bit a k = bit b k"
    then show "\<forall>i < min n 8. bit a (7 - i) = bit b (7 - i)" by auto
  qed
  finally show ?thesis .
qed

lemma mask_byte_eq_iff:
  "a AND mask_byte n = b AND mask_byte n \<longleftrightarrow> take n (byte_bits a) = take n (byte_bits b)"
  unfolding take_byte_bits by (auto simp: bit_eq_iff bit_and_iff bit_mask_byte)

lemma length_CIDRMask [simp]: "length (CIDRMask n l) = l"
  by (induction l arbitrary: n) auto

lemma and_bytes_CIDRMask:
  "length a = l \<Longrightarrow> length b = l \<Longrightarrow>
     and_bytes a (CIDRMask n l) = and_bytes b (CIDRMask n l) \<longleftrightarrow> take n (ip_bits a) = take n (ip_bits b)"
proof (induction l arbitrary: n a b)
  case 0
  then show ?case by (simp add: and_bytes_def)
next
  case (Suc l)
  obtain x xs where a: "a = x # xs" "length xs = l" using Suc.prems by (auto simp: length_Suc_conv)
  obtain y ys where b: "b = y # ys" "length ys = l" using Suc.prems by (auto simp: length_Suc_conv)
  show ?case
    using Suc.IH [OF a(2) b(2), of "n - 8"] mask_byte_eq_iff [of x n y]
    by (auto simp: a b and_bytes_def)
qed

lemma and_bytes_idem: "and_bytes (and_bytes a m) m = and_bytes a m"
  by (simp add: and_bytes_def list_eq_iff_nth_eq)

lemma length_and_bytes [simp]: "length (and_bytes a m) = min (length a) (length m)"
  by (simp add: and_bytes_def)

lemma show_nat_cidr: "n \<le> 32 \<Longrightarrow> dtoi_full (show_nat n) = Some n"
proof -
  assume n: "n \<le> 32"
  show ?thesis
  proof (cases "n < 10")
    case True
    then show ?thesis by (simp add: show_nat.simps [of n] dtoi_full_def)
  next
    case False
    then have "show_nat n = [digit_char (n div 10), digit_char (n mod 10)]"
      using n by (simp add: show_nat.simps [of n] show_nat.simps [of "n div 10"])
    moreover have "n div 10 < 10" "n mod 10 < 10" using n by auto
    ultimately show ?thesis using n by (simp add: dtoi_full_def)
  qed
qed

definition show_cidr4 :: "ip \<Rightarrow> nat \<Rightarrow> string" where
  "show_cidr4 a n = show_v4 a @ CHR ''/'' # show_nat n"

lemma takeWhile_slash:
  "CHR ''/'' \<notin> set s \<Longrightarrow> takeWhile (\<lambda>c. c \<noteq> CHR ''/'') (s @ CHR ''/'' # t) = s"
  "CHR ''/'' \<notin> set s \<Longrightarrow> dropWhile (\<lambda>c. c \<noteq> CHR ''/'') (s @ CHR ''/'' # t) = CHR ''/'' # t"
  by (induction s) auto

lemma ParseCIDR_show:
  "n \<le> 32 \<Longrightarrow> ParseCIDR (show_cidr4 [a, b, c, d] n) =
     Some \<lparr>net_ip = and_bytes [a, b, c, d] (CIDRMask n 4), net_mask = CIDRMask n 4\<rparr>"
  by (simp add: ParseCIDR_def show_cidr4_def takeWhile_slash show_v4_free ParseAddr_show_v4
      addr_bytes_def show_nat_cidr ip_Mask_def addr_as16_def v4_prefix_def Let_def)

lemma ipnet_Contains_v4:
  assumes "length nn = 4" "length m = 4" "length x = 4"
  shows "ipnet_Contains \<lparr>net_ip = nn, net_mask = m\<rparr> (v4_prefix @ x) \<longleftrightarrow> and_bytes nn m = and_bytes x m"
proof -
  have "nn \<noteq> []" "x \<noteq> []" using assms by auto
  then show ?thesis
    using assms by (simp add: ipnet_Contains_def networkNumberAndMask_def ip_To4_def v4_prefix_def)
qed

lemma ipnet_Contains_prefix:
  assumes "n \<le> 32"
  shows "ipnet_Contains (the (ParseCIDR (show_cidr4 [a, b, c, d] n)))
           (nil_ip (ParseIP (show_v4 [e, f, g, h]))) \<longleftrightarrow>
         take n (ip_bits [a, b, c, d]) = take n (ip_bits [e, f, g, h])"
proof -
  define nn where "nn = and_bytes [a, b, c, d] (CIDRMask n 4)"
  have len: "length nn = 4" by (simp add: nn_def)
  have "ipnet_Contains (the (ParseCIDR (show_cidr4 [a, b, c, d] n)))
           (nil_ip (ParseIP (show_v4 [e, f, g, h]))) \<longleftrightarrow>
        and_bytes nn (CIDRMask n 4) = and_bytes [e, f, g, h] (CIDRMask n 4)"
    using len by (simp add: ParseCIDR_show [OF assms] ParseIP_show_v4 nil_ip_def ipnet_Contains_v4
        nn_def [symmetric])
  also have "\<dots> \<longleftrightarrow> and_bytes [a, b, c, d] (CIDRMask n 4) = and_bytes [e, f, g, h] (CIDRMask n 4)"
    by (simp only: nn_def and_bytes_idem)
  also have "\<dots> \<longleftrightarrow> take n (ip_bits [a, b, c, d]) = take n (ip_bits [e, f, g, h])"
    by (rule and_bytes_CIDRMask) simp_all
  finally show ?thesis .
qed

end
