(* ===== verification/Proxy_Types.thy ===== *)
theory Proxy_Types
  imports Go_Net
begin

text \<open>
  The messages the node's components exchange: the enumerations and records of
  \<^verbatim>\<open>api/common/common.proto\<close> and \<^verbatim>\<open>api/proxy/proxy.proto\<close>, and the conversions of
  \<^verbatim>\<open>pkg/node/model.go\<close> between mock presets and the keys stored in the database. The protobuf
  enumerations are open: the last constructor carries a number the schema does not name.
\<close>

section \<open>Enumerations\<close>

datatype ActionType =
    ACTION_TYPE_UNSPECIFIED
  | ACTION_TYPE_ALLOW
  | ACTION_TYPE_BLOCK
  | ACTION_TYPE_MOCK
  | ACTION_TYPE_REQUIRE_APPROVAL
  | ACTION_TYPE_OTHER int

datatype FallbackAction =
    FALLBACK_ACTION_UNSPECIFIED
  | FALLBACK_ACTION_CLOSE
  | FALLBACK_ACTION_MOCK
  | FALLBACK_ACTION_OTHER int

datatype MockPreset =
    MOCK_PRESET_UNSPECIFIED
  | MOCK_PRESET_SSH_SECURE
  | MOCK_PRESET_SSH_TARPIT
  | MOCK_PRESET_HTTP_403
  | MOCK_PRESET_HTTP_404
  | MOCK_PRESET_HTTP_401
  | MOCK_PRESET_REDIS_SECURE
  | MOCK_PRESET_MYSQL_SECURE
  | MOCK_PRESET_MYSQL_TARPIT
  | MOCK_PRESET_RDP_SECURE
  | MOCK_PRESET_TELNET_SECURE
  | MOCK_PRESET_RAW_TARPIT
  | MOCK_PRESET_OTHER int

datatype ConditionType =
    CONDITION_TYPE_UNSPECIFIED
  | CONDITION_TYPE_SOURCE_IP
  | CONDITION_TYPE_GEO_COUNTRY
  | CONDITION_TYPE_GEO_CITY
  | CONDITION_TYPE_GEO_ISP
  | CONDITION_TYPE_TIME_RANGE
  | CONDITION_TYPE_TLS_FINGERPRINT
  | CONDITION_TYPE_TLS_CN
  | CONDITION_TYPE_TLS_SERIAL
  | CONDITION_TYPE_TLS_PRESENT
  | CONDITION_TYPE_TLS_CA
  | CONDITION_TYPE_TLS_SAN
  | CONDITION_TYPE_TLS_OU
  | CONDITION_TYPE_OTHER int

datatype Operator =
    OPERATOR_UNSPECIFIED
  | OPERATOR_EQ
  | OPERATOR_CONTAINS
  | OPERATOR_REGEX
  | OPERATOR_CIDR
  | OPERATOR_OTHER int

datatype ApprovalRetentionMode =
    APPROVAL_RETENTION_MODE_UNSPECIFIED
  | APPROVAL_RETENTION_MODE_CACHE
  | APPROVAL_RETENTION_MODE_CONNECTION_ONLY
  | APPROVAL_RETENTION_MODE_OTHER int

datatype ClientAuthType =
    CLIENT_AUTH_AUTO
  | CLIENT_AUTH_NONE
  | CLIENT_AUTH_REQUEST
  | CLIENT_AUTH_REQUIRE
  | CLIENT_AUTH_OTHER int

datatype EventType =
    EVENT_TYPE_UNSPECIFIED
  | EVENT_TYPE_CONNECTED
  | EVENT_TYPE_CLOSED
  | EVENT_TYPE_BLOCKED
  | EVENT_TYPE_PENDING_APPROVAL
  | EVENT_TYPE_APPROVED

datatype HealthCheckType =
    HEALTH_CHECK_TYPE_UNSPECIFIED
  | HEALTH_CHECK_TYPE_TCP
  | HEALTH_CHECK_TYPE_HTTP
  | HEALTH_CHECK_TYPE_HTTPS

datatype HealthStatus = HEALTH_STATUS_UNKNOWN | HEALTH_STATUS_HEALTHY | HEALTH_STATUS_UNHEALTHY | HEALTH_STATUS_STARTING

text \<open>
  The database stores the numbers; \<open>common.ActionType(n)\<close> and \<open>int(action)\<close> convert them.
\<close>

definition action_to_int :: "ActionType \<Rightarrow> int" where
  "action_to_int a =
     (case a of
        ACTION_TYPE_UNSPECIFIED \<Rightarrow> 0
      | ACTION_TYPE_ALLOW \<Rightarrow> 1
      | ACTION_TYPE_BLOCK \<Rightarrow> 2
      | ACTION_TYPE_MOCK \<Rightarrow> 3
      | ACTION_TYPE_REQUIRE_APPROVAL \<Rightarrow> 4
      | ACTION_TYPE_OTHER n \<Rightarrow> n)"

definition action_of_int :: "int \<Rightarrow> ActionType" where
  "action_of_int n =
     (if n = 0 then ACTION_TYPE_UNSPECIFIED
      else if n = 1 then ACTION_TYPE_ALLOW
      else if n = 2 then ACTION_TYPE_BLOCK
      else if n = 3 then ACTION_TYPE_MOCK
      else if n = 4 then ACTION_TYPE_REQUIRE_APPROVAL
      else ACTION_TYPE_OTHER n)"

definition fallback_to_int :: "FallbackAction \<Rightarrow> int" where
  "fallback_to_int a =
     (case a of
        FALLBACK_ACTION_UNSPECIFIED \<Rightarrow> 0
      | FALLBACK_ACTION_CLOSE \<Rightarrow> 1
      | FALLBACK_ACTION_MOCK \<Rightarrow> 2
      | FALLBACK_ACTION_OTHER n \<Rightarrow> n)"

definition fallback_of_int :: "int \<Rightarrow> FallbackAction" where
  "fallback_of_int n =
     (if n = 0 then FALLBACK_ACTION_UNSPECIFIED
      else if n = 1 then FALLBACK_ACTION_CLOSE
      else if n = 2 then FALLBACK_ACTION_MOCK
      else FALLBACK_ACTION_OTHER n)"

definition client_auth_to_int :: "ClientAuthType \<Rightarrow> int" where
  "client_auth_to_int a =
     (case a of
        CLIENT_AUTH_AUTO \<Rightarrow> 0
      | CLIENT_AUTH_NONE \<Rightarrow> 1
      | CLIENT_AUTH_REQUEST \<Rightarrow> 2
      | CLIENT_AUTH_REQUIRE \<Rightarrow> 3
      | CLIENT_AUTH_OTHER n \<Rightarrow> n)"

definition client_auth_of_int :: "int \<Rightarrow> ClientAuthType" where
  "client_auth_of_int n =
     (if n = 0 then CLIENT_AUTH_AUTO
      else if n = 1 then CLIENT_AUTH_NONE
      else if n = 2 then CLIENT_AUTH_REQUEST
      else if n = 3 then CLIENT_AUTH_REQUIRE
      else CLIENT_AUTH_OTHER n)"

lemma action_of_to_int:
  "(\<And>n. a = ACTION_TYPE_OTHER n \<Longrightarrow> n < 0 \<or> 4 < n) \<Longrightarrow> action_of_int (action_to_int a) = a"
  by (cases a) (auto simp: action_of_int_def action_to_int_def)

lemma fallback_of_to_int:
  "(\<And>n. a = FALLBACK_ACTION_OTHER n \<Longrightarrow> n < 0 \<or> 2 < n) \<Longrightarrow> fallback_of_int (fallback_to_int a) = a"
  by (cases a) (auto simp: fallback_of_int_def fallback_to_int_def)

lemma client_auth_of_to_int:
  "(\<And>n. a = CLIENT_AUTH_OTHER n \<Longrightarrow> n < 0 \<or> 3 < n) \<Longrightarrow>
     client_auth_of_int (client_auth_to_int a) = a"
  by (cases a) (auto simp: client_auth_of_int_def client_auth_to_int_def)

section \<open>Messages\<close>

record Condition =
  c_Type :: ConditionType
  c_Op :: Operator
  c_Value :: string
  c_Negate :: bool

record RateLimitConfig =
  MaxConnections :: int
  IntervalSeconds :: int
  AutoBlock :: bool
  BlockDurationSeconds :: int
  BlockStepsSeconds :: "int list"
  CountOnlyFailures :: bool
  FailureDurationThreshold :: int

record MockConfig =
  mc_Preset :: MockPreset
  mc_Protocol :: string
  mc_Payload :: string
  mc_DelayMs :: int

record Rule =
  r_Id :: string
  r_Name :: string
  r_Priority :: int
  r_Enabled :: bool
  r_Conditions :: "Condition list"
  r_Action :: ActionType
  r_TargetBackend :: string
  r_RateLimit :: "RateLimitConfig option"
  r_MockResponse :: "MockConfig option"
  r_Expression :: string

record HealthCheckConfig =
  hcc_Interval :: string
  hcc_Timeout :: string
  hcc_Type :: HealthCheckType
  hcc_Path :: string
  hcc_ExpectedStatus :: int

record GeoInfo =
  g_Country :: string
  g_City :: string
  g_Isp :: string

text \<open>A rule literal of the source leaves the fields it does not name at their zero values.\<close>

definition zero_Rule :: Rule where
  "zero_Rule =
     \<lparr>r_Id = [], r_Name = [], r_Priority = 0, r_Enabled = False, r_Conditions = [],
      r_Action = ACTION_TYPE_UNSPECIFIED, r_TargetBackend = [], r_RateLimit = None,
      r_MockResponse = None, r_Expression = []\<rparr>"

definition zero_MockConfig :: MockConfig where
  "zero_MockConfig =
     \<lparr>mc_Preset = MOCK_PRESET_UNSPECIFIED, mc_Protocol = [], mc_Payload = [], mc_DelayMs = 0\<rparr>"

section \<open>Mock presets and their database keys\<close>

definition MockPresetToString :: "MockPreset \<Rightarrow> string" where
  "MockPresetToString p =
     (case p of
        MOCK_PRESET_SSH_SECURE \<Rightarrow> ''ssh-secure''
      | MOCK_PRESET_SSH_TARPIT \<Rightarrow> ''ssh-tarpit''
      | MOCK_PRESET_HTTP_403 \<Rightarrow> ''http-403''
      | MOCK_PRESET_HTTP_404 \<Rightarrow> ''http-404''
      | MOCK_PRESET_HTTP_401 \<Rightarrow> ''http-401''
      | MOCK_PRESET_REDIS_SECURE \<Rightarrow> ''redis-secure''
      | MOCK_PRESET_MYSQL_SECURE \<Rightarrow> ''mysql-secure''
      | MOCK_PRESET_MYSQL_TARPIT \<Rightarrow> ''mysql-tarpit''
      | MOCK_PRESET_RDP_SECURE \<Rightarrow> ''rdp-secure''
      | MOCK_PRESET_TELNET_SECURE \<Rightarrow> ''telnet-secure''
      | MOCK_PRESET_RAW_TARPIT \<Rightarrow> ''raw-tarpit''
      | _ \<Rightarrow> [])"

definition StringToMockPreset :: "string \<Rightarrow> MockPreset" where
  "StringToMockPreset s =
     (if s = ''ssh-secure'' then MOCK_PRESET_SSH_SECURE
      else if s = ''ssh-tarpit'' then MOCK_PRESET_SSH_TARPIT
      else if s = ''http-403'' then MOCK_PRESET_HTTP_403
      else if s = ''http-404'' then MOCK_PRESET_HTTP_404
      else if s = ''http-401'' then MOCK_PRESET_HTTP_401
      else if s = ''redis-secure'' then MOCK_PRESET_REDIS_SECURE
      else if s = ''mysql-secure'' then MOCK_PRESET_MYSQL_SECURE
      else if s = ''mysql-tarpit'' then MOCK_PRESET_MYSQL_TARPIT
      else if s = ''rdp-secure'' then MOCK_PRESET_RDP_SECURE
      else if s = ''telnet-secure'' then MOCK_PRESET_TELNET_SECURE
      else if s = ''raw-tarpit'' then MOCK_PRESET_RAW_TARPIT
      else MOCK_PRESET_UNSPECIFIED)"

lemma StringToMockPreset_inverse:
  "StringToMockPreset (MockPresetToString p) =
     (case p of MOCK_PRESET_OTHER _ \<Rightarrow> MOCK_PRESET_UNSPECIFIED | q \<Rightarrow> q)"
  by (cases p) (simp_all add: StringToMockPreset_def MockPresetToString_def)

end
