(* ===== verification/Rule_Engine.thy ===== *)
theory Rule_Engine
  imports Proxy_Types
begin

text \<open>
  The rule matcher of \<^verbatim>\<open>pkg/node/rules.go\<close>: the compiled-regex cache, string operators, time
  ranges, conditions on the connection and rules as conjunctions of conditions. The regular
  expression engine and SHA-256 are parameters (\<open>rule_env\<close>); the wall clock and the order in which
  Go ranges over the cache are inputs. \<open>MatchRule_ref\<close> is the cache-free reference semantics, and
  the main lemma shows that the cached matcher computes it and keeps the cache within its bound.
\<close>

section \<open>Inputs\<close>

text \<open>
  \<open>re_match\<close> is the outcome of \<open>MatchString\<close> as the caller sees it: \<open>None\<close> when the match did
  not finish within the 100 ms the caller waits. \<open>range_keys\<close> is the order in which the eviction
  loop visits the cache.
\<close>

record 'rx rule_env =
  re_compile :: "string \<Rightarrow> 'rx option"
  re_match :: "'rx \<Rightarrow> string \<Rightarrow> bool option"
  sha256 :: "8 word list \<Rightarrow> 8 word list"
  clock_hour :: int
  clock_minute :: int
  range_keys :: "(string, 'rx option) gomap \<Rightarrow> string list"

type_synonym 'rx regex_cache = "(string, 'rx option) gomap"

record cert =
  cert_Raw :: "8 word list"
  cert_CommonName :: string
  cert_SerialNumber :: int
  cert_IssuerCN :: string
  cert_DNSNames :: "string list"
  cert_EmailAddresses :: "string list"
  cert_IPAddresses :: "ip list"
  cert_OrganizationalUnit :: "string list"

text \<open>
  A connection is plain or TLS, with its remote address; of a TLS connection the matcher sees the
  peer certificates, or nothing when the handshake fails.
\<close>

datatype conn = PlainConn string | TLSConn string "cert list option"

fun RemoteAddr :: "conn \<Rightarrow> string" where
  "RemoteAddr (PlainConn a) = a"
| "RemoteAddr (TLSConn a _) = a"

fun getTLSState :: "conn \<Rightarrow> cert list option" where
  "getTLSState (PlainConn _) = None"
| "getTLSState (TLSConn _ hs) = hs"

section \<open>The regex cache\<close>

definition MaxRegexLength :: nat where
  "MaxRegexLength = 256"

definition MaxRegexCacheSize :: nat where
  "MaxRegexCacheSize = 1000"

definition evict_half :: "'rx rule_env \<Rightarrow> 'rx regex_cache \<Rightarrow> 'rx regex_cache" where
  "evict_half env c = fold gdel (take (MaxRegexCacheSize div 2) (range_keys env c)) c"

definition getCompiledRegex ::
  "'rx rule_env \<Rightarrow> string \<Rightarrow> 'rx regex_cache \<Rightarrow> 'rx option \<times> 'rx regex_cache" where
  "getCompiledRegex env pat c =
     (if length pat > MaxRegexLength then (None, c)
      else case gget c pat of
             Some re \<Rightarrow> (re, c)
           | None \<Rightarrow>
               (let c' = (if length c \<ge> MaxRegexCacheSize then evict_half env c else c) in
                case re_compile env pat of
                  None \<Rightarrow> (None, gput pat None c')
                | Some re \<Rightarrow> (Some re, gput pat (Some re) c')))"

section \<open>Strings and time ranges\<close>

definition matchString ::
  "'rx rule_env \<Rightarrow> Operator \<Rightarrow> string \<Rightarrow> string \<Rightarrow> 'rx regex_cache \<Rightarrow> bool \<times> 'rx regex_cache" where
  "matchString env op targetValue actualValue c =
     (case op of
        OPERATOR_EQ \<Rightarrow> (targetValue = actualValue, c)
      | OPERATOR_CONTAINS \<Rightarrow> (strings_Contains actualValue targetValue, c)
      | OPERATOR_REGEX \<Rightarrow>
          (case getCompiledRegex env targetValue c of
             (None, c') \<Rightarrow> (False, c')
           | (Some re, c') \<Rightarrow>
               (case re_match env re actualValue of
                  None \<Rightarrow> (False, c')
                | Some result \<Rightarrow> (result, c')))
      | OPERATOR_CIDR \<Rightarrow>
          (case ParseCIDR targetValue of
             None \<Rightarrow> (False, c)
           | Some ipNet \<Rightarrow> (ipnet_Contains ipNet (nil_ip (ParseIP actualValue)), c))
      | _ \<Rightarrow> (False, c))"

fun parseIntSafe_loop :: "int \<Rightarrow> string \<Rightarrow> int" where
  "parseIntSafe_loop val [] = val"
| "parseIntSafe_loop val (c # cs) =
     parseIntSafe_loop (if is_digit c then wrap64 (val * 10 + int (digit_val c)) else val) cs"

definition parseIntSafe :: "string \<Rightarrow> int" where
  "parseIntSafe s = parseIntSafe_loop 0 s"

definition parseTime :: "string \<Rightarrow> int option" where
  "parseTime s0 =
     (let s = strings_TrimSpace s0; parts = strings_Split CHR '':'' s in
      case parts of
        [p, q] \<Rightarrow>
          (let h = parseIntSafe p; m = parseIntSafe q in
           if h < 0 \<or> h > 23 \<or> m < 0 \<or> m > 59 then None else Some (h * 60 + m))
      | _ \<Rightarrow> None)"

definition matchTimeRange :: "'rx rule_env \<Rightarrow> string \<Rightarrow> bool" where
  "matchTimeRange env value =
     (case strings_Split CHR ''-'' value of
        [p, q] \<Rightarrow>
          (case (parseTime p, parseTime q) of
             (Some start, Some end') \<Rightarrow>
               (let current = clock_hour env * 60 + clock_minute env in
                if start \<le> end' then current \<ge> start \<and> current \<le> end'
                else current \<ge> start \<or> current \<le> end')
           | _ \<Rightarrow> False)
      | _ \<Rightarrow> False)"

section \<open>Conditions and rules\<close>

text \<open>The loops over subject alternative names and organizational units stop at the first match.\<close>

fun match_any ::
  "'rx rule_env \<Rightarrow> Operator \<Rightarrow> string \<Rightarrow> string list \<Rightarrow> 'rx regex_cache \<Rightarrow> bool \<times> 'rx regex_cache" where
  "match_any env op value [] c = (False, c)"
| "match_any env op value (x # xs) c =
     (case matchString env op value x c of
        (True, c') \<Rightarrow> (True, c')
      | (False, c') \<Rightarrow> match_any env op value xs c')"

definition source_host :: "conn \<Rightarrow> string" where
  "source_host cn =
     (case SplitHostPort (RemoteAddr cn) of None \<Rightarrow> RemoteAddr cn | Some (host, _) \<Rightarrow> host)"

text \<open>
  \<open>cond_evidence\<close> is the switch on the condition type. \<open>None\<close> is the early
  \<^verbatim>\<open>return false\<close> of the branches with nothing to match against, which skips the negation.
\<close>

definition cond_evidence ::
  "'rx rule_env \<Rightarrow> Condition \<Rightarrow> conn \<Rightarrow> GeoInfo option \<Rightarrow> 'rx regex_cache \<Rightarrow> bool option \<times> 'rx regex_cache" where
  "cond_evidence env cond cn geo c =
     (let str = (\<lambda>actual. case matchString env (c_Op cond) (c_Value cond) actual c of
                            (b, c') \<Rightarrow> (Some b, c'));
          anyof = (\<lambda>xs. case match_any env (c_Op cond) (c_Value cond) xs c of
                          (b, c') \<Rightarrow> (Some b, c'));
          with_geo = (\<lambda>f. case geo of None \<Rightarrow> (None, c) | Some g \<Rightarrow> str (f g));
          with_leaf = (\<lambda>f. case getTLSState cn of
                             Some (leaf # _) \<Rightarrow> f leaf
                           | _ \<Rightarrow> (None, c))
      in case c_Type cond of
           CONDITION_TYPE_SOURCE_IP \<Rightarrow> str (source_host cn)
         | CONDITION_TYPE_GEO_COUNTRY \<Rightarrow> with_geo g_Country
         | CONDITION_TYPE_GEO_CITY \<Rightarrow> with_geo g_City
         | CONDITION_TYPE_GEO_ISP \<Rightarrow> with_geo g_Isp
         | CONDITION_TYPE_TIME_RANGE \<Rightarrow> (Some (matchTimeRange env (c_Value cond)), c)
         | CONDITION_TYPE_TLS_FINGERPRINT \<Rightarrow>
             with_leaf (\<lambda>leaf. str (hex_EncodeToString (sha256 env (cert_Raw leaf))))
         | CONDITION_TYPE_TLS_CN \<Rightarrow> with_leaf (\<lambda>leaf. str (cert_CommonName leaf))
         | CONDITION_TYPE_TLS_SERIAL \<Rightarrow> with_leaf (\<lambda>leaf. str (show_int (cert_SerialNumber leaf)))
         | CONDITION_TYPE_TLS_PRESENT \<Rightarrow>
             (let hasCert = (case getTLSState cn of Some (_ # _) \<Rightarrow> True | _ \<Rightarrow> False)
              in (Some (if c_Value cond = ''false'' then \<not> hasCert else hasCert), c))
         | CONDITION_TYPE_TLS_CA \<Rightarrow> with_leaf (\<lambda>leaf. str (cert_IssuerCN leaf))
         | CONDITION_TYPE_TLS_SAN \<Rightarrow>
             with_leaf (\<lambda>leaf. anyof (cert_DNSNames leaf @ cert_EmailAddresses leaf @
                                       map ip_String (cert_IPAddresses leaf)))
         | CONDITION_TYPE_TLS_OU \<Rightarrow> with_leaf (\<lambda>leaf. anyof (cert_OrganizationalUnit leaf))
         | _ \<Rightarrow> (None, c))"

definition matchCondition ::
  "'rx rule_env \<Rightarrow> Condition \<Rightarrow> conn \<Rightarrow> GeoInfo option \<Rightarrow> 'rx regex_cache \<Rightarrow> bool \<times> 'rx regex_cache" where
  "matchCondition env cond cn geo c =
     (case cond_evidence env cond cn geo c of
        (None, c') \<Rightarrow> (False, c')
      | (Some matched, c') \<Rightarrow> (if c_Negate cond then \<not> matched else matched, c'))"

fun match_all ::
  "'rx rule_env \<Rightarrow> Condition list \<Rightarrow> conn \<Rightarrow> GeoInfo option \<Rightarrow> 'rx regex_cache \<Rightarrow> bool \<times> 'rx regex_cache" where
  "match_all env [] cn geo c = (True, c)"
| "match_all env (cond # conds) cn geo c =
     (case matchCondition env cond cn geo c of
        (False, c') \<Rightarrow> (False, c')
      | (True, c') \<Rightarrow> match_all env conds cn geo c')"

definition MatchRule ::
  "'rx rule_env \<Rightarrow> Rule \<Rightarrow> conn \<Rightarrow> GeoInfo option \<Rightarrow> 'rx regex_cache \<Rightarrow> bool \<times> 'rx regex_cache" where
  "MatchRule env rule cn geo c =
     (if \<not> r_Enabled rule then (False, c)
      else if r_Conditions rule = [] then (True, c)
      else match_all env (r_Conditions rule) cn geo c)"

section \<open>The reference semantics\<close>

definition matchString_ref :: "'rx rule_env \<Rightarrow> Operator \<Rightarrow> string \<Rightarrow> string \<Rightarrow> bool" where
  "matchString_ref env op t a =
     (case op of
        OPERATOR_EQ \<Rightarrow> t = a
      | OPERATOR_CONTAINS \<Rightarrow> (\<exists>u v. a = u @ t @ v)
      | OPERATOR_REGEX \<Rightarrow>
          length t \<le> 256 \<and> (\<exists>re. re_compile env t = Some re \<and> re_match env re a = Some True)
      | OPERATOR_CIDR \<Rightarrow> (\<exists>n. ParseCIDR t = Some n \<and> ipnet_Contains n (nil_ip (ParseIP a)))
      | _ \<Rightarrow> False)"

text \<open>
  The strings a condition is matched against: \<open>None\<close> when the connection has no such
  attribute, otherwise the list of values of which one has to match.
\<close>

definition cond_values :: "'rx rule_env \<Rightarrow> Condition \<Rightarrow> conn \<Rightarrow> GeoInfo option \<Rightarrow> string list option" where
  "cond_values env cond cn geo =
     (let leaf = (case getTLSState cn of Some (l # _) \<Rightarrow> Some l | _ \<Rightarrow> None)
      in case c_Type cond of
           CONDITION_TYPE_SOURCE_IP \<Rightarrow> Some [source_host cn]
         | CONDITION_TYPE_GEO_COUNTRY \<Rightarrow> map_option (\<lambda>g. [g_Country g]) geo
         | CONDITION_TYPE_GEO_CITY \<Rightarrow> map_option (\<lambda>g. [g_City g]) geo
         | CONDITION_TYPE_GEO_ISP \<Rightarrow> map_option (\<lambda>g. [g_Isp g]) geo
         | CONDITION_TYPE_TLS_FINGERPRINT \<Rightarrow>
             map_option (\<lambda>l. [hex_EncodeToString (sha256 env (cert_Raw l))]) leaf
         | CONDITION_TYPE_TLS_CN \<Rightarrow> map_option (\<lambda>l. [cert_CommonName l]) leaf
         | CONDITION_TYPE_TLS_SERIAL \<Rightarrow> map_option (\<lambda>l. [show_int (cert_SerialNumber l)]) leaf
         | CONDITION_TYPE_TLS_CA \<Rightarrow> map_option (\<lambda>l. [cert_IssuerCN l]) leaf
         | CONDITION_TYPE_TLS_SAN \<Rightarrow>
             map_option (\<lambda>l. cert_DNSNames l @ cert_EmailAddresses l @ map ip_String (cert_IPAddresses l)) leaf
         | CONDITION_TYPE_TLS_OU \<Rightarrow> map_option cert_OrganizationalUnit leaf
         | _ \<Rightarrow> None)"

definition condition_holds :: "'rx rule_env \<Rightarrow> Condition \<Rightarrow> conn \<Rightarrow> GeoInfo option \<Rightarrow> bool" where
  "condition_holds env cond cn geo =
     (let hit = (if c_Type cond = CONDITION_TYPE_TIME_RANGE then Some (matchTimeRange env (c_Value cond))
                 else if c_Type cond = CONDITION_TYPE_TLS_PRESENT then
                   Some ((c_Value cond = ''false'') \<noteq> (getTLSState cn \<noteq> None \<and> getTLSState cn \<noteq> Some []))
                 else map_option (\<lambda>vs. \<exists>v \<in> set vs. matchString_ref env (c_Op cond) (c_Value cond) v)
                        (cond_values env cond cn geo))
      in hit = Some (\<not> c_Negate cond))"

definition MatchRule_ref :: "'rx rule_env \<Rightarrow> Rule \<Rightarrow> conn \<Rightarrow> GeoInfo option \<Rightarrow> bool" where
  "MatchRule_ref env rule cn geo =
     (r_Enabled rule \<and> (\<forall>cond \<in> set (r_Conditions rule). condition_holds env cond cn geo))"

text \<open>The cache invariant, and what ranging over a Go map guarantees.\<close>

definition cache_ok :: "'rx rule_env \<Rightarrow> 'rx regex_cache \<Rightarrow> bool" where
  "cache_ok env c =
     (gwf c \<and> length c \<le> MaxRegexCacheSize \<and>
      (\<forall>pat re. gget c pat = Some re \<longrightarrow> re = re_compile env pat))"

definition range_ok :: "'rx rule_env \<Rightarrow> bool" where
  "range_ok env = (\<forall>c. set (range_keys env c) = fst ` set c \<and> distinct (range_keys env c))"

section \<open>The cache never changes an answer\<close>

lemma cache_ok_Nil [simp]: "cache_ok env []"
  by (simp add: cache_ok_def)

lemma gget_fold_gdel:
  "gget (fold gdel ks c) k = (if k \<in> set ks then None else gget c k)"
  by (induction ks arbitrary: c) auto

lemma gwf_fold_gdel: "gwf c \<Longrightarrow> gwf (fold gdel ks c)"
  by (induction ks arbitrary: c) auto

lemma keys_gdel: "fst ` set (gdel k c) = fst ` set c - {k}"
  by (simp add: gdel_def AList.delete_keys flip: set_map)

lemma length_fold_gdel:
  "gwf c \<Longrightarrow> distinct ks \<Longrightarrow> set ks \<subseteq> fst ` set c \<Longrightarrow> length (fold gdel ks c) = length c - length ks"
proof (induction ks arbitrary: c)
  case (Cons k ks)
  have "gget c k \<noteq> None"
    using Cons.prems(3) by (simp add: gget_def map_of_eq_None_iff)
  then have len: "length (gdel k c) = length c - 1"
    using Cons.prems(1) by (auto simp: length_gdel)
  have "set ks \<subseteq> fst ` set (gdel k c)"
    using Cons.prems(2,3) by (simp add: keys_gdel subset_Diff_insert)
  then have "length (fold gdel ks (gdel k c)) = length (gdel k c) - length ks"
    using Cons.prems(1,2) by (intro Cons.IH) simp_all
  then show ?case by (simp add: len)
qed simp

lemma length_evict_half:
  assumes "cache_ok env c" "range_ok env" "length c \<ge> MaxRegexCacheSize"
  shows "length (evict_half env c) = 500"
proof -
  have wf: "gwf c" and len: "length c = 1000"
    using assms by (auto simp: cache_ok_def MaxRegexCacheSize_def)
  have d: "distinct (range_keys env c)" "set (range_keys env c) = fst ` set c"
    using assms(2) by (auto simp: range_ok_def)
  then have "length (range_keys env c) = 1000"
    using wf len by (metis distinct_card gwf_def length_map list.set_map)
  then show ?thesis
    unfolding evict_half_def
    using length_fold_gdel [OF wf, of "take 500 (range_keys env c)"] d len set_take_subset
    by (fastforce simp: MaxRegexCacheSize_def)
qed

lemma cache_ok_evict:
  assumes "cache_ok env c" "range_ok env" "length c \<ge> MaxRegexCacheSize"
  shows "cache_ok env (evict_half env c)"
  using assms length_evict_half [OF assms]
  by (auto simp: cache_ok_def evict_half_def gwf_fold_gdel gget_fold_gdel MaxRegexCacheSize_def
      split: if_splits)

lemma cache_ok_gput:
  "cache_ok env c \<Longrightarrow> length c < MaxRegexCacheSize \<Longrightarrow> cache_ok env (gput pat (re_compile env pat) c)"
  by (auto simp: cache_ok_def gm.len_put_bounded)

lemma getCompiledRegex_cases:
  assumes "length pat \<le> 256"
  shows "getCompiledRegex env pat c =
           (case gget c pat of
              Some re \<Rightarrow> (re, c)
            | None \<Rightarrow> (re_compile env pat,
                       gput pat (re_compile env pat)
                         (if length c \<ge> MaxRegexCacheSize then evict_half env c else c)))"
  using assms by (simp add: getCompiledRegex_def MaxRegexLength_def Let_def split: option.split)

lemma getCompiledRegex_correct:
  assumes "cache_ok env c" "range_ok env"
  shows "fst (getCompiledRegex env pat c) = (if length pat > 256 then None else re_compile env pat)"
    and "cache_ok env (snd (getCompiledRegex env pat c))"
proof -
  define c' where "c' = (if length c \<ge> MaxRegexCacheSize then evict_half env c else c)"
  have put: "cache_ok env (gput pat (re_compile env pat) c')"
  proof (cases "length c \<ge> MaxRegexCacheSize")
    case True
    then show ?thesis
      using cache_ok_evict [OF assms True] length_evict_half [OF assms True]
      by (intro cache_ok_gput) (simp_all add: c'_def MaxRegexCacheSize_def)
  qed (use assms in \<open>simp add: c'_def cache_ok_gput\<close>)
  have hit: "gget c pat = None \<or> gget c pat = Some (re_compile env pat)"
    using assms(1) by (cases "gget c pat") (simp_all add: cache_ok_def)
  show "fst (getCompiledRegex env pat c) = (if length pat > 256 then None else re_compile env pat)"
    using hit
    by (cases "length pat \<le> 256")
       (auto simp: getCompiledRegex_cases, auto simp: getCompiledRegex_def MaxRegexLength_def)
  show "cache_ok env (snd (getCompiledRegex env pat c))"
  proof (cases "length pat \<le> 256")
    case True
    then show ?thesis
      using put assms(1) unfolding c'_def
      by (cases "gget c pat") (simp_all add: getCompiledRegex_cases)
  qed (use assms(1) in \<open>simp add: getCompiledRegex_def MaxRegexLength_def\<close>)
qed

lemma matchString_correct:
  assumes "cache_ok env c" "range_ok env"
  shows "fst (matchString env op t a c) = matchString_ref env op t a"
    and "cache_ok env (snd (matchString env op t a c))"
proof -
  obtain r c' where g: "getCompiledRegex env t c = (r, c')" by fastforce
  have r: "r = (if length t > 256 then None else re_compile env t)" and c': "cache_ok env c'"
    using getCompiledRegex_correct [OF assms, of t] by (simp_all add: g)
  show "fst (matchString env op t a c) = matchString_ref env op t a"
    by (cases op) (auto simp: matchString_def matchString_ref_def strings_Contains_iff g r
        split: option.splits)
  show "cache_ok env (snd (matchString env op t a c))"
    using c' assms(1) by (cases op) (simp_all add: matchString_def g split: option.split)
qed

lemma match_any_correct:
  assumes "range_ok env" "cache_ok env c"
  shows "fst (match_any env op t xs c) = (\<exists>x \<in> set xs. matchString_ref env op t x)"
    and "cache_ok env (snd (match_any env op t xs c))"
  using assms(2)
proof (induction xs arbitrary: c)
  case (Cons x xs)
  { case 1
    then show ?case
      using matchString_correct [OF 1 assms(1), of op t x] Cons
      by (auto split: prod.splits bool.splits)
  next
    case 2
    then show ?case
      using matchString_correct [OF 2 assms(1), of op t x] Cons
      by (auto split: prod.splits bool.splits) }
qed simp_all

lemma matchCondition_correct:
  assumes "range_ok env" "cache_ok env c"
  shows "fst (matchCondition env cond cn geo c) = condition_holds env cond cn geo"
    and "cache_ok env (snd (matchCondition env cond cn geo c))"
proof -
  note ms = matchString_correct [OF assms(2,1)] and ma = match_any_correct [OF assms]
  note defs = matchCondition_def cond_evidence_def condition_holds_def cond_values_def Let_def
    case_prod_beta
  show "fst (matchCondition env cond cn geo c) = condition_holds env cond cn geo"
    by (cases "c_Type cond"; simp add: defs ms(1) ma(1) split: option.split list.split)
  show "cache_ok env (snd (matchCondition env cond cn geo c))"
    by (cases "c_Type cond"; simp add: defs ms(2) ma(2) assms(2) split: option.split list.split)
qed

lemma match_all_correct:
  assumes "range_ok env" "cache_ok env c"
  shows "fst (match_all env conds cn geo c) = (\<forall>cond \<in> set conds. condition_holds env cond cn geo)"
    and "cache_ok env (snd (match_all env conds cn geo c))"
  using assms(2)
proof (induction conds arbitrary: c)
  case (Cons cond conds)
  { case 1
    then show ?case
      using matchCondition_correct [OF assms(1) 1, of cond cn geo] Cons
      by (auto split: prod.splits bool.splits)
  next
    case 2
    then show ?case
      using matchCondition_correct [OF assms(1) 2, of cond cn geo] Cons
      by (auto split: prod.splits bool.splits) }
qed simp_all

lemma MatchRule_cache_ok [inv_intros]:
  "range_ok env \<Longrightarrow> cache_ok env c \<Longrightarrow> cache_ok env (snd (MatchRule env rule cn geo c))"
  by (simp add: MatchRule_def match_all_correct)

lemma MatchRule_fst:
  "range_ok env \<Longrightarrow> cache_ok env c \<Longrightarrow> fst (MatchRule env rule cn geo c) = MatchRule_ref env rule cn geo"
  by (simp add: MatchRule_def MatchRule_ref_def match_all_correct)

section \<open>Time ranges written as HH:MM-HH:MM\<close>

definition two_digits :: "nat \<Rightarrow> string" where
  "two_digits n = [digit_char (n div 10), digit_char (n mod 10)]"

definition show_clock :: "nat \<times> nat \<Rightarrow> string" where
  "show_clock = (\<lambda>(h, m). two_digits h @ CHR '':'' # two_digits m)"

lemma drop_rune_digit:
  "list_all (\<lambda>r. r = [] \<or> \<not> is_digit (hd r)) rs \<Longrightarrow> is_digit c \<Longrightarrow> drop_rune rs (c # s) = None"
  by (induction rs) (auto simp: drop_rune_def neq_Nil_conv)

lemma space_runes_no_digit:
  "list_all (\<lambda>r. r = [] \<or> \<not> is_digit (hd r)) space_runes"
  "list_all (\<lambda>r. r = [] \<or> \<not> is_digit (hd r)) (map rev space_runes)"
  by (simp_all add: space_runes_def is_digit_def upt_rec_numeral)

lemma TrimSpace_digits: "is_digit c \<Longrightarrow> is_digit d \<Longrightarrow> strings_TrimSpace (c # s @ [d]) = c # s @ [d]"
  by (simp add: strings_TrimSpace_def trim_runes_id drop_rune_digit space_runes_no_digit)

lemma parseIntSafe_two_digits: "n < 100 \<Longrightarrow> parseIntSafe (two_digits n) = int n"
proof -
  assume n: "n < 100"
  have d: "n div 10 < 10" "n mod 10 < 10" using n by auto
  have "wrap64 (int (n div 10)) = int (n div 10)" "wrap64 (int (n div 10) * 10 + int (n mod 10)) = int n"
    using n by (auto intro!: wrap64_id simp: zdiv_int zmod_int)
  then show ?thesis
    using d by (simp add: parseIntSafe_def two_digits_def)
qed

lemma two_digits_digit: "n < 100 \<Longrightarrow> c \<in> set (two_digits n) \<Longrightarrow> is_digit c"
  by (auto simp: two_digits_def)

lemma two_digits_free: "n < 100 \<Longrightarrow> CHR '':'' \<notin> set (two_digits n)"
  "n < 100 \<Longrightarrow> CHR ''-'' \<notin> set (two_digits n)"
  using two_digits_digit [of n "CHR '':''"] two_digits_digit [of n "CHR ''-''"]
  by (auto simp: is_digit_def)

lemma parseTime_show:
  assumes "h < 24" "m < 60"
  shows "parseTime (show_clock (h, m)) = Some (int h * 60 + int m)"
proof -
  have "strings_TrimSpace (show_clock (h, m)) = show_clock (h, m)"
    using TrimSpace_digits [of "digit_char (h div 10)" "digit_char (m mod 10)"
        "[digit_char (h mod 10), CHR '':'', digit_char (m div 10)]"] assms
    by (simp add: show_clock_def two_digits_def)
  then show ?thesis
    using assms two_digits_free [of h] two_digits_free [of m]
    by (simp add: parseTime_def show_clock_def strings_Split_append strings_Split_nosep
        parseIntSafe_two_digits)
qed

lemma show_clock_free: "h < 24 \<Longrightarrow> m < 60 \<Longrightarrow> CHR ''-'' \<notin> set (show_clock (h, m))"
  using two_digits_free(2) [of h] two_digits_free(2) [of m] by (simp add: show_clock_def)

section \<open>Properties\<close>

text \<open>(C2) The matcher with its process-wide cache of compiled patterns is the cache-free reference:
  a rule matches exactly when it is enabled and every condition holds of the connection, whatever the
  cache holds and in whatever order its entries are evicted; and the cache keeps its invariant (only
  results of compilation, at most 1000 entries).\<close>

theorem MatchRule_equals_reference:
  assumes "range_ok env" and "cache_ok env c"
  shows "fst (MatchRule env rule cn geo c) = MatchRule_ref env rule cn geo \<and>
         cache_ok env (snd (MatchRule env rule cn geo c))"
  using assms by (simp add: MatchRule_fst MatchRule_cache_ok)

definition demo_env :: "string rule_env" where
  "demo_env = \<lparr>re_compile = (\<lambda>p. if p = ''('' then None else Some p), re_match = (\<lambda>p s. Some (p = s)),
     sha256 = (\<lambda>bs. bs), clock_hour = 23, clock_minute = 30,
     range_keys = (\<lambda>c. remdups (map fst c))\<rparr>"

lemma range_ok_demo_env [simp]: "range_ok demo_env"
  by (simp add: range_ok_def demo_env_def)

definition demo_rule :: Rule where
  "demo_rule = zero_Rule\<lparr>r_Enabled := True, r_Conditions :=
     [\<lparr>c_Type = CONDITION_TYPE_SOURCE_IP, c_Op = OPERATOR_REGEX, c_Value = ''10.0.0.1'', c_Negate = False\<rparr>,
      \<lparr>c_Type = CONDITION_TYPE_SOURCE_IP, c_Op = OPERATOR_REGEX, c_Value = ''('', c_Negate = True\<rparr>]\<rparr>"

lemma MatchRule_equals_reference_witness:
  "range_ok demo_env \<and> cache_ok demo_env [] \<and>
   MatchRule demo_env demo_rule (PlainConn ''10.0.0.1:5000'') None [] =
     (True, [(''10.0.0.1'', Some ''10.0.0.1''), (''('', None)]) \<and>
   MatchRule_ref demo_env demo_rule (PlainConn ''10.0.0.1:5000'') None"
proof -
  have run: "MatchRule demo_env demo_rule (PlainConn ''10.0.0.1:5000'') None [] =
     (True, [(''10.0.0.1'', Some ''10.0.0.1''), (''('', None)])"
    by code_simp
  then show ?thesis
    using MatchRule_equals_reference [of demo_env "[]" demo_rule "PlainConn ''10.0.0.1:5000''" None]
    by simp
qed

text \<open>(C35) A CIDR condition written a.b.c.d/n matches an IPv4 source address exactly when the first n
  bits of the two addresses agree, through the parsing of both strings, the mask and the comparison.\<close>

theorem matchString_CIDR_prefix:
  assumes "n \<le> 32"
  shows "matchString env OPERATOR_CIDR (show_cidr4 [a, b, c, d] n) (show_v4 [e, f, g, h]) cache =
           (take n (ip_bits [a, b, c, d]) = take n (ip_bits [e, f, g, h]), cache)"
  using ipnet_Contains_prefix [OF assms, of a b c d e f g h] ParseCIDR_show [OF assms, of a b c d]
  by (simp add: matchString_def)

lemma matchString_CIDR_prefix_witness:
  "matchString demo_env OPERATOR_CIDR (show_cidr4 [10, 1, 2, 3] 12) (show_v4 [10, 15, 0, 9]) [] = (True, []) \<and>
   matchString demo_env OPERATOR_CIDR (show_cidr4 [10, 1, 2, 3] 12) (show_v4 [10, 16, 0, 9]) [] = (False, [])"
  using matchString_CIDR_prefix [of 12 demo_env 10 1 2 3 10 15 0 9 "[]"]
    matchString_CIDR_prefix [of 12 demo_env 10 1 2 3 10 16 0 9 "[]"]
  by (simp add: ip_bits_def byte_bits_def upt_rec_numeral)

text \<open>A time range HH:MM-HH:MM matches the minutes from its start to its end inclusive, and wraps
  over midnight when the start is later than the end.\<close>

theorem matchTimeRange_window:
  assumes "h1 < 24" "m1 < 60" "h2 < 24" "m2 < 60"
    and "clock_hour env = int h" "clock_minute env = int m"
  shows "matchTimeRange env (show_clock (h1, m1) @ CHR ''-'' # show_clock (h2, m2)) =
           (if h1 * 60 + m1 \<le> h2 * 60 + m2
            then h * 60 + m \<in> {h1 * 60 + m1 .. h2 * 60 + m2}
            else h * 60 + m \<notin> {h2 * 60 + m2 <..< h1 * 60 + m1})"
  using assms show_clock_free [of h1 m1] show_clock_free [of h2 m2]
  by (auto simp: matchTimeRange_def strings_Split_append strings_Split_nosep parseTime_show Let_def)

lemma matchTimeRange_window_witness:
  "clock_hour demo_env = int 23 \<and> clock_minute demo_env = int 30 \<and>
   matchTimeRange demo_env (show_clock (22, 0) @ CHR ''-'' # show_clock (6, 0))"
  using matchTimeRange_window [of 22 0 6 0 demo_env 23 30] by (simp add: demo_env_def)

text \<open>Conditions on evidence the connection does not carry fail closed: without GeoIP data, without
  a client certificate (also when the handshake fails) and for unknown condition types a condition is
  false even when it is negated, so no rule with such a condition matches.\<close>

theorem missing_evidence_never_matches:
  assumes "cond \<in> set (r_Conditions rule)"
    and "(c_Type cond \<in> {CONDITION_TYPE_GEO_COUNTRY, CONDITION_TYPE_GEO_CITY, CONDITION_TYPE_GEO_ISP} \<and> geo = None) \<or>
         (c_Type cond \<in> {CONDITION_TYPE_TLS_FINGERPRINT, CONDITION_TYPE_TLS_CN, CONDITION_TYPE_TLS_SERIAL,
            CONDITION_TYPE_TLS_CA, CONDITION_TYPE_TLS_SAN, CONDITION_TYPE_TLS_OU} \<and>
          getTLSState cn \<in> {None, Some []}) \<or>
         c_Type cond = CONDITION_TYPE_UNSPECIFIED \<or> c_Type cond = CONDITION_TYPE_OTHER k"
  shows "\<not> fst (MatchRule env rule cn geo c)"
proof -
  have no: "\<not> fst (matchCondition env cond cn geo c)" for c
    using assms(2) by (auto simp: matchCondition_def cond_evidence_def Let_def)
  have "\<not> fst (match_all env conds cn geo c)" if "cond \<in> set conds" for conds
    using that no
    by (induction conds arbitrary: c) (auto split: prod.split bool.split, (metis fst_conv)+)
  then show ?thesis
    using assms(1) by (auto simp: MatchRule_def)
qed

lemma missing_evidence_never_matches_witness:
  "\<not> fst (MatchRule demo_env
       (zero_Rule\<lparr>r_Enabled := True, r_Conditions :=
          [\<lparr>c_Type = CONDITION_TYPE_GEO_COUNTRY, c_Op = OPERATOR_EQ, c_Value = ''US'', c_Negate = True\<rparr>]\<rparr>)
       (PlainConn ''10.0.0.1:5000'') None [])"
  by (rule missing_evidence_never_matches
      [of "\<lparr>c_Type = CONDITION_TYPE_GEO_COUNTRY, c_Op = OPERATOR_EQ, c_Value = ''US'', c_Negate = True\<rparr>"])
     simp_all

end
