(* ===== verification/Rate_Limiter.thy ===== *)
theory Rate_Limiter
  imports Proxy_Types
begin

text \<open>
  The per-rule rate limiter of \<^verbatim>\<open>pkg/node/ratelimit.go\<close>: a window counter per source address, blocks
  with an expiry, the fail2ban mode with escalating blocks and probation, and the periodic cleanup.
  Every operation runs under the limiter's mutex and takes the clock reading as its argument.
\<close>

section \<open>State\<close>

record ipState =
  count :: int
  firstSeen :: gotime
  lastSeen :: gotime
  failedCount :: int
  banLevel :: int

record RateLimiter =
  rl_config :: RateLimitConfig
  counters :: "(string, ipState) gomap"
  blocks :: "(string, gotime) gomap"

definition zero_ipState :: ipState where
  "zero_ipState = \<lparr>count = 0, firstSeen = 0, lastSeen = 0, failedCount = 0, banLevel = 0\<rparr>"

definition NewRateLimiter :: "RateLimitConfig option \<Rightarrow> RateLimiter option" where
  "NewRateLimiter config =
     (case config of
        None \<Rightarrow> None
      | Some c \<Rightarrow> Some \<lparr>rl_config = c, counters = [], blocks = []\<rparr>)"

section \<open>Operations\<close>

definition rl_cleanup :: "gotime \<Rightarrow> RateLimiter \<Rightarrow> RateLimiter" where
  "rl_cleanup now rl =
     (let interval0 = dur_seconds (IntervalSeconds (rl_config rl));
          interval = (if interval0 = 0 then 60 * second else interval0);
          staleThreshold = wrap64 (interval * 2)
      in rl\<lparr>blocks := gkeep (\<lambda>_ expiry. \<not> now > expiry) (blocks rl),
            counters := gkeep (\<lambda>_ state. \<not> time_sub now (lastSeen state) > staleThreshold) (counters rl)\<rparr>)"

text \<open>Leaving an expired block: in fail2ban mode the address is on probation.\<close>

definition rl_unblock :: "gotime \<Rightarrow> string \<Rightarrow> RateLimiter \<Rightarrow> RateLimiter" where
  "rl_unblock now ip rl =
     (let rl1 = rl\<lparr>blocks := gdel ip (blocks rl)\<rparr> in
      if gget (counters rl) ip \<noteq> None \<and> CountOnlyFailures (rl_config rl)
      then rl1\<lparr>counters := gmod ip (\<lambda>state. state\<lparr>failedCount := max 0 (MaxConnections (rl_config rl) - 1),
                                               firstSeen := now\<rparr>) (counters rl)\<rparr>
      else rl1)"

definition rl_window :: "gotime \<Rightarrow> string \<Rightarrow> RateLimiter \<Rightarrow> bool \<times> RateLimiter" where
  "rl_window now ip rl =
     (case gget (counters rl) ip of
        None \<Rightarrow> (True, rl\<lparr>counters := gput ip (zero_ipState\<lparr>firstSeen := now, lastSeen := now\<rparr>) (counters rl)\<rparr>)
      | Some state \<Rightarrow>
          (let state' = (if time_sub now (firstSeen state) > dur_seconds (IntervalSeconds (rl_config rl))
                         then state\<lparr>count := 0, failedCount := 0, firstSeen := now\<rparr> else state);
               rl' = rl\<lparr>counters := gput ip state' (counters rl)\<rparr>
           in if \<not> CountOnlyFailures (rl_config rl) \<and> count state' \<ge> MaxConnections (rl_config rl)
              then (False, if AutoBlock (rl_config rl)
                           then rl'\<lparr>blocks := gput ip (now + dur_seconds (BlockDurationSeconds (rl_config rl)))
                                                (blocks rl')\<rparr>
                           else rl')
              else (True, rl')))"

definition rl_Check :: "gotime \<Rightarrow> string \<Rightarrow> RateLimiter \<Rightarrow> bool \<times> RateLimiter" where
  "rl_Check now ip rl =
     (case gget (blocks rl) ip of
        Some expiry \<Rightarrow> if now < expiry then (False, rl) else rl_window now ip (rl_unblock now ip rl)
      | None \<Rightarrow> rl_window now ip rl)"

definition TrackConnection :: "gotime \<Rightarrow> string \<Rightarrow> RateLimiter \<Rightarrow> RateLimiter" where
  "TrackConnection now ip rl =
     (case gget (counters rl) ip of
        None \<Rightarrow> rl\<lparr>counters := gput ip (zero_ipState\<lparr>count := 1, firstSeen := now\<rparr>) (counters rl)\<rparr>
      | Some _ \<Rightarrow> rl\<lparr>counters := gmod ip (\<lambda>state. state\<lparr>count := count state + 1, lastSeen := now\<rparr>) (counters rl)\<rparr>)"

text \<open>The block a failure earns: the escalation step of the ban level, or the plain duration.\<close>

definition block_duration :: "RateLimitConfig \<Rightarrow> ipState \<Rightarrow> duration \<times> ipState" where
  "block_duration cfg state =
     (let steps = BlockStepsSeconds cfg in
      if length steps > 0 then
        (let level = (if banLevel state \<ge> int (length steps) then int (length steps) - 1 else banLevel state)
         in (dur_seconds (steps ! nat level), state\<lparr>banLevel := banLevel state + 1\<rparr>))
      else
        (let seconds = (if BlockDurationSeconds cfg = 0 then 600 else BlockDurationSeconds cfg)
         in (dur_seconds seconds, state)))"

text \<open>A connection is a failure when it lasted less than the threshold (one second by default).\<close>

definition failure_threshold :: "RateLimitConfig \<Rightarrow> duration" where
  "failure_threshold cfg =
     (let threshold = dur_seconds (FailureDurationThreshold cfg)
      in if threshold = 0 then 1 * second else threshold)"

definition ReportResult :: "gotime \<Rightarrow> string \<Rightarrow> duration \<Rightarrow> RateLimiter \<Rightarrow> RateLimiter" where
  "ReportResult now ip dur rl =
     (if \<not> CountOnlyFailures (rl_config rl) then rl
      else case gget (counters rl) ip of
             None \<Rightarrow> rl
           | Some state \<Rightarrow>
               if dur < failure_threshold (rl_config rl) then
                 (let state1 = state\<lparr>failedCount := failedCount state + 1\<rparr> in
                  if failedCount state1 \<ge> MaxConnections (rl_config rl) \<and> AutoBlock (rl_config rl)
                  then case block_duration (rl_config rl) state1 of
                         (blockDuration, state2) \<Rightarrow>
                           rl\<lparr>counters := gput ip state2 (counters rl),
                              blocks := gput ip (now + blockDuration) (blocks rl)\<rparr>
                  else rl\<lparr>counters := gput ip state1 (counters rl)\<rparr>)
               else rl)"

text \<open>
  What callers do with the limiter, in the order the mutex serialises it: \<open>admit\<close> is the sequence
  of \<open>Check\<close> and \<open>TrackConnection\<close> of one connection, \<open>rl_step\<close> any single call.
\<close>

definition admit :: "gotime \<Rightarrow> string \<Rightarrow> RateLimiter \<Rightarrow> bool \<times> RateLimiter" where
  "admit now ip rl =
     (case rl_Check now ip rl of
        (True, rl') \<Rightarrow> (True, TrackConnection now ip rl')
      | (False, rl') \<Rightarrow> (False, rl'))"

fun admits :: "string \<Rightarrow> gotime list \<Rightarrow> RateLimiter \<Rightarrow> bool list \<times> RateLimiter" where
  "admits ip [] rl = ([], rl)"
| "admits ip (t # ts) rl =
     (case admit t ip rl of (b, rl1) \<Rightarrow> case admits ip ts rl1 of (bs, rl2) \<Rightarrow> (b # bs, rl2))"

datatype rl_call =
    CallCheck gotime string
  | CallTrack gotime string
  | CallReport gotime string duration
  | CallCleanup gotime

fun call_time :: "rl_call \<Rightarrow> gotime" where
  "call_time (CallCheck t _) = t"
| "call_time (CallTrack t _) = t"
| "call_time (CallReport t _ _) = t"
| "call_time (CallCleanup t) = t"

fun rl_step :: "rl_call \<Rightarrow> RateLimiter \<Rightarrow> RateLimiter" where
  "rl_step (CallCheck t ip) rl = snd (rl_Check t ip rl)"
| "rl_step (CallTrack t ip) rl = TrackConnection t ip rl"
| "rl_step (CallReport t ip d) rl = ReportResult t ip d rl"
| "rl_step (CallCleanup t) rl = rl_cleanup t rl"

section \<open>The maps stay well formed and the configuration fixed\<close>

definition rl_ok :: "RateLimiter \<Rightarrow> bool" where
  "rl_ok rl = (gwf (counters rl) \<and> gwf (blocks rl))"

lemmas rl_defs = rl_Check_def rl_window_def rl_unblock_def TrackConnection_def ReportResult_def
  rl_cleanup_def Let_def

lemma rl_step_ok [inv_intros]: "rl_ok rl \<Longrightarrow> rl_ok (rl_step c rl)"
  by (cases c) (auto simp: rl_ok_def rl_defs split: option.split prod.split)

lemma rl_step_config [simp]: "rl_config (rl_step c rl) = rl_config rl"
  by (cases c) (auto simp: rl_defs split: option.split prod.split)

section \<open>Blocks\<close>

lemma blocked_Check: "gget (blocks rl) ip = Some e \<Longrightarrow> t < e \<Longrightarrow> rl_Check t ip rl = (False, rl)"
  by (simp add: rl_Check_def)

text \<open>
  In connection-count mode only an expired block is ever dropped and none is overwritten while it
  lasts, so no call before the expiry touches it.
\<close>

lemma rl_step_keeps_block:
  assumes "rl_ok rl" "\<not> CountOnlyFailures (rl_config rl)"
    and "gget (blocks rl) ip = Some e" "call_time c < e"
  shows "gget (blocks (rl_step c rl)) ip = Some e"
  using assms
  by (cases c) (auto simp: rl_ok_def rl_defs split: option.split prod.split)

lemma rl_steps_keep_block:
  assumes "rl_ok rl" "\<not> CountOnlyFailures (rl_config rl)"
    and "gget (blocks rl) ip = Some e" "list_all (\<lambda>c. call_time c < e) cs"
  shows "gget (blocks (fold rl_step cs rl)) ip = Some e"
  using assms by (induction cs arbitrary: rl) (auto simp: rl_step_keeps_block rl_step_ok)

section \<open>Counting connections in a window\<close>

lemma admit_in_window:
  assumes "gget (counters rl) ip = Some s" and "\<not> CountOnlyFailures (rl_config rl)"
    and "time_sub t (firstSeen s) \<le> dur_seconds (IntervalSeconds (rl_config rl))"
  shows "fst (admit t ip rl) \<longrightarrow> count s < MaxConnections (rl_config rl)"
    and "\<exists>s'. gget (counters (snd (admit t ip rl))) ip = Some s' \<and> firstSeen s' = firstSeen s \<and>
              count s' = count s + (if fst (admit t ip rl) then 1 else 0)"
    and "rl_config (snd (admit t ip rl)) = rl_config rl"
  using assms
  by (auto simp: admit_def rl_Check_def rl_window_def rl_unblock_def TrackConnection_def Let_def
      split: option.splits)

lemma admit_fresh:
  assumes "gget (counters rl) ip = None" and "\<not> CountOnlyFailures (rl_config rl)"
  shows "\<exists>s'. gget (counters (snd (admit t ip rl))) ip = Some s' \<and> firstSeen s' = t \<and> count s' = 1 \<or>
              \<not> fst (admit t ip rl) \<and> snd (admit t ip rl) = rl"
    and "rl_config (snd (admit t ip rl)) = rl_config rl"
  using assms
  by (auto simp: admit_def rl_Check_def rl_window_def rl_unblock_def TrackConnection_def Let_def zero_ipState_def
      split: option.splits)

definition admitted :: "bool list \<Rightarrow> int" where
  "admitted bs = int (length (filter id bs))"

lemma admitted_Cons [simp]: "admitted (b # bs) = (if b then 1 else 0) + admitted bs"
  by (simp add: admitted_def)

lemma admitted_Nil [simp]: "admitted [] = 0"
  by (simp add: admitted_def)

lemma admits_in_window:
  assumes "gget (counters rl) ip = Some s" and "\<not> CountOnlyFailures (rl_config rl)"
    and "list_all (\<lambda>t. time_sub t (firstSeen s) \<le> dur_seconds (IntervalSeconds (rl_config rl))) ts"
  shows "admitted (fst (admits ip ts rl)) \<le> max 0 (MaxConnections (rl_config rl) - count s)"
  using assms
proof (induction ts arbitrary: rl s)
  case (Cons t ts)
  obtain b rl1 where ad: "admit t ip rl = (b, rl1)" by fastforce
  have tm: "time_sub t (firstSeen s) \<le> dur_seconds (IntervalSeconds (rl_config rl))"
    using Cons.prems(3) by simp
  note step = admit_in_window [OF Cons.prems(1,2) tm, unfolded ad fst_conv snd_conv]
  obtain s1 where s1: "gget (counters rl1) ip = Some s1" "firstSeen s1 = firstSeen s"
      "count s1 = count s + (if b then 1 else 0)"
    using step(2) by blast
  have "admitted (fst (admits ip ts rl1)) \<le> max 0 (MaxConnections (rl_config rl1) - count s1)"
    by (rule Cons.IH [OF s1(1)]) (use Cons.prems s1(2) step(3) in simp_all)
  then show ?case
    using step(1) s1(3) by (auto simp: ad step(3) split: prod.split)
qed simp

section \<open>Fail2ban mode\<close>

lemma ReportResult_blocks:
  assumes "CountOnlyFailures (rl_config rl)" "AutoBlock (rl_config rl)"
    and "gget (counters rl) ip = Some s"
    and "dur < failure_threshold (rl_config rl)"
    and "failedCount s + 1 \<ge> MaxConnections (rl_config rl)"
    and "BlockStepsSeconds (rl_config rl) \<noteq> []" "0 \<le> banLevel s"
  shows "ReportResult now ip dur rl =
           rl\<lparr>counters := gput ip (s\<lparr>failedCount := failedCount s + 1, banLevel := banLevel s + 1\<rparr>) (counters rl),
              blocks := gput ip (now + dur_seconds (BlockStepsSeconds (rl_config rl) !
                          min (nat (banLevel s)) (length (BlockStepsSeconds (rl_config rl)) - 1))) (blocks rl)\<rparr>"
proof -
  define k where "k = length (BlockStepsSeconds (rl_config rl))"
  have k: "0 < k" using assms(6) by (simp add: k_def)
  have "nat (if banLevel s \<ge> int k then int k - 1 else banLevel s) = min (nat (banLevel s)) (k - 1)"
    using k assms(7) by (auto simp: min_def)
  moreover have "nat (int k - 1) = k - Suc 0" by simp
  ultimately show ?thesis
    using assms k by (simp add: ReportResult_def block_duration_def Let_def k_def [symmetric])
qed

section \<open>Properties\<close>

text \<open>In connection-count mode a block holds until it expires: whatever calls (checks, tracked
  connections, reports, cleanups, of any address) are made before the expiry, a further check of the
  blocked address before the expiry is refused.\<close>

theorem blocked_until_expiry:
  assumes "rl_ok rl" and "\<not> CountOnlyFailures (rl_config rl)"
    and "gget (blocks rl) ip = Some e"
    and "list_all (\<lambda>c. call_time c < e) cs" and "t < e"
  shows "fst (rl_Check t ip (fold rl_step cs rl)) = False"
  using blocked_Check [OF rl_steps_keep_block [OF assms(1-4)] assms(5)] by simp

definition demo_limit :: RateLimitConfig where
  "demo_limit = \<lparr>MaxConnections = 2, IntervalSeconds = 60, AutoBlock = True, BlockDurationSeconds = 300,
     BlockStepsSeconds = [], CountOnlyFailures = False, FailureDurationThreshold = 0\<rparr>"

lemma blocked_until_expiry_witness:
  "fst (rl_Check (250 * second) ''10.0.0.1''
          (fold rl_step [CallCleanup (200 * second), CallTrack (210 * second) ''10.0.0.1'']
             \<lparr>rl_config = demo_limit, counters = [], blocks = [(''10.0.0.1'', 300 * second)]\<rparr>)) = False"
  by (rule blocked_until_expiry [where e = "300 * second"])
     (simp_all add: rl_ok_def gwf_def demo_limit_def second_def)



text \<open>Escalation and probation of the fail2ban mode: a short connection that reaches the failure
  limit blocks the address for the escalation step of its ban level (the last step once the levels
  run out); it is refused until exactly then, and after the first check that finds the block expired
  one more short connection within the window blocks it again, one level higher.\<close>

theorem fail2ban_escalates:
  assumes "CountOnlyFailures (rl_config rl)" "AutoBlock (rl_config rl)"
    and "gget (counters rl) ip = Some s" "0 \<le> banLevel s"
    and "failedCount s + 1 \<ge> MaxConnections (rl_config rl)"
    and "steps = BlockStepsSeconds (rl_config rl)" "steps \<noteq> []"
    and "0 \<le> dur_seconds (IntervalSeconds (rl_config rl))"
    and "d < failure_threshold (rl_config rl)"
    and "rl1 = ReportResult now ip d rl"
    and "e = now + dur_seconds (steps ! min (nat (banLevel s)) (length steps - 1))"
  shows "fst (rl_Check t ip rl1) = (t \<ge> e) \<and>
         (t \<ge> e \<longrightarrow>
          gget (blocks (ReportResult t' ip d (snd (rl_Check t ip rl1)))) ip =
            Some (t' + dur_seconds (steps ! min (nat (banLevel s + 1)) (length steps - 1))))"
proof -
  have rl1: "rl1 = rl\<lparr>counters := gput ip (s\<lparr>failedCount := failedCount s + 1, banLevel := banLevel s + 1\<rparr>) (counters rl),
              blocks := gput ip e (blocks rl)\<rparr>"
    using ReportResult_blocks [OF assms(1-3,9,5) _ assms(4)] assms(6,7,10,11) by simp
  define s2 where "s2 = s\<lparr>banLevel := banLevel s + 1,
                         failedCount := max 0 (MaxConnections (rl_config rl) - 1), firstSeen := t\<rparr>"
  have out: "rl_Check t ip rl1 =
      (True, rl1\<lparr>blocks := gdel ip (blocks rl1), counters := gput ip s2 (counters (rl_unblock t ip rl1))\<rparr>)"
    if "t \<ge> e"
    using that assms(1,8) time_sub_exact [of t t]
    by (simp add: rl1 rl_Check_def rl_unblock_def rl_window_def Let_def s2_def)
  have "fst (rl_Check t ip rl1) = (t \<ge> e)"
    using out by (cases "t \<ge> e") (simp_all add: rl1 rl_Check_def)
  moreover have "gget (blocks (ReportResult t' ip d rl2)) ip =
          Some (t' + dur_seconds (steps ! min (nat (banLevel s + 1)) (length steps - 1)))"
    if "t \<ge> e" "rl2 = snd (rl_Check t ip rl1)" for rl2
  proof -
    have cfg: "rl_config rl2 = rl_config rl" and s2: "gget (counters rl2) ip = Some s2"
      using that out by (simp_all add: rl1)
    have "failedCount s2 + 1 \<ge> MaxConnections (rl_config rl2)" "banLevel s2 = banLevel s + 1"
      by (simp_all add: s2_def cfg)
    then show ?thesis
      using ReportResult_blocks [OF _ _ s2, of d t'] assms(1,2,4,6,7,9) by (simp add: cfg)
  qed
  ultimately show ?thesis by blast
qed

definition demo_fail2ban :: RateLimitConfig where
  "demo_fail2ban = \<lparr>MaxConnections = 2, IntervalSeconds = 60, AutoBlock = True, BlockDurationSeconds = 0,
     BlockStepsSeconds = [300, 3600], CountOnlyFailures = True, FailureDurationThreshold = 0\<rparr>"

definition demo_limiter :: RateLimiter where
  "demo_limiter =
     \<lparr>rl_config = demo_fail2ban,
      counters = [(''10.0.0.1'', zero_ipState\<lparr>count := 2, firstSeen := second, lastSeen := second, failedCount := 1\<rparr>)],
      blocks = []\<rparr>"

lemma fail2ban_escalates_witness:
  "fst (rl_Check (302 * second) ''10.0.0.1'' (ReportResult (2 * second) ''10.0.0.1'' 5 demo_limiter)) \<and>
   gget (blocks (ReportResult (303 * second) ''10.0.0.1'' 5
          (snd (rl_Check (302 * second) ''10.0.0.1'' (ReportResult (2 * second) ''10.0.0.1'' 5 demo_limiter)))))
        ''10.0.0.1'' = Some (303 * second + 3600 * second)"
proof -
  have "failure_threshold demo_fail2ban = second" "dur_seconds 60 = 60 * second"
    "dur_seconds 300 = 300 * second" "dur_seconds 3600 = 3600 * second"
    by (simp_all add: failure_threshold_def demo_fail2ban_def dur_seconds_int32)
  note secs = this
  define rl s where "rl = demo_limiter" and "s = the (gget (counters rl) ''10.0.0.1'')"
  have cfg: "rl_config rl = demo_fail2ban" and s: "gget (counters rl) ''10.0.0.1'' = Some s"
      "banLevel s = 0" "failedCount s = 1"
    by (simp_all add: rl_def s_def demo_limiter_def zero_ipState_def)
  have "fst (rl_Check (302 * second) ''10.0.0.1'' (ReportResult (2 * second) ''10.0.0.1'' 5 rl)) =
          (302 * second \<ge> 302 * second) \<and>
        (302 * second \<ge> 302 * second \<longrightarrow>
         gget (blocks (ReportResult (303 * second) ''10.0.0.1'' 5
           (snd (rl_Check (302 * second) ''10.0.0.1'' (ReportResult (2 * second) ''10.0.0.1'' 5 rl)))))
             ''10.0.0.1'' = Some (303 * second + dur_seconds ([300, 3600] ! min (nat (banLevel s + 1)) (length [300, 3600::int] - 1))))"
    by (rule fail2ban_escalates [OF _ _ s(1)])
       (simp_all add: cfg s secs, simp_all add: demo_fail2ban_def dur_seconds_int32 second_def)
  then show ?thesis
    by (simp add: s secs flip: rl_def)
qed

text \<open>The cleanup forgets the ban level: when the address has been idle for more than twice the
  interval, a cleanup during its block drops its state, so that once the block has expired the address
  is admitted with a fresh state: no failure counted (no probation) and ban level zero.\<close>

theorem cleanup_drops_escalation:
  assumes "rl_ok rl" and "gget (counters rl) ip = Some s"
    and "time_sub tc (lastSeen s) > 2 * dur_seconds (IntervalSeconds (rl_config rl))"
    and "0 < IntervalSeconds (rl_config rl)" "IntervalSeconds (rl_config rl) < 2 ^ 31"
    and "gget (blocks rl) ip = Some e" "tc < e" "e \<le> t"
  shows "gget (blocks (rl_cleanup tc rl)) ip = Some e \<and>
         fst (rl_Check t ip (rl_cleanup tc rl)) \<and>
         gget (counters (snd (rl_Check t ip (rl_cleanup tc rl)))) ip =
           Some \<lparr>count = 0, firstSeen = t, lastSeen = t, failedCount = 0, banLevel = 0\<rparr>"
proof -
  have i: "dur_seconds (IntervalSeconds (rl_config rl)) = IntervalSeconds (rl_config rl) * second"
    using assms(4,5) by (intro dur_seconds_int32) simp
  have w: "wrap64 (IntervalSeconds (rl_config rl) * second * 2) = IntervalSeconds (rl_config rl) * second * 2"
    using assms(4,5) by (intro wrap64_id) (simp_all add: second_def)
  show ?thesis
    using assms i w
    by (simp add: rl_ok_def rl_cleanup_def rl_Check_def rl_unblock_def rl_window_def zero_ipState_def
        second_def Let_def)
qed

definition demo_banned :: RateLimiter where
  "demo_banned = demo_limiter
     \<lparr>counters := [(''10.0.0.1'', zero_ipState\<lparr>failedCount := 2, banLevel := 1, lastSeen := second\<rparr>)],
      blocks := [(''10.0.0.1'', 300 * second)]\<rparr>"

lemma cleanup_drops_escalation_witness:
  "gget (blocks (rl_cleanup (122 * second) demo_banned)) ''10.0.0.1'' = Some (300 * second) \<and>
   fst (rl_Check (300 * second) ''10.0.0.1'' (rl_cleanup (122 * second) demo_banned)) \<and>
   gget (counters (snd (rl_Check (300 * second) ''10.0.0.1'' (rl_cleanup (122 * second) demo_banned)))) ''10.0.0.1'' =
     Some \<lparr>count = 0, firstSeen = 300 * second, lastSeen = 300 * second, failedCount = 0, banLevel = 0\<rparr>"
  by (rule cleanup_drops_escalation
        [where s = "zero_ipState\<lparr>failedCount := 2, banLevel := 1, lastSeen := second\<rparr>"])
     (simp_all add: demo_banned_def demo_limiter_def demo_fail2ban_def rl_ok_def gwf_def second_def
        dur_seconds_int32 time_sub_def minDuration_def maxDuration_def)

end
