(* ===== verification/Global_Rules.thy ===== *)
theory Global_Rules
  imports Proxy_Types
begin

text \<open>
  The runtime rules that apply across all proxies, \<^verbatim>\<open>pkg/node/global_rules.go\<close>: exact addresses
  keyed by address with a map from rule ids to addresses for removal, and CIDR rules keyed by id.
  \<open>gr_Check\<close> ranges over a Go map; its result is shown not to depend on the order. The store is a
  \<open>swept_store\<close>: the ticker's cleanup never changes an answer.
\<close>

section \<open>State and operations\<close>

record GlobalRule =
  gr_ID :: string
  gr_Name :: string
  gr_SourceIP :: string
  gr_Action :: ActionType
  gr_ExpiresAt :: gotime
  gr_CreatedAt :: gotime

record cidrRule =
  cr_rule :: GlobalRule
  cr_ipNet :: ipnet

record GlobalRulesStore =
  exactRules :: "(string, GlobalRule) gomap"
  cidrRules :: "(string, cidrRule) gomap"
  idToIP :: "(string, string) gomap"

definition NewGlobalRulesStore :: GlobalRulesStore where
  "NewGlobalRulesStore = \<lparr>exactRules = [], cidrRules = [], idToIP = []\<rparr>"

text \<open>The body of the cleanup ticker. The ids of the expired exact rules are removed as well.\<close>

definition gr_expired :: "gotime \<Rightarrow> GlobalRule \<Rightarrow> bool" where
  "gr_expired now rule = (gr_ExpiresAt rule \<noteq> 0 \<and> now > gr_ExpiresAt rule)"

definition gr_cleanup :: "gotime \<Rightarrow> GlobalRulesStore \<Rightarrow> GlobalRulesStore" where
  "gr_cleanup now s =
     s\<lparr>exactRules := gkeep (\<lambda>_ rule. \<not> gr_expired now rule) (exactRules s),
       idToIP := fold (\<lambda>(_, rule). if gr_expired now rule then gdel (gr_ID rule) else id)
                   (exactRules s) (idToIP s),
       cidrRules := gkeep (\<lambda>_ cr. \<not> gr_expired now (cr_rule cr)) (cidrRules s)\<rparr>"

definition insert_rule :: "string \<Rightarrow> string \<Rightarrow> GlobalRule \<Rightarrow> GlobalRulesStore \<Rightarrow> GlobalRulesStore" where
  "insert_rule ruleId ip rule s =
     (case ParseCIDR ip of
        Some ipNet \<Rightarrow> s\<lparr>cidrRules := gput ruleId \<lparr>cr_rule = rule, cr_ipNet = ipNet\<rparr> (cidrRules s)\<rparr>
      | None \<Rightarrow> s\<lparr>exactRules := gput ip rule (exactRules s), idToIP := gput ruleId ip (idToIP s)\<rparr>)"

definition BlockIP :: "gotime \<Rightarrow> string \<Rightarrow> duration \<Rightarrow> GlobalRulesStore \<Rightarrow> string \<times> GlobalRulesStore" where
  "BlockIP now ip dur s =
     (let ruleId = ''global-block-'' @ ip;
          expiresAt = (if dur > 0 then now + dur else 0);
          rule = \<lparr>gr_ID = ruleId, gr_Name = ''Block: '' @ ip, gr_SourceIP = ip, gr_Action = ACTION_TYPE_BLOCK,
                  gr_ExpiresAt = expiresAt, gr_CreatedAt = now\<rparr>
      in (ruleId, insert_rule ruleId ip rule s))"

definition AllowIP :: "gotime \<Rightarrow> string \<Rightarrow> duration \<Rightarrow> GlobalRulesStore \<Rightarrow> string \<times> GlobalRulesStore" where
  "AllowIP now ip dur s =
     (let ruleId = ''global-allow-'' @ ip;
          expiresAt = (if dur > 0 then now + dur else 0);
          rule = \<lparr>gr_ID = ruleId, gr_Name = ''Allow: '' @ ip, gr_SourceIP = ip, gr_Action = ACTION_TYPE_ALLOW,
                  gr_ExpiresAt = expiresAt, gr_CreatedAt = now\<rparr>
      in (ruleId, insert_rule ruleId ip rule s))"

definition gr_Remove :: "string \<Rightarrow> GlobalRulesStore \<Rightarrow> bool \<times> GlobalRulesStore" where
  "gr_Remove ruleId s =
     (case gget (idToIP s) ruleId of
        Some ip \<Rightarrow> (True, s\<lparr>exactRules := gdel ip (exactRules s), idToIP := gdel ruleId (idToIP s)\<rparr>)
      | None \<Rightarrow>
          (case gget (cidrRules s) ruleId of
             Some _ \<Rightarrow> (True, s\<lparr>cidrRules := gdel ruleId (cidrRules s)\<rparr>)
           | None \<Rightarrow> (False, s)))"

text \<open>The loop over the CIDR rules, with the accumulated \<open>matchedAllow\<close>.\<close>

fun check_cidrs :: "gotime \<Rightarrow> ip \<Rightarrow> cidrRule list \<Rightarrow> bool \<Rightarrow> bool \<times> ActionType" where
  "check_cidrs now ip [] matchedAllow =
     (if matchedAllow then (True, ACTION_TYPE_ALLOW) else (False, ACTION_TYPE_UNSPECIFIED))"
| "check_cidrs now ip (cr # crs) matchedAllow =
     (if gr_expired now (cr_rule cr) then check_cidrs now ip crs matchedAllow
      else if ipnet_Contains (cr_ipNet cr) ip then
        (if gr_Action (cr_rule cr) = ACTION_TYPE_BLOCK then (True, ACTION_TYPE_BLOCK)
         else check_cidrs now ip crs True)
      else check_cidrs now ip crs matchedAllow)"

definition exact_live :: "gotime \<Rightarrow> GlobalRule \<Rightarrow> bool" where
  "exact_live now rule = (gr_ExpiresAt rule = 0 \<or> now < gr_ExpiresAt rule)"

definition cidr_result :: "gotime \<Rightarrow> string \<Rightarrow> GlobalRulesStore \<Rightarrow> bool \<times> ActionType" where
  "cidr_result now sourceIP s =
     (case ParseIP sourceIP of
        None \<Rightarrow> (False, ACTION_TYPE_UNSPECIFIED)
      | Some parsedIP \<Rightarrow> check_cidrs now parsedIP (map snd (cidrRules s)) False)"

definition gr_Check :: "GlobalRulesStore \<Rightarrow> string \<Rightarrow> gotime \<Rightarrow> bool \<times> ActionType" where
  "gr_Check s sourceIP now =
     (case gget (exactRules s) sourceIP of
        Some rule \<Rightarrow> if exact_live now rule then (True, gr_Action rule) else cidr_result now sourceIP s
      | None \<Rightarrow> cidr_result now sourceIP s)"

definition gr_List :: "gotime \<Rightarrow> GlobalRulesStore \<Rightarrow> GlobalRule list" where
  "gr_List now s =
     filter (exact_live now) (map snd (exactRules s)) @
     filter (exact_live now) (map (cr_rule \<circ> snd) (cidrRules s))"

section \<open>Invariant\<close>

definition gr_ok :: "GlobalRulesStore \<Rightarrow> bool" where
  "gr_ok s = (gwf (exactRules s) \<and> gwf (cidrRules s) \<and> gwf (idToIP s))"

lemma gwf_fold_ids:
  "gwf m \<Longrightarrow> gwf (fold (\<lambda>(_, rule). if gr_expired now rule then gdel (gr_ID rule) else id) rs m)"
  by (induction rs arbitrary: m) (auto split: prod.split)

lemma gr_ok_new [inv_intros]: "gr_ok NewGlobalRulesStore"
  by (simp add: gr_ok_def NewGlobalRulesStore_def)

lemma gr_ok_insert: "gr_ok s \<Longrightarrow> gr_ok (insert_rule ruleId ip rule s)"
  by (auto simp: gr_ok_def insert_rule_def split: option.split)

lemma gr_ok_BlockIP [inv_intros]: "gr_ok s \<Longrightarrow> gr_ok (snd (BlockIP now ip dur s))"
  by (simp add: BlockIP_def Let_def gr_ok_insert)

lemma gr_ok_AllowIP [inv_intros]: "gr_ok s \<Longrightarrow> gr_ok (snd (AllowIP now ip dur s))"
  by (simp add: AllowIP_def Let_def gr_ok_insert)

lemma gr_ok_Remove [inv_intros]: "gr_ok s \<Longrightarrow> gr_ok (snd (gr_Remove ruleId s))"
  by (auto simp: gr_ok_def gr_Remove_def split: option.split)

lemma gr_ok_cleanup [inv_intros]: "gr_ok s \<Longrightarrow> gr_ok (gr_cleanup now s)"
  by (simp add: gr_ok_def gr_cleanup_def gwf_fold_ids)

section \<open>What a check answers\<close>

text \<open>\<open>cidr_hits\<close> are the rules in force that contain the address; a block among them wins.\<close>

definition cidr_hits :: "gotime \<Rightarrow> ip \<Rightarrow> cidrRule set \<Rightarrow> cidrRule set" where
  "cidr_hits now ip crs = {cr \<in> crs. \<not> gr_expired now (cr_rule cr) \<and> ipnet_Contains (cr_ipNet cr) ip}"

lemma cidr_hits_empty [simp]: "cidr_hits now ip {} = {}"
  by (simp add: cidr_hits_def)

lemma cidr_hits_insert [simp]:
  "cidr_hits now ip (insert cr crs) =
     (if \<not> gr_expired now (cr_rule cr) \<and> ipnet_Contains (cr_ipNet cr) ip
      then insert cr (cidr_hits now ip crs) else cidr_hits now ip crs)"
  by (auto simp: cidr_hits_def)

lemma check_cidrs_order_free:
  "check_cidrs now ip crs m =
     (if \<exists>cr \<in> cidr_hits now ip (set crs). gr_Action (cr_rule cr) = ACTION_TYPE_BLOCK
      then (True, ACTION_TYPE_BLOCK)
      else if m \<or> cidr_hits now ip (set crs) \<noteq> {} then (True, ACTION_TYPE_ALLOW)
      else (False, ACTION_TYPE_UNSPECIFIED))"
  by (induction crs arbitrary: m) simp_all

lemma gr_expired_mono: "gr_expired t rule \<Longrightarrow> t \<le> now \<Longrightarrow> gr_expired now rule"
  by (simp add: gr_expired_def)

lemma cidr_hits_gkeep:
  assumes "t \<le> now"
  shows "cidr_hits now ip (snd ` set (gkeep (\<lambda>_ cr. \<not> gr_expired t (cr_rule cr)) m)) =
         cidr_hits now ip (snd ` set m)"
proof (rule subset_antisym; rule subsetI)
  fix cr assume "cr \<in> cidr_hits now ip (snd ` set m)"
  then obtain k where "(k, cr) \<in> set m" "\<not> gr_expired now (cr_rule cr)" "ipnet_Contains (cr_ipNet cr) ip"
    by (auto simp: cidr_hits_def)
  then show "cr \<in> cidr_hits now ip (snd ` set (gkeep (\<lambda>_ cr. \<not> gr_expired t (cr_rule cr)) m))"
    using assms gr_expired_mono by (force simp: cidr_hits_def gkeep_def)
qed (auto simp: cidr_hits_def gkeep_def)

lemma cidr_result_cleanup: "t \<le> now \<Longrightarrow> cidr_result now ip (gr_cleanup t s) = cidr_result now ip s"
  by (simp add: cidr_result_def check_cidrs_order_free gr_cleanup_def cidr_hits_gkeep split: option.split)

lemma exact_expired: "\<not> exact_live now rule \<or> \<not> gr_expired t rule" if "t \<le> now"
  using that by (auto simp: exact_live_def gr_expired_def)

lemma gr_Check_cleanup:
  assumes "gr_ok s" "t \<le> now"
  shows "gr_Check (gr_cleanup t s) ip now = gr_Check s ip now"
proof -
  have "gget (exactRules (gr_cleanup t s)) ip =
          (case gget (exactRules s) ip of
             None \<Rightarrow> None | Some rule \<Rightarrow> if gr_expired t rule then None else Some rule)"
    using assms(1) by (simp add: gr_ok_def gr_cleanup_def split: option.split)
  then show ?thesis
    using cidr_result_cleanup [OF assms(2), of ip s] exact_expired [OF assms(2)]
    by (cases "gget (exactRules s) ip") (auto simp: gr_Check_def)
qed

interpretation gr: swept_store gr_Check gr_cleanup gr_ok
  by unfold_locales (auto simp: gr_Check_cleanup gr_ok_cleanup)

lemma gr_Check_insert_exact:
  "ParseCIDR ip = None \<Longrightarrow> exact_live t rule \<Longrightarrow>
     gr_Check (insert_rule ruleId ip rule s) ip t = (True, gr_Action rule)"
  by (simp add: gr_Check_def insert_rule_def)

lemma gput_gdel: "gget m k = None \<Longrightarrow> gdel k (gput k v m) = m"
  by (induction m) (auto simp: length_gdel_none split: if_splits)

lemma Remove_insert_exact:
  "ParseCIDR ip = None \<Longrightarrow> gget (exactRules s) ip = None \<Longrightarrow> gget (idToIP s) ruleId = None \<Longrightarrow>
     gr_Remove ruleId (insert_rule ruleId ip rule s) = (True, s)"
  by (simp add: gr_Remove_def insert_rule_def gput_gdel)

section \<open>Properties\<close>


text \<open>The cleanup ticker is transparent: any number of cleanups at any earlier times leave the answer
  of every later check unchanged.\<close>

theorem gr_cleanup_transparent:
  assumes "gr_ok s" and "list_all (\<lambda>t. t \<le> now) ts"
  shows "gr_Check (fold gr_cleanup ts s) ip now = gr_Check s ip now"
  by (rule gr.sweeps_look) (use assms in \<open>simp_all add: list_all_iff\<close>)

definition demo_store :: GlobalRulesStore where
  "demo_store = snd (BlockIP (2 * second) ''10.0.0.2'' 0 (snd (AllowIP second ''10.0.0.1'' second NewGlobalRulesStore)))"

lemma gr_cleanup_transparent_witness:
  "gr_Check (fold gr_cleanup [second, 3 * second] demo_store) ''10.0.0.2'' (3 * second) = (True, ACTION_TYPE_BLOCK) \<and>
   exactRules (fold gr_cleanup [second, 3 * second] demo_store) \<noteq> exactRules demo_store"
proof -
  have "gr_Check (fold gr_cleanup [second, 3 * second] demo_store) ''10.0.0.2'' (3 * second) =
        gr_Check demo_store ''10.0.0.2'' (3 * second)"
    by (rule gr_cleanup_transparent) (simp_all add: demo_store_def inv_intros second_def)
  moreover have "gr_Check demo_store ''10.0.0.2'' (3 * second) = (True, ACTION_TYPE_BLOCK)"
    by code_simp
  moreover have "exactRules (fold gr_cleanup [second, 3 * second] demo_store) \<noteq> exactRules demo_store"
    by code_simp
  ultimately show ?thesis by (simp only: simp_thms)
qed

text \<open>Blocking an address that is not a CIDR takes effect at once and lasts: whatever rules exist, the
  address is blocked until the duration has passed (for ever when it is not positive), and removing the
  returned id restores the store when the address had no exact rule.\<close>

theorem BlockIP_blocks_until_expiry:
  assumes "ParseCIDR ip = None" and "0 \<le> now"
  shows "(dur \<le> 0 \<or> t < now + dur \<longrightarrow> gr_Check (snd (BlockIP now ip dur s)) ip t = (True, ACTION_TYPE_BLOCK)) \<and>
         (gget (exactRules s) ip = None \<and> gget (idToIP s) (''global-block-'' @ ip) = None \<longrightarrow>
          gr_Remove (fst (BlockIP now ip dur s)) (snd (BlockIP now ip dur s)) = (True, s))"
  using assms
  by (auto simp: BlockIP_def Let_def gr_Check_insert_exact Remove_insert_exact exact_live_def)

lemma BlockIP_blocks_until_expiry_witness:
  "gr_Check (snd (BlockIP second ''10.0.0.1'' (5 * second) NewGlobalRulesStore)) ''10.0.0.1'' (3 * second) =
     (True, ACTION_TYPE_BLOCK) \<and>
   gr_Remove ''global-block-10.0.0.1'' (snd (BlockIP second ''10.0.0.1'' (5 * second) NewGlobalRulesStore)) =
     (True, NewGlobalRulesStore)"
proof -
  have "ParseCIDR ''10.0.0.1'' = None" by code_simp
  then show ?thesis
    using BlockIP_blocks_until_expiry [of "''10.0.0.1''" second "5 * second" "3 * second" NewGlobalRulesStore]
    by (simp add: second_def NewGlobalRulesStore_def BlockIP_def Let_def)
qed

text \<open>Removal goes by address and not by rule: after an address was blocked and then allowed, removing
  the id of the block deletes the allow rule.\<close>

theorem remove_block_deletes_allow:
  assumes "ParseCIDR ip = None" and "0 \<le> t2" and "d2 \<le> 0 \<or> t < t2 + d2"
    and "s2 = snd (AllowIP t2 ip d2 (snd (BlockIP t1 ip d1 s)))"
  shows "gr_Check s2 ip t = (True, ACTION_TYPE_ALLOW) \<and>
         fst (gr_Remove (fst (BlockIP t1 ip d1 s)) s2) \<and>
         gget (exactRules (snd (gr_Remove (fst (BlockIP t1 ip d1 s)) s2))) ip = None"
  using assms
  by (auto simp: AllowIP_def BlockIP_def Let_def gr_Check_insert_exact exact_live_def)
     (simp_all add: gr_Remove_def insert_rule_def)

lemma remove_block_deletes_allow_witness:
  "let s2 = snd (AllowIP (2 * second) ''10.0.0.1'' 0 (snd (BlockIP second ''10.0.0.1'' 0 NewGlobalRulesStore)))
   in gr_Check s2 ''10.0.0.1'' (3 * second) = (True, ACTION_TYPE_ALLOW) \<and>
      gget (exactRules (snd (gr_Remove ''global-block-10.0.0.1'' s2))) ''10.0.0.1'' = None"
proof -
  have "ParseCIDR ''10.0.0.1'' = None" by code_simp
  then show ?thesis
    using remove_block_deletes_allow [of "''10.0.0.1''" "2 * second" 0 "3 * second" _ second 0 NewGlobalRulesStore,
        OF _ _ _ refl]
    by (simp add: second_def BlockIP_def Let_def)
qed

end
