(* ===== verification/Anti_Replay.thy ===== *)
theory Anti_Replay
  imports Nitella_Prelude
begin

text \<open>
  Replay protection of commands, \<^verbatim>\<open>pkg/node/antireplay.go\<close>: a command is accepted at most once, within
  \<open>maxAge\<close> of its timestamp, from the trusted sender. The timestamp is an \<^verbatim>\<open>int64\<close> chosen by the sender
  and \<open>Time.Sub\<close> saturates, which the negation in the check of future timestamps does not expect.
\<close>

section \<open>State and operations\<close>

record AntiReplayCache =
  seen :: "(string, gotime) gomap"
  maxAge :: duration
  trustedFingerprint :: string

datatype replay_error = ErrFuture | ErrExpired | ErrUntrusted | ErrReplay

definition NewAntiReplayCache :: "duration \<Rightarrow> string \<Rightarrow> AntiReplayCache" where
  "NewAntiReplayCache age fp = \<lparr>seen = [], maxAge = age, trustedFingerprint = fp\<rparr>"

definition ar_cleanup :: "gotime \<Rightarrow> AntiReplayCache \<Rightarrow> AntiReplayCache" where
  "ar_cleanup now c = c\<lparr>seen := gkeep (\<lambda>_ ts. \<not> time_sub now ts > wrap64 (maxAge c * 2)) (seen c)\<rparr>"

definition check_age :: "gotime \<Rightarrow> int \<Rightarrow> duration \<Rightarrow> replay_error option" where
  "check_age now timestamp max_age =
     (let cmdTime = time_unix timestamp;
          age = time_sub now cmdTime
      in if age < 0 then (if wrap64 (- age) > 30 * second then Some ErrFuture else None)
         else if age > max_age then Some ErrExpired
         else None)"

definition ValidateCommand ::
  "gotime \<Rightarrow> string \<Rightarrow> int \<Rightarrow> string \<Rightarrow> AntiReplayCache \<Rightarrow> replay_error option \<times> AntiReplayCache" where
  "ValidateCommand now requestID timestamp senderFingerprint c =
     (case check_age now timestamp (maxAge c) of
        Some err \<Rightarrow> (Some err, c)
      | None \<Rightarrow>
          if trustedFingerprint c \<noteq> [] \<and> senderFingerprint \<noteq> trustedFingerprint c then (Some ErrUntrusted, c)
          else if gget (seen c) requestID \<noteq> None then (Some ErrReplay, c)
          else (None, c\<lparr>seen := gput requestID now (seen c)\<rparr>))"

definition SetTrustedFingerprint :: "string \<Rightarrow> AntiReplayCache \<Rightarrow> AntiReplayCache" where
  "SetTrustedFingerprint fp c = c\<lparr>trustedFingerprint := fp\<rparr>"

definition ar_Stats :: "AntiReplayCache \<Rightarrow> nat" where
  "ar_Stats c = length (seen c)"

text \<open>The calls and cleanup ticks a cache goes through, in the order of the mutex.\<close>

inductive ar_step :: "gotime \<Rightarrow> AntiReplayCache \<Rightarrow> AntiReplayCache \<Rightarrow> bool" where
  validate: "ar_step now c (snd (ValidateCommand now reqID ts fp c))"
| cleanup: "ar_step now c (ar_cleanup now c)"
| set_fp: "ar_step now c (SetTrustedFingerprint fp c)"

text \<open>\<open>ar_run t c t' c'\<close>: from \<open>c\<close> at time \<open>t\<close> some steps at non-decreasing times lead to \<open>c'\<close> at \<open>t'\<close>.\<close>

inductive ar_run :: "gotime \<Rightarrow> AntiReplayCache \<Rightarrow> gotime \<Rightarrow> AntiReplayCache \<Rightarrow> bool" where
  refl: "ar_run t c t c"
| step: "ar_run t c u c1 \<Longrightarrow> u \<le> v \<Longrightarrow> ar_step v c1 c2 \<Longrightarrow> ar_run t c v c2"

inductive_cases ar_stepE: "ar_step now c c'"

section \<open>What the age check admits\<close>

lemma check_age_None:
  assumes "time_unix ts - now < 2 ^ 63" "check_age now ts age = None"
  shows "time_unix ts \<le> now + 30 * second"
proof (rule ccontr)
  assume far: "\<not> time_unix ts \<le> now + 30 * second"
  then have "time_sub now (time_unix ts) = now - time_unix ts"
    using assms(1) by (intro time_sub_exact) (simp add: second_def)
  moreover have "wrap64 (time_unix ts - now) = time_unix ts - now"
    using far assms(1) by (intro wrap64_id) (simp_all add: second_def)
  ultimately show False
    using assms(2) far by (simp add: check_age_def second_def split: if_splits)
qed

lemma check_age_expired:
  assumes "now - time_unix ts > age" "0 \<le> age" "age < maxDuration"
  shows "check_age now ts age = Some ErrExpired"
proof -
  have "time_sub now (time_unix ts) > age"
    using assms by (simp add: time_sub_gt minDuration_def)
  then show ?thesis
    using assms(2) by (simp add: check_age_def Let_def)
qed

section \<open>An accepted request id is remembered long enough\<close>

text \<open>
  \<open>remembered id t now c\<close>: the id was accepted at \<open>t\<close>, and it is still in the cache or so long ago that
  a cleanup has removed it.
\<close>

definition remembered :: "string \<Rightarrow> gotime \<Rightarrow> gotime \<Rightarrow> AntiReplayCache \<Rightarrow> bool" where
  "remembered reqID t now c = (gget (seen c) reqID = Some t \<or> now - t > 2 * maxAge c)"

definition ar_ok :: "AntiReplayCache \<Rightarrow> bool" where
  "ar_ok c = (gwf (seen c) \<and> 0 \<le> maxAge c \<and> maxAge c < 2 ^ 62)"

lemma ar_step_maxAge: "ar_step now c c' \<Longrightarrow> maxAge c' = maxAge c"
  by (erule ar_stepE) (auto simp: ValidateCommand_def ar_cleanup_def SetTrustedFingerprint_def split: option.split)

lemma ar_step_ok [inv_intros]: "ar_step now c c' \<Longrightarrow> ar_ok c \<Longrightarrow> ar_ok c'"
  by (erule ar_stepE)
     (auto simp: ar_ok_def ValidateCommand_def ar_cleanup_def SetTrustedFingerprint_def split: option.split)

lemma cleanup_removes:
  assumes "ar_ok c" "gget (seen c) reqID = Some t" "gget (seen (ar_cleanup now c)) reqID \<noteq> Some t"
  shows "now - t > 2 * maxAge c"
proof -
  have "wrap64 (maxAge c * 2) = maxAge c * 2"
    using assms(1) by (intro wrap64_id) (simp_all add: ar_ok_def)
  moreover have "maxAge c * 2 < maxDuration" "maxAge c * 2 \<ge> minDuration"
    using assms(1) by (simp_all add: ar_ok_def maxDuration_def minDuration_def)
  ultimately show ?thesis
    using assms time_sub_gt [of "maxAge c * 2" now t]
    by (simp add: ar_cleanup_def ar_ok_def mult.commute split: if_splits)
qed

lemma ar_step_remembered:
  assumes "ar_step v c c'" "ar_ok c" "remembered reqID t u c" "u \<le> v"
  shows "remembered reqID t v c'"
  using assms(1)
proof (cases rule: ar_step.cases)
  case (validate reqID' ts fp)
  then show ?thesis
    using assms(3,4) by (auto simp: remembered_def ValidateCommand_def split: option.split)
next
  case cleanup
  have "maxAge c' = maxAge c" using ar_step_maxAge [OF assms(1)] .
  then show ?thesis
    using assms(2-4) cleanup cleanup_removes [of c reqID t v] by (auto simp: remembered_def)
next
  case set_fp
  then show ?thesis
    using assms(3,4) by (auto simp: remembered_def SetTrustedFingerprint_def)
qed

lemma ar_run_remembered:
  assumes "ar_run t0 c u c'" "ar_ok c" "remembered reqID t t0 c"
  shows "remembered reqID t u c' \<and> ar_ok c' \<and> maxAge c' = maxAge c \<and> t0 \<le> u"
  using assms
  by (induction rule: ar_run.induct)
     (auto dest: ar_step_maxAge intro: ar_step_ok ar_step_remembered)

section \<open>Properties\<close>



text \<open>A timestamp more than 2^63 nanoseconds (292 years) ahead is not refused as a future one: the
  subtraction saturates at the least duration and its negation wraps to itself. Such a command is
  accepted, and after the cleanup has forgotten its request id it is accepted again.\<close>

theorem far_future_timestamp_accepted:
  assumes "ar_ok c" and "time_unix ts - t1 \<ge> 2 ^ 63" and "time_unix ts - t2 \<ge> 2 ^ 63"
    and "gget (seen c) reqID = None" and "trustedFingerprint c = [] \<or> fp = trustedFingerprint c"
    and "t2 - t1 > 2 * maxAge c"
  shows "fst (ValidateCommand t1 reqID ts fp c) = None \<and>
         fst (ValidateCommand t2 reqID ts fp (ar_cleanup t2 (snd (ValidateCommand t1 reqID ts fp c)))) = None"
proof -
  have wrap: "wrap64 (2 ^ 63) = - (2 ^ 63)"
    by (simp add: wrap64_def signed_take_bit_eq_take_bit_minus take_bit_int_def bit_iff_odd)
  have age: "check_age t ts a = None" if "time_unix ts - t \<ge> 2 ^ 63" for t a
  proof -
    have "time_sub t (time_unix ts) = minDuration"
      using that by (simp add: time_sub_def minDuration_def maxDuration_def max_def min_def)
    then show ?thesis
      using wrap by (simp add: check_age_def minDuration_def second_def)
  qed
  define c1 where "c1 = c\<lparr>seen := gput reqID t1 (seen c)\<rparr>"
  have v1: "ValidateCommand t1 reqID ts fp c = (None, c1)"
    using assms(4,5) age [OF assms(2)] by (auto simp: ValidateCommand_def c1_def)
  have "gwf (seen c1)" "wrap64 (maxAge c * 2) = maxAge c * 2"
    using assms(1) wrap64_id [of "maxAge c * 2"] by (simp_all add: ar_ok_def c1_def)
  then have "gget (seen (ar_cleanup t2 c1)) reqID = None"
    using assms(1,6) time_sub_gt [of "maxAge c * 2" t2 t1]
    by (simp add: ar_cleanup_def c1_def ar_ok_def maxDuration_def minDuration_def mult.commute)
  then show ?thesis
    using v1 age [OF assms(3)] assms(5) by (auto simp: ValidateCommand_def ar_cleanup_def c1_def)
qed

lemma far_future_timestamp_accepted_witness:
  "let c = NewAntiReplayCache (60 * second) ''ab'';
       c1 = snd (ValidateCommand (time_unix 1700000000) ''req'' 20000000000 ''ab'' c)
   in fst (ValidateCommand (time_unix 1700000000) ''req'' 20000000000 ''ab'' c) = None \<and>
      fst (ValidateCommand (time_unix 1700000200) ''req'' 20000000000 ''ab''
             (ar_cleanup (time_unix 1700000200) c1)) = None"
proof -
  have t: "time_unix n = (n + 62135596800) * second" if "\<bar>n\<bar> \<le> 2 ^ 40" for n
    using that wrap64_id [of "n + 62135596800"] by (simp add: time_unix_def abs_le_iff)
  show ?thesis
    using far_future_timestamp_accepted [of "NewAntiReplayCache (60 * second) ''ab''" 20000000000
        "time_unix 1700000000" "time_unix 1700000200" "''req''" "''ab''"]
    by (simp add: Let_def NewAntiReplayCache_def ar_ok_def t second_def)
qed

end
