(* ===== verification/Approval.thy ===== *)
theory Approval
  imports Proxy_Types
begin

text \<open>
  The approval workflow of \<^verbatim>\<open>pkg/node/approval.go\<close>: the cache of time-limited decisions with the
  connections that run under them, and the manager of pending requests with its limits per node, source
  address and proxy. A result channel (capacity one) is a cell of the manager's channel store, so that a
  second decision finds it full; byte counters are addresses of a memory the connections write to.
\<close>

section \<open>The decision cache\<close>

type_synonym counter_ptr = nat
type_synonym counter_mem = "counter_ptr \<Rightarrow> int"

record LiveConnStats =
  lc_BytesIn :: "counter_ptr option"
  lc_BytesOut :: "counter_ptr option"

record ApprovalEntry =
  e_SourceIP :: string
  e_RuleID :: string
  e_ProxyID :: string
  e_TLSSessionID :: string
  e_Decision :: bool
  e_ExpiresAt :: gotime
  e_CreatedAt :: gotime
  e_LiveConns :: "(string, LiveConnStats) gomap"
  e_GeoCountry :: string
  e_GeoCity :: string
  e_GeoISP :: string
  e_BytesIn :: int
  e_BytesOut :: int
  e_BlockedCount :: int

type_synonym ApprovalCache = "(string, ApprovalEntry) gomap"

definition MaxConnIDsPerApproval :: nat where
  "MaxConnIDsPerApproval = 1000"

definition KeySeparator :: string where
  "KeySeparator = [CHR 0x00]"

definition buildKey :: "string \<Rightarrow> string \<Rightarrow> string \<Rightarrow> string" where
  "buildKey sourceIP ruleID tlsSessionID =
     (if tlsSessionID \<noteq> [] then sourceIP @ KeySeparator @ ruleID @ KeySeparator @ tlsSessionID
      else sourceIP @ KeySeparator @ ruleID)"

definition entry_Key :: "ApprovalEntry \<Rightarrow> string" where
  "entry_Key e = buildKey (e_SourceIP e) (e_RuleID e) (e_TLSSessionID e)"

text \<open>
  The body of the cleanup ticker: the connections to close, which the caller passes to the connection
  closer after the lock is released, and the remaining entries.
\<close>

definition ac_cleanup :: "gotime \<Rightarrow> ApprovalCache \<Rightarrow> (string \<times> string) list \<times> ApprovalCache" where
  "ac_cleanup now c =
     (concat (map (\<lambda>(_, e). if now > e_ExpiresAt e \<and> e_Decision e
                             then map (\<lambda>(connID, _). (e_ProxyID e, connID)) (e_LiveConns e) else []) c),
      gkeep (\<lambda>_ e. \<not> now > e_ExpiresAt e) c)"

definition ac_Check :: "ApprovalCache \<Rightarrow> string \<times> string \<times> string \<Rightarrow> gotime \<Rightarrow> bool \<times> bool" where
  "ac_Check c q now =
     (case q of (sourceIP, ruleID, tlsSessionID) \<Rightarrow>
        (case gget c (buildKey sourceIP ruleID tlsSessionID) of
           Some e \<Rightarrow> if now < e_ExpiresAt e then (True, e_Decision e) else (False, False)
         | None \<Rightarrow> (False, False)))"

definition ac_AddWithGeo ::
  "gotime \<Rightarrow> string \<Rightarrow> string \<Rightarrow> string \<Rightarrow> string \<Rightarrow> bool \<Rightarrow> duration \<Rightarrow> string \<Rightarrow> string \<Rightarrow> string \<Rightarrow>
   ApprovalCache \<Rightarrow> ApprovalCache" where
  "ac_AddWithGeo now sourceIP ruleID proxyID tlsSessionID decision dur geoCountry geoCity geoISP c =
     gput (buildKey sourceIP ruleID tlsSessionID)
       \<lparr>e_SourceIP = sourceIP, e_RuleID = ruleID, e_ProxyID = proxyID, e_TLSSessionID = tlsSessionID,
        e_Decision = decision, e_ExpiresAt = now + dur, e_CreatedAt = now, e_LiveConns = [],
        e_GeoCountry = geoCountry, e_GeoCity = geoCity, e_GeoISP = geoISP,
        e_BytesIn = 0, e_BytesOut = 0, e_BlockedCount = 0\<rparr> c"

definition ac_Add ::
  "gotime \<Rightarrow> string \<Rightarrow> string \<Rightarrow> string \<Rightarrow> string \<Rightarrow> bool \<Rightarrow> duration \<Rightarrow> ApprovalCache \<Rightarrow> ApprovalCache" where
  "ac_Add now sourceIP ruleID proxyID tlsSessionID decision dur c =
     gput (buildKey sourceIP ruleID tlsSessionID)
       \<lparr>e_SourceIP = sourceIP, e_RuleID = ruleID, e_ProxyID = proxyID, e_TLSSessionID = tlsSessionID,
        e_Decision = decision, e_ExpiresAt = now + dur, e_CreatedAt = now, e_LiveConns = [],
        e_GeoCountry = [], e_GeoCity = [], e_GeoISP = [],
        e_BytesIn = 0, e_BytesOut = 0, e_BlockedCount = 0\<rparr> c"

definition ac_Remove :: "string \<Rightarrow> string \<Rightarrow> string \<Rightarrow> ApprovalCache \<Rightarrow> ApprovalCache" where
  "ac_Remove sourceIP ruleID tlsSessionID c = gdel (buildKey sourceIP ruleID tlsSessionID) c"

definition ac_SetConnID ::
  "string \<Rightarrow> string \<Rightarrow> string \<Rightarrow> string \<Rightarrow> counter_ptr option \<Rightarrow> counter_ptr option \<Rightarrow> ApprovalCache \<Rightarrow>
   bool \<times> ApprovalCache" where
  "ac_SetConnID sourceIP ruleID tlsSessionID connID bytesIn bytesOut c =
     (let key = buildKey sourceIP ruleID tlsSessionID in
      case gget c key of
        None \<Rightarrow> (False, c)
      | Some e \<Rightarrow>
          if length (e_LiveConns e) \<ge> MaxConnIDsPerApproval then (False, c)
          else (True, gput key (e\<lparr>e_LiveConns := gput connID \<lparr>lc_BytesIn = bytesIn, lc_BytesOut = bytesOut\<rparr>
                                                 (e_LiveConns e)\<rparr>) c))"

definition ac_RemoveConnID :: "string \<Rightarrow> string \<Rightarrow> string \<Rightarrow> string \<Rightarrow> ApprovalCache \<Rightarrow> ApprovalCache" where
  "ac_RemoveConnID sourceIP ruleID tlsSessionID connID c =
     gmod (buildKey sourceIP ruleID tlsSessionID)
       (\<lambda>e. e\<lparr>e_LiveConns := gdel connID (e_LiveConns e)\<rparr>) c"

definition load :: "counter_mem \<Rightarrow> counter_ptr option \<Rightarrow> int" where
  "load mem p = (case p of None \<Rightarrow> 0 | Some a \<Rightarrow> mem a)"

text \<open>The copy of an entry with the bytes of its live connections added, 64-bit additions.\<close>

definition live_copy :: "counter_mem \<Rightarrow> ApprovalEntry \<Rightarrow> ApprovalEntry" where
  "live_copy mem e =
     fold (\<lambda>(_, st) copy. copy\<lparr>e_BytesIn := wrap64 (e_BytesIn copy + load mem (lc_BytesIn st)),
                               e_BytesOut := wrap64 (e_BytesOut copy + load mem (lc_BytesOut st))\<rparr>)
       (e_LiveConns e) e"

definition ac_GetActiveApprovals :: "counter_mem \<Rightarrow> gotime \<Rightarrow> ApprovalCache \<Rightarrow> ApprovalEntry list" where
  "ac_GetActiveApprovals mem now c =
     map (live_copy mem) (filter (\<lambda>e. now < e_ExpiresAt e) (map snd c))"

definition ac_IncrementBlockedCount :: "string \<Rightarrow> string \<Rightarrow> string \<Rightarrow> ApprovalCache \<Rightarrow> ApprovalCache" where
  "ac_IncrementBlockedCount sourceIP ruleID tlsSessionID c =
     gmod (buildKey sourceIP ruleID tlsSessionID) (\<lambda>e. e\<lparr>e_BlockedCount := wrap32 (e_BlockedCount e + 1)\<rparr>) c"

definition ac_UpdateBytes :: "string \<Rightarrow> string \<Rightarrow> string \<Rightarrow> int \<Rightarrow> int \<Rightarrow> ApprovalCache \<Rightarrow> ApprovalCache" where
  "ac_UpdateBytes sourceIP ruleID tlsSessionID bytesIn bytesOut c =
     gmod (buildKey sourceIP ruleID tlsSessionID)
       (\<lambda>e. e\<lparr>e_BytesIn := wrap64 (e_BytesIn e + bytesIn), e_BytesOut := wrap64 (e_BytesOut e + bytesOut)\<rparr>) c"

definition ac_GetEntry :: "string \<Rightarrow> string \<Rightarrow> string \<Rightarrow> ApprovalCache \<Rightarrow> ApprovalEntry option" where
  "ac_GetEntry sourceIP ruleID tlsSessionID c = gget c (buildKey sourceIP ruleID tlsSessionID)"

section \<open>Pending requests\<close>

record ApprovalResult =
  ar_Allowed :: bool
  ar_RetentionMode :: ApprovalRetentionMode
  ar_Duration :: duration
  ar_RuleID :: string
  ar_Reason :: string

record ApprovalRequestMeta =
  m_ProxyID :: string
  m_SourceIP :: string
  m_DestAddr :: string
  m_RuleID :: string
  m_GeoCountry :: string
  m_GeoCity :: string
  m_GeoISP :: string

type_synonym chan_id = nat

record PendingRequest =
  pr_ResultCh :: chan_id
  pr_Meta :: ApprovalRequestMeta
  pr_SourceIP :: string

record ApprovalManager =
  requests :: "(string, PendingRequest) gomap"
  pendingByIP :: "(string, int) gomap"
  pendingByProxy :: "(string, int) gomap"
  maxPending :: int
  maxPendingIP :: int
  maxPendingProxy :: int
  am_cache :: ApprovalCache
  connCloser :: "string option"
  am_chans :: "(chan_id, ApprovalResult) gomap"
  am_next :: chan_id

datatype approval_error = TooManyPending | TooManyFromIP | TooManyForProxy | SendFailed | ConnectionClosed | ApprovalTimeout

definition NewApprovalManager :: ApprovalManager where
  "NewApprovalManager =
     \<lparr>requests = [], pendingByIP = [], pendingByProxy = [], maxPending = 1000, maxPendingIP = 10,
      maxPendingProxy = 200, am_cache = [], connCloser = None, am_chans = [], am_next = 0\<rparr>"

text \<open>The connection closer of the cache is a listener, named by its id.\<close>

definition SetConnectionCloser :: "string \<Rightarrow> ApprovalManager \<Rightarrow> ApprovalManager" where
  "SetConnectionCloser closer am = am\<lparr>connCloser := Some closer\<rparr>"

text \<open>Reading a Go map of counters: an absent key reads as zero.\<close>

definition gint :: "('k, int) gomap \<Rightarrow> 'k \<Rightarrow> int" where
  "gint m k = (case gget m k of None \<Rightarrow> 0 | Some n \<Rightarrow> n)"

definition decrement :: "'k \<Rightarrow> ('k, int) gomap \<Rightarrow> ('k, int) gomap" where
  "decrement k m = (if gint m k - 1 \<le> 0 then gdel k m else gput k (gint m k - 1) m)"

definition CancelApprovalRequest :: "string \<Rightarrow> ApprovalManager \<Rightarrow> ApprovalManager" where
  "CancelApprovalRequest reqID am =
     (case gget (requests am) reqID of
        None \<Rightarrow> am
      | Some req \<Rightarrow>
          am\<lparr>pendingByIP := (if pr_SourceIP req \<noteq> [] then decrement (pr_SourceIP req) (pendingByIP am) else pendingByIP am),
             pendingByProxy := (if m_ProxyID (pr_Meta req) \<noteq> []
                                then decrement (m_ProxyID (pr_Meta req)) (pendingByProxy am) else pendingByProxy am),
             requests := gdel reqID (requests am)\<rparr>)"

text \<open>\<open>begin_register\<close> is the part of \<open>BeginApprovalRequest\<close> under the mutex; \<open>sent\<close> is whether the alert
  sender accepted the alert.\<close>

definition begin_register ::
  "string \<Rightarrow> ApprovalRequestMeta \<Rightarrow> ApprovalManager \<Rightarrow> (approval_error + chan_id) \<times> ApprovalManager" where
  "begin_register reqID meta am =
     (if int (length (requests am)) \<ge> maxPending am then (Inl TooManyPending, am)
      else if gint (pendingByIP am) (m_SourceIP meta) \<ge> maxPendingIP am then (Inl TooManyFromIP, am)
      else if m_ProxyID meta \<noteq> [] \<and> gint (pendingByProxy am) (m_ProxyID meta) \<ge> maxPendingProxy am
      then (Inl TooManyForProxy, am)
      else (Inr (am_next am),
            am\<lparr>requests := gput reqID \<lparr>pr_ResultCh = am_next am, pr_Meta = meta, pr_SourceIP = m_SourceIP meta\<rparr> (requests am),
               pendingByIP := gput (m_SourceIP meta) (gint (pendingByIP am) (m_SourceIP meta) + 1) (pendingByIP am),
               pendingByProxy := (if m_ProxyID meta \<noteq> []
                 then gput (m_ProxyID meta) (gint (pendingByProxy am) (m_ProxyID meta) + 1) (pendingByProxy am)
                 else pendingByProxy am),
               am_next := am_next am + 1\<rparr>))"

definition BeginApprovalRequest ::
  "bool \<Rightarrow> string \<Rightarrow> ApprovalRequestMeta \<Rightarrow> ApprovalManager \<Rightarrow> (approval_error + chan_id) \<times> ApprovalManager" where
  "BeginApprovalRequest sent reqID meta am =
     (case begin_register reqID meta am of
        (Inl err, am') \<Rightarrow> (Inl err, am')
      | (Inr ch, am') \<Rightarrow> if sent then (Inr ch, am') else (Inl SendFailed, CancelApprovalRequest reqID am'))"

text \<open>
  The \<open>select\<close> of \<open>WaitForApproval\<close>: which of its cases fires is an input. \<open>None\<close>: the case chosen is
  not ready (the channel is empty), the call keeps waiting.
\<close>

datatype wait_event = ResultReady | ConnClosed | CtxDone

definition WaitForApproval ::
  "wait_event \<Rightarrow> chan_id \<Rightarrow> ApprovalManager \<Rightarrow> (approval_error + ApprovalResult) option \<times> ApprovalManager" where
  "WaitForApproval ev ch am =
     (case ev of
        ResultReady \<Rightarrow>
          (case gget (am_chans am) ch of
             None \<Rightarrow> (None, am)
           | Some res \<Rightarrow> (Some (Inr res), am\<lparr>am_chans := gdel ch (am_chans am)\<rparr>))
      | ConnClosed \<Rightarrow> (Some (Inl ConnectionClosed), am)
      | CtxDone \<Rightarrow> (Some (Inl ApprovalTimeout), am))"

definition ResolveWithRetention ::
  "string \<Rightarrow> bool \<Rightarrow> int \<Rightarrow> string \<Rightarrow> ApprovalRetentionMode \<Rightarrow> ApprovalManager \<Rightarrow>
   ApprovalRequestMeta option \<times> ApprovalManager" where
  "ResolveWithRetention reqID allowed durationSeconds reason retentionMode am =
     (case gget (requests am) reqID of
        None \<Rightarrow> (None, am)
      | Some req \<Rightarrow>
          (let mode = (if retentionMode = APPROVAL_RETENTION_MODE_UNSPECIFIED
                       then APPROVAL_RETENTION_MODE_CACHE else retentionMode);
               res = \<lparr>ar_Allowed = allowed, ar_RetentionMode = mode, ar_Duration = dur_seconds durationSeconds,
                      ar_RuleID = m_RuleID (pr_Meta req), ar_Reason = reason\<rparr>
           in (Some (pr_Meta req),
               if gget (am_chans am) (pr_ResultCh req) = None
               then am\<lparr>am_chans := gput (pr_ResultCh req) res (am_chans am)\<rparr> else am)))"

definition Resolve ::
  "string \<Rightarrow> bool \<Rightarrow> int \<Rightarrow> string \<Rightarrow> ApprovalManager \<Rightarrow> ApprovalRequestMeta option \<times> ApprovalManager" where
  "Resolve reqID allowed durationSeconds reason am =
     ResolveWithRetention reqID allowed durationSeconds reason APPROVAL_RETENTION_MODE_CACHE am"

text \<open>The synchronous variant: begin, wait, and the deferred cancel.\<close>

definition RequestApproval ::
  "bool \<Rightarrow> (ApprovalManager \<Rightarrow> ApprovalManager) \<Rightarrow> wait_event \<Rightarrow> string \<Rightarrow> ApprovalRequestMeta \<Rightarrow> ApprovalManager \<Rightarrow>
   (approval_error + ApprovalResult) option \<times> ApprovalManager" where
  "RequestApproval sent others ev reqID meta am =
     (case BeginApprovalRequest sent reqID meta am of
        (Inl err, am1) \<Rightarrow> (Some (Inl err), am1)
      | (Inr ch, am1) \<Rightarrow>
          (case WaitForApproval ev ch (others am1) of
             (None, am2) \<Rightarrow> (None, am2)
           | (Some r, am2) \<Rightarrow> (Some r, CancelApprovalRequest reqID am2)))"

section \<open>Keys\<close>

lemma append_sep_eq:
  "c \<notin> set a \<Longrightarrow> c \<notin> set a' \<Longrightarrow> a @ c # b = a' @ c # b' \<longleftrightarrow> a = a' \<and> b = b'"
proof (induction a arbitrary: a')
  case Nil
  then show ?case by (cases a') auto
next
  case (Cons x a)
  then show ?case by (cases a') auto
qed

lemma buildKey_inject:
  assumes "CHR 0x00 \<notin> set ip" "CHR 0x00 \<notin> set ip'" "CHR 0x00 \<notin> set rule" "CHR 0x00 \<notin> set rule'"
  shows "buildKey ip rule sess = buildKey ip' rule' sess' \<longleftrightarrow> ip = ip' \<and> rule = rule' \<and> sess = sess'"
  using assms by (auto simp: buildKey_def KeySeparator_def append_sep_eq split: if_splits)

section \<open>The cache is a store with expiry\<close>

lemma ac_Check_cleanup:
  "gwf c \<Longrightarrow> t \<le> now \<Longrightarrow> ac_Check (snd (ac_cleanup t c)) q now = ac_Check c q now"
  by (auto simp: ac_Check_def ac_cleanup_def split: option.split prod.split)

interpretation ac: swept_store ac_Check "\<lambda>t c. snd (ac_cleanup t c)" gwf
  by unfold_locales (auto simp: ac_Check_cleanup, simp add: ac_cleanup_def gwf_gkeep)

section \<open>The pending counters are exact\<close>

definition by_ip :: "string \<Rightarrow> PendingRequest \<Rightarrow> bool" where
  "by_ip ip r = (pr_SourceIP r = ip)"

definition by_proxy :: "string \<Rightarrow> PendingRequest \<Rightarrow> bool" where
  "by_proxy p r = (m_ProxyID (pr_Meta r) = p)"

definition counts_exact :: "(string \<Rightarrow> PendingRequest \<Rightarrow> bool) \<Rightarrow> (string, int) gomap \<Rightarrow> (string, PendingRequest) gomap \<Rightarrow> bool" where
  "counts_exact sel cnt reqs = (\<forall>k. k \<noteq> [] \<longrightarrow> gint cnt k = int (gcount (sel k) reqs))"

definition am_ok :: "ApprovalManager \<Rightarrow> bool" where
  "am_ok am =
     (gwf (requests am) \<and>
      counts_exact by_ip (pendingByIP am) (requests am) \<and>
      counts_exact by_proxy (pendingByProxy am) (requests am) \<and>
      int (length (requests am)) \<le> maxPending am \<and>
      (\<forall>ip. ip \<noteq> [] \<longrightarrow> gint (pendingByIP am) ip \<le> maxPendingIP am) \<and>
      (\<forall>p. p \<noteq> [] \<longrightarrow> gint (pendingByProxy am) p \<le> maxPendingProxy am) \<and>
      0 \<le> maxPendingIP am \<and> 0 \<le> maxPendingProxy am)"

lemma gint_gput [simp]: "gint (gput k n m) k' = (if k' = k then n else gint m k')"
  by (simp add: gint_def)

lemma gint_gdel [simp]: "gint (gdel k m) k' = (if k' = k then 0 else gint m k')"
  by (simp add: gint_def)

lemma gint_decrement: "gint (decrement k m) k' = (if k' = k then max 0 (gint m k - 1) else gint m k')"
  by (auto simp: decrement_def)

lemma counts_exact_add:
  assumes "counts_exact sel cnt reqs" "gget reqs reqID = None"
    and "\<And>k'. k' \<noteq> [] \<Longrightarrow> sel k' r \<longleftrightarrow> k' = k"
  shows "counts_exact sel (if k \<noteq> [] then gput k (gint cnt k + 1) cnt else cnt) (gput reqID r reqs)"
    and "counts_exact sel (gput k (gint cnt k + 1) cnt) (gput reqID r reqs)"
  using assms by (auto simp: counts_exact_def gcount_gput)

lemma counts_exact_del:
  assumes "counts_exact sel cnt reqs" "gwf reqs" "gget reqs reqID = Some r"
    and "\<And>k'. k' \<noteq> [] \<Longrightarrow> sel k' r \<longleftrightarrow> k' = k"
  shows "counts_exact sel (if k \<noteq> [] then decrement k cnt else cnt) (gdel reqID reqs)"
proof -
  have "gcount (sel k') reqs = gcount (sel k') (gdel reqID reqs) + (if k' = k then 1 else 0)" if "k' \<noteq> []" for k'
    using gcount_gdel [OF assms(2,3), of "sel k'"] assms(4) [OF that] by simp
  then show ?thesis
    using assms(1) by (auto simp: counts_exact_def gint_decrement)
qed

lemma am_ok_New [inv_intros]: "am_ok NewApprovalManager"
  by (simp add: am_ok_def NewApprovalManager_def counts_exact_def gint_def)

lemma am_ok_register:
  assumes "am_ok am" "gget (requests am) reqID = None"
  shows "am_ok (snd (begin_register reqID meta am))"
proof -
  define r where "r = \<lparr>pr_ResultCh = am_next am, pr_Meta = meta, pr_SourceIP = m_SourceIP meta\<rparr>"
  have "counts_exact by_ip (gput (m_SourceIP meta) (gint (pendingByIP am) (m_SourceIP meta) + 1) (pendingByIP am))
          (gput reqID r (requests am))"
    using assms by (intro counts_exact_add) (auto simp: am_ok_def by_ip_def r_def)
  moreover have "counts_exact by_proxy
      (if m_ProxyID meta \<noteq> [] then gput (m_ProxyID meta) (gint (pendingByProxy am) (m_ProxyID meta) + 1) (pendingByProxy am)
       else pendingByProxy am) (gput reqID r (requests am))"
    using assms by (intro counts_exact_add) (auto simp: am_ok_def by_proxy_def r_def)
  ultimately show ?thesis
    using assms by (auto simp: begin_register_def am_ok_def length_gput simp flip: r_def)
qed

lemma am_ok_Cancel [inv_intros]:
  assumes "am_ok am"
  shows "am_ok (CancelApprovalRequest reqID am)"
proof (cases "gget (requests am) reqID")
  case (Some r)
  have "counts_exact by_ip (if pr_SourceIP r \<noteq> [] then decrement (pr_SourceIP r) (pendingByIP am) else pendingByIP am)
          (gdel reqID (requests am))"
    using assms Some by (intro counts_exact_del) (auto simp: am_ok_def by_ip_def)
  moreover have "counts_exact by_proxy
      (if m_ProxyID (pr_Meta r) \<noteq> [] then decrement (m_ProxyID (pr_Meta r)) (pendingByProxy am) else pendingByProxy am)
      (gdel reqID (requests am))"
    using assms Some by (intro counts_exact_del) (auto simp: am_ok_def by_proxy_def)
  moreover have "length (gdel reqID (requests am)) \<le> length (requests am)"
    using assms by (intro gm.len_del_le) (simp add: am_ok_def)
  moreover have "gint m k - 1 \<le> n \<longrightarrow> max 0 (gint m k - 1) \<le> n" if "0 \<le> n" for m :: "(string, int) gomap" and k n
    using that by simp
  ultimately show ?thesis
    using assms by (auto simp: CancelApprovalRequest_def am_ok_def Some gint_decrement)
qed (use assms in \<open>simp add: CancelApprovalRequest_def\<close>)

lemma am_ok_Begin [inv_intros]:
  "am_ok am \<Longrightarrow> gget (requests am) reqID = None \<Longrightarrow> am_ok (snd (BeginApprovalRequest sent reqID meta am))"
  using am_ok_register [of am reqID meta]
  by (auto simp: BeginApprovalRequest_def am_ok_Cancel split: prod.split sum.split)

lemma am_ok_Resolve [inv_intros]: "am_ok am \<Longrightarrow> am_ok (snd (ResolveWithRetention reqID a d r m am))"
  by (auto simp: ResolveWithRetention_def am_ok_def Let_def split: option.split)

lemma am_ok_Wait [inv_intros]: "am_ok am \<Longrightarrow> am_ok (snd (WaitForApproval ev ch am))"
  by (auto simp: WaitForApproval_def am_ok_def split: wait_event.split option.split)

text \<open>Every call of the manager's interface; request ids are fresh (the caller uses a new UUID).\<close>

inductive am_step :: "ApprovalManager \<Rightarrow> ApprovalManager \<Rightarrow> bool" where
  begin_req: "gget (requests am) reqID = None \<Longrightarrow> am_step am (snd (BeginApprovalRequest sent reqID meta am))"
| cancel: "am_step am (CancelApprovalRequest reqID am)"
| resolve: "am_step am (snd (ResolveWithRetention reqID a d r m am))"
| wait: "am_step am (snd (WaitForApproval ev ch am))"
| cache_op: "am_step am (am\<lparr>am_cache := c\<rparr>)"
| closer: "am_step am (SetConnectionCloser p am)"

inductive am_reachable :: "ApprovalManager \<Rightarrow> bool" where
  init: "am_reachable NewApprovalManager"
| step: "am_reachable am \<Longrightarrow> am_step am am' \<Longrightarrow> am_reachable am'"

inductive_cases am_stepE: "am_step am am'"

definition same_limits :: "ApprovalManager \<Rightarrow> ApprovalManager \<Rightarrow> bool" where
  "same_limits am am' = (maxPending am' = maxPending am \<and> maxPendingIP am' = maxPendingIP am \<and>
                         maxPendingProxy am' = maxPendingProxy am)"

lemma same_limits_Cancel: "same_limits am (CancelApprovalRequest reqID am)"
  by (auto simp: same_limits_def CancelApprovalRequest_def split: option.split)

lemma am_step_limits: "am_step am am' \<Longrightarrow> same_limits am am'"
  using same_limits_Cancel
  by (elim am_stepE)
     (auto simp: same_limits_def BeginApprovalRequest_def begin_register_def ResolveWithRetention_def
       WaitForApproval_def SetConnectionCloser_def CancelApprovalRequest_def Let_def
       split: option.split sum.split prod.split wait_event.split)

lemma am_step_ok: "am_step am am' \<Longrightarrow> am_ok am \<Longrightarrow> am_ok am'"
  by (elim am_stepE) (auto intro: inv_intros simp: SetConnectionCloser_def, auto simp: am_ok_def)

lemma am_reachable_ok:
  "am_reachable am \<Longrightarrow> am_ok am \<and> same_limits NewApprovalManager am"
  by (induction rule: am_reachable.induct)
     (use am_step_limits am_step_ok in \<open>auto simp: am_ok_New same_limits_def\<close>)

section \<open>Decisions\<close>

definition resolve_all ::
  "(string \<times> bool \<times> int \<times> string \<times> ApprovalRetentionMode) list \<Rightarrow> ApprovalManager \<Rightarrow> ApprovalManager" where
  "resolve_all = fold (\<lambda>(reqID, a, d, r, m) am. snd (ResolveWithRetention reqID a d r m am))"

lemma Resolve_keeps_full:
  "gget (am_chans am) ch = Some res \<Longrightarrow> gget (am_chans (snd (ResolveWithRetention reqID a d r m am))) ch = Some res"
  by (auto simp: ResolveWithRetention_def Let_def split: option.split)

lemma resolve_all_keeps_full:
  "gget (am_chans am) ch = Some res \<Longrightarrow> gget (am_chans (resolve_all ds am)) ch = Some res"
  unfolding resolve_all_def
  by (induction ds arbitrary: am) (auto simp: Resolve_keeps_full)

lemma mem_to_close:
  "gwf c \<Longrightarrow> (p, connID) \<in> set (fst (ac_cleanup now c)) \<longleftrightarrow>
     (\<exists>k e. gget c k = Some e \<and> now > e_ExpiresAt e \<and> e_Decision e \<and> e_ProxyID e = p \<and>
            connID \<in> fst ` set (e_LiveConns e))"
proof -
  assume wf: "gwf c"
  have "(p, connID) \<in> set (fst (ac_cleanup now c)) \<longleftrightarrow>
     (\<exists>k e. (k, e) \<in> set c \<and> now > e_ExpiresAt e \<and> e_Decision e \<and> e_ProxyID e = p \<and>
            connID \<in> fst ` set (e_LiveConns e))"
    by (force simp: ac_cleanup_def split: if_splits)
  then show ?thesis by (simp add: gwf_mem_iff [OF wf])
qed

section \<open>Properties\<close>

text \<open>(C9) In every state the manager can reach the limits on pending requests hold (1000 in all, 10 per
  source address, 200 per proxy) and the counters that enforce them are exact: each is the number of
  requests pending for its address or proxy.\<close>

theorem pending_limits_and_exact_counters:
  assumes "am_reachable am"
  shows "length (requests am) \<le> 1000 \<and>
         (\<forall>ip. ip \<noteq> [] \<longrightarrow> gint (pendingByIP am) ip = int (gcount (\<lambda>r. pr_SourceIP r = ip) (requests am)) \<and>
                          gcount (\<lambda>r. pr_SourceIP r = ip) (requests am) \<le> 10) \<and>
         (\<forall>p. p \<noteq> [] \<longrightarrow> gint (pendingByProxy am) p = int (gcount (\<lambda>r. m_ProxyID (pr_Meta r) = p) (requests am)) \<and>
                         gcount (\<lambda>r. m_ProxyID (pr_Meta r) = p) (requests am) \<le> 200)"
proof -
  have ok: "am_ok am" and lim: "maxPending am = 1000" "maxPendingIP am = 10" "maxPendingProxy am = 200"
    using am_reachable_ok [OF assms] by (simp_all add: same_limits_def NewApprovalManager_def)
  have sel: "by_ip ip = (\<lambda>r. pr_SourceIP r = ip)" "by_proxy p = (\<lambda>r. m_ProxyID (pr_Meta r) = p)" for ip p
    by (simp_all add: by_ip_def by_proxy_def fun_eq_iff)
  have "gint (pendingByIP am) ip = int (gcount (by_ip ip) (requests am)) \<and> gcount (by_ip ip) (requests am) \<le> 10"
    if "ip \<noteq> []" for ip
    using ok that lim by (fastforce simp: am_ok_def counts_exact_def)
  moreover have "gint (pendingByProxy am) p = int (gcount (by_proxy p) (requests am)) \<and>
                 gcount (by_proxy p) (requests am) \<le> 200" if "p \<noteq> []" for p
    using ok that lim by (fastforce simp: am_ok_def counts_exact_def)
  moreover have "length (requests am) \<le> 1000"
    using ok lim by (simp add: am_ok_def)
  ultimately show ?thesis by (simp add: sel)
qed

definition demo_meta :: ApprovalRequestMeta where
  "demo_meta = \<lparr>m_ProxyID = ''p'', m_SourceIP = ''10.0.0.1'', m_DestAddr = [], m_RuleID = ''r'', m_GeoCountry = [],
     m_GeoCity = [], m_GeoISP = []\<rparr>"

lemma pending_limits_witness:
  "let am = snd (BeginApprovalRequest True ''a'' demo_meta NewApprovalManager)
   in length (requests am) = 1 \<and> gint (pendingByIP am) ''10.0.0.1'' = 1 \<and>
      gcount (\<lambda>r. pr_SourceIP r = ''10.0.0.1'') (requests am) \<le> 10"
proof -
  have "am_reachable (snd (BeginApprovalRequest True ''a'' demo_meta NewApprovalManager))"
    by (rule am_reachable.step [OF am_reachable.init am_step.begin_req]) (simp add: NewApprovalManager_def)
  from pending_limits_and_exact_counters [OF this] show ?thesis
    by (simp add: Let_def BeginApprovalRequest_def begin_register_def NewApprovalManager_def demo_meta_def gint_def)
qed

text \<open>(C30) The first decision wins: once a pending request has been resolved, whatever further decisions
  arrive (for this or other requests), the waiting connection receives the first one, with its duration
  in nanoseconds and an unspecified retention mode read as the cache mode.\<close>

theorem first_decision_wins:
  assumes "gget (requests am) reqID = Some req" and "gget (am_chans am) (pr_ResultCh req) = None"
    and "am1 = snd (ResolveWithRetention reqID a d r m am)"
  shows "fst (WaitForApproval ResultReady (pr_ResultCh req) (resolve_all ds am1)) =
           Some (Inr \<lparr>ar_Allowed = a,
                      ar_RetentionMode = (if m = APPROVAL_RETENTION_MODE_UNSPECIFIED then APPROVAL_RETENTION_MODE_CACHE else m),
                      ar_Duration = dur_seconds d, ar_RuleID = m_RuleID (pr_Meta req), ar_Reason = r\<rparr>)"
proof -
  have "gget (am_chans am1) (pr_ResultCh req) =
          Some \<lparr>ar_Allowed = a,
                ar_RetentionMode = (if m = APPROVAL_RETENTION_MODE_UNSPECIFIED then APPROVAL_RETENTION_MODE_CACHE else m),
                ar_Duration = dur_seconds d, ar_RuleID = m_RuleID (pr_Meta req), ar_Reason = r\<rparr>"
    using assms by (simp add: ResolveWithRetention_def Let_def)
  then show ?thesis
    using resolve_all_keeps_full [of am1 "pr_ResultCh req" _ ds] by (simp add: WaitForApproval_def)
qed

lemma first_decision_wins_witness:
  "let am = snd (BeginApprovalRequest True ''a'' demo_meta NewApprovalManager);
       am1 = snd (ResolveWithRetention ''a'' False 60 [] APPROVAL_RETENTION_MODE_CACHE am)
   in fst (WaitForApproval ResultReady 0
             (resolve_all [(''a'', True, 3600, [], APPROVAL_RETENTION_MODE_CACHE)] am1)) =
      Some (Inr \<lparr>ar_Allowed = False, ar_RetentionMode = APPROVAL_RETENTION_MODE_CACHE, ar_Duration = dur_seconds 60,
                 ar_RuleID = ''r'', ar_Reason = []\<rparr>)"
  using first_decision_wins [of "snd (BeginApprovalRequest True ''a'' demo_meta NewApprovalManager)" "''a''"
      "\<lparr>pr_ResultCh = 0, pr_Meta = demo_meta, pr_SourceIP = ''10.0.0.1''\<rparr>" _ False 60 "[]"
      APPROVAL_RETENTION_MODE_CACHE "[(''a'', True, 3600, [], APPROVAL_RETENTION_MODE_CACHE)]", OF _ _ refl]
  by (simp add: Let_def BeginApprovalRequest_def begin_register_def NewApprovalManager_def demo_meta_def gint_def)

text \<open>(C19) A cached decision holds for its own address, rule and TLS session, until exactly its expiry,
  and leaves every other entry alone: the keys of different triples differ when addresses and rule ids
  contain no NUL byte.\<close>

theorem cached_decision_scope:
  assumes "CHR 0x00 \<notin> set ip" "CHR 0x00 \<notin> set ip'" "CHR 0x00 \<notin> set rule" "CHR 0x00 \<notin> set rule'"
  shows "ac_Check (ac_AddWithGeo now ip rule proxy sess decision dur country city isp c) (ip', rule', sess') t =
           (if ip' = ip \<and> rule' = rule \<and> sess' = sess
            then (if t < now + dur then (True, decision) else (False, False))
            else ac_Check c (ip', rule', sess') t)"
  using buildKey_inject [OF assms(2,1,4,3), of sess' sess] by (simp add: ac_Check_def ac_AddWithGeo_def)

lemma cached_decision_scope_witness:
  "ac_Check (ac_AddWithGeo 0 ''10.0.0.1'' ''r'' ''p'' ''s'' True second [] [] [] []) (''10.0.0.1'', ''r'', ''s'') 5 = (True, True) \<and>
   ac_Check (ac_AddWithGeo 0 ''10.0.0.1'' ''r'' ''p'' ''s'' True second [] [] [] []) (''10.0.0.1'', ''r'', []) 5 = (False, False)"
  using cached_decision_scope [of "''10.0.0.1''" "''10.0.0.1''" "''r''" "''r''" 0 "''p''" "''s''" True second "[]" "[]" "[]" "[]" "''s''" 5]
    cached_decision_scope [of "''10.0.0.1''" "''10.0.0.1''" "''r''" "''r''" 0 "''p''" "''s''" True second "[]" "[]" "[]" "[]" "[]" 5]
  by (simp add: second_def ac_Check_def)


definition demo_cache :: ApprovalCache where
  "demo_cache = snd (ac_SetConnID ''10.0.0.1'' ''r'' [] ''c1'' None None
     (ac_AddWithGeo 0 ''10.0.0.1'' ''r'' ''p'' [] True second [] [] [] []))"


text \<open>A second approval under the same key replaces the entry and forgets the connections registered
  under the first one: such a connection is closed by no later cleanup.\<close>

theorem reapproval_forgets_live_connections:
  assumes "gwf c" and "\<And>k e. gget c k = Some e \<Longrightarrow> connID \<notin> fst ` set (e_LiveConns e)"
    and "c1 = snd (ac_SetConnID ip rule sess connID bi bo c)"
    and "c2 = ac_AddWithGeo now ip rule proxy sess True dur country city isp c1"
  shows "(p, connID) \<notin> set (fst (ac_cleanup t c2))"
proof -
  define key where "key = buildKey ip rule sess"
  have c1: "gwf c1" and other: "k \<noteq> key \<Longrightarrow> gget c1 k = gget c k" for k
    using assms(1,3) by (auto simp: ac_SetConnID_def key_def Let_def split: option.split)
  have c2: "gwf c2" and g2: "gget c2 k = (if k = key then gget c2 key else gget c k)" for k
    using c1 other [of k] by (auto simp: assms(4) ac_AddWithGeo_def key_def)
  have "\<exists>e. gget c2 key = Some e \<and> e_LiveConns e = []"
    by (simp add: assms(4) ac_AddWithGeo_def key_def)
  then have "connID \<notin> fst ` set (e_LiveConns e)" if "gget c2 k = Some e" for k e
    using that assms(2) [of k e] g2 [of k] by (cases "k = key") auto
  then show ?thesis
    using mem_to_close [OF c2, of p connID t] by blast
qed

lemma reapproval_forgets_live_connections_witness:
  "(''p'', ''c1'') \<in> set (fst (ac_cleanup (3 * second) demo_cache)) \<and>
   (''p'', ''c1'') \<notin> set (fst (ac_cleanup (3 * second)
      (ac_AddWithGeo second ''10.0.0.1'' ''r'' ''p'' [] True second [] [] [] demo_cache)))"
proof -
  define c where "c = ac_AddWithGeo 0 ''10.0.0.1'' ''r'' ''p'' [] True second [] [] [] []"
  have wf: "gwf c" and none: "gget c k = Some e \<Longrightarrow> ''c1'' \<notin> fst ` set (e_LiveConns e)" for k e
    by (auto simp: c_def ac_AddWithGeo_def gwf_def split: if_splits)
  have "demo_cache = snd (ac_SetConnID ''10.0.0.1'' ''r'' [] ''c1'' None None c)"
    by (simp add: demo_cache_def c_def)
  from reapproval_forgets_live_connections [OF wf none this refl]
  have "(''p'', ''c1'') \<notin> set (fst (ac_cleanup (3 * second)
      (ac_AddWithGeo second ''10.0.0.1'' ''r'' ''p'' [] True second [] [] [] demo_cache)))" .
  moreover have "(''p'', ''c1'') \<in> set (fst (ac_cleanup (3 * second) demo_cache))"
    by (simp add: demo_cache_def ac_SetConnID_def ac_AddWithGeo_def ac_cleanup_def Let_def
        MaxConnIDsPerApproval_def second_def)
  ultimately show ?thesis by blast
qed

definition request_cycle :: "string \<Rightarrow> ApprovalRequestMeta \<Rightarrow> ApprovalManager \<Rightarrow> ApprovalManager" where
  "request_cycle reqID meta am = CancelApprovalRequest reqID (snd (BeginApprovalRequest True reqID meta am))"

lemma request_cycle_leak:
  assumes "requests am = []" "m_SourceIP meta = []" "gint (pendingByIP am) [] < maxPendingIP am"
    and "\<forall>p. gint (pendingByProxy am) p = 0" "0 < maxPendingProxy am" "0 < maxPending am"
  shows "requests (request_cycle reqID meta am) = []"
    and "gint (pendingByIP (request_cycle reqID meta am)) [] = gint (pendingByIP am) [] + 1"
    and "\<forall>p. gint (pendingByProxy (request_cycle reqID meta am)) p = 0"
    and "same_limits am (request_cycle reqID meta am)"
  using assms
  by (auto simp: request_cycle_def BeginApprovalRequest_def begin_register_def CancelApprovalRequest_def
      gint_decrement same_limits_def)

lemma request_cycles_leak:
  assumes "m_SourceIP meta = []" "n \<le> 10"
  shows "requests ((request_cycle reqID meta ^^ n) NewApprovalManager) = [] \<and>
         gint (pendingByIP ((request_cycle reqID meta ^^ n) NewApprovalManager)) [] = int n \<and>
         (\<forall>p. gint (pendingByProxy ((request_cycle reqID meta ^^ n) NewApprovalManager)) p = 0) \<and>
         same_limits NewApprovalManager ((request_cycle reqID meta ^^ n) NewApprovalManager)"
  using assms(2)
proof (induction n)
  case 0
  then show ?case by (simp add: NewApprovalManager_def gint_def same_limits_def)
next
  case (Suc n)
  define am where "am = (request_cycle reqID meta ^^ n) NewApprovalManager"
  have ih: "requests am = []" "gint (pendingByIP am) [] = int n" "\<forall>p. gint (pendingByProxy am) p = 0"
      "same_limits NewApprovalManager am"
    using Suc by (simp_all add: am_def)
  then have lim: "maxPendingIP am = 10" "maxPendingProxy am = 200" "maxPending am = 1000"
    by (simp_all add: same_limits_def NewApprovalManager_def)
  have "(request_cycle reqID meta ^^ Suc n) NewApprovalManager = request_cycle reqID meta am"
    by (simp add: am_def)
  then show ?case
    using request_cycle_leak [OF ih(1) assms(1) _ ih(3), of reqID] ih(2,4) lim Suc.prems
    by (simp add: same_limits_def)
qed

text \<open>A request without a source address is never given back to the counter: \<open>CancelApprovalRequest\<close>
  skips the empty address that \<open>BeginApprovalRequest\<close> counted. After ten such requests have been
  cancelled nothing is pending, and every further request without a source address is refused.\<close>

theorem empty_source_address_leaks_slots:
  assumes "m_SourceIP meta = []" and "m_SourceIP meta' = []"
    and "am = (request_cycle reqID meta ^^ 10) NewApprovalManager"
  shows "requests am = [] \<and> BeginApprovalRequest sent reqID' meta' am = (Inl TooManyFromIP, am)"
  using request_cycles_leak [OF assms(1), of 10 reqID] assms(2)
  by (simp add: assms(3) BeginApprovalRequest_def begin_register_def same_limits_def NewApprovalManager_def)

lemma empty_source_address_leaks_slots_witness:
  "fst (BeginApprovalRequest True ''b'' (demo_meta\<lparr>m_SourceIP := []\<rparr>)
          ((request_cycle ''a'' (demo_meta\<lparr>m_SourceIP := []\<rparr>) ^^ 10) NewApprovalManager)) = Inl TooManyFromIP"
  using empty_source_address_leaks_slots [of "demo_meta\<lparr>m_SourceIP := []\<rparr>" "demo_meta\<lparr>m_SourceIP := []\<rparr>" _ "''a''"
      True "''b''", OF _ _ refl]
  by simp

end
