(* ===== verification/Cleanup.thy ===== *)
theory Cleanup
  imports Nitella_Prelude
begin

text \<open>
  The periodic task runner of \<^verbatim>\<open>pkg/node/cleanup.go\<close>. A task is a function on the state it cleans, run at
  the tick's time; the way \<open>runTaskWithTimeout\<close> ends (done, slow, or abandoned because the manager stops)
  is an input.
\<close>

section \<open>State and operations\<close>

record 's CleanupTask =
  ct_Name :: string
  ct_Interval :: duration
  ct_Fn :: "gotime \<Rightarrow> 's \<Rightarrow> 's"
  ct_lastRun :: gotime

record 's CleanupManager =
  cm_tasks :: "'s CleanupTask list"
  cm_tickInterval :: duration
  cm_taskTimeout :: duration
  cm_stopped :: bool

definition NewCleanupManager :: "duration \<Rightarrow> 's CleanupManager" where
  "NewCleanupManager tickInterval =
     \<lparr>cm_tasks = [], cm_tickInterval = (if tickInterval \<le> 0 then 1 * second else tickInterval),
      cm_taskTimeout = 30 * second, cm_stopped = False\<rparr>"

definition SetTaskTimeout :: "duration \<Rightarrow> 's CleanupManager \<Rightarrow> 's CleanupManager" where
  "SetTaskTimeout timeout cm = cm\<lparr>cm_taskTimeout := timeout\<rparr>"

definition Register :: "string \<Rightarrow> duration \<Rightarrow> (gotime \<Rightarrow> 's \<Rightarrow> 's) \<Rightarrow> 's CleanupManager \<Rightarrow> 's CleanupManager" where
  "Register name interval fn cm =
     cm\<lparr>cm_tasks := cm_tasks cm @ [\<lparr>ct_Name = name, ct_Interval = interval, ct_Fn = fn, ct_lastRun = 0\<rparr>]\<rparr>"

definition cm_Stop :: "'s CleanupManager \<Rightarrow> 's CleanupManager" where
  "cm_Stop cm = cm\<lparr>cm_stopped := True\<rparr>"

text \<open>
  \<open>Done\<close> and \<open>Slow\<close> return after the task has finished (\<open>Slow\<close> logs a warning when the timeout passes);
  \<open>Abandoned\<close> returns at once because the manager is stopping.
\<close>

datatype task_outcome = Done | Slow | Abandoned

definition runTaskWithTimeout :: "task_outcome \<Rightarrow> gotime \<Rightarrow> 's CleanupTask \<Rightarrow> 's \<Rightarrow> 's" where
  "runTaskWithTimeout outcome now task s =
     (case outcome of Done \<Rightarrow> ct_Fn task now s | Slow \<Rightarrow> ct_Fn task now s | Abandoned \<Rightarrow> s)"

definition task_due :: "gotime \<Rightarrow> 's CleanupTask \<Rightarrow> bool" where
  "task_due now task = (time_sub now (ct_lastRun task) \<ge> ct_Interval task)"

fun run_tasks :: "(string \<Rightarrow> task_outcome) \<Rightarrow> gotime \<Rightarrow> 's CleanupTask list \<Rightarrow> 's \<Rightarrow> 's CleanupTask list \<times> 's" where
  "run_tasks oc now [] s = ([], s)"
| "run_tasks oc now (task # tasks) s =
     (if task_due now task then
        (case run_tasks oc now tasks (runTaskWithTimeout (oc (ct_Name task)) now task s) of
           (tasks', s') \<Rightarrow> (task\<lparr>ct_lastRun := now\<rparr> # tasks', s'))
      else
        (case run_tasks oc now tasks s of (tasks', s') \<Rightarrow> (task # tasks', s')))"

definition runDueTasks :: "(string \<Rightarrow> task_outcome) \<Rightarrow> gotime \<Rightarrow> 's CleanupManager \<Rightarrow> 's \<Rightarrow> 's CleanupManager \<times> 's" where
  "runDueTasks oc now cm s =
     (case run_tasks oc now (cm_tasks cm) s of (tasks', s') \<Rightarrow> (cm\<lparr>cm_tasks := tasks'\<rparr>, s'))"

text \<open>One iteration of \<open>loop\<close>: a tick runs the due tasks, a closed stop channel ends the loop.\<close>

definition cm_tick :: "(string \<Rightarrow> task_outcome) \<Rightarrow> gotime \<Rightarrow> 's CleanupManager \<times> 's \<Rightarrow> 's CleanupManager \<times> 's" where
  "cm_tick oc now = (\<lambda>(cm, s). if cm_stopped cm then (cm, s) else runDueTasks oc now cm s)"

definition next_run_in :: "gotime \<Rightarrow> 's CleanupTask \<Rightarrow> duration" where
  "next_run_in now task = wrap64 (ct_Interval task - time_sub now (ct_lastRun task))"

section \<open>When a task runs\<close>

text \<open>\<open>last_run\<close> follows one task through the ticks; \<open>run_at\<close> are the ticks at which it runs.\<close>

fun last_run :: "duration \<Rightarrow> gotime list \<Rightarrow> gotime \<Rightarrow> gotime" where
  "last_run i [] l = l"
| "last_run i (t # ts) l = last_run i ts (if time_sub t l \<ge> i then t else l)"

fun run_at :: "duration \<Rightarrow> gotime list \<Rightarrow> gotime \<Rightarrow> gotime list" where
  "run_at i [] l = []"
| "run_at i (t # ts) l = (if time_sub t l \<ge> i then t # run_at i ts t else run_at i ts l)"

lemma run_tasks_tasks:
  "fst (run_tasks oc now tasks s) = map (\<lambda>k. if task_due now k then k\<lparr>ct_lastRun := now\<rparr> else k) tasks"
  by (induction tasks arbitrary: s) (simp_all add: case_prod_beta)

lemma cm_ticks_tasks:
  "\<not> cm_stopped cm \<Longrightarrow>
     cm_tasks (fst (fold (cm_tick oc) ts (cm, s))) =
       map (\<lambda>k. k\<lparr>ct_lastRun := last_run (ct_Interval k) ts (ct_lastRun k)\<rparr>) (cm_tasks cm)"
proof (induction ts arbitrary: cm s)
  case (Cons t ts)
  obtain cm1 s1 where tick: "cm_tick oc t (cm, s) = (cm1, s1)" by fastforce
  have cm1: "cm1 = cm\<lparr>cm_tasks := map (\<lambda>k. if task_due t k then k\<lparr>ct_lastRun := t\<rparr> else k) (cm_tasks cm)\<rparr>"
    using tick Cons.prems run_tasks_tasks [of oc t "cm_tasks cm" s]
    by (auto simp: cm_tick_def runDueTasks_def split: prod.splits)
  then show ?case
    using Cons.IH [of cm1 s1] Cons.prems tick by (simp add: task_due_def)
qed simp

lemma run_at_spaced: "successively (\<lambda>a b. time_sub b a \<ge> i) (l # run_at i ts l)"
proof (induction ts arbitrary: l)
  case (Cons t ts)
  then show ?case by (simp add: successively_Cons)
qed simp

lemma last_run_recent: "0 < i \<Longrightarrow> time_sub t (last_run i (ts @ [t]) l) < i"
  by (induction ts arbitrary: l) (auto simp: time_sub_exact)

text \<open>A task that records the times at which it runs.\<close>

definition recorder :: "duration \<Rightarrow> gotime \<Rightarrow> gotime list CleanupTask" where
  "recorder i l = \<lparr>ct_Name = ''recorder'', ct_Interval = i, ct_Fn = (\<lambda>now log. log @ [now]), ct_lastRun = l\<rparr>"

lemma recorder_ticks:
  assumes "oc ''recorder'' \<noteq> Abandoned" "\<not> cm_stopped cm" "cm_tasks cm = [recorder i l]"
  shows "snd (fold (cm_tick oc) ts (cm, log)) = log @ run_at i ts l"
  using assms(2,3)
proof (induction ts arbitrary: cm log l)
  case (Cons t ts)
  have run: "runTaskWithTimeout (oc ''recorder'') t (recorder i l) log = log @ [t]"
    using assms(1) by (cases "oc ''recorder''") (auto simp: runTaskWithTimeout_def recorder_def)
  show ?case
    using Cons.IH [of "cm\<lparr>cm_tasks := [recorder i t]\<rparr>" t "log @ [t]"] Cons.IH [of "cm\<lparr>cm_tasks := [recorder i l]\<rparr>" l log] Cons.prems run
    by (auto simp: cm_tick_def runDueTasks_def task_due_def recorder_def)
qed simp

section \<open>Properties\<close>

text \<open>A task is never overdue after a tick: whatever ticks came before, after the tick at time \<open>t\<close> every
  task with a positive interval has run less than its interval ago.\<close>

theorem no_task_overdue_after_tick:
  assumes "\<not> cm_stopped cm"
    and "task \<in> set (cm_tasks (fst (fold (cm_tick oc) (ts @ [t]) (cm, s))))"
    and "0 < ct_Interval task"
  shows "\<not> task_due t task"
proof -
  obtain k where k: "k \<in> set (cm_tasks cm)"
      "task = k\<lparr>ct_lastRun := last_run (ct_Interval k) (ts @ [t]) (ct_lastRun k)\<rparr>"
    using assms(2) by (auto simp only: cm_ticks_tasks [OF assms(1)] set_map)
  then show ?thesis
    using assms(3) last_run_recent [of "ct_Interval k" t ts "ct_lastRun k"] by (simp add: task_due_def)
qed

lemma no_task_overdue_after_tick_witness:
  "let cm = Register ''recorder'' (5 * second) (\<lambda>now log. log @ [now]) (NewCleanupManager 0);
       cm' = fst (fold (cm_tick (\<lambda>_. Done)) ([second] @ [7 * second]) (cm, []))
   in cm_tasks cm' = [recorder (5 * second) (7 * second)] \<and> \<not> task_due (7 * second) (recorder (5 * second) (7 * second))"
proof -
  define cm :: "gotime list CleanupManager" where
    "cm = Register ''recorder'' (5 * second) (\<lambda>now log. log @ [now]) (NewCleanupManager 0)"
  have cm: "\<not> cm_stopped cm" "cm_tasks cm = [recorder (5 * second) 0]"
    by (simp_all add: cm_def Register_def NewCleanupManager_def recorder_def)
  have tasks: "cm_tasks (fst (fold (cm_tick (\<lambda>_. Done)) ([second] @ [7 * second]) (cm, []))) =
      [recorder (5 * second) (7 * second)]"
    unfolding cm_ticks_tasks [OF cm(1)] cm(2)
    by (simp add: recorder_def second_def time_sub_def minDuration_def maxDuration_def)
  show ?thesis
    using no_task_overdue_after_tick [OF cm(1), of "recorder (5 * second) (7 * second)" "\<lambda>_. Done" "[second]" "7 * second" "[]"]
    unfolding Let_def cm_def [symmetric] tasks
    by (simp add: recorder_def second_def)
qed

text \<open>A task runs at most once per interval: two consecutive runs are at least its interval apart, and
  the first run after the registration is at the first tick that is an interval after Go's zero time.\<close>

theorem task_runs_spaced:
  assumes "oc ''recorder'' \<noteq> Abandoned"
  shows "let log = snd (fold (cm_tick oc) ts (Register ''recorder'' i (\<lambda>now log. log @ [now]) (NewCleanupManager ti), []))
         in log = run_at i ts 0 \<and> successively (\<lambda>a b. time_sub b a \<ge> i) log"
proof -
  have "snd (fold (cm_tick oc) ts (Register ''recorder'' i (\<lambda>now log. log @ [now]) (NewCleanupManager ti), [])) = run_at i ts 0"
    using recorder_ticks [of oc "Register ''recorder'' i (\<lambda>now log. log @ [now]) (NewCleanupManager ti)" i 0 ts "[]"] assms
    by (simp add: Register_def NewCleanupManager_def recorder_def)
  then show ?thesis
    using run_at_spaced [of i 0 ts] by (cases "run_at i ts 0 = []") (simp_all add: successively_Cons Let_def)
qed

lemma task_runs_spaced_witness:
  "snd (fold (cm_tick (\<lambda>_. Slow)) [10 * second, 12 * second, 16 * second]
      (Register ''recorder'' (5 * second) (\<lambda>now log. log @ [now]) (NewCleanupManager 0), [])) = [10 * second, 16 * second]"
  using task_runs_spaced [of "\<lambda>_. Slow" "[10 * second, 12 * second, 16 * second]" "5 * second" 0]
  by (simp only: Let_def) (simp add: second_def time_sub_def minDuration_def maxDuration_def)

end
