(* ===== verification/Mock.thy ===== *)
theory Mock
  imports Proxy_Types Cleanup
begin

text \<open>
  The mock side of the node: the preset registry of \<^verbatim>\<open>pkg/config/presets.go\<close>, and the resolution of a
  mock rule to the configuration handed to the protocol emulators with the reconnect penalty,
  \<^verbatim>\<open>pkg/node/mock.go\<close>. The connection history of the penalty and its cleanup
  (\<open>cleanupTarpitHistory\<close> of \<^verbatim>\<open>pkg/node/listener.go\<close>) form a \<open>swept_store\<close>.
\<close>

section \<open>Presets\<close>

record MockBehavior =
  DripBanner :: bool
  DripIntervalMs :: int
  DelayMs :: int
  CompleteKex :: bool
  AuthAttempts :: int
  AuthDelayMs :: int
  FinalMessage :: string
  DisconnectAfter :: int
  NeverComplete :: bool
  ReconnectPenalty :: bool
  PenaltyDuration :: int

record Preset =
  ps_Name :: string
  ps_Protocol :: string
  ps_Banner :: string
  ps_Behavior :: MockBehavior
  ps_Response :: string

definition zero_Behavior :: MockBehavior where
  "zero_Behavior =
     \<lparr>DripBanner = False, DripIntervalMs = 0, DelayMs = 0, CompleteKex = False, AuthAttempts = 0, AuthDelayMs = 0,
      FinalMessage = [], DisconnectAfter = 0, NeverComplete = False, ReconnectPenalty = False, PenaltyDuration = 0\<rparr>"

definition nl :: string where
  "nl = [CHR 0x0A]"

definition crlf :: string where
  "crlf = [CHR 0x0D, CHR 0x0A]"

definition text_lines :: "string list \<Rightarrow> string" where
  "text_lines ls = concat (map (\<lambda>l. l @ nl) ls)"

definition http_403_response :: string where
  "http_403_response = text_lines
     [''HTTP/1.1 403 Forbidden'', ''Content-Type: text/html; charset=utf-8'', ''Content-Length: 162'',
      ''Connection: close'', ''X-Content-Type-Options: nosniff'', ''X-Frame-Options: DENY'',
      ''Content-Security-Policy: default-src '' @ [CHR 0x27] @ ''none'' @ [CHR 0x27], [],
      ''<!DOCTYPE html>'', ''<html><head><title>403 Forbidden</title></head>'',
      ''<body><h1>403 Forbidden</h1><p>Access denied.</p></body></html>'']"

definition http_404_response :: string where
  "http_404_response = text_lines
     [''HTTP/1.1 404 Not Found'', ''Content-Type: text/html; charset=utf-8'', ''Content-Length: 153'',
      ''Connection: close'', ''X-Content-Type-Options: nosniff'', [],
      ''<!DOCTYPE html>'', ''<html><head><title>404 Not Found</title></head>'',
      ''<body><h1>404 Not Found</h1><p>The requested resource was not found.</p></body></html>'']"

definition http_401_response :: string where
  "http_401_response = text_lines
     [''HTTP/1.1 401 Unauthorized'', ''Content-Type: text/html; charset=utf-8'', ''Content-Length: 158'',
      ''Connection: close'', ''WWW-Authenticate: Basic realm='' @ [CHR 0x22] @ ''Restricted'' @ [CHR 0x22], [],
      ''<!DOCTYPE html>'', ''<html><head><title>401 Unauthorized</title></head>'',
      ''<body><h1>401 Unauthorized</h1><p>Authentication required.</p></body></html>'']"

definition Presets :: "(string, Preset) gomap" where
  "Presets = map (\<lambda>(n, proto, banner, beh, resp).
       (n, \<lparr>ps_Name = n, ps_Protocol = proto, ps_Banner = banner, ps_Behavior = beh, ps_Response = resp\<rparr>))
     [(''ssh-secure'', ''ssh'', ''SSH-2.0-OpenSSH_9.6p1 Debian-4'' @ crlf,
        zero_Behavior\<lparr>CompleteKex := True, AuthAttempts := 3, AuthDelayMs := 2000,
                      FinalMessage := ''Permission denied (publickey).'', DisconnectAfter := 3\<rparr>, []),
      (''ssh-tarpit'', ''ssh'', ''SSH-2.0-OpenSSH_9.6p1'' @ crlf,
        zero_Behavior\<lparr>DripBanner := True, DripIntervalMs := 100, DelayMs := 30000, NeverComplete := True,
                      ReconnectPenalty := True, PenaltyDuration := 60\<rparr>, []),
      (''http-403'', ''http'', [], zero_Behavior\<lparr>DelayMs := 500\<rparr>, http_403_response),
      (''mysql-secure'', ''mysql'', ''8.4.0-MySQL Community Server - GPL'',
        zero_Behavior\<lparr>DelayMs := 1500, AuthAttempts := 1, FinalMessage := ''Access denied for user''\<rparr>, []),
      (''mysql-tarpit'', ''mysql'', ''8.4.0-MySQL Community Server'',
        zero_Behavior\<lparr>DripBanner := True, DripIntervalMs := 200, NeverComplete := True,
                      ReconnectPenalty := True, PenaltyDuration := 60\<rparr>, []),
      (''rdp-secure'', ''rdp'', [],
        zero_Behavior\<lparr>DelayMs := 2000, FinalMessage := ''NLA authentication required''\<rparr>, []),
      (''telnet-secure'', ''telnet'', ''Connection refused by security policy.'' @ crlf,
        zero_Behavior\<lparr>DelayMs := 500\<rparr>, []),
      (''raw-tarpit'', ''raw'', [],
        zero_Behavior\<lparr>DripBanner := True, DripIntervalMs := 1000, NeverComplete := True,
                      ReconnectPenalty := True, PenaltyDuration := 60\<rparr>, []),
      (''http-404'', ''http'', [], zero_Behavior\<lparr>DelayMs := 500\<rparr>, http_404_response),
      (''http-401'', ''http'', [], zero_Behavior\<lparr>DelayMs := 500\<rparr>, http_401_response),
      (''redis-secure'', ''redis'', ''-NOAUTH Authentication required.'' @ crlf,
        zero_Behavior\<lparr>DelayMs := 500\<rparr>, [])]"

definition GetPreset :: "string \<Rightarrow> Preset option" where
  "GetPreset name = gget Presets name"

section \<open>Resolving a mock rule\<close>

text \<open>The configuration of \<^verbatim>\<open>pkg/mockproto\<close>.\<close>

record ProtoConfig =
  pc_Protocol :: string
  pc_StatusCode :: int
  pc_DelayMs :: int
  pc_Payload :: string
  pc_RandomDelay :: bool
  pc_DripBanner :: bool
  pc_DripIntervalMs :: int
  pc_NeverComplete :: bool
  pc_Tarpit :: bool

definition presetKey :: "MockPreset \<Rightarrow> string" where
  "presetKey p =
     (case p of
        MOCK_PRESET_SSH_SECURE \<Rightarrow> ''ssh-secure''
      | MOCK_PRESET_SSH_TARPIT \<Rightarrow> ''ssh-tarpit''
      | MOCK_PRESET_HTTP_403 \<Rightarrow> ''http-403''
      | MOCK_PRESET_HTTP_404 \<Rightarrow> ''http-404''
      | MOCK_PRESET_HTTP_401 \<Rightarrow> ''http-401''
      | MOCK_PRESET_REDIS_SECURE \<Rightarrow> ''redis-secure''
      | MOCK_PRESET_MYSQL_SECURE \<Rightarrow> ''mysql-secure''
      | MOCK_PRESET_MYSQL_TARPIT \<Rightarrow> ''mysql-tarpit''
      | MOCK_PRESET_RDP_SECURE \<Rightarrow> ''rdp-secure''
      | MOCK_PRESET_TELNET_SECURE \<Rightarrow> ''telnet-secure''
      | MOCK_PRESET_RAW_TARPIT \<Rightarrow> ''raw-tarpit''
      | _ \<Rightarrow> [])"

definition preset_status :: "MockPreset \<Rightarrow> int" where
  "preset_status p =
     (case p of MOCK_PRESET_HTTP_401 \<Rightarrow> 401 | MOCK_PRESET_HTTP_403 \<Rightarrow> 403 | MOCK_PRESET_HTTP_404 \<Rightarrow> 404 | _ \<Rightarrow> 200)"

definition preset_random :: "MockPreset \<Rightarrow> bool" where
  "preset_random p = (p \<in> {MOCK_PRESET_SSH_TARPIT, MOCK_PRESET_MYSQL_TARPIT, MOCK_PRESET_RAW_TARPIT})"

definition mock_of_rule :: "Rule \<Rightarrow> MockConfig" where
  "mock_of_rule rule =
     (case r_MockResponse rule of
        Some m \<Rightarrow> m
      | None \<Rightarrow> zero_MockConfig\<lparr>mc_Protocol := ''raw'', mc_Payload := ''Access Denied'' @ nl\<rparr>)"

text \<open>The preset a rule selects, and the emulator configuration before the reconnect penalty.\<close>

definition rule_preset :: "Rule \<Rightarrow> Preset option" where
  "rule_preset rule =
     (let p = mc_Preset (mock_of_rule rule) in
      if p \<noteq> MOCK_PRESET_UNSPECIFIED then gget Presets (presetKey p) else None)"

definition mock_base :: "Rule \<Rightarrow> ProtoConfig" where
  "mock_base rule =
     (let m = mock_of_rule rule in
      case rule_preset rule of
        None \<Rightarrow>
          \<lparr>pc_Protocol = mc_Protocol m, pc_StatusCode = 200, pc_DelayMs = mc_DelayMs m, pc_Payload = mc_Payload m,
           pc_RandomDelay = False, pc_DripBanner = False, pc_DripIntervalMs = 0, pc_NeverComplete = False,
           pc_Tarpit = False\<rparr>
      | Some ps \<Rightarrow>
          \<lparr>pc_Protocol = ps_Protocol ps, pc_StatusCode = preset_status (mc_Preset m),
           pc_DelayMs = DelayMs (ps_Behavior ps),
           pc_Payload = (if length (ps_Response ps) > 0 then ps_Response ps else ps_Banner ps),
           pc_RandomDelay = preset_random (mc_Preset m), pc_DripBanner = DripBanner (ps_Behavior ps),
           pc_DripIntervalMs = DripIntervalMs (ps_Behavior ps), pc_NeverComplete = NeverComplete (ps_Behavior ps),
           pc_Tarpit = False\<rparr>)"

text \<open>\<open>secureRandomInt\<close>: the random 64-bit number is an input; Go's \<open>%\<close> on unsigned values.\<close>

definition secureRandomInt :: "nat \<Rightarrow> int \<Rightarrow> int" where
  "secureRandomInt r bound = (if bound \<le> 0 then 0 else int r mod bound)"

section \<open>The reconnect penalty\<close>

type_synonym tarpit_history = "(string, gotime list) gomap"

definition TarpitHistoryMaxAge :: duration where
  "TarpitHistoryMaxAge = 3600 * second"

definition penalty_window :: "int \<Rightarrow> duration" where
  "penalty_window windowSeconds = dur_seconds (if windowSeconds \<le> 0 then 60 else windowSeconds)"

definition trackConnection :: "gotime \<Rightarrow> string \<Rightarrow> int \<Rightarrow> tarpit_history \<Rightarrow> int \<times> tarpit_history" where
  "trackConnection now ip windowSeconds h =
     (let history = (case gget h ip of None \<Rightarrow> [] | Some ts \<Rightarrow> ts);
          validHistory = filter (\<lambda>t. time_sub now t < penalty_window windowSeconds) history @ [now]
      in (int (length validHistory), gput ip validHistory h))"

definition cleanupTarpitHistory :: "gotime \<Rightarrow> tarpit_history \<Rightarrow> tarpit_history" where
  "cleanupTarpitHistory now h =
     map (\<lambda>(ip, times). (ip, filter (\<lambda>t. time_sub now t < TarpitHistoryMaxAge) times))
       (filter (\<lambda>(ip, times). filter (\<lambda>t. time_sub now t < TarpitHistoryMaxAge) times \<noteq> []) h)"

text \<open>
  \<open>HandleMockConnection\<close> up to the call of the emulator: the configuration it is called with and the new
  history. Go's integer division truncates; the delays are never negative in the registry.
\<close>

definition HandleMockConnection ::
  "gotime \<Rightarrow> nat \<Rightarrow> string \<Rightarrow> Rule \<Rightarrow> tarpit_history \<Rightarrow> ProtoConfig \<times> tarpit_history" where
  "HandleMockConnection now r sourceAddr rule h =
     (let cfg = mock_base rule in
      case rule_preset rule of
        Some ps \<Rightarrow>
          (if ReconnectPenalty (ps_Behavior ps) then
             (let sourceIP = (case SplitHostPort sourceAddr of None \<Rightarrow> [] | Some (host, _) \<Rightarrow> host) in
              case trackConnection now sourceIP (PenaltyDuration (ps_Behavior ps)) h of
                (attempts, h') \<Rightarrow>
                  (if attempts > 1
                   then (cfg\<lparr>pc_DelayMs := wrap64 (pc_DelayMs cfg * attempts + secureRandomInt r (pc_DelayMs cfg div 2 + 1))\<rparr>, h')
                   else (cfg, h')))
           else (cfg, h))
      | None \<Rightarrow> (cfg, h))"

section \<open>The registry and the enumeration agree\<close>

lemma presetKey_MockPresetToString: "presetKey p = MockPresetToString p"
  by (cases p) (simp_all add: presetKey_def MockPresetToString_def)

lemma gget_Presets:
  "gget Presets (presetKey p) = None \<longleftrightarrow> p = MOCK_PRESET_UNSPECIFIED \<or> (\<exists>n. p = MOCK_PRESET_OTHER n)"
  by (cases p) (simp_all add: Presets_def presetKey_def)

section \<open>The history is a store with expiry\<close>

lemma time_sub_mono: "t \<le> now \<Longrightarrow> time_sub t x \<le> time_sub now x"
  by (simp add: time_sub_def max_def min_def)

lemma gget_cleanupTarpitHistory:
  assumes "gwf h"
  shows "gget (cleanupTarpitHistory now h) ip =
           (case gget h ip of
              None \<Rightarrow> None
            | Some ts \<Rightarrow> (let v = filter (\<lambda>t. time_sub now t < TarpitHistoryMaxAge) ts in if v = [] then None else Some v))"
  using assms
proof (induction h)
  case (Cons a h)
  obtain k ts where a: "a = (k, ts)" by (cases a)
  have wf: "gwf h" and none: "gget h k = None"
    using Cons.prems by (auto simp: a gwf_def intro: gget_notin)
  show ?case
    using Cons.IH [OF wf] none by (auto simp: a cleanupTarpitHistory_def Let_def split: option.splits)
qed (simp add: cleanupTarpitHistory_def)

lemma gwf_cleanupTarpitHistory: "gwf h \<Longrightarrow> gwf (cleanupTarpitHistory now h)"
proof -
  have "map fst (cleanupTarpitHistory now h) =
        map fst (filter (\<lambda>(_, times). filter (\<lambda>t. time_sub now t < TarpitHistoryMaxAge) times \<noteq> []) h)"
    by (simp add: cleanupTarpitHistory_def comp_def case_prod_beta)
  then show "gwf h \<Longrightarrow> gwf (cleanupTarpitHistory now h)"
    by (simp only: gwf_def distinct_map_filter)
qed

definition recent :: "gotime \<Rightarrow> string \<Rightarrow> duration \<Rightarrow> tarpit_history \<Rightarrow> gotime list" where
  "recent now ip w h = filter (\<lambda>t. time_sub now t < w) (case gget h ip of None \<Rightarrow> [] | Some ts \<Rightarrow> ts)"

lemma trackConnection_recent:
  "trackConnection now ip w h =
     (int (length (recent now ip (penalty_window w) h)) + 1, gput ip (recent now ip (penalty_window w) h @ [now]) h)"
  by (simp add: trackConnection_def recent_def Let_def)

lemma filter_recent:
  assumes "t \<le> now" "w \<le> TarpitHistoryMaxAge"
  shows "filter (\<lambda>x. time_sub now x < w) (filter (\<lambda>x. time_sub t x < TarpitHistoryMaxAge) ts) =
         filter (\<lambda>x. time_sub now x < w) ts"
proof (induction ts)
  case (Cons x ts)
  have "time_sub now x < w \<Longrightarrow> time_sub t x < TarpitHistoryMaxAge"
    using time_sub_mono [OF assms(1), of x] assms(2) by linarith
  then show ?case using Cons by auto
qed simp

lemma recent_cleanup:
  assumes "gwf h" "t \<le> now" "w \<le> TarpitHistoryMaxAge"
  shows "recent now ip w (cleanupTarpitHistory t h) = recent now ip w h"
proof (cases "gget h ip")
  case None
  then show ?thesis by (simp add: recent_def gget_cleanupTarpitHistory [OF assms(1)])
next
  case (Some ts)
  define v where "v = filter (\<lambda>x. time_sub t x < TarpitHistoryMaxAge) ts"
  have "gget (cleanupTarpitHistory t h) ip = (if v = [] then None else Some v)"
    by (simp add: gget_cleanupTarpitHistory [OF assms(1)] Some v_def Let_def)
  moreover have "filter (\<lambda>x. time_sub now x < w) v = filter (\<lambda>x. time_sub now x < w) ts"
    unfolding v_def by (rule filter_recent [OF assms(2,3)])
  ultimately show ?thesis
    by (cases "v = []") (simp_all add: recent_def Some)
qed

lemma penalty_window_60: "penalty_window 60 \<le> TarpitHistoryMaxAge"
  by (simp add: penalty_window_def TarpitHistoryMaxAge_def dur_seconds_int32 second_def)

interpretation th: swept_store "\<lambda>h ip now. fst (trackConnection now ip 60 h)" cleanupTarpitHistory gwf
  by unfold_locales
     (simp_all add: trackConnection_recent recent_cleanup penalty_window_60 gwf_cleanupTarpitHistory)

section \<open>Properties\<close>

text \<open>The reconnect penalty: a connection under a preset with the penalty is delayed by its delay times
  the number of attempts within the window, itself included, plus a jitter of at most half the delay;
  the first attempt is delayed by the plain delay. The attempt is recorded.\<close>

theorem reconnect_penalty_bounds:
  assumes "rule_preset rule = Some ps" and "ReconnectPenalty (ps_Behavior ps)"
    and "SplitHostPort addr = Some (ip, port)"
    and "hist = recent now ip (penalty_window (PenaltyDuration (ps_Behavior ps))) h"
    and "0 \<le> DelayMs (ps_Behavior ps)" "DelayMs (ps_Behavior ps) \<le> 30000" "length hist < 2 ^ 40"
    and "HandleMockConnection now r addr rule h = (cfg, h')"
  shows "DelayMs (ps_Behavior ps) * (int (length hist) + 1) \<le> pc_DelayMs cfg \<and>
         pc_DelayMs cfg \<le> DelayMs (ps_Behavior ps) * (int (length hist) + 1) +
                             (if hist = [] then 0 else DelayMs (ps_Behavior ps) div 2) \<and>
         h' = gput ip (hist @ [now]) h"
proof -
  define D k where "D = DelayMs (ps_Behavior ps)" and "k = int (length hist) + 1"
  define j where "j = secureRandomInt r (D div 2 + 1)"
  have base: "pc_DelayMs (mock_base rule) = D"
    using assms(1) by (simp add: mock_base_def Let_def D_def)
  have j: "0 \<le> j" "j \<le> D div 2"
  proof -
    have "D div 2 + 1 > 0" using assms(5) by (simp add: D_def)
    then show "0 \<le> j" "j \<le> D div 2"
      using pos_mod_bound [of "D div 2 + 1" "int r"] by (simp_all add: j_def secureRandomInt_def)
  qed
  have "D * k \<le> 30000 * 2 ^ 40"
    using assms(5-7) by (intro mult_mono) (simp_all add: D_def k_def)
  moreover have "0 \<le> D * k" "D \<le> 30000" using assms(5,6) by (simp_all add: D_def k_def)
  ultimately have w: "wrap64 (D * k + j) = D * k + j"
    using j by (intro wrap64_id) simp_all
  have h: "trackConnection now ip (PenaltyDuration (ps_Behavior ps)) h = (k, gput ip (hist @ [now]) h)"
    by (simp add: trackConnection_recent assms(4) k_def)
  have out: "cfg = (if k > 1 then (mock_base rule)\<lparr>pc_DelayMs := D * k + j\<rparr> else mock_base rule) \<and>
        h' = gput ip (hist @ [now]) h"
    using assms(8,1-3) h w base by (auto simp: HandleMockConnection_def Let_def j_def split: if_splits)
  show ?thesis
  proof (cases "hist = []")
    case True
    then show ?thesis using out base by (simp add: k_def flip: D_def)
  next
    case False
    then have "k > 1" by (simp add: k_def)
    then show ?thesis using out j False by (simp flip: D_def k_def)
  qed
qed

definition demo_tarpit_rule :: "MockPreset \<Rightarrow> Rule" where
  "demo_tarpit_rule p = zero_Rule\<lparr>r_Action := ACTION_TYPE_MOCK, r_MockResponse := Some (zero_MockConfig\<lparr>mc_Preset := p\<rparr>)\<rparr>"

lemma mc_Preset_demo [simp]: "mc_Preset (mock_of_rule (demo_tarpit_rule p)) = p"
  by (simp add: mock_of_rule_def demo_tarpit_rule_def)

lemma reconnect_penalty_bounds_witness:
  "let out = HandleMockConnection (70 * second) 12345 ''10.0.0.1:99'' (demo_tarpit_rule MOCK_PRESET_SSH_TARPIT)
               [(''10.0.0.1'', [5 * second, 40 * second])]
   in 60000 \<le> pc_DelayMs (fst out) \<and> pc_DelayMs (fst out) \<le> 75000 \<and>
      snd out = [(''10.0.0.1'', [40 * second, 70 * second])]"
proof -
  define ps where "ps = the (gget Presets (presetKey MOCK_PRESET_SSH_TARPIT))"
  have ps: "gget Presets (presetKey MOCK_PRESET_SSH_TARPIT) = Some ps"
    using gget_Presets [of MOCK_PRESET_SSH_TARPIT] by (auto simp: ps_def)
  have beh: "ReconnectPenalty (ps_Behavior ps)" "DelayMs (ps_Behavior ps) = 30000" "PenaltyDuration (ps_Behavior ps) = 60"
    by (simp_all add: ps_def Presets_def presetKey_def)
  have rp: "rule_preset (demo_tarpit_rule MOCK_PRESET_SSH_TARPIT) = Some ps"
    by (simp add: rule_preset_def ps)
  have addr: "SplitHostPort ''10.0.0.1:99'' = Some (''10.0.0.1'', ''99'')" by code_simp
  have hist: "[40 * second] = recent (70 * second) ''10.0.0.1'' (penalty_window (PenaltyDuration (ps_Behavior ps)))
      [(''10.0.0.1'', [5 * second, 40 * second])]"
    by (simp add: beh recent_def penalty_window_def dur_seconds_int32 time_sub_def second_def minDuration_def maxDuration_def)
  obtain cfg h' where out: "HandleMockConnection (70 * second) 12345 ''10.0.0.1:99'' (demo_tarpit_rule MOCK_PRESET_SSH_TARPIT)
      [(''10.0.0.1'', [5 * second, 40 * second])] = (cfg, h')" by fastforce
  show ?thesis
    using reconnect_penalty_bounds [OF rp beh(1) addr hist _ _ _ out] by (simp add: out beh(2) Let_def)
qed

text \<open>The cleanup of the connection history never changes a penalty: any number of cleanups at earlier
  times leave the number of attempts counted for the presets' 60 second window unchanged.\<close>

theorem tarpit_cleanup_transparent:
  assumes "gwf h" and "list_all (\<lambda>t. t \<le> now) ts"
  shows "fst (trackConnection now ip 60 (fold cleanupTarpitHistory ts h)) = fst (trackConnection now ip 60 h)"
  by (rule th.sweeps_look) (use assms in \<open>simp_all add: list_all_iff\<close>)

lemma tarpit_cleanup_transparent_witness:
  "fst (trackConnection (4000 * second) ''a'' 60 (fold cleanupTarpitHistory [3990 * second] [(''a'', [5 * second, 3980 * second])])) = 2"
proof -
  have "fst (trackConnection (4000 * second) ''a'' 60 (fold cleanupTarpitHistory [3990 * second] [(''a'', [5 * second, 3980 * second])])) =
        fst (trackConnection (4000 * second) ''a'' 60 [(''a'', [5 * second, 3980 * second])])"
    by (rule tarpit_cleanup_transparent) (simp_all add: gwf_def second_def)
  then show ?thesis
    by (simp add: trackConnection_recent recent_def penalty_window_def dur_seconds_int32 time_sub_def second_def
        minDuration_def maxDuration_def)
qed

text \<open>The reconnect penalty of the MySQL and raw tarpit presets is void: their delay is zero, so every
  attempt is handed to the emulator with a delay of zero.\<close>

theorem zero_delay_presets_have_no_penalty:
  assumes "mc_Preset (mock_of_rule rule) \<in> {MOCK_PRESET_MYSQL_TARPIT, MOCK_PRESET_RAW_TARPIT}"
  shows "(\<exists>ps. rule_preset rule = Some ps \<and> ReconnectPenalty (ps_Behavior ps)) \<and>
         pc_DelayMs (fst (HandleMockConnection now r addr rule h)) = 0"
proof -
  have "\<exists>ps. gget Presets (presetKey p) = Some ps \<and> ReconnectPenalty (ps_Behavior ps) \<and> DelayMs (ps_Behavior ps) = 0"
    if "p \<in> {MOCK_PRESET_MYSQL_TARPIT, MOCK_PRESET_RAW_TARPIT}" for p
    using that by (elim insertE emptyE) (simp_all add: Presets_def presetKey_def zero_Behavior_def)
  with assms obtain ps where ps: "rule_preset rule = Some ps" "ReconnectPenalty (ps_Behavior ps)" "DelayMs (ps_Behavior ps) = 0"
    by (fastforce simp: rule_preset_def Let_def)
  then have base: "pc_DelayMs (mock_base rule) = 0"
    by (simp add: mock_base_def Let_def)
  have "pc_DelayMs (fst (HandleMockConnection now r addr rule h)) = 0"
    using ps(1,2) by (simp add: HandleMockConnection_def Let_def secureRandomInt_def wrap64_id base split: prod.split)
  then show ?thesis using ps by blast
qed

lemma zero_delay_presets_have_no_penalty_witness:
  "pc_DelayMs (fst (HandleMockConnection (70 * second) 7 ''10.0.0.1:99'' (demo_tarpit_rule MOCK_PRESET_RAW_TARPIT)
     [(''10.0.0.1'', [5 * second, 40 * second])])) = 0"
  using zero_delay_presets_have_no_penalty [of "demo_tarpit_rule MOCK_PRESET_RAW_TARPIT"] by simp

end
