(* ===== verification/Listener.thy ===== *)
theory Listener
  imports Rule_Engine Rate_Limiter Mock "HOL-Library.Multiset"
begin

text \<open>
  The embedded listener of \<^verbatim>\<open>pkg/node/listener.go\<close> without its connection handler (theory Connection): its
  state, the rules in order of priority with their rate limiters, rule evaluation, event subscribers,
  statistics, start and stop. The order of the rules is the interface \<open>rule_store\<close>.
\<close>

section \<open>State\<close>

record ConnectionEvent =
  ev_ConnId :: string
  ev_SourceIp :: string
  ev_SourcePort :: int
  ev_Type :: EventType
  ev_Timestamp :: int
  ev_Action :: ActionType
  ev_Geo :: "GeoInfo option"

record ConnectionMetadata =
  cm_ID :: string
  cm_SourceIP :: string
  cm_SourcePort :: int
  cm_DestAddr :: string
  cm_StartTime :: gotime
  cm_BytesIn :: int
  cm_BytesOut :: int

text \<open>A subscriber's channel has capacity 100; a closed channel makes a sender panic.\<close>

datatype sub_chan = Open "ConnectionEvent list" | Closed "ConnectionEvent list"

text \<open>
  \<open>l_listening\<close> is \<^verbatim>\<open>p.listener != nil\<close>, \<open>l_quit\<close> that \<^verbatim>\<open>p.quit\<close> is closed, \<open>l_accepting\<close> that the socket is
  open, \<open>l_closed\<close> the connections whose \<open>Close\<close> was called. The byte counters of a connection are kept in
  its metadata, which point to them.
\<close>

record EmbeddedListener =
  l_ID :: string
  l_Name :: string
  l_ListenAddr :: string
  l_DefaultBackend :: string
  l_DefaultAction :: ActionType
  l_DefaultMock :: MockPreset
  l_CertPEM :: string
  l_KeyPEM :: string
  l_CaPEM :: string
  l_ClientAuthType :: ClientAuthType
  l_FallbackAction :: FallbackAction
  l_FallbackMock :: MockPreset
  l_listening :: bool
  l_accepting :: bool
  l_quit :: bool
  activeConns :: int
  totalConns :: int
  bytesIn :: int
  bytesOut :: int
  startTime :: gotime
  rules :: "Rule list"
  ruleLimiters :: "(string, RateLimiter) gomap"
  subscribers :: "nat list"
  sub_chans :: "(nat, sub_chan) gomap"
  l_nodeID :: string
  tarpitHistory :: tarpit_history
  conns :: "(string, ConnectionMetadata) gomap"
  l_closed :: "string list"

definition NewEmbeddedListener ::
  "gotime \<Rightarrow> string \<Rightarrow> string \<Rightarrow> string \<Rightarrow> string \<Rightarrow> ActionType \<Rightarrow> MockPreset \<Rightarrow> string \<Rightarrow> string \<Rightarrow> string \<Rightarrow>
   ClientAuthType \<Rightarrow> EmbeddedListener" where
  "NewEmbeddedListener now lid name listenAddr defaultBackend defaultAction defaultMock certPEM keyPEM caPEM clientAuth =
     \<lparr>l_ID = lid, l_Name = name, l_ListenAddr = listenAddr, l_DefaultBackend = defaultBackend,
      l_DefaultAction = defaultAction, l_DefaultMock = defaultMock, l_CertPEM = certPEM, l_KeyPEM = keyPEM,
      l_CaPEM = caPEM, l_ClientAuthType = clientAuth, l_FallbackAction = FALLBACK_ACTION_UNSPECIFIED,
      l_FallbackMock = MOCK_PRESET_UNSPECIFIED, l_listening = False, l_accepting = False, l_quit = False,
      activeConns = 0, totalConns = 0, bytesIn = 0, bytesOut = 0, startTime = now, rules = [], ruleLimiters = [],
      subscribers = [], sub_chans = [], l_nodeID = [], tarpitHistory = [], conns = [], l_closed = []\<rparr>"

definition SetFallback :: "FallbackAction \<Rightarrow> MockPreset \<Rightarrow> EmbeddedListener \<Rightarrow> EmbeddedListener" where
  "SetFallback action mock p = p\<lparr>l_FallbackAction := action, l_FallbackMock := mock\<rparr>"

definition getFallback :: "EmbeddedListener \<Rightarrow> FallbackAction \<times> MockPreset" where
  "getFallback p = (l_FallbackAction p, l_FallbackMock p)"

definition SetNodeID :: "string \<Rightarrow> EmbeddedListener \<Rightarrow> EmbeddedListener" where
  "SetNodeID nodeID p = p\<lparr>l_nodeID := nodeID\<rparr>"

section \<open>Subscribers\<close>

definition Subscribe :: "EmbeddedListener \<Rightarrow> nat \<times> EmbeddedListener" where
  "Subscribe p =
     (let ch = length (sub_chans p)
      in (ch, p\<lparr>subscribers := subscribers p @ [ch], sub_chans := sub_chans p @ [(ch, Open [])]\<rparr>))"

text \<open>\<open>close\<close> of a closed channel panics: \<open>None\<close>.\<close>

definition Unsubscribe :: "nat \<Rightarrow> EmbeddedListener \<Rightarrow> EmbeddedListener option" where
  "Unsubscribe ch p =
     (case gget (sub_chans p) ch of
        Some (Open buf) \<Rightarrow>
          Some (p\<lparr>subscribers := removeAll ch (subscribers p), sub_chans := gput ch (Closed buf) (sub_chans p)\<rparr>)
      | _ \<Rightarrow> None)"

text \<open>
  \<open>broadcast\<close> has two parts: it copies the subscribers under the lock, and then sends to each copy without
  it. A full channel drops the event; a send to a closed channel panics.
\<close>

definition broadcast_snapshot :: "EmbeddedListener \<Rightarrow> nat list" where
  "broadcast_snapshot p = subscribers p"

fun broadcast_send :: "ConnectionEvent \<Rightarrow> nat list \<Rightarrow> EmbeddedListener \<Rightarrow> EmbeddedListener option" where
  "broadcast_send ev [] p = Some p"
| "broadcast_send ev (ch # chs) p =
     (case gget (sub_chans p) ch of
        Some (Open buf) \<Rightarrow>
          broadcast_send ev chs
            (if length buf < 100 then p\<lparr>sub_chans := gput ch (Open (buf @ [ev])) (sub_chans p)\<rparr> else p)
      | Some (Closed _) \<Rightarrow> None
      | None \<Rightarrow> None)"

definition broadcast :: "ConnectionEvent \<Rightarrow> EmbeddedListener \<Rightarrow> EmbeddedListener option" where
  "broadcast ev p = broadcast_send ev (broadcast_snapshot p) p"

section \<open>Start and stop\<close>

datatype ClientAuth = NoClientCert | VerifyClientCertIfGiven | RequireAndVerifyClientCert

datatype start_error = ListenFailed | KeyPairFailed | CaParseFailed | RequireWithoutCa

definition client_auth_mode :: "EmbeddedListener \<Rightarrow> ClientAuth" where
  "client_auth_mode p =
     (case l_ClientAuthType p of
        CLIENT_AUTH_NONE \<Rightarrow> NoClientCert
      | CLIENT_AUTH_REQUEST \<Rightarrow> VerifyClientCertIfGiven
      | CLIENT_AUTH_REQUIRE \<Rightarrow> RequireAndVerifyClientCert
      | _ \<Rightarrow> if l_CaPEM p \<noteq> [] then RequireAndVerifyClientCert else NoClientCert)"

text \<open>
  \<open>tls_setup\<close>: \<open>Inr None\<close> is a plain listener, \<open>Inr (Some (mode, pool))\<close> a TLS listener that verifies
  against the configured pool when \<open>pool\<close> holds. Whether the PEM data parses is an input.
\<close>

definition tls_setup :: "bool \<Rightarrow> bool \<Rightarrow> EmbeddedListener \<Rightarrow> start_error + (ClientAuth \<times> bool) option" where
  "tls_setup keypair_ok ca_ok p =
     (if l_CertPEM p \<noteq> [] \<and> l_KeyPEM p \<noteq> [] then
        (if \<not> keypair_ok then Inl KeyPairFailed
         else
           (let mode = client_auth_mode p in
            if mode \<noteq> NoClientCert then
              (if l_CaPEM p \<noteq> [] then (if \<not> ca_ok then Inl CaParseFailed else Inr (Some (mode, True)))
               else if mode = RequireAndVerifyClientCert then Inl RequireWithoutCa
               else Inr (Some (mode, False)))
            else Inr (Some (mode, False))))
      else Inr None)"

definition Start :: "string option \<Rightarrow> bool \<Rightarrow> bool \<Rightarrow> EmbeddedListener \<Rightarrow> (start_error + (ClientAuth \<times> bool) option) \<times> EmbeddedListener" where
  "Start bound keypair_ok ca_ok p =
     (case bound of
        None \<Rightarrow> (Inl ListenFailed, p)
      | Some addr \<Rightarrow>
          (case tls_setup keypair_ok ca_ok p of
             Inl err \<Rightarrow> (Inl err, p)
           | Inr tls \<Rightarrow> (Inr tls, p\<lparr>l_listening := True, l_accepting := True, l_ListenAddr := addr\<rparr>)))"

text \<open>A second \<open>Stop\<close> closes the closed quit channel and panics.\<close>

definition Stop :: "EmbeddedListener \<Rightarrow> EmbeddedListener option" where
  "Stop p =
     (if l_quit p then None
      else Some (p\<lparr>l_quit := True, l_accepting := False, l_closed := l_closed p @ map fst (conns p),
                   conns := [], ruleLimiters := [], tarpitHistory := []\<rparr>))"

section \<open>Rules\<close>

fun insert_index :: "Rule \<Rightarrow> Rule list \<Rightarrow> nat" where
  "insert_index rule [] = 0"
| "insert_index rule (r # rs) = (if r_Priority rule > r_Priority r then 0 else Suc (insert_index rule rs))"

definition AddRule :: "Rule \<Rightarrow> EmbeddedListener \<Rightarrow> EmbeddedListener" where
  "AddRule rule p =
     (let p1 = (case NewRateLimiter (r_RateLimit rule) of
                  None \<Rightarrow> p
                | Some limiter \<Rightarrow> p\<lparr>ruleLimiters := gput (r_Id rule) limiter (ruleLimiters p)\<rparr>);
          insertIdx = insert_index rule (rules p)
      in p1\<lparr>rules := take insertIdx (rules p) @ rule # drop insertIdx (rules p)\<rparr>)"

fun remove_first :: "string \<Rightarrow> Rule list \<Rightarrow> Rule list option" where
  "remove_first ruleID [] = None"
| "remove_first ruleID (r # rs) =
     (if r_Id r = ruleID then Some rs else map_option ((#) r) (remove_first ruleID rs))"

definition RemoveRule :: "string \<Rightarrow> EmbeddedListener \<Rightarrow> EmbeddedListener option" where
  "RemoveRule ruleID p =
     (case remove_first ruleID (rules p) of
        None \<Rightarrow> None
      | Some rs \<Rightarrow> Some (p\<lparr>rules := rs, ruleLimiters := gdel ruleID (ruleLimiters p)\<rparr>))"

definition GetRules :: "EmbeddedListener \<Rightarrow> Rule list" where
  "GetRules p = rules p"

text \<open>
  \<open>evaluateRules\<close>: the first matching rule decides; its limiter may turn it into a block. The result names
  the limiter by its rule id.
\<close>

definition source_ip :: "conn \<Rightarrow> string" where
  "source_ip cn = (case SplitHostPort (RemoteAddr cn) of None \<Rightarrow> [] | Some (host, _) \<Rightarrow> host)"

definition limit_rule :: "gotime \<Rightarrow> string \<Rightarrow> Rule \<Rightarrow> EmbeddedListener \<Rightarrow> Rule \<times> string option \<times> EmbeddedListener" where
  "limit_rule now sourceIP rule p =
     (case gget (ruleLimiters p) (r_Id rule) of
        None \<Rightarrow> (rule, None, p)
      | Some limiter \<Rightarrow>
          (case rl_Check now sourceIP limiter of
             (False, limiter') \<Rightarrow>
               (zero_Rule\<lparr>r_Id := r_Id rule, r_Action := ACTION_TYPE_BLOCK\<rparr>, None,
                p\<lparr>ruleLimiters := gput (r_Id rule) limiter' (ruleLimiters p)\<rparr>)
           | (True, limiter') \<Rightarrow>
               (rule, Some (r_Id rule),
                p\<lparr>ruleLimiters := gput (r_Id rule) (TrackConnection now sourceIP limiter') (ruleLimiters p)\<rparr>)))"

fun eval_loop ::
  "'rx rule_env \<Rightarrow> gotime \<Rightarrow> conn \<Rightarrow> GeoInfo option \<Rightarrow> Rule list \<Rightarrow> EmbeddedListener \<Rightarrow> 'rx regex_cache \<Rightarrow>
   (Rule \<times> string option) option \<times> EmbeddedListener \<times> 'rx regex_cache" where
  "eval_loop env now cn geo [] p c = (None, p, c)"
| "eval_loop env now cn geo (rule # rest) p c =
     (case MatchRule env rule cn geo c of
        (True, c') \<Rightarrow>
          (case limit_rule now (source_ip cn) rule p of
             (r, limiter, p') \<Rightarrow> (Some (r, limiter), p', c'))
      | (False, c') \<Rightarrow> eval_loop env now cn geo rest p c')"

definition evaluateRules ::
  "'rx rule_env \<Rightarrow> gotime \<Rightarrow> conn \<Rightarrow> GeoInfo option \<Rightarrow> EmbeddedListener \<Rightarrow> 'rx regex_cache \<Rightarrow>
   (Rule \<times> string option) option \<times> EmbeddedListener \<times> 'rx regex_cache" where
  "evaluateRules env now cn geo p c = eval_loop env now cn geo (rules p) p c"

section \<open>Statistics and connections\<close>

definition incrementActiveConns :: "EmbeddedListener \<Rightarrow> EmbeddedListener" where
  "incrementActiveConns p = p\<lparr>activeConns := wrap64 (activeConns p + 1), totalConns := wrap64 (totalConns p + 1)\<rparr>"

definition decrementActiveConns :: "EmbeddedListener \<Rightarrow> EmbeddedListener" where
  "decrementActiveConns p = p\<lparr>activeConns := wrap64 (activeConns p - 1)\<rparr>"

definition addBytesIn :: "int \<Rightarrow> EmbeddedListener \<Rightarrow> EmbeddedListener" where
  "addBytesIn n p = p\<lparr>bytesIn := wrap64 (bytesIn p + n)\<rparr>"

definition addBytesOut :: "int \<Rightarrow> EmbeddedListener \<Rightarrow> EmbeddedListener" where
  "addBytesOut n p = p\<lparr>bytesOut := wrap64 (bytesOut p + n)\<rparr>"

record ProxyStatus =
  st_ProxyId :: string
  st_Running :: bool
  st_ListenAddr :: string
  st_DefaultBackend :: string
  st_ActiveConnections :: int
  st_TotalConnections :: int
  st_BytesIn :: int
  st_BytesOut :: int
  st_UptimeSeconds :: int
  st_DefaultAction :: ActionType
  st_DefaultMock :: MockPreset
  st_FallbackAction :: FallbackAction
  st_FallbackMock :: MockPreset
  st_ClientAuthType :: ClientAuthType
  st_MemoryRss :: int
  st_Tags :: "string list"
  st_HealthCheck :: "HealthCheckConfig option"
  st_HealthStatus :: HealthStatus

definition GetStatus :: "gotime \<Rightarrow> EmbeddedListener \<Rightarrow> ProxyStatus" where
  "GetStatus now p =
     \<lparr>st_ProxyId = l_ID p, st_Running = l_listening p, st_ListenAddr = l_ListenAddr p,
      st_DefaultBackend = l_DefaultBackend p, st_ActiveConnections = activeConns p,
      st_TotalConnections = totalConns p,
      st_BytesIn = fold (\<lambda>(_, m) b. wrap64 (b + cm_BytesIn m)) (conns p) (bytesIn p),
      st_BytesOut = fold (\<lambda>(_, m) b. wrap64 (b + cm_BytesOut m)) (conns p) (bytesOut p),
      st_UptimeSeconds = trunc_seconds (time_sub now (startTime p)),
      st_DefaultAction = l_DefaultAction p, st_DefaultMock = l_DefaultMock p,
      st_FallbackAction = l_FallbackAction p, st_FallbackMock = l_FallbackMock p,
      st_ClientAuthType = l_ClientAuthType p, st_MemoryRss = 0, st_Tags = [], st_HealthCheck = None,
      st_HealthStatus = HEALTH_STATUS_UNKNOWN\<rparr>"

definition GetActiveConnections :: "EmbeddedListener \<Rightarrow> ConnectionMetadata list" where
  "GetActiveConnections p = map snd (conns p)"

definition CloseConnection :: "string \<Rightarrow> string \<Rightarrow> EmbeddedListener \<Rightarrow> bool \<times> EmbeddedListener" where
  "CloseConnection proxyID connID p =
     (if proxyID \<noteq> [] \<and> proxyID \<noteq> l_ID p then (False, p)
      else case gget (conns p) connID of
             Some _ \<Rightarrow> (True, p\<lparr>l_closed := l_closed p @ [connID]\<rparr>)
           | None \<Rightarrow> (False, p))"

definition CloseAllConnections :: "EmbeddedListener \<Rightarrow> EmbeddedListener" where
  "CloseAllConnections p = p\<lparr>l_closed := l_closed p @ map fst (conns p)\<rparr>"

definition GetConnectionBytes :: "string \<Rightarrow> EmbeddedListener \<Rightarrow> int \<times> int \<times> bool" where
  "GetConnectionBytes connID p =
     (case gget (conns p) connID of Some m \<Rightarrow> (cm_BytesIn m, cm_BytesOut m, True) | None \<Rightarrow> (0, 0, False))"

section \<open>The interface of a rule store\<close>

text \<open>
  What the callers of a listener rely on: rules come in descending order of priority, an added rule goes
  behind the rules of its priority, a removal takes the first rule with the id. The clients' view is
  evaluation: the first match has the highest priority.
\<close>

locale rule_store =
  fixes add :: "Rule \<Rightarrow> 's \<Rightarrow> 's"
    and remove :: "string \<Rightarrow> 's \<Rightarrow> 's option"
    and rules_of :: "'s \<Rightarrow> Rule list"
    and ok :: "'s \<Rightarrow> bool"
  assumes ordered: "ok s \<Longrightarrow> sorted_wrt (\<lambda>a b. r_Priority a \<ge> r_Priority b) (rules_of s)"
    and add_ok: "ok s \<Longrightarrow> ok (add r s)"
    and remove_ok: "ok s \<Longrightarrow> remove ruleID s = Some s' \<Longrightarrow> ok s'"
    and add_rules: "ok s \<Longrightarrow> mset (rules_of (add r s)) = add_mset r (mset (rules_of s))"
    and add_stable: "ok s \<Longrightarrow> filter (\<lambda>x. r_Priority x = k) (rules_of (add r s)) =
                      filter (\<lambda>x. r_Priority x = k) (rules_of s) @ (if r_Priority r = k then [r] else [])"
    and remove_None: "ok s \<Longrightarrow> remove ruleID s = None \<longleftrightarrow> (\<forall>r \<in> set (rules_of s). r_Id r \<noteq> ruleID)"
    and remove_rules: "ok s \<Longrightarrow> remove ruleID s = Some s' \<Longrightarrow>
                        \<exists>r. r_Id r = ruleID \<and> mset (rules_of s) = add_mset r (mset (rules_of s'))"
begin

lemma first_match_highest:
  assumes "ok s" "find P (rules_of s) = Some r" "r' \<in> set (rules_of s)" "P r'"
  shows "r_Priority r' \<le> r_Priority r"
proof -
  have gen: "r_Priority r' \<le> r_Priority r"
    if "sorted_wrt (\<lambda>a b. r_Priority a \<ge> r_Priority b) rs" "find P rs = Some r" "r' \<in> set rs" for rs
    using that assms(4) by (induction rs) (auto split: if_splits)
  show ?thesis using gen [OF ordered [OF assms(1)] assms(2,3)] .
qed

lemma adds_ok: "ok s \<Longrightarrow> ok (fold add rs s)"
  by (induction rs arbitrary: s) (auto simp: add_ok)

lemma adds_mset: "ok s \<Longrightarrow> mset (rules_of (fold add rs s)) = mset (rules_of s) + mset rs"
  by (induction rs arbitrary: s) (auto simp: add_ok add_rules)

lemma adds_stable:
  "ok s \<Longrightarrow> filter (\<lambda>x. r_Priority x = k) (rules_of (fold add rs s)) =
     filter (\<lambda>x. r_Priority x = k) (rules_of s) @ filter (\<lambda>x. r_Priority x = k) rs"
  by (induction rs arbitrary: s) (auto simp: add_ok add_stable)

text \<open>Adding rules one by one to an empty store sorts them stably by descending priority.\<close>

lemma adds_sort:
  assumes "ok s" "rules_of s = []"
  shows "rules_of (fold add rs s) = sort_key (\<lambda>r. - r_Priority r) rs"
proof (rule sym, rule properties_for_sort_key)
  show "mset (rules_of (fold add rs s)) = mset rs"
    using adds_mset [OF assms(1)] assms(2) by simp
  show "filter (\<lambda>x. - r_Priority k = - r_Priority x) (rules_of (fold add rs s)) =
        filter (\<lambda>x. - r_Priority k = - r_Priority x) rs" for k
    using adds_stable [OF assms(1), of "r_Priority k" rs] assms(2)
    by (simp add: eq_commute [of "r_Priority k"])
  show "sorted (map (\<lambda>r. - r_Priority r) (rules_of (fold add rs s)))"
    using ordered [OF adds_ok [OF assms(1), of rs]] by (simp add: sorted_map)
qed

text \<open>Removing the rules of a list of ids one by one, ignoring the ids that are not there.\<close>

definition remove_ids :: "string list \<Rightarrow> 's \<Rightarrow> 's" where
  "remove_ids ids s = fold (\<lambda>i s. case remove i s of None \<Rightarrow> s | Some s' \<Rightarrow> s') ids s"

lemma remove_ids_ok: "ok s \<Longrightarrow> ok (remove_ids ids s)"
proof (induction ids arbitrary: s)
  case (Cons i ids)
  then show ?case using remove_ok by (cases "remove i s") (auto simp: remove_ids_def)
qed (simp add: remove_ids_def)

lemma remove_ids_all:
  "ok s \<Longrightarrow> image_mset r_Id (mset (rules_of s)) \<subseteq># mset ids \<Longrightarrow> rules_of (remove_ids ids s) = []"
proof (induction ids arbitrary: s)
  case Nil
  then show ?case by (simp add: remove_ids_def)
next
  case (Cons i ids)
  show ?case
  proof (cases "remove i s")
    case None
    then have "i \<notin># image_mset r_Id (mset (rules_of s))" using remove_None [OF Cons.prems(1)] by auto
    then have "image_mset r_Id (mset (rules_of s)) \<subseteq># mset ids"
      using Cons.prems(2) by (metis mset.simps(2) diff_single_trivial subset_eq_diff_conv add_mset_remove_trivial add_mset_add_single)
    from Cons.IH [OF Cons.prems(1) this] show ?thesis using None by (simp add: remove_ids_def)
  next
    case (Some s')
    then obtain r where "r_Id r = i" "mset (rules_of s) = add_mset r (mset (rules_of s'))"
      using remove_rules [OF Cons.prems(1)] by blast
    then have "image_mset r_Id (mset (rules_of s')) \<subseteq># mset ids" using Cons.prems(2) by simp
    from Cons.IH [OF remove_ok [OF Cons.prems(1) Some] this] show ?thesis using Some by (simp add: remove_ids_def)
  qed
qed

text \<open>Replacing the rules: whatever the store held, it ends with the new rules in order.\<close>

lemma replace_all:
  assumes "ok s"
  shows "rules_of (fold add rs (remove_ids (map r_Id (rules_of s)) s)) = sort_key (\<lambda>r. - r_Priority r) rs"
  by (rule adds_sort [OF remove_ids_ok [OF assms] remove_ids_all [OF assms]]) simp

end

section \<open>The listener is a rule store\<close>

definition by_priority :: "EmbeddedListener \<Rightarrow> bool" where
  "by_priority p = sorted_wrt (\<lambda>a b. r_Priority a \<ge> r_Priority b) (rules p)"

lemma rules_AddRule:
  "rules (AddRule rule p) =
     takeWhile (\<lambda>r. r_Priority rule \<le> r_Priority r) (rules p) @ rule #
     dropWhile (\<lambda>r. r_Priority rule \<le> r_Priority r) (rules p)"
proof -
  have "take (insert_index rule rs) rs = takeWhile (\<lambda>r. r_Priority rule \<le> r_Priority r) rs \<and>
        drop (insert_index rule rs) rs = dropWhile (\<lambda>r. r_Priority rule \<le> r_Priority r) rs" for rs
    by (induction rs) auto
  then show ?thesis by (simp add: AddRule_def Let_def)
qed

lemma dropWhile_lower:
  assumes "sorted_wrt (\<lambda>a b. r_Priority a \<ge> r_Priority b) rs" "x \<in> set (dropWhile (\<lambda>r. k \<le> r_Priority r) rs)"
  shows "r_Priority x < k"
  using assms by (induction rs) (auto split: if_splits)

lemma by_priority_AddRule [inv_intros]:
  assumes "by_priority p"
  shows "by_priority (AddRule rule p)"
proof -
  define hi lo where "hi = takeWhile (\<lambda>r. r_Priority rule \<le> r_Priority r) (rules p)"
    and "lo = dropWhile (\<lambda>r. r_Priority rule \<le> r_Priority r) (rules p)"
  have "rules p = hi @ lo" by (simp add: hi_def lo_def)
  moreover have "r_Priority rule \<le> r_Priority x" if "x \<in> set hi" for x
    using set_takeWhileD that unfolding hi_def by fast
  moreover have "r_Priority x < r_Priority rule" if "x \<in> set lo" for x
    using dropWhile_lower that assms unfolding lo_def by_priority_def by blast
  ultimately show ?thesis
    using assms rules_AddRule [of rule p] unfolding hi_def [symmetric] lo_def [symmetric]
    by (auto simp: by_priority_def sorted_wrt_append less_imp_le)
qed

lemma remove_first_Some:
  "remove_first ruleID rs = Some rs' \<Longrightarrow> sorted_wrt P rs \<Longrightarrow> sorted_wrt P rs' \<and> set rs' \<subseteq> set rs"
  by (induction rs arbitrary: rs') (fastforce split: if_splits)+

lemma remove_first_None: "remove_first ruleID rs = None \<longleftrightarrow> (\<forall>r \<in> set rs. r_Id r \<noteq> ruleID)"
  by (induction rs) auto

lemma remove_first_mset: "remove_first ruleID rs = Some rs' \<Longrightarrow> \<exists>r. r_Id r = ruleID \<and> mset rs = add_mset r (mset rs')"
  by (induction rs arbitrary: rs') (fastforce split: if_splits)+

lemma by_priority_RemoveRule [inv_intros]: "by_priority p \<Longrightarrow> RemoveRule ruleID p = Some p' \<Longrightarrow> by_priority p'"
  using remove_first_Some by (auto simp: by_priority_def RemoveRule_def split: option.splits)

lemma AddRule_stable:
  assumes "by_priority p"
  shows "filter (\<lambda>x. r_Priority x = k) (rules (AddRule r p)) =
         filter (\<lambda>x. r_Priority x = k) (rules p) @ (if r_Priority r = k then [r] else [])"
proof -
  let ?ge = "\<lambda>x. r_Priority r \<le> r_Priority x"
  have low: "filter (\<lambda>x. r_Priority x = r_Priority r) (dropWhile ?ge (rules p)) = []"
    using dropWhile_lower assms by (fastforce simp: by_priority_def filter_empty_conv)
  have split: "filter P (rules p) = filter P (takeWhile ?ge (rules p)) @ filter P (dropWhile ?ge (rules p))" for P
    by (metis filter_append takeWhile_dropWhile_id)
  show ?thesis
    by (cases "r_Priority r = k") (auto simp: rules_AddRule split [of "\<lambda>x. r_Priority x = k"] low)
qed

interpretation ls: rule_store AddRule RemoveRule GetRules by_priority
proof (unfold_locales, goal_cases)
  case (4 p r)
  have "mset (takeWhile Q (rules p)) + mset (dropWhile Q (rules p)) = mset (rules p)" for Q
    by (metis mset_append takeWhile_dropWhile_id)
  then show ?case by (simp add: GetRules_def rules_AddRule)
next
  case (6 p ruleID)
  then show ?case
    using remove_first_None [of ruleID "rules p"] by (auto simp: GetRules_def RemoveRule_def split: option.split)
next
  case (7 p ruleID p')
  then show ?case
    using remove_first_mset [of ruleID "rules p"] by (auto simp: GetRules_def RemoveRule_def split: option.splits)
qed (auto simp: GetRules_def AddRule_stable inv_intros, simp add: by_priority_def)

section \<open>Evaluation\<close>

lemma eval_loop_correct:
  assumes "range_ok env" "cache_ok env c"
  shows "(case eval_loop env now cn geo rs p c of (res, p', c') \<Rightarrow>
           cache_ok env c' \<and>
           (case find (\<lambda>r. MatchRule_ref env r cn geo) rs of
              None \<Rightarrow> res = None \<and> p' = p
            | Some r \<Rightarrow> (case limit_rule now (source_ip cn) r p of (r', l, q) \<Rightarrow> res = Some (r', l) \<and> p' = q)))"
  using assms(2)
proof (induction rs arbitrary: c)
  case (Cons r rs)
  obtain b c1 where m: "MatchRule env r cn geo c = (b, c1)" by fastforce
  have "b = MatchRule_ref env r cn geo" "cache_ok env c1"
    using MatchRule_fst [OF assms(1) Cons.prems, of r cn geo] MatchRule_cache_ok [OF assms(1) Cons.prems, of r cn geo]
    by (simp_all add: m)
  then show ?case
    using Cons.IH [of c1] by (cases b) (auto simp: m split: prod.split)
qed simp

section \<open>Subscribers\<close>

definition subs_ok :: "EmbeddedListener \<Rightarrow> bool" where
  "subs_ok p =
     (map fst (sub_chans p) = [0 ..< length (sub_chans p)] \<and> distinct (subscribers p) \<and>
      (\<forall>ch \<in> set (subscribers p). \<exists>buf. gget (sub_chans p) ch = Some (Open buf)) \<and>
      (\<forall>ch buf. gget (sub_chans p) ch = Some (Open buf) \<longrightarrow> length buf \<le> 100))"

lemma subs_gget_new:
  assumes "map fst m = [0 ..< length m]"
  shows "gget (m @ [(length m, v)]) k = (if k = length m then Some v else gget m k)"
proof -
  have "length m \<notin> fst ` set m"
  proof
    assume "length m \<in> fst ` set m"
    then have "length m \<in> set (map fst m)" by simp
    then show False by (simp add: assms)
  qed
  then show ?thesis
    using gget_notin [of "length m" m] by (auto simp: gget_def map_add_def split: option.splits)
qed

lemma keys_gput_old: "gget m k \<noteq> None \<Longrightarrow> map fst (gput k v m) = map fst m"
  by (induction m) (auto split: if_splits)

lemma length_gput_old: "gget m k \<noteq> None \<Longrightarrow> length (gput k v m) = length m"
  by (simp add: length_gput)

lemma subs_ok_new [inv_intros]: "subs_ok (NewEmbeddedListener now lid name la db da dm cert key ca auth)"
  by (simp add: subs_ok_def NewEmbeddedListener_def)

lemma subs_ok_Subscribe [inv_intros]:
  assumes "subs_ok p"
  shows "subs_ok (snd (Subscribe p))"
proof -
  define n where "n = length (sub_chans p)"
  have keys: "map fst (sub_chans p) = [0 ..< n]" using assms by (simp add: subs_ok_def n_def)
  have "gget (sub_chans p) n = None"
  proof (rule gget_notin)
    show "n \<notin> fst ` set (sub_chans p)" using keys by (metis atLeastLessThan_iff less_irrefl set_map set_upt)
  qed
  then have "n \<notin> set (subscribers p)" using assms by (force simp: subs_ok_def)
  then show ?thesis
    using assms keys subs_gget_new [of "sub_chans p" "Open []"]
    by (auto simp: subs_ok_def Subscribe_def Let_def simp flip: n_def)
qed

lemma subs_ok_Unsubscribe [inv_intros]: "subs_ok p \<Longrightarrow> Unsubscribe ch p = Some p' \<Longrightarrow> subs_ok p'"
  by (auto simp: subs_ok_def Unsubscribe_def keys_gput_old length_gput_old distinct_removeAll
      split: option.splits sub_chan.splits if_splits)

text \<open>A send to open channels returns and keeps the invariant; each buffer only grows at its end.\<close>

lemma broadcast_send_open:
  assumes "subs_ok p" "set chs \<subseteq> set (subscribers p)"
  shows "\<exists>p'. broadcast_send ev chs p = Some p' \<and> subs_ok p' \<and> subscribers p' = subscribers p"
  using assms
proof (induction chs arbitrary: p)
  case (Cons ch chs)
  obtain buf where buf: "gget (sub_chans p) ch = Some (Open buf)" "length buf \<le> 100"
    using Cons.prems by (fastforce simp: subs_ok_def)
  define p1 where "p1 = (if length buf < 100 then p\<lparr>sub_chans := gput ch (Open (buf @ [ev])) (sub_chans p)\<rparr> else p)"
  have sub: "subscribers p1 = subscribers p" by (simp add: p1_def)
  have "subs_ok p1"
    using Cons.prems(1) buf
    by (auto simp: p1_def subs_ok_def keys_gput_old length_gput_old split: if_splits)
  then show ?case
    using Cons.IH [of p1] Cons.prems(2) buf(1) sub by (simp flip: p1_def)
qed simp

section \<open>Properties\<close>

text \<open>Rules added one after the other are evaluated in the order of a stable sort by descending
  priority: higher priorities first, rules of equal priority in the order in which they were added.\<close>

theorem AddRule_sorts_stably:
  assumes "rules p = []"
  shows "GetRules (fold AddRule rs p) = sort_key (\<lambda>r. - r_Priority r) rs"
  by (rule ls.adds_sort) (simp_all add: by_priority_def GetRules_def assms)

definition demo_listener :: EmbeddedListener where
  "demo_listener = NewEmbeddedListener 0 ''p'' ''demo'' '':8080'' ''b:80'' ACTION_TYPE_ALLOW MOCK_PRESET_UNSPECIFIED [] [] []
     CLIENT_AUTH_AUTO"

definition prio_rule :: "string \<Rightarrow> int \<Rightarrow> Rule" where
  "prio_rule rid k = zero_Rule\<lparr>r_Id := rid, r_Priority := k, r_Enabled := True\<rparr>"

lemma AddRule_sorts_stably_witness:
  "map r_Id (GetRules (fold AddRule [prio_rule ''a'' 1, prio_rule ''b'' 5, prio_rule ''c'' 1] demo_listener)) =
     [''b'', ''a'', ''c'']"
  using AddRule_sorts_stably [of demo_listener "[prio_rule ''a'' 1, prio_rule ''b'' 5, prio_rule ''c'' 1]"]
  by (simp add: demo_listener_def NewEmbeddedListener_def prio_rule_def sort_key_def)




definition demo_event :: ConnectionEvent where
  "demo_event = \<lparr>ev_ConnId = ''c'', ev_SourceIp = ''10.0.0.1'', ev_SourcePort = 5000, ev_Type = EVENT_TYPE_CONNECTED,
     ev_Timestamp = 0,     ev_Action = ACTION_TYPE_UNSPECIFIED, ev_Geo = None\<rparr>"


text \<open>A subscriber that leaves between the copy of the subscriber list and the sends makes the
  broadcasting connection panic: the copy still holds the channel that \<open>Unsubscribe\<close> has closed.\<close>

theorem unsubscribe_during_broadcast_panics:
  assumes "subs_ok p" and "ch \<in> set (subscribers p)"
  shows "\<exists>p'. Unsubscribe ch p = Some p' \<and> broadcast_send ev (broadcast_snapshot p) p' = None"
proof -
  obtain buf where buf: "gget (sub_chans p) ch = Some (Open buf)"
    using assms by (auto simp: subs_ok_def)
  define p' where "p' = p\<lparr>subscribers := removeAll ch (subscribers p), sub_chans := gput ch (Closed buf) (sub_chans p)\<rparr>"
  have closed: "broadcast_send ev chs q = None" if "ch \<in> set chs" "gget (sub_chans q) ch = Some (Closed buf)" for chs q
    using that
  proof (induction chs arbitrary: q)
    case (Cons a chs)
    show ?case
    proof (cases "a = ch")
      case True
      then show ?thesis using Cons.prems by simp
    next
      case False
      then show ?thesis using Cons by (auto split: option.split sub_chan.split)
    qed
  qed simp
  have "Unsubscribe ch p = Some p'" by (simp add: Unsubscribe_def buf p'_def)
  moreover have "broadcast_send ev (broadcast_snapshot p) p' = None"
    using closed assms(2) by (simp add: broadcast_snapshot_def p'_def)
  ultimately show ?thesis by blast
qed

lemma unsubscribe_during_broadcast_panics_witness:
  "\<exists>p'. Unsubscribe 0 (snd (Subscribe demo_listener)) = Some p' \<and>
        broadcast_send demo_event (broadcast_snapshot (snd (Subscribe demo_listener))) p' = None"
  by (rule unsubscribe_during_broadcast_panics)
     (simp_all add: demo_listener_def inv_intros, simp add: Subscribe_def NewEmbeddedListener_def)

text \<open>(C23) Client authentication of a started TLS listener: when certificates are required (explicitly, or by
  default because a CA is configured) the listener verifies them against the configured CA; a listener
  that requires certificates without a CA never starts, and a failed start leaves it not listening.\<close>

theorem client_auth_enforced:
  assumes "l_CertPEM p \<noteq> []" "l_KeyPEM p \<noteq> []"
    and "Start bound keypair_ok ca_ok p = (res, p')"
  shows "(l_ClientAuthType p = CLIENT_AUTH_REQUIRE \<or> l_ClientAuthType p = CLIENT_AUTH_AUTO \<and> l_CaPEM p \<noteq> [] \<longrightarrow>
            (\<exists>err. res = Inl err) \<or> res = Inr (Some (RequireAndVerifyClientCert, True)) \<and> ca_ok) \<and>
         (l_ClientAuthType p = CLIENT_AUTH_REQUIRE \<and> l_CaPEM p = [] \<longrightarrow> (\<exists>err. res = Inl err)) \<and>
         ((\<exists>err. res = Inl err) \<longrightarrow> p' = p)"
  using assms by (auto simp: Start_def tls_setup_def client_auth_mode_def Let_def split: option.splits sum.splits if_splits)

lemma client_auth_enforced_witness:
  "let p = demo_listener\<lparr>l_CertPEM := ''c'', l_KeyPEM := ''k'', l_CaPEM := ''ca'', l_ClientAuthType := CLIENT_AUTH_REQUIRE\<rparr> in
   fst (Start (Some ''0.0.0.0:8080'') True True p) = Inr (Some (RequireAndVerifyClientCert, True)) \<and>
   (\<exists>err. fst (Start (Some ''0.0.0.0:8080'') True True (p\<lparr>l_CaPEM := []\<rparr>)) = Inl err)"
  using client_auth_enforced [of "demo_listener\<lparr>l_CertPEM := ''c'', l_KeyPEM := ''k'', l_CaPEM := ''ca'', l_ClientAuthType := CLIENT_AUTH_REQUIRE\<rparr>"
      "Some ''0.0.0.0:8080''" True True, OF _ _ surjective_pairing]
  by (simp add: Let_def Start_def tls_setup_def client_auth_mode_def)

text \<open>A listener configured to require client certificates but without its own certificate starts as a
  plain listener: nothing is required of the clients.\<close>

theorem require_without_certificate_is_plain:
  assumes "l_ClientAuthType p = CLIENT_AUTH_REQUIRE" and "l_CertPEM p = [] \<or> l_KeyPEM p = []"
  shows "fst (Start (Some addr) keypair_ok ca_ok p) = Inr None \<and> l_listening (snd (Start (Some addr) keypair_ok ca_ok p))"
  using assms by (auto simp: Start_def tls_setup_def)

lemma require_without_certificate_is_plain_witness:
  "fst (Start (Some ''0.0.0.0:8080'') True True (demo_listener\<lparr>l_ClientAuthType := CLIENT_AUTH_REQUIRE\<rparr>)) = Inr None"
  using require_without_certificate_is_plain [of "demo_listener\<lparr>l_ClientAuthType := CLIENT_AUTH_REQUIRE\<rparr>" "''0.0.0.0:8080''" True True]
  by (simp add: demo_listener_def NewEmbeddedListener_def)

text \<open>A stopped listener still reports that it is running: \<open>Stop\<close> closes the socket and all connections
  but leaves the listener field set, which is what \<open>GetStatus\<close> reads.\<close>

theorem stopped_listener_reports_running:
  assumes "Start (Some addr) keypair_ok ca_ok p = (Inr tls, p1)" and "\<not> l_quit p" and "Stop p1 = Some p2"
  shows "\<not> l_accepting p2 \<and> conns p2 = [] \<and> st_Running (GetStatus now p2)"
  using assms by (auto simp: Start_def Stop_def GetStatus_def split: sum.splits if_splits)

lemma stopped_listener_reports_running_witness:
  "st_Running (GetStatus 0 (the (Stop (snd (Start (Some ''0.0.0.0:8080'') True True demo_listener)))))"
proof -
  define p1 where "p1 = snd (Start (Some ''0.0.0.0:8080'') True True demo_listener)"
  have s: "Start (Some ''0.0.0.0:8080'') True True demo_listener = (Inr None, p1)"
    by (simp add: p1_def Start_def tls_setup_def demo_listener_def NewEmbeddedListener_def)
  have q: "\<not> l_quit demo_listener" by (simp add: demo_listener_def NewEmbeddedListener_def)
  have "Stop p1 = Some (the (Stop p1))"
    by (simp add: p1_def Start_def tls_setup_def Stop_def demo_listener_def NewEmbeddedListener_def)
  from stopped_listener_reports_running [OF s q this] show ?thesis by (simp add: p1_def)
qed

end
