(* ===== verification/Connection.thy ===== *)
theory Connection
  imports Listener Approval Global_Rules
begin

text \<open>
  The connection handler \<open>handleConn\<close> of \<^verbatim>\<open>pkg/node/listener.go\<close>, phase by phase: registration and GeoIP
  lookup, global rules, rule evaluation, the approval workflow, and the three ends (blocked with its
  fallback, mocked, proxied). What other goroutines do while the handler waits for an approval or copies
  data is an arbitrary function of the whole state; the outcome of the dial, the alert and the wait are
  inputs.
\<close>

section \<open>GeoIP service\<close>

text \<open>
  \<^verbatim>\<open>pkg/node/geoip.go\<close>: no service, a service without client, or a client whose lookup may fail or time out.
\<close>

type_synonym geo_client = "string \<Rightarrow> GeoInfo option"
type_synonym geo_service = "geo_client option"

definition empty_geo :: GeoInfo where
  "empty_geo = \<lparr>g_Country = [], g_City = [], g_Isp = []\<rparr>"

definition LookupWithTimeout :: "geo_service \<Rightarrow> string \<Rightarrow> GeoInfo" where
  "LookupWithTimeout svc ip =
     (case svc of
        None \<Rightarrow> empty_geo
      | Some client \<Rightarrow> (case client ip of None \<Rightarrow> empty_geo | Some info \<Rightarrow> info))"

section \<open>The state a handler works on\<close>

record StatEvent =
  se_SourceIP :: string
  se_SourcePort :: int
  se_StartTime :: gotime
  se_EndTime :: gotime
  se_Action :: ActionType
  se_RuleID :: string
  se_BytesIn :: int
  se_BytesOut :: int
  se_Geo :: "GeoInfo option"

record 'rx world =
  w_p :: EmbeddedListener
  w_approval :: "ApprovalManager option"
  w_global :: "GlobalRulesStore option"
  w_regex :: "'rx regex_cache"
  w_stats :: "StatEvent list option"

text \<open>
  The inputs of one connection. \<open>ce_wait\<close> and \<open>ce_copy\<close> are what the rest of the node does while the
  handler waits for the decision and while it copies; the four times are the readings of the clock at
  the arrival, at the evaluation of the rules, after the decision and at the end.
\<close>

record 'rx conn_env =
  ce_rules :: "'rx rule_env"
  ce_conn :: conn
  ce_connID :: string
  ce_tlsUnique :: "8 word list"
  ce_start :: gotime
  ce_now :: gotime
  ce_decided :: gotime
  ce_end :: gotime
  ce_geo :: "geo_service option"
  ce_sent :: bool
  ce_wait :: "'rx world \<Rightarrow> 'rx world"
  ce_event :: wait_event
  ce_dial :: bool
  ce_copy :: "'rx world \<Rightarrow> 'rx world"
  ce_bytesIn :: int
  ce_bytesOut :: int
  ce_random :: nat
  ce_ptrIn :: counter_ptr
  ce_ptrOut :: counter_ptr

datatype fate =
    Dropped
  | GlobalBlocked
  | ClosedConn string
  | MockedFallback string ProtoConfig
  | Mocked ProtoConfig
  | Proxied string

definition upd_p :: "(EmbeddedListener \<Rightarrow> EmbeddedListener) \<Rightarrow> 'rx world \<Rightarrow> 'rx world" where
  "upd_p f w = w\<lparr>w_p := f (w_p w)\<rparr>"

definition upd_approval :: "(ApprovalManager \<Rightarrow> ApprovalManager) \<Rightarrow> 'rx world \<Rightarrow> 'rx world" where
  "upd_approval f w = w\<lparr>w_approval := map_option f (w_approval w)\<rparr>"

text \<open>A broadcast that no \<open>Unsubscribe\<close> interrupts always returns (theory Listener).\<close>

definition emit :: "ConnectionEvent \<Rightarrow> 'rx world \<Rightarrow> 'rx world" where
  "emit ev w = (case broadcast ev (w_p w) of Some p \<Rightarrow> w\<lparr>w_p := p\<rparr> | None \<Rightarrow> w)"

definition close_conn :: "'rx conn_env \<Rightarrow> 'rx world \<Rightarrow> 'rx world" where
  "close_conn env = upd_p (\<lambda>p. p\<lparr>l_closed := l_closed p @ [ce_connID env]\<rparr>)"

definition record_stats :: "StatEvent \<Rightarrow> 'rx world \<Rightarrow> 'rx world" where
  "record_stats e w = w\<lparr>w_stats := map_option (\<lambda>es. es @ [e]) (w_stats w)\<rparr>"

text \<open>
  \<open>fmt.Sscanf(s, "%d", &n)\<close> on the port string: optional sign and digits, zero when there are none or the
  number does not fit.
\<close>

fun leading_digits :: "string \<Rightarrow> string" where
  "leading_digits [] = []"
| "leading_digits (c # cs) = (if is_digit c then c # leading_digits cs else [])"

fun digits_value :: "nat \<Rightarrow> string \<Rightarrow> nat" where
  "digits_value n [] = n"
| "digits_value n (c # cs) = digits_value (n * 10 + digit_val c) cs"

definition sscanf_d :: "string \<Rightarrow> int" where
  "sscanf_d s =
     (let neg = (s \<noteq> [] \<and> hd s = CHR ''-'');
          body = (if s \<noteq> [] \<and> (hd s = CHR ''-'' \<or> hd s = CHR ''+'') then tl s else s);
          ds = leading_digits body;
          n = int (digits_value 0 ds) * (if neg then -1 else 1)
      in if ds = [] \<or> n < - (2 ^ 63) \<or> n \<ge> 2 ^ 63 then 0 else n)"

definition source_port :: "conn \<Rightarrow> int" where
  "source_port cn = (case SplitHostPort (RemoteAddr cn) of None \<Rightarrow> 0 | Some (_, port) \<Rightarrow> sscanf_d port)"

definition geo_info :: "'rx conn_env \<Rightarrow> GeoInfo option" where
  "geo_info env = map_option (\<lambda>svc. LookupWithTimeout svc (source_ip (ce_conn env))) (ce_geo env)"

definition conn_event :: "'rx conn_env \<Rightarrow> EventType \<Rightarrow> ActionType \<Rightarrow> GeoInfo option \<Rightarrow> ConnectionEvent" where
  "conn_event env ty act geo =
     \<lparr>ev_ConnId = ce_connID env, ev_SourceIp = source_ip (ce_conn env),
      ev_SourcePort = (if ty = EVENT_TYPE_CONNECTED then wrap32 (source_port (ce_conn env)) else 0),
      ev_Type = ty,
      ev_Timestamp = time_Unix (case ty of EVENT_TYPE_CONNECTED \<Rightarrow> ce_start env | EVENT_TYPE_PENDING_APPROVAL \<Rightarrow> ce_now env
                                | EVENT_TYPE_CLOSED \<Rightarrow> ce_end env | _ \<Rightarrow> ce_decided env),
      ev_Action = act, ev_Geo = geo\<rparr>"

definition stat_event :: "'rx conn_env \<Rightarrow> gotime \<Rightarrow> ActionType \<Rightarrow> string \<Rightarrow> int \<Rightarrow> int \<Rightarrow> StatEvent" where
  "stat_event env start act ruleID bi bo =
     \<lparr>se_SourceIP = source_ip (ce_conn env), se_SourcePort = wrap32 (source_port (ce_conn env)), se_StartTime = start,
      se_EndTime = ce_end env, se_Action = act, se_RuleID = ruleID, se_BytesIn = bi, se_BytesOut = bo, se_Geo = geo_info env\<rparr>"

section \<open>Phases\<close>

definition conn_register :: "'rx conn_env \<Rightarrow> 'rx world \<Rightarrow> 'rx world" where
  "conn_register env =
     upd_p (\<lambda>p. p\<lparr>conns := gput (ce_connID env)
       \<lparr>cm_ID = ce_connID env, cm_SourceIP = source_ip (ce_conn env), cm_SourcePort = source_port (ce_conn env),
        cm_DestAddr = [], cm_StartTime = ce_start env, cm_BytesIn = 0, cm_BytesOut = 0\<rparr> (conns p)\<rparr>)"

definition conn_unregister :: "'rx conn_env \<Rightarrow> 'rx world \<Rightarrow> 'rx world" where
  "conn_unregister env = upd_p (\<lambda>p. p\<lparr>conns := gdel (ce_connID env) (conns p)\<rparr>)"

text \<open>The global rules: blocked, or whether a global allow was found.\<close>

definition global_phase :: "'rx conn_env \<Rightarrow> 'rx world \<Rightarrow> bool \<times> bool" where
  "global_phase env w =
     (case w_global w of
        None \<Rightarrow> (False, False)
      | Some g \<Rightarrow>
          (case gr_Check g (source_ip (ce_conn env)) (ce_now env) of
             (matched, action) \<Rightarrow>
               (matched \<and> action = ACTION_TYPE_BLOCK, matched \<and> action = ACTION_TYPE_ALLOW)))"

text \<open>What the rules decide: action, rule id, backend, the rule for a mock, the limiter.\<close>

record verdict =
  v_action :: ActionType
  v_ruleId :: string
  v_backend :: string
  v_rule :: "Rule option"
  v_limiter :: "string option"

definition decide :: "'rx conn_env \<Rightarrow> bool \<Rightarrow> 'rx world \<Rightarrow> verdict \<times> 'rx world" where
  "decide env globalAllowed w =
     (case evaluateRules (ce_rules env) (ce_now env) (ce_conn env) (geo_info env) (w_p w) (w_regex w) of
        (res, p', c') \<Rightarrow>
          (let default = l_DefaultAction (w_p w);
               v0 = (case res of
                       Some (rule, limiter) \<Rightarrow>
                         \<lparr>v_action = r_Action rule, v_ruleId = r_Id rule, v_backend = r_TargetBackend rule,
                          v_rule = Some rule, v_limiter = limiter\<rparr>
                     | None \<Rightarrow>
                         \<lparr>v_action = default, v_ruleId = ''default'', v_backend = [],
                          v_rule = (if default = ACTION_TYPE_MOCK
                                    then Some (zero_Rule\<lparr>r_Action := ACTION_TYPE_MOCK,
                                      r_MockResponse := Some (zero_MockConfig\<lparr>mc_Preset := l_DefaultMock (w_p w)\<rparr>)\<rparr>)
                                    else None),
                          v_limiter = None\<rparr>);
               v = (if globalAllowed \<and> v_action v0 = ACTION_TYPE_BLOCK then v0\<lparr>v_action := ACTION_TYPE_ALLOW\<rparr> else v0)
           in (v, w\<lparr>w_p := p', w_regex := c'\<rparr>)))"

definition tls_session :: "'rx conn_env \<Rightarrow> string" where
  "tls_session env =
     (case ce_conn env of
        PlainConn _ \<Rightarrow> []
      | TLSConn _ _ \<Rightarrow> if ce_tlsUnique env \<noteq> [] then hex_EncodeToString (ce_tlsUnique env) else ce_connID env)"

definition approval_meta :: "'rx conn_env \<Rightarrow> string \<Rightarrow> 'rx world \<Rightarrow> ApprovalRequestMeta" where
  "approval_meta env ruleId w =
     (let g = (case geo_info env of None \<Rightarrow> empty_geo | Some g \<Rightarrow> g) in
      \<lparr>m_ProxyID = l_ID (w_p w), m_SourceIP = source_ip (ce_conn env), m_DestAddr = l_DefaultBackend (w_p w),
       m_RuleID = ruleId, m_GeoCountry = g_Country g, m_GeoCity = g_City g, m_GeoISP = g_Isp g\<rparr>)"

text \<open>The outcome of the approval phase: the action, whether the connection runs under a cache entry, the
  limit on its lifetime, and whether a request was registered that the handler cancels at its end.\<close>

record approval_out =
  ao_action :: ActionType
  ao_entry :: bool
  ao_maxDuration :: duration
  ao_registered :: bool

definition cache_allow :: "'rx conn_env \<Rightarrow> string \<Rightarrow> ApprovalManager \<Rightarrow> ApprovalManager" where
  "cache_allow env ruleId am =
     am\<lparr>am_cache := snd (ac_SetConnID (source_ip (ce_conn env)) ruleId (tls_session env) (ce_connID env)
                          (Some (ce_ptrIn env)) (Some (ce_ptrOut env)) (am_cache am))\<rparr>"

definition cache_decision :: "'rx conn_env \<Rightarrow> string \<Rightarrow> bool \<Rightarrow> duration \<Rightarrow> 'rx world \<Rightarrow> ApprovalManager \<Rightarrow> ApprovalManager" where
  "cache_decision env ruleId allowed dur w am =
     (let g = (case geo_info env of None \<Rightarrow> empty_geo | Some g \<Rightarrow> g) in
      am\<lparr>am_cache := ac_AddWithGeo (ce_decided env) (source_ip (ce_conn env)) ruleId (l_ID (w_p w)) (tls_session env)
                       allowed dur (g_Country g) (g_City g) (g_Isp g) (am_cache am)\<rparr>)"

text \<open>The wait: a case of the \<open>select\<close> that is not ready leaves the context's end as the only way out.\<close>

definition await_decision :: "'rx conn_env \<Rightarrow> chan_id \<Rightarrow> ApprovalManager \<Rightarrow> (approval_error + ApprovalResult) \<times> ApprovalManager" where
  "await_decision env ch am =
     (case WaitForApproval (ce_event env) ch am of
        (Some r, am') \<Rightarrow> (r, am')
      | (None, am') \<Rightarrow> (Inl ApprovalTimeout, am'))"

definition apply_decision ::
  "'rx conn_env \<Rightarrow> string \<Rightarrow> approval_error + ApprovalResult \<Rightarrow> 'rx world \<Rightarrow> approval_out \<times> 'rx world" where
  "apply_decision env ruleId res w =
     (case res of
        Inl _ \<Rightarrow> (\<lparr>ao_action = ACTION_TYPE_BLOCK, ao_entry = False, ao_maxDuration = 0, ao_registered = True\<rparr>, w)
      | Inr r \<Rightarrow>
          if ar_Allowed r then
            (if ar_RetentionMode r = APPROVAL_RETENTION_MODE_CONNECTION_ONLY then
               (\<lparr>ao_action = ACTION_TYPE_ALLOW, ao_entry = False,
                 ao_maxDuration = (if ar_Duration r > 0 then ar_Duration r else 0), ao_registered = True\<rparr>, w)
             else if ar_Duration r > 0 then
               (\<lparr>ao_action = ACTION_TYPE_ALLOW, ao_entry = True, ao_maxDuration = 0, ao_registered = True\<rparr>,
                upd_approval (\<lambda>am. cache_allow env ruleId (cache_decision env ruleId True (ar_Duration r) w am)) w)
             else (\<lparr>ao_action = ACTION_TYPE_ALLOW, ao_entry = False, ao_maxDuration = 0, ao_registered = True\<rparr>, w))
          else
            (\<lparr>ao_action = ACTION_TYPE_BLOCK, ao_entry = False, ao_maxDuration = 0, ao_registered = True\<rparr>,
             if ar_RetentionMode r \<noteq> APPROVAL_RETENTION_MODE_CONNECTION_ONLY \<and> ar_Duration r > 0
             then upd_approval (cache_decision env ruleId False (ar_Duration r) w) w else w))"

definition request_decision :: "'rx conn_env \<Rightarrow> string \<Rightarrow> ApprovalManager \<Rightarrow> 'rx world \<Rightarrow> approval_out \<times> 'rx world" where
  "request_decision env ruleId am w =
     (let w1 = emit (conn_event env EVENT_TYPE_PENDING_APPROVAL ACTION_TYPE_UNSPECIFIED (geo_info env)) w in
      case BeginApprovalRequest (ce_sent env) (ce_connID env) (approval_meta env ruleId w) am of
        (Inl _, am1) \<Rightarrow>
          (\<lparr>ao_action = ACTION_TYPE_BLOCK, ao_entry = False, ao_maxDuration = 0, ao_registered = False\<rparr>,
           w1\<lparr>w_approval := Some am1\<rparr>)
      | (Inr ch, am1) \<Rightarrow>
          (let w2 = ce_wait env (w1\<lparr>w_approval := Some am1\<rparr>) in
           case w_approval w2 of
             None \<Rightarrow> (\<lparr>ao_action = ACTION_TYPE_BLOCK, ao_entry = False, ao_maxDuration = 0, ao_registered = True\<rparr>, w2)
           | Some am2 \<Rightarrow>
               (case await_decision env ch am2 of
                  (res, am3) \<Rightarrow> apply_decision env ruleId res (w2\<lparr>w_approval := Some am3\<rparr>))))"

definition approval_phase :: "'rx conn_env \<Rightarrow> string \<Rightarrow> 'rx world \<Rightarrow> approval_out \<times> 'rx world" where
  "approval_phase env ruleId w =
     (case w_approval w of
        None \<Rightarrow> (\<lparr>ao_action = ACTION_TYPE_BLOCK, ao_entry = False, ao_maxDuration = 0, ao_registered = False\<rparr>, w)
      | Some am \<Rightarrow>
          (case ac_Check (am_cache am) (source_ip (ce_conn env), ruleId, tls_session env) (ce_now env) of
             (True, True) \<Rightarrow>
               (\<lparr>ao_action = ACTION_TYPE_ALLOW, ao_entry = True, ao_maxDuration = 0, ao_registered = False\<rparr>,
                upd_approval (cache_allow env ruleId) w)
           | (True, False) \<Rightarrow>
               (\<lparr>ao_action = ACTION_TYPE_BLOCK, ao_entry = False, ao_maxDuration = 0, ao_registered = False\<rparr>,
                upd_approval (\<lambda>am. am\<lparr>am_cache := ac_IncrementBlockedCount (source_ip (ce_conn env)) ruleId
                                                     (tls_session env) (am_cache am)\<rparr>) w)
           | (False, _) \<Rightarrow> request_decision env ruleId am w))"

text \<open>The \<open>handleFallback\<close> closure.\<close>

definition handleFallback :: "'rx conn_env \<Rightarrow> string \<Rightarrow> 'rx world \<Rightarrow> fate \<times> 'rx world" where
  "handleFallback env errReason w =
     (let p = w_p w;
          (fa, fm) = getFallback p;
          action = (if fa = FALLBACK_ACTION_UNSPECIFIED
                    then (if l_DefaultMock p \<noteq> MOCK_PRESET_UNSPECIFIED then FALLBACK_ACTION_MOCK else FALLBACK_ACTION_CLOSE)
                    else fa);
          preset = (if fm = MOCK_PRESET_UNSPECIFIED then l_DefaultMock p else fm)
      in if action = FALLBACK_ACTION_MOCK \<and> preset \<noteq> MOCK_PRESET_UNSPECIFIED then
           (case HandleMockConnection (ce_decided env) (ce_random env) (RemoteAddr (ce_conn env))
                   (zero_Rule\<lparr>r_Action := ACTION_TYPE_MOCK, r_MockResponse := Some (zero_MockConfig\<lparr>mc_Preset := preset\<rparr>)\<rparr>)
                   (tarpitHistory p) of
              (cfg, h) \<Rightarrow>
                (MockedFallback errReason cfg,
                 close_conn env (record_stats (stat_event env (ce_start env) ACTION_TYPE_MOCK (''fallback-'' @ errReason) 0 0)
                   (upd_p (\<lambda>p. p\<lparr>tarpitHistory := h\<rparr>) w))))
         else (ClosedConn errReason, close_conn env w))"

definition rule_id_or_empty :: "Rule option \<Rightarrow> string" where
  "rule_id_or_empty r = (case r of None \<Rightarrow> [] | Some rule \<Rightarrow> r_Id rule)"

definition block_path :: "'rx conn_env \<Rightarrow> verdict \<Rightarrow> 'rx world \<Rightarrow> fate \<times> 'rx world" where
  "block_path env v w =
     handleFallback env ''block''
       (record_stats (stat_event env (ce_start env) ACTION_TYPE_BLOCK (rule_id_or_empty (v_rule v)) 0 0)
         (emit (conn_event env EVENT_TYPE_BLOCKED ACTION_TYPE_BLOCK (geo_info env)) w))"

definition mock_path :: "'rx conn_env \<Rightarrow> verdict \<Rightarrow> 'rx world \<Rightarrow> fate \<times> 'rx world" where
  "mock_path env v w =
     (let mockRule = (case v_rule v of
                        Some r \<Rightarrow> r
                      | None \<Rightarrow> zero_Rule\<lparr>r_Action := ACTION_TYPE_MOCK,
                                 r_MockResponse := Some (zero_MockConfig\<lparr>mc_Preset := l_DefaultMock (w_p w)\<rparr>)\<rparr>)
      in case HandleMockConnection (ce_decided env) (ce_random env) (RemoteAddr (ce_conn env)) mockRule (tarpitHistory (w_p w)) of
           (cfg, h) \<Rightarrow>
             (Mocked cfg,
              close_conn env (record_stats (stat_event env (ce_decided env) ACTION_TYPE_MOCK (rule_id_or_empty (v_rule v)) 0 0)
                (upd_p (\<lambda>p. p\<lparr>tarpitHistory := h\<rparr>) w))))"

text \<open>The deferred function of the proxy path: close, report to the limiter, announce.\<close>

definition report_limiter :: "'rx conn_env \<Rightarrow> string option \<Rightarrow> 'rx world \<Rightarrow> 'rx world" where
  "report_limiter env limiter w =
     (case limiter of
        None \<Rightarrow> w
      | Some rid \<Rightarrow>
          upd_p (\<lambda>p. p\<lparr>ruleLimiters := gmod rid (ReportResult (ce_end env) (source_ip (ce_conn env))
                                                   (time_sub (ce_end env) (ce_start env))) (ruleLimiters p)\<rparr>) w)"

definition proxy_exit :: "'rx conn_env \<Rightarrow> verdict \<Rightarrow> 'rx world \<Rightarrow> 'rx world" where
  "proxy_exit env v w =
     emit (conn_event env EVENT_TYPE_CLOSED ACTION_TYPE_UNSPECIFIED None)
       (report_limiter env (v_limiter v) (close_conn env (upd_p decrementActiveConns w)))"

text \<open>The state when both copy goroutines have finished, before the deferred functions run.\<close>

definition copy_done :: "'rx conn_env \<Rightarrow> 'rx world \<Rightarrow> 'rx world" where
  "copy_done env w =
     upd_p (\<lambda>p. addBytesOut (ce_bytesOut env) (addBytesIn (ce_bytesIn env)
       (p\<lparr>conns := gmod (ce_connID env) (\<lambda>m. m\<lparr>cm_BytesIn := ce_bytesIn env, cm_BytesOut := ce_bytesOut env\<rparr>) (conns p)\<rparr>)))
       (ce_copy env w)"

definition approval_done :: "'rx conn_env \<Rightarrow> string \<Rightarrow> bool \<Rightarrow> 'rx world \<Rightarrow> 'rx world" where
  "approval_done env ruleId entry w =
     (if entry then
        upd_approval (\<lambda>am. am\<lparr>am_cache :=
          ac_RemoveConnID (source_ip (ce_conn env)) ruleId (tls_session env) (ce_connID env)
            (ac_UpdateBytes (source_ip (ce_conn env)) ruleId (tls_session env) (ce_bytesIn env) (ce_bytesOut env)
              (am_cache am))\<rparr>) w
      else w)"

definition proxy_path :: "'rx conn_env \<Rightarrow> verdict \<Rightarrow> approval_out \<Rightarrow> 'rx world \<Rightarrow> fate \<times> 'rx world" where
  "proxy_path env v ao w =
     (let targetBackend = (if v_backend v \<noteq> [] then v_backend v else l_DefaultBackend (w_p w));
          w1 = upd_p (\<lambda>p. p\<lparr>conns := gmod (ce_connID env) (\<lambda>m. m\<lparr>cm_DestAddr := targetBackend\<rparr>) (conns p)\<rparr>) w
      in if targetBackend = [] then handleFallback env ''empty-backend'' w1
         else
           (let w2 = upd_p incrementActiveConns w1 in
            if \<not> ce_dial env then
              (case handleFallback env ''dial-failed'' w2 of (f, w3) \<Rightarrow> (f, proxy_exit env v w3))
            else
              (Proxied targetBackend,
               proxy_exit env v
                 (record_stats (stat_event env (ce_start env) (ao_action ao) (rule_id_or_empty (v_rule v)) (ce_bytesIn env) (ce_bytesOut env))
                   (approval_done env (v_ruleId v) (ao_entry ao) (copy_done env w2))))))"

section \<open>The handler\<close>

definition finish_action :: "'rx conn_env \<Rightarrow> verdict \<Rightarrow> approval_out \<Rightarrow> 'rx world \<Rightarrow> fate \<times> 'rx world" where
  "finish_action env v ao w =
     (if ao_action ao = ACTION_TYPE_BLOCK then block_path env v w
      else if ao_action ao = ACTION_TYPE_MOCK then mock_path env v w
      else proxy_path env v ao w)"

definition handle_decided :: "'rx conn_env \<Rightarrow> verdict \<Rightarrow> 'rx world \<Rightarrow> fate \<times> 'rx world" where
  "handle_decided env v w =
     (case (if v_action v = ACTION_TYPE_REQUIRE_APPROVAL then approval_phase env (v_ruleId v) w
            else (\<lparr>ao_action = v_action v, ao_entry = False, ao_maxDuration = 0, ao_registered = False\<rparr>, w)) of
        (ao, w1) \<Rightarrow>
          (case finish_action env v ao w1 of
             (f, w2) \<Rightarrow>
               (f, if ao_registered ao then upd_approval (CancelApprovalRequest (ce_connID env)) w2 else w2)))"

definition handleConn :: "'rx conn_env \<Rightarrow> 'rx world \<Rightarrow> fate \<times> 'rx world" where
  "handleConn env w =
     (if l_quit (w_p w) then (Dropped, close_conn env w)
      else
        (let w1 = emit (conn_event env EVENT_TYPE_CONNECTED ACTION_TYPE_UNSPECIFIED (geo_info env)) (conn_register env w);
             (blocked, globalAllowed) = global_phase env w1
         in if blocked then
              (GlobalBlocked,
               conn_unregister env (close_conn env
                 (emit (conn_event env EVENT_TYPE_BLOCKED ACTION_TYPE_BLOCK (geo_info env)) w1)))
            else
              (case decide env globalAllowed w1 of
                 (v, w2) \<Rightarrow>
                   (case handle_decided env v w2 of (f, w3) \<Rightarrow> (f, conn_unregister env w3)))))"

section \<open>What the phases leave alone\<close>

lemma broadcast_send_frame: "broadcast_send ev chs p = Some p' \<Longrightarrow> \<exists>m. p' = p\<lparr>sub_chans := m\<rparr>"
proof (induction chs arbitrary: p)
  case Nil
  then have "p' = p\<lparr>sub_chans := sub_chans p\<rparr>" by simp
  then show ?case by blast
next
  case (Cons ch chs)
  then obtain buf where "gget (sub_chans p) ch = Some (Open buf)"
    by (auto split: option.splits sub_chan.splits)
  with Cons show ?case by (fastforce split: if_splits)
qed

lemma emit_frame: "\<exists>m. emit ev w = w\<lparr>w_p := (w_p w)\<lparr>sub_chans := m\<rparr>\<rparr>"
proof (cases "broadcast ev (w_p w)")
  case None
  then have "emit ev w = w\<lparr>w_p := (w_p w)\<lparr>sub_chans := sub_chans (w_p w)\<rparr>\<rparr>" by (simp add: emit_def)
  then show ?thesis by blast
next
  case (Some p)
  then show ?thesis using broadcast_send_frame [of ev _ "w_p w" p] by (auto simp: emit_def broadcast_def)
qed

lemma emit_simps [simp]:
  "w_approval (emit ev w) = w_approval w" "w_global (emit ev w) = w_global w" "w_regex (emit ev w) = w_regex w"
  "w_stats (emit ev w) = w_stats w" "conns (w_p (emit ev w)) = conns (w_p w)" "rules (w_p (emit ev w)) = rules (w_p w)"
  "l_quit (w_p (emit ev w)) = l_quit (w_p w)" "activeConns (w_p (emit ev w)) = activeConns (w_p w)"
  "l_DefaultAction (w_p (emit ev w)) = l_DefaultAction (w_p w)" "l_ID (w_p (emit ev w)) = l_ID (w_p w)"
  "l_closed (w_p (emit ev w)) = l_closed (w_p w)"
  using emit_frame [of ev w] by auto

lemmas world_defs = upd_p_def upd_approval_def close_conn_def record_stats_def conn_register_def conn_unregister_def

lemma conns_unregister [simp]: "gget (conns (w_p (conn_unregister env w))) (ce_connID env) = None"
  by (simp add: world_defs)

lemma closed_close [simp]: "ce_connID env \<in> set (l_closed (w_p (close_conn env w)))"
  by (simp add: world_defs)

lemma closed_unregister [simp]: "l_closed (w_p (conn_unregister env w)) = l_closed (w_p w)"
  by (simp add: world_defs)

section \<open>Every exit closes the connection and cleans up\<close>

lemma handleFallback_closes: "ce_connID env \<in> set (l_closed (w_p (snd (handleFallback env reason w))))"
  by (simp add: handleFallback_def Let_def split: prod.split)

lemma closed_report [simp]: "l_closed (w_p (report_limiter env l w)) = l_closed (w_p w)"
  by (simp add: report_limiter_def upd_p_def split: option.split)

lemma proxy_exit_closes: "ce_connID env \<in> set (l_closed (w_p (proxy_exit env v w)))"
  by (simp add: proxy_exit_def)

lemma finish_closes: "ce_connID env \<in> set (l_closed (w_p (snd (finish_action env v ao w))))"
  by (auto simp: finish_action_def block_path_def mock_path_def proxy_path_def Let_def handleFallback_closes proxy_exit_closes
      split: prod.split)

lemma w_p_upd_approval [simp]: "w_p (upd_approval f w) = w_p w"
  by (simp add: upd_approval_def)

lemma handle_decided_closes: "ce_connID env \<in> set (l_closed (w_p (snd (handle_decided env v w))))"
  unfolding handle_decided_def using finish_closes by (auto split: prod.splits) (metis snd_conv)+

section \<open>Pending requests\<close>

definition no_request :: "string \<Rightarrow> 'rx world \<Rightarrow> bool" where
  "no_request rid w = (\<forall>am. w_approval w = Some am \<longrightarrow> gget (requests am) rid = None)"

lemma requests_Cancel:
  "gget (requests (CancelApprovalRequest rid am)) rid' = (if rid' = rid then None else gget (requests am) rid')"
  by (cases "gget (requests am) rid") (simp_all add: CancelApprovalRequest_def)

lemma no_request_cancel [simp]: "no_request rid (upd_approval (CancelApprovalRequest rid) w)"
  by (auto simp: no_request_def upd_approval_def requests_Cancel)

lemma no_request_frame:
  "w_approval w' = w_approval w \<Longrightarrow> no_request rid w' = no_request rid w"
  by (simp add: no_request_def)

lemma no_request_upd_cache:
  "(\<And>am. requests (f am) = requests am) \<Longrightarrow> no_request rid (upd_approval f w) = no_request rid w"
  by (auto simp: no_request_def upd_approval_def)

lemma w_approval_frames [simp]:
  "w_approval (upd_p f w) = w_approval w" "w_approval (close_conn env w) = w_approval w"
  "w_approval (record_stats e w) = w_approval w" "w_approval (conn_unregister env w) = w_approval w"
  "w_approval (conn_register env w) = w_approval w" "w_approval (report_limiter env l w) = w_approval w"
  "w_approval (proxy_exit env v w) = w_approval w"
  by (auto simp: world_defs report_limiter_def proxy_exit_def split: option.split)

lemma w_approval_Fallback [simp]: "w_approval (snd (handleFallback env reason w)) = w_approval w"
  by (auto simp: handleFallback_def Let_def split: prod.split)

lemma w_approval_paths [simp]:
  "w_approval (snd (block_path env v w)) = w_approval w" "w_approval (snd (mock_path env v w)) = w_approval w"
  by (simp add: block_path_def) (simp add: mock_path_def Let_def split: prod.split)

lemma no_request_approval_done [simp]:
  "no_request (ce_connID env) (approval_done env rid e w) = no_request (ce_connID env) w"
  by (simp add: approval_done_def no_request_upd_cache)

lemma no_request_proxy_path:
  assumes "no_request (ce_connID env) w"
    and "\<And>w. no_request (ce_connID env) w \<Longrightarrow> no_request (ce_connID env) (ce_copy env w)"
  shows "no_request (ce_connID env) (snd (proxy_path env v ao w))"
proof -
  have copy: "no_request (ce_connID env) (copy_done env w2)" if "w_approval w2 = w_approval w" for w2
  proof -
    have "no_request (ce_connID env) w2"
      using assms(1) no_request_frame [OF that] by blast
    from assms(2) [OF this] show ?thesis
      unfolding copy_done_def by (rule no_request_frame [THEN iffD2, rotated]) simp
  qed
  define tb w1 w2 where "tb = (if v_backend v \<noteq> [] then v_backend v else l_DefaultBackend (w_p w))"
    and "w1 = upd_p (\<lambda>p. p\<lparr>conns := gmod (ce_connID env) (\<lambda>m. m\<lparr>cm_DestAddr := tb\<rparr>) (conns p)\<rparr>) w"
    and "w2 = upd_p incrementActiveConns w1"
  have ap: "w_approval w1 = w_approval w" "w_approval w2 = w_approval w" by (simp_all add: w1_def w2_def)
  consider "tb = []" | "tb \<noteq> []" "\<not> ce_dial env" | "tb \<noteq> []" "ce_dial env" by blast
  then show ?thesis
  proof cases
    case 1
    then have "snd (proxy_path env v ao w) = snd (handleFallback env ''empty-backend'' w1)"
      by (simp add: proxy_path_def Let_def w1_def flip: tb_def)
    then show ?thesis using assms(1) no_request_frame [of "snd (proxy_path env v ao w)" w] ap by simp
  next
    case 2
    then have "snd (proxy_path env v ao w) = proxy_exit env v (snd (handleFallback env ''dial-failed'' w2))"
      by (simp add: proxy_path_def Let_def w1_def w2_def case_prod_beta flip: tb_def)
    then show ?thesis using assms(1) no_request_frame [of "snd (proxy_path env v ao w)" w] ap by simp
  next
    case 3
    then have "snd (proxy_path env v ao w) = proxy_exit env v
        (record_stats (stat_event env (ce_start env) (ao_action ao) (rule_id_or_empty (v_rule v)) (ce_bytesIn env) (ce_bytesOut env))
          (approval_done env (v_ruleId v) (ao_entry ao) (copy_done env w2)))"
      by (simp add: proxy_path_def Let_def w1_def w2_def flip: tb_def)
    then show ?thesis
      using copy [OF ap(2)]
        no_request_frame [of "snd (proxy_path env v ao w)" "approval_done env (v_ruleId v) (ao_entry ao) (copy_done env w2)"]
      by simp
  qed
qed

lemma no_request_finish:
  assumes "no_request (ce_connID env) w"
    and "\<And>w. no_request (ce_connID env) w \<Longrightarrow> no_request (ce_connID env) (ce_copy env w)"
  shows "no_request (ce_connID env) (snd (finish_action env v ao w))"
proof -
  have "no_request (ce_connID env) (snd (block_path env v w))" "no_request (ce_connID env) (snd (mock_path env v w))"
    using assms(1) by (simp_all add: no_request_def)
  moreover have "no_request (ce_connID env) (snd (proxy_path env v ao w))"
    by (rule no_request_proxy_path [OF assms])
  ultimately show ?thesis by (simp add: finish_action_def)
qed

lemma no_request_Begin:
  "BeginApprovalRequest sent rid meta am = (Inl e, am1) \<Longrightarrow> gget (requests am) rid = None \<Longrightarrow> gget (requests am1) rid = None"
  by (auto simp: BeginApprovalRequest_def begin_register_def requests_Cancel split: if_splits)

lemma approval_phase_unregistered:
  assumes "no_request (ce_connID env) w" "approval_phase env rid w = (ao, w')" "\<not> ao_registered ao"
  shows "no_request (ce_connID env) w'"
proof (cases "w_approval w")
  case None
  then show ?thesis using assms by (auto simp: approval_phase_def)
next
  case (Some am)
  have "no_request (ce_connID env) w'" if "request_decision env rid am w = (ao, w')"
    using that assms(1,3) Some
    by (auto simp: request_decision_def apply_decision_def no_request_def Let_def
        split: prod.splits sum.splits option.splits if_splits dest: no_request_Begin)
  then show ?thesis
    using assms Some
    by (auto simp: approval_phase_def no_request_upd_cache cache_allow_def split: prod.splits bool.splits)
qed

section \<open>When a connection is proxied\<close>

text \<open>
  \<open>approved\<close>: a valid cached decision allows the connection, or its own request was answered and the
  answer that ended the wait allows it.
\<close>

definition approved :: "'rx conn_env \<Rightarrow> string \<Rightarrow> 'rx world \<Rightarrow> bool" where
  "approved env ruleId w =
     (\<exists>am. w_approval w = Some am \<and>
        (ac_Check (am_cache am) (source_ip (ce_conn env), ruleId, tls_session env) (ce_now env) = (True, True) \<or>
         (\<exists>ch am1 am2 am3 r w1.
            BeginApprovalRequest (ce_sent env) (ce_connID env) (approval_meta env ruleId w) am = (Inr ch, am1) \<and>
            w_approval w1 = Some am1 \<and> w_approval (ce_wait env w1) = Some am2 \<and>
            WaitForApproval (ce_event env) ch am2 = (Some (Inr r), am3) \<and> ar_Allowed r)))"

lemma apply_decision_allow:
  "apply_decision env rid res w = (ao, w') \<Longrightarrow>
     ao_action ao = ACTION_TYPE_BLOCK \<or> ao_action ao = ACTION_TYPE_ALLOW \<and> (\<exists>r. res = Inr r \<and> ar_Allowed r)"
  by (auto simp: apply_decision_def split: sum.splits if_splits)

lemma await_allow: "await_decision env ch am = (Inr r, am') \<Longrightarrow> WaitForApproval (ce_event env) ch am = (Some (Inr r), am')"
  by (auto simp: await_decision_def split: prod.splits option.splits)

lemma request_decision_allow:
  assumes "request_decision env rid am w = (ao, w')" "w_approval w = Some am" "ao_action ao \<noteq> ACTION_TYPE_BLOCK"
  shows "ao_action ao = ACTION_TYPE_ALLOW \<and> approved env rid w"
proof -
  define w1 where "w1 = emit (conn_event env EVENT_TYPE_PENDING_APPROVAL ACTION_TYPE_UNSPECIFIED (geo_info env)) w"
  obtain ch am1 where b: "BeginApprovalRequest (ce_sent env) (ce_connID env) (approval_meta env rid w) am = (Inr ch, am1)"
    using assms by (auto simp: request_decision_def Let_def split: prod.splits sum.splits)
  define w2 where "w2 = ce_wait env (w1\<lparr>w_approval := Some am1\<rparr>)"
  obtain am2 where am2: "w_approval w2 = Some am2"
    using assms(1,3) by (cases "w_approval w2") (auto simp: request_decision_def b Let_def w1_def w2_def)
  obtain res am3 where aw: "await_decision env ch am2 = (res, am3)" by fastforce
  have "apply_decision env rid res (w2\<lparr>w_approval := Some am3\<rparr>) = (ao, w')"
    using assms(1) am2 aw by (simp add: request_decision_def b Let_def w1_def w2_def)
  from apply_decision_allow [OF this] assms(3) obtain r where r: "res = Inr r" "ar_Allowed r" "ao_action ao = ACTION_TYPE_ALLOW"
    by auto
  have "WaitForApproval (ce_event env) ch am2 = (Some (Inr r), am3)"
    using await_allow aw r(1) by blast
  moreover have "w_approval (w1\<lparr>w_approval := Some am1\<rparr>) = Some am1" by simp
  ultimately show ?thesis
    using assms(2) b am2 r(2,3) unfolding approved_def w2_def by blast
qed

lemma approval_phase_allow:
  assumes "approval_phase env rid w = (ao, w')" "ao_action ao \<noteq> ACTION_TYPE_BLOCK"
  shows "ao_action ao = ACTION_TYPE_ALLOW \<and> approved env rid w"
proof (cases "w_approval w")
  case None
  then show ?thesis using assms by (auto simp: approval_phase_def)
next
  case (Some am)
  then show ?thesis
    using assms request_decision_allow [of env rid am w ao w']
    by (auto simp: approval_phase_def approved_def split: prod.splits bool.splits)
qed

lemma not_proxied_Fallback: "fst (handleFallback env reason w) \<noteq> Proxied b"
  by (auto simp: handleFallback_def Let_def split: prod.split)

lemma not_proxied_paths: "fst (block_path env v w) \<noteq> Proxied b" "fst (mock_path env v w) \<noteq> Proxied b"
  by (simp add: block_path_def not_proxied_Fallback) (simp add: mock_path_def Let_def split: prod.split)

lemma proxy_path_fst:
  "fst (proxy_path env v ao w) =
     (let tb = (if v_backend v \<noteq> [] then v_backend v else l_DefaultBackend (w_p w));
          w1 = upd_p (\<lambda>p. p\<lparr>conns := gmod (ce_connID env) (\<lambda>m. m\<lparr>cm_DestAddr := tb\<rparr>) (conns p)\<rparr>) w
      in if tb = [] then fst (handleFallback env ''empty-backend'' w1)
         else if \<not> ce_dial env then fst (handleFallback env ''dial-failed'' (upd_p incrementActiveConns w1))
         else Proxied tb)"
  by (simp add: proxy_path_def Let_def case_prod_beta)

lemma finish_proxied:
  assumes "fst (finish_action env v ao w) = Proxied b"
  shows "ao_action ao \<noteq> ACTION_TYPE_BLOCK \<and> ao_action ao \<noteq> ACTION_TYPE_MOCK \<and> ce_dial env \<and>
         b \<noteq> [] \<and> b = (if v_backend v \<noteq> [] then v_backend v else l_DefaultBackend (w_p w))"
proof -
  have na: "ao_action ao \<noteq> ACTION_TYPE_BLOCK" "ao_action ao \<noteq> ACTION_TYPE_MOCK"
    using assms by (auto simp: finish_action_def not_proxied_paths split: if_splits)
  then have "fst (proxy_path env v ao w) = Proxied b"
    using assms by (simp add: finish_action_def)
  then show ?thesis
    using na by (simp add: proxy_path_fst Let_def not_proxied_Fallback split: if_splits)
qed

lemma finish_proxies:
  assumes "ao_action ao \<noteq> ACTION_TYPE_BLOCK" "ao_action ao \<noteq> ACTION_TYPE_MOCK" "ce_dial env"
    and "b = (if v_backend v \<noteq> [] then v_backend v else l_DefaultBackend (w_p w))" "b \<noteq> []"
  shows "fst (finish_action env v ao w) = Proxied b"
  using assms by (simp add: finish_action_def proxy_path_fst Let_def)

lemma no_request_handle_decided:
  assumes "no_request (ce_connID env) w"
    and "\<And>w. no_request (ce_connID env) w \<Longrightarrow> no_request (ce_connID env) (ce_copy env w)"
  shows "no_request (ce_connID env) (snd (handle_decided env v w))"
proof -
  define d where "d = (if v_action v = ACTION_TYPE_REQUIRE_APPROVAL then approval_phase env (v_ruleId v) w
    else (\<lparr>ao_action = v_action v, ao_entry = False, ao_maxDuration = 0, ao_registered = False\<rparr>, w))"
  obtain ao w1 where d: "d = (ao, w1)" by fastforce
  have eq: "snd (handle_decided env v w) =
      (if ao_registered ao then upd_approval (CancelApprovalRequest (ce_connID env)) (snd (finish_action env v ao w1))
       else snd (finish_action env v ao w1))"
    using d by (simp add: handle_decided_def case_prod_beta flip: d_def)
  show ?thesis
  proof (cases "ao_registered ao")
    case False
    have "no_request (ce_connID env) w1"
      using d False assms(1) approval_phase_unregistered [OF assms(1), of "v_ruleId v" ao w1]
      by (auto simp: d_def split: if_splits)
    from no_request_finish [OF this assms(2)] show ?thesis using False eq by simp
  qed (simp add: eq)
qed

text \<open>The state in which the rules are evaluated.\<close>

definition connected :: "'rx conn_env \<Rightarrow> 'rx world \<Rightarrow> 'rx world" where
  "connected env w =
     emit (conn_event env EVENT_TYPE_CONNECTED ACTION_TYPE_UNSPECIFIED (geo_info env)) (conn_register env w)"

lemma handleConn_unfold:
  "handleConn env w =
     (if l_quit (w_p w) then (Dropped, close_conn env w)
      else if fst (global_phase env (connected env w)) then
        (GlobalBlocked, conn_unregister env (close_conn env
           (emit (conn_event env EVENT_TYPE_BLOCKED ACTION_TYPE_BLOCK (geo_info env)) (connected env w))))
      else
        (let (v, w2) = decide env (snd (global_phase env (connected env w))) (connected env w)
         in (fst (handle_decided env v w2), conn_unregister env (snd (handle_decided env v w2)))))"
  by (simp add: handleConn_def connected_def Let_def case_prod_beta)

lemma handle_decided_fst:
  "fst (handle_decided env v w) =
     (if v_action v = ACTION_TYPE_REQUIRE_APPROVAL
      then fst (finish_action env v (fst (approval_phase env (v_ruleId v) w)) (snd (approval_phase env (v_ruleId v) w)))
      else fst (finish_action env v \<lparr>ao_action = v_action v, ao_entry = False, ao_maxDuration = 0, ao_registered = False\<rparr> w))"
  by (simp add: handle_decided_def case_prod_beta)

section \<open>Properties\<close>

definition global_says :: "'rx conn_env \<Rightarrow> 'rx world \<Rightarrow> ActionType \<Rightarrow> bool" where
  "global_says env w act =
     (case w_global w of None \<Rightarrow> False | Some g \<Rightarrow> gr_Check g (source_ip (ce_conn env)) (ce_now env) = (True, act))"

lemma global_phase_says: "global_phase env w = (global_says env w ACTION_TYPE_BLOCK, global_says env w ACTION_TYPE_ALLOW)"
  by (auto simp: global_phase_def global_says_def split: option.split prod.split)

lemma decide_verdict:
  assumes "evaluateRules (ce_rules env) (ce_now env) (ce_conn env) (geo_info env) (w_p w) (w_regex w) = (res, p', c')"
    and "decide env allowed w = (v, w2)"
  shows "w2 = w\<lparr>w_p := p', w_regex := c'\<rparr>"
    and "v_ruleId v = (case res of Some (r, _) \<Rightarrow> r_Id r | None \<Rightarrow> ''default'')"
    and "v_action v = (let act = (case res of Some (r, _) \<Rightarrow> r_Action r | None \<Rightarrow> l_DefaultAction (w_p w))
                       in if allowed \<and> act = ACTION_TYPE_BLOCK then ACTION_TYPE_ALLOW else act)"
  using assms by (auto simp: decide_def Let_def split: option.splits)

text \<open>(C1) Who reaches a backend: a connection is proxied only when no global rule blocks its address, the
  backend could be dialled, and the action of the deciding rule (or the default) is not mock, is block only
  under a global allow of the address, and where it requires approval there is a valid cached approval or
  an answer to its own request that allows it. A global allow does not stand in for the approval.\<close>

theorem proxied_only_if_permitted:
  assumes "fst (handleConn env w) = Proxied b"
    and "evaluateRules (ce_rules env) (ce_now env) (ce_conn env) (geo_info env) (w_p (connected env w)) (w_regex w) = (res, p', c')"
    and "act = (case res of Some (r, _) \<Rightarrow> r_Action r | None \<Rightarrow> l_DefaultAction (w_p w))"
    and "rid = (case res of Some (r, _) \<Rightarrow> r_Id r | None \<Rightarrow> ''default'')"
  shows "\<not> global_says env w ACTION_TYPE_BLOCK \<and> ce_dial env \<and> b \<noteq> [] \<and> act \<noteq> ACTION_TYPE_MOCK \<and>
         (act = ACTION_TYPE_BLOCK \<longrightarrow> global_says env w ACTION_TYPE_ALLOW) \<and>
         (act = ACTION_TYPE_REQUIRE_APPROVAL \<longrightarrow> approved env rid ((connected env w)\<lparr>w_p := p', w_regex := c'\<rparr>))"
proof -
  define w1 where "w1 = connected env w"
  have fr: "w_regex w1 = w_regex w" "l_DefaultAction (w_p w1) = l_DefaultAction (w_p w)" "global_says env w1 = global_says env w"
    by (auto simp: w1_def connected_def conn_register_def global_says_def upd_p_def fun_eq_iff)
  obtain v w2 where d: "decide env (global_says env w ACTION_TYPE_ALLOW) w1 = (v, w2)" by fastforce
  have ev: "evaluateRules (ce_rules env) (ce_now env) (ce_conn env) (geo_info env) (w_p w1) (w_regex w1) = (res, p', c')"
    using assms(2) by (simp add: fr w1_def [symmetric])
  note dv = decide_verdict [OF ev d]
  have nb: "\<not> global_says env w ACTION_TYPE_BLOCK" and h: "fst (handle_decided env v w2) = Proxied b"
    using assms(1) d fr(3) by (auto simp: handleConn_unfold global_phase_says w1_def split: if_splits)
  have "ce_dial env \<and> b \<noteq> [] \<and> v_action v \<noteq> ACTION_TYPE_BLOCK \<and> v_action v \<noteq> ACTION_TYPE_MOCK \<and>
        (v_action v = ACTION_TYPE_REQUIRE_APPROVAL \<longrightarrow> approved env (v_ruleId v) w2)"
  proof (cases "v_action v = ACTION_TYPE_REQUIRE_APPROVAL")
    case True
    obtain ao w3 where ap: "approval_phase env (v_ruleId v) w2 = (ao, w3)" by fastforce
    have "fst (finish_action env v ao w3) = Proxied b" using h True by (simp add: handle_decided_fst ap)
    from finish_proxied [OF this] approval_phase_allow [OF ap] True show ?thesis by auto
  next
    case False
    then show ?thesis using h finish_proxied by (fastforce simp: handle_decided_fst)
  qed
  moreover have "v_action v = (if global_says env w ACTION_TYPE_ALLOW \<and> act = ACTION_TYPE_BLOCK then ACTION_TYPE_ALLOW else act)"
    "v_ruleId v = rid"
    using dv(2,3) assms(3,4) fr(2) by (simp_all add: Let_def cong: option.case_cong)
  ultimately show ?thesis using nb dv(1) by (auto simp: w1_def split: if_splits)
qed

text \<open>A connection used by the examples: an operator answers its request while it waits.\<close>

definition answering :: "bool \<Rightarrow> string world \<Rightarrow> string world" where
  "answering allowed =
     upd_approval (\<lambda>am. snd (ResolveWithRetention ''c1'' allowed 60 [] APPROVAL_RETENTION_MODE_CACHE am))"

definition demo_conn_env :: "bool \<Rightarrow> string conn_env" where
  "demo_conn_env allowed =
     \<lparr>ce_rules = demo_env, ce_conn = PlainConn ''10.0.0.1:5000'', ce_connID = ''c1'', ce_tlsUnique = [], ce_start = 1,
      ce_now = 2, ce_decided = 3, ce_end = 4, ce_geo = None, ce_sent = True, ce_wait = answering allowed,
      ce_event = ResultReady, ce_dial = True, ce_copy = id, ce_bytesIn = 10, ce_bytesOut = 20, ce_random = 0,
      ce_ptrIn = 0, ce_ptrOut = 1\<rparr>"

definition demo_world :: "ActionType \<Rightarrow> string world" where
  "demo_world act =
     \<lparr>w_p = demo_listener\<lparr>l_DefaultAction := act\<rparr>, w_approval = Some NewApprovalManager,
      w_global = Some NewGlobalRulesStore, w_regex = [], w_stats = Some []\<rparr>"

lemma proxied_only_if_permitted_witness:
  "fst (handleConn (demo_conn_env True) (demo_world ACTION_TYPE_REQUIRE_APPROVAL)) = Proxied ''b:80'' \<and>
   (\<exists>w2. approved (demo_conn_env True) ''default'' w2)"
proof -
  let ?e = "demo_conn_env True" and ?w = "demo_world ACTION_TYPE_REQUIRE_APPROVAL"
  let ?ev = "evaluateRules (ce_rules ?e) (ce_now ?e) (ce_conn ?e) (geo_info ?e) (w_p (connected ?e ?w)) (w_regex ?w)"
  have run: "fst (handleConn ?e ?w) = Proxied ''b:80''" by code_simp
  have n: "fst ?ev = None" by code_simp
  have "?ev = (None, fst (snd ?ev), snd (snd ?ev))" using n by (metis prod.collapse)
  from proxied_only_if_permitted [OF run this refl refl]
  show ?thesis using run by (auto simp: demo_world_def)
qed

text \<open>(C10) Whatever happens to a connection, when its handler returns the socket is closed, the connection
  is gone from the table of live connections and no approval request of it is pending, so that neither
  table can leak; the only thing assumed is that nobody else files a request under its id.\<close>

theorem handler_always_cleans_up:
  assumes "no_request (ce_connID env) w"
    and "\<And>w. no_request (ce_connID env) w \<Longrightarrow> no_request (ce_connID env) (ce_copy env w)"
    and "gget (conns (w_p w)) (ce_connID env) = None"
  shows "ce_connID env \<in> set (l_closed (w_p (snd (handleConn env w)))) \<and>
         gget (conns (w_p (snd (handleConn env w)))) (ce_connID env) = None \<and>
         no_request (ce_connID env) (snd (handleConn env w))"
proof (cases "l_quit (w_p w) \<or> fst (global_phase env (connected env w))")
  case True
  have "no_request (ce_connID env) (connected env w)"
    using assms(1) by (simp add: no_request_def connected_def)
  then show ?thesis
    using True assms(1,3) by (auto simp: handleConn_unfold no_request_def) (simp_all add: world_defs)
next
  case False
  define d where "d = decide env (snd (global_phase env (connected env w))) (connected env w)"
  have nr: "no_request (ce_connID env) (snd d)"
    using assms(1)
    by (simp add: no_request_def d_def decide_def connected_def Let_def case_prod_beta)
  have "no_request (ce_connID env) (snd (handle_decided env (fst d) (snd d)))"
    by (rule no_request_handle_decided [OF nr assms(2)])
  then show ?thesis
    using False handle_decided_closes [of env "fst d" "snd d"]
    by (simp add: handleConn_unfold no_request_def case_prod_beta flip: d_def)
qed

lemma handler_always_cleans_up_witness:
  "no_request ''c1'' (snd (handleConn (demo_conn_env False) (demo_world ACTION_TYPE_REQUIRE_APPROVAL))) \<and>
   fst (handleConn (demo_conn_env False) (demo_world ACTION_TYPE_REQUIRE_APPROVAL)) = ClosedConn ''block'' \<and>
   gget (conns (w_p (snd (handleConn (demo_conn_env False) (demo_world ACTION_TYPE_REQUIRE_APPROVAL))))) ''c1'' = None"
proof -
  let ?e = "demo_conn_env False" and ?w = "demo_world ACTION_TYPE_REQUIRE_APPROVAL"
  have a: "no_request (ce_connID ?e) ?w" by (simp add: no_request_def demo_world_def NewApprovalManager_def)
  have b: "no_request (ce_connID ?e) (ce_copy ?e w)" if "no_request (ce_connID ?e) w" for w
    using that by (simp add: demo_conn_env_def)
  have c: "gget (conns (w_p ?w)) (ce_connID ?e) = None"
    by (simp add: demo_world_def demo_listener_def NewEmbeddedListener_def)
  have i: "ce_connID ?e = ''c1''" by (simp add: demo_conn_env_def)
  have "fst (handleConn ?e ?w) = ClosedConn ''block''" by code_simp
  with handler_always_cleans_up [OF a b c] show ?thesis unfolding i by simp
qed

text \<open>An action that is neither block, mock nor require-approval is proxied: a rule (or a default) whose
  action was left unspecified, or carries a number the enum does not have, lets the connection through to
  the backend.\<close>

theorem unspecified_action_is_proxied:
  assumes "\<not> l_quit (w_p w)" and "\<not> fst (global_phase env (connected env w))"
    and "decide env (snd (global_phase env (connected env w))) (connected env w) = (v, w2)"
    and "v_action v = ACTION_TYPE_UNSPECIFIED \<or> v_action v = ACTION_TYPE_OTHER k"
    and "v_backend v \<noteq> []" and "ce_dial env"
  shows "fst (handleConn env w) = Proxied (v_backend v)"
  using assms by (auto simp: handleConn_unfold handle_decided_fst finish_proxies)

definition forgetful_rule :: Rule where
  "forgetful_rule = zero_Rule\<lparr>r_Id := ''r'', r_Enabled := True, r_TargetBackend := ''db:5432'', r_Action := ACTION_TYPE_UNSPECIFIED\<rparr>"

definition forgetful_world :: "string world" where
  "forgetful_world = (demo_world ACTION_TYPE_BLOCK)\<lparr>w_p := AddRule forgetful_rule (demo_listener\<lparr>l_DefaultAction := ACTION_TYPE_BLOCK\<rparr>),
     w_global := None\<rparr>"

lemma unspecified_action_is_proxied_witness:
  "fst (handleConn (demo_conn_env True) forgetful_world) = Proxied ''db:5432''"
proof -
  let ?e = "demo_conn_env True" and ?w = forgetful_world
  let ?d = "decide ?e (snd (global_phase ?e (connected ?e ?w))) (connected ?e ?w)"
  have q: "\<not> l_quit (w_p ?w)" "ce_dial ?e"
    by (simp_all add: forgetful_world_def demo_world_def demo_listener_def NewEmbeddedListener_def demo_conn_env_def AddRule_def
        split: option.split)
  have "w_global (connected ?e ?w) = None"
    by (simp add: connected_def world_defs forgetful_world_def)
  then have g: "\<not> fst (global_phase ?e (connected ?e ?w))" by (simp add: global_phase_def)
  have v: "v_action (fst ?d) = ACTION_TYPE_UNSPECIFIED \<and> v_backend (fst ?d) = ''db:5432''" by code_simp
  from unspecified_action_is_proxied [OF q(1) g, of "fst ?d" "snd ?d"] q(2) v show ?thesis by simp
qed

text \<open>Traffic is counted twice in the status while a finished connection is still in the table: its bytes
  are added to the totals of the listener when the copying ends, and \<open>GetStatus\<close> adds the bytes of the
  entries of the table, which the handler removes only afterwards.\<close>

theorem status_counts_finished_bytes_twice:
  assumes "conns (w_p (ce_copy env w)) = [(ce_connID env, m)]" and "bytesIn (w_p (ce_copy env w)) = b"
    and "0 \<le> b" and "0 \<le> ce_bytesIn env" and "b + 2 * ce_bytesIn env < 2 ^ 63"
  shows "st_BytesIn (GetStatus now (w_p (copy_done env w))) = b + 2 * ce_bytesIn env"
proof -
  have "wrap64 (b + ce_bytesIn env) = b + ce_bytesIn env" "wrap64 (b + ce_bytesIn env + ce_bytesIn env) = b + 2 * ce_bytesIn env"
    using assms(3-5) by (simp_all add: wrap64_id)
  then show ?thesis
    using assms(1,2) by (simp add: copy_done_def upd_p_def GetStatus_def addBytesIn_def addBytesOut_def gmod_def)
qed

lemma status_counts_finished_bytes_twice_witness:
  "st_BytesIn (GetStatus 0 (w_p (copy_done (demo_conn_env True) (conn_register (demo_conn_env True) (demo_world ACTION_TYPE_ALLOW))))) = 20"
  by (subst status_counts_finished_bytes_twice [where b = 0])
     (simp_all add: demo_conn_env_def conn_register_def upd_p_def demo_world_def demo_listener_def NewEmbeddedListener_def)

text \<open>A failed GeoIP lookup is not missing evidence: the service answers with an empty record, so a negated
  country condition matches every address whose lookup failed or timed out, where without a service
  the same condition does not match.\<close>

theorem failed_lookup_satisfies_negated_country:
  assumes "ce_geo env = Some svc" and "svc = None \<or> svc = Some client \<and> client (source_ip (ce_conn env)) = None"
    and "cond = \<lparr>c_Type = CONDITION_TYPE_GEO_COUNTRY, c_Op = OPERATOR_EQ, c_Value = country, c_Negate = True\<rparr>"
    and "country \<noteq> []"
  shows "fst (matchCondition (ce_rules env) cond (ce_conn env) (geo_info env) c) \<and>
         \<not> fst (matchCondition (ce_rules env) cond (ce_conn env) None c)"
  using assms
  by (auto simp: geo_info_def LookupWithTimeout_def empty_geo_def matchCondition_def cond_evidence_def matchString_def Let_def)

lemma failed_lookup_satisfies_negated_country_witness:
  "fst (matchCondition demo_env \<lparr>c_Type = CONDITION_TYPE_GEO_COUNTRY, c_Op = OPERATOR_EQ, c_Value = ''US'', c_Negate = True\<rparr>
     (PlainConn ''10.0.0.1:5000'') (Some empty_geo) [])"
proof -
  let ?e = "(demo_conn_env True)\<lparr>ce_geo := Some (Some (\<lambda>_. None))\<rparr>"
  have "ce_geo ?e = Some (Some (\<lambda>_. None))" by simp
  from failed_lookup_satisfies_negated_country [OF this, of "\<lambda>_. None" _ "''US''" "[]"] show ?thesis
    by (simp add: geo_info_def LookupWithTimeout_def) (simp add: demo_conn_env_def)
qed

end
