(* ===== verification/Health.thy ===== *)
theory Health
  imports Nitella_Prelude
begin

text \<open>
  The health checker of \<^verbatim>\<open>pkg/node/health/checker.go\<close>: services under watch, one monitor goroutine for each,
  and the two-failures rule that turns probe results into a status and alerts. The probe itself (dial or
  HTTP request) is an input; what is modelled of it is the address it goes to and how its answer is read.
\<close>

section \<open>State\<close>

record HealthCheck =
  hk_Interval :: string
  hk_Timeout :: string
  hk_Type :: string
  hk_Path :: string
  hk_ExpectedStatus :: int

record Service =
  svc_Address :: string
  svc_HealthCheck :: "HealthCheck option"

record ServiceStatus =
  Healthy :: bool
  LastChecked :: gotime
  FailureCnt :: int

text \<open>
  A monitor is a goroutine with its own context: \<open>hc_cancelFns\<close> holds the context of each service,
  \<open>hc_monitors\<close> the goroutines that run. One that is started after \<open>Stop\<close> returns at once.
\<close>

record HealthChecker =
  hc_services :: "(string, Service) gomap"
  hc_statuses :: "(string, ServiceStatus) gomap"
  hc_cancelFns :: "(string, nat) gomap"
  hc_monitors :: "(nat, string \<times> Service) gomap"
  hc_next :: nat
  hc_stopped :: bool

section \<open>Operations\<close>

definition NewHealthChecker :: "(string, Service) gomap \<Rightarrow> HealthChecker" where
  "NewHealthChecker services =
     \<lparr>hc_services = services, hc_statuses = [], hc_cancelFns = [], hc_monitors = [], hc_next = 0, hc_stopped = False\<rparr>"

definition cancel_monitor :: "string \<Rightarrow> HealthChecker \<Rightarrow> HealthChecker" where
  "cancel_monitor name hc =
     (case gget (hc_cancelFns hc) name of
        None \<Rightarrow> hc
      | Some ctx \<Rightarrow> hc\<lparr>hc_monitors := gdel ctx (hc_monitors hc)\<rparr>)"

definition startMonitor :: "string \<Rightarrow> Service \<Rightarrow> HealthChecker \<Rightarrow> HealthChecker" where
  "startMonitor name svc hc =
     (let hc1 = cancel_monitor name hc; ctx = hc_next hc in
      hc1\<lparr>hc_cancelFns := gput name ctx (hc_cancelFns hc1),
          hc_statuses := gput name \<lparr>Healthy = True, LastChecked = 0, FailureCnt = 0\<rparr> (hc_statuses hc1),
          hc_monitors := (if hc_stopped hc1 then hc_monitors hc1 else gput ctx (name, svc) (hc_monitors hc1)),
          hc_next := ctx + 1\<rparr>)"

definition hc_Start :: "HealthChecker \<Rightarrow> HealthChecker" where
  "hc_Start hc =
     fold (\<lambda>(name, svc) h. if svc_HealthCheck svc = None then h else startMonitor name svc h) (hc_services hc) hc"

text \<open>\<open>stopCh\<close> ends every monitor, also one whose context was lost.\<close>

definition hc_Stop :: "HealthChecker \<Rightarrow> HealthChecker" where
  "hc_Stop hc = hc\<lparr>hc_cancelFns := [], hc_monitors := [], hc_stopped := True\<rparr>"

definition AddService :: "string \<Rightarrow> Service \<Rightarrow> HealthChecker \<Rightarrow> HealthChecker" where
  "AddService name svc hc =
     (let hc1 = hc\<lparr>hc_services := gput name svc (hc_services hc)\<rparr> in
      if svc_HealthCheck svc \<noteq> None then startMonitor name svc hc1 else hc1)"

definition RemoveService :: "string \<Rightarrow> HealthChecker \<Rightarrow> HealthChecker" where
  "RemoveService name hc =
     (let hc1 = cancel_monitor name hc in
      hc1\<lparr>hc_cancelFns := gdel name (hc_cancelFns hc1), hc_services := gdel name (hc_services hc1),
          hc_statuses := gdel name (hc_statuses hc1)\<rparr>)"

text \<open>
  The interval and the timeout of a monitor: \<open>parsed\<close> is the result of \<^verbatim>\<open>time.ParseDuration\<close>. A ticker with an
  interval that is not positive panics.
\<close>

definition monitor_interval :: "duration option \<Rightarrow> duration option" where
  "monitor_interval parsed =
     (let interval = (case parsed of None \<Rightarrow> 10 * second | Some d \<Rightarrow> d) in if interval \<le> 0 then None else Some interval)"

definition monitor_timeout :: "duration option \<Rightarrow> duration" where
  "monitor_timeout parsed = (case parsed of None \<Rightarrow> 2 * second | Some d \<Rightarrow> d)"

text \<open>The part of \<open>check\<close> after the probe: the new status and the call of the status callback, if any.\<close>

definition hc_check :: "string \<Rightarrow> bool \<Rightarrow> gotime \<Rightarrow> HealthChecker \<Rightarrow> bool option \<times> HealthChecker" where
  "hc_check name healthy now hc =
     (let status = (case gget (hc_statuses hc) name of
                      None \<Rightarrow> \<lparr>Healthy = True, LastChecked = 0, FailureCnt = 0\<rparr> | Some st \<Rightarrow> st);
          prevHealthy = Healthy status;
          status1 = status\<lparr>LastChecked := now\<rparr>
      in if healthy then
           (if \<not> prevHealthy then Some True else None,
            hc\<lparr>hc_statuses := gput name (status1\<lparr>FailureCnt := 0, Healthy := True\<rparr>) (hc_statuses hc)\<rparr>)
         else
           (let status2 = status1\<lparr>FailureCnt := FailureCnt status1 + 1\<rparr> in
            if FailureCnt status2 \<ge> 2 \<and> prevHealthy then
              (Some False, hc\<lparr>hc_statuses := gput name (status2\<lparr>Healthy := False\<rparr>) (hc_statuses hc)\<rparr>)
            else (None, hc\<lparr>hc_statuses := gput name status2 (hc_statuses hc)\<rparr>)))"

definition hc_GetStatus :: "string \<Rightarrow> HealthChecker \<Rightarrow> bool \<times> bool" where
  "hc_GetStatus name hc =
     (case gget (hc_statuses hc) name of None \<Rightarrow> (False, False) | Some st \<Rightarrow> (Healthy st, True))"

definition hc_GetAllStatuses :: "HealthChecker \<Rightarrow> (string, ServiceStatus) gomap" where
  "hc_GetAllStatuses hc = hc_statuses hc"

section \<open>Probes\<close>

text \<open>Which probe a type selects, the URL of an HTTP probe, and how its status code is read (\<open>None\<close>: the
  request failed).\<close>

datatype probe = ProbeHTTP | ProbeTCP

definition probe_of :: "string \<Rightarrow> probe" where
  "probe_of ty = (if ty = ''http'' \<or> ty = ''https'' then ProbeHTTP else ProbeTCP)"

definition checkTCP :: "bool \<Rightarrow> bool" where
  "checkTCP dialled = dialled"

definition check_url :: "string \<Rightarrow> string \<Rightarrow> string" where
  "check_url address path =
     (if \<not> strings_HasPrefix address ''http://'' \<and> \<not> strings_HasPrefix address ''https://''
      then ''http://'' @ address @ path
      else if strings_HasSuffix address ''/'' \<and> strings_HasPrefix path ''/''
      then take (length address - 1) address @ path
      else if \<not> strings_HasSuffix address ''/'' \<and> \<not> strings_HasPrefix path ''/''
      then address @ ''/'' @ path
      else address @ path)"

definition checkHTTP :: "int \<Rightarrow> int option \<Rightarrow> bool" where
  "checkHTTP expectedStatus resp =
     (case resp of
        None \<Rightarrow> False
      | Some code \<Rightarrow>
          if expectedStatus > 0 \<and> code \<noteq> expectedStatus then False
          else if expectedStatus = 0 \<and> code \<ge> 400 then False
          else True)"

section \<open>One monitor per service\<close>

text \<open>
  \<open>hc_ok\<close>: the running monitors are exactly those the checker can cancel, each under its own context, so no
  goroutine is leaked and no service is probed by two of them.
\<close>

definition hc_ok :: "HealthChecker \<Rightarrow> bool" where
  "hc_ok hc =
     (gwf (hc_cancelFns hc) \<and> gwf (hc_monitors hc) \<and>
      (\<forall>name ctx svc. gget (hc_monitors hc) ctx = Some (name, svc) \<longrightarrow> gget (hc_cancelFns hc) name = Some ctx) \<and>
      (\<forall>name ctx. \<not> hc_stopped hc \<longrightarrow> gget (hc_cancelFns hc) name = Some ctx \<longrightarrow>
         (\<exists>svc. gget (hc_monitors hc) ctx = Some (name, svc))) \<and>
      (\<forall>name ctx. gget (hc_cancelFns hc) name = Some ctx \<longrightarrow> ctx < hc_next hc))"

lemma hc_okD:
  assumes "hc_ok hc"
  shows "gwf (hc_cancelFns hc)" "gwf (hc_monitors hc)"
    and "gget (hc_monitors hc) ctx = Some (name, svc) \<Longrightarrow> gget (hc_cancelFns hc) name = Some ctx"
    and "\<not> hc_stopped hc \<Longrightarrow> gget (hc_cancelFns hc) name = Some ctx \<Longrightarrow> \<exists>svc. gget (hc_monitors hc) ctx = Some (name, svc)"
    and "gget (hc_cancelFns hc) name = Some ctx \<Longrightarrow> ctx < hc_next hc"
  using assms unfolding hc_ok_def by (elim conjE, assumption | metis)+

lemma hc_ok_New [inv_intros]: "hc_ok (NewHealthChecker svcs)"
  by (simp add: hc_ok_def NewHealthChecker_def)

lemma hc_ok_frame [simp]: "hc_ok (hc\<lparr>hc_services := s\<rparr>) = hc_ok hc" "hc_ok (hc\<lparr>hc_statuses := t\<rparr>) = hc_ok hc"
  by (simp_all add: hc_ok_def)

lemma hc_ok_Stop [inv_intros]: "hc_ok (hc_Stop hc)"
  by (simp add: hc_ok_def hc_Stop_def)

lemma hc_ok_check [inv_intros]: "hc_ok hc \<Longrightarrow> hc_ok (snd (hc_check name b now hc))"
  by (simp add: hc_check_def Let_def)

lemma cancel_monitor_simps [simp]:
  "hc_cancelFns (cancel_monitor name hc) = hc_cancelFns hc" "hc_next (cancel_monitor name hc) = hc_next hc"
  "hc_statuses (cancel_monitor name hc) = hc_statuses hc" "hc_stopped (cancel_monitor name hc) = hc_stopped hc" "hc_services (cancel_monitor name hc) = hc_services hc"
  by (simp_all add: cancel_monitor_def split: option.split)

lemma cancel_monitor_gget:
  assumes "hc_ok hc"
  shows "gget (hc_monitors (cancel_monitor name hc)) ctx =
           (if gget (hc_cancelFns hc) name = Some ctx then None else gget (hc_monitors hc) ctx)"
  by (simp add: cancel_monitor_def split: option.split)

lemma cancel_monitor_wf: "hc_ok hc \<Longrightarrow> gwf (hc_monitors (cancel_monitor name hc))"
  by (auto simp: cancel_monitor_def hc_okD(2) split: option.split)

lemma hc_ok_Remove [inv_intros]:
  assumes "hc_ok hc"
  shows "hc_ok (RemoveService name hc)"
  unfolding hc_ok_def
proof (intro conjI allI impI)
  let ?h = "RemoveService name hc"
  show "gwf (hc_cancelFns ?h)" "gwf (hc_monitors ?h)"
    using hc_okD(1) [OF assms] cancel_monitor_wf [OF assms] by (simp_all add: RemoveService_def Let_def)
  show "gget (hc_cancelFns ?h) n = Some ctx" if "gget (hc_monitors ?h) ctx = Some (n, s)" for n ctx s
    using that hc_okD(3) [OF assms, where ctx = ctx and name = n and svc = s]
    by (auto simp: RemoveService_def Let_def cancel_monitor_gget [OF assms] split: if_splits)
  show "\<exists>s. gget (hc_monitors ?h) ctx = Some (n, s)"
    if "\<not> hc_stopped ?h" "gget (hc_cancelFns ?h) n = Some ctx" for n ctx
    using that hc_okD(4) [OF assms, of n ctx] hc_okD(4) [OF assms, of name ctx]
    by (auto simp: RemoveService_def Let_def cancel_monitor_gget [OF assms] split: if_splits)
  show "ctx < hc_next ?h" if "gget (hc_cancelFns ?h) n = Some ctx" for n ctx
    using that hc_okD(5) [OF assms, of n ctx] by (auto simp: RemoveService_def Let_def split: if_splits)
qed

lemma hc_ok_startMonitor [inv_intros]:
  assumes "hc_ok hc"
  shows "hc_ok (startMonitor name svc hc)"
  unfolding hc_ok_def
proof (intro conjI allI impI)
  let ?h = "startMonitor name svc hc"
  have fresh: "gget (hc_cancelFns hc) n \<noteq> Some (hc_next hc)" for n
    using hc_okD(5) [OF assms, of n "hc_next hc"] by auto
  show "gwf (hc_cancelFns ?h)" "gwf (hc_monitors ?h)"
    using hc_okD(1) [OF assms] cancel_monitor_wf [OF assms] by (simp_all add: startMonitor_def Let_def)
  show "gget (hc_cancelFns ?h) n = Some ctx" if "gget (hc_monitors ?h) ctx = Some (n, s)" for n ctx s
    using that hc_okD(3) [OF assms, where ctx = ctx and name = n and svc = s]
    by (auto simp: startMonitor_def Let_def cancel_monitor_gget [OF assms] split: if_splits)
  show "\<exists>s. gget (hc_monitors ?h) ctx = Some (n, s)"
    if "\<not> hc_stopped ?h" "gget (hc_cancelFns ?h) n = Some ctx" for n ctx
    using that hc_okD(4) [OF assms, of n ctx] hc_okD(4) [OF assms, of name ctx] fresh [of n]
    by (auto simp: startMonitor_def Let_def cancel_monitor_gget [OF assms] split: if_splits)
  show "ctx < hc_next ?h" if "gget (hc_cancelFns ?h) n = Some ctx" for n ctx
    using that hc_okD(5) [OF assms, of n ctx] by (auto simp: startMonitor_def Let_def split: if_splits)
qed

lemma hc_ok_Add [inv_intros]: "hc_ok hc \<Longrightarrow> hc_ok (AddService name svc hc)"
  by (simp add: AddService_def Let_def inv_intros)

lemma hc_ok_Start [inv_intros]: "hc_ok hc \<Longrightarrow> hc_ok (hc_Start hc)"
proof -
  have "hc_ok h \<Longrightarrow> hc_ok (fold (\<lambda>(name, svc) h. if svc_HealthCheck svc = None then h else startMonitor name svc h) xs h)" for xs h
    by (induction xs arbitrary: h) (auto simp: inv_intros)
  then show "hc_ok hc \<Longrightarrow> hc_ok (hc_Start hc)" by (simp add: hc_Start_def)
qed

section \<open>Reachable states\<close>

inductive hc_reach :: "HealthChecker \<Rightarrow> bool" where
  reach_New: "hc_reach (NewHealthChecker svcs)"
| reach_Start: "hc_reach hc \<Longrightarrow> hc_reach (hc_Start hc)"
| reach_Stop: "hc_reach hc \<Longrightarrow> hc_reach (hc_Stop hc)"
| reach_Add: "hc_reach hc \<Longrightarrow> hc_reach (AddService name svc hc)"
| reach_Remove: "hc_reach hc \<Longrightarrow> hc_reach (RemoveService name hc)"
| reach_check: "hc_reach hc \<Longrightarrow> hc_reach (snd (hc_check name b now hc))"

lemma hc_reach_ok: "hc_reach hc \<Longrightarrow> hc_ok hc"
  by (induction rule: hc_reach.induct) (auto intro: inv_intros)


definition demo_check :: HealthCheck where
  "demo_check = \<lparr>hk_Interval = ''10s'', hk_Timeout = ''2s'', hk_Type = ''tcp'', hk_Path = [], hk_ExpectedStatus = 0\<rparr>"

definition demo_service :: Service where
  "demo_service = \<lparr>svc_Address = ''b:80'', svc_HealthCheck = Some demo_check\<rparr>"


section \<open>The two-failures rule\<close>

text \<open>The callback's arguments over a run of probe results of one service.\<close>

fun hc_checks :: "string \<Rightarrow> (bool \<times> gotime) list \<Rightarrow> HealthChecker \<Rightarrow> bool list \<times> HealthChecker" where
  "hc_checks name [] hc = ([], hc)"
| "hc_checks name ((b, now) # rs) hc =
     (case hc_check name b now hc of
        (a, hc1) \<Rightarrow> (case hc_checks name rs hc1 of (as, hc2) \<Rightarrow> ((case a of None \<Rightarrow> as | Some x \<Rightarrow> x # as), hc2)))"

fun alternates :: "bool \<Rightarrow> bool list \<Rightarrow> bool" where
  "alternates b [] = True"
| "alternates b (x # xs) = (x = b \<and> alternates (\<not> b) xs)"

text \<open>The failures that end a run.\<close>

definition trailing :: "bool list \<Rightarrow> int" where
  "trailing bs = int (length (takeWhile Not (rev bs)))"

lemma trailing_all: "True \<notin> set bs \<Longrightarrow> trailing bs = int (length bs)"
  by (induction bs rule: rev_induct) (auto simp: trailing_def)

lemma takeWhile_Not_snoc: "takeWhile Not (bs @ [b]) = (if True \<in> set bs then takeWhile Not bs else bs @ (if b then [] else [b]))"
  by (induction bs) auto

lemma trailing_Cons: "trailing (b # bs) = (if True \<in> set bs then trailing bs else int (length bs) + (if b then 0 else 1))"
  by (simp add: trailing_def takeWhile_Not_snoc)

lemma hc_checks_status:
  assumes "gget (hc_statuses hc) name = Some st" "Healthy st \<longleftrightarrow> FailureCnt st < 2" "0 \<le> FailureCnt st"
  shows "\<exists>st'. gget (hc_statuses (snd (hc_checks name rs hc))) name = Some st' \<and>
           FailureCnt st' = trailing (map fst rs) + (if True \<in> set (map fst rs) then 0 else FailureCnt st) \<and>
           (Healthy st' \<longleftrightarrow> FailureCnt st' < 2) \<and> alternates (\<not> Healthy st) (fst (hc_checks name rs hc))"
  using assms
proof (induction rs arbitrary: hc st)
  case Nil
  then show ?case by (simp add: trailing_def)
next
  case (Cons r rs)
  obtain b now where r: "r = (b, now)" by fastforce
  obtain a hc1 where c: "hc_check name b now hc = (a, hc1)" by fastforce
  define st1 where "st1 = (if b then st\<lparr>LastChecked := now, FailureCnt := 0, Healthy := True\<rparr>
    else st\<lparr>LastChecked := now, FailureCnt := FailureCnt st + 1, Healthy := FailureCnt st + 1 < 2\<rparr>)"
  have st1: "gget (hc_statuses hc1) name = Some st1"
    and a: "a = (if Healthy st1 = Healthy st then None else Some (Healthy st1))"
    using c Cons.prems by (auto simp: hc_check_def Let_def st1_def split: if_splits)
  have "Healthy st1 \<longleftrightarrow> FailureCnt st1 < 2" "0 \<le> FailureCnt st1"
    using Cons.prems by (auto simp: st1_def)
  from Cons.IH [OF st1 this] obtain st' where
    "gget (hc_statuses (snd (hc_checks name rs hc1))) name = Some st'"
    "FailureCnt st' = trailing (map fst rs) + (if True \<in> set (map fst rs) then 0 else FailureCnt st1)"
    "Healthy st' \<longleftrightarrow> FailureCnt st' < 2" "alternates (\<not> Healthy st1) (fst (hc_checks name rs hc1))" by blast
  moreover have "trailing (map fst (r # rs)) + (if True \<in> set (map fst (r # rs)) then 0 else FailureCnt st) =
      trailing (map fst rs) + (if True \<in> set (map fst rs) then 0 else FailureCnt st1)"
    by (cases "True \<in> set (map fst rs)") (simp_all add: r trailing_Cons trailing_all st1_def)
  moreover have "fst (hc_checks name (r # rs) hc) = (case a of None \<Rightarrow> [] | Some x \<Rightarrow> [x]) @ fst (hc_checks name rs hc1)"
    "snd (hc_checks name (r # rs) hc) = snd (hc_checks name rs hc1)"
    by (simp_all add: r c case_prod_beta split: option.split)
  ultimately show ?case by (auto simp: a)
qed

text \<open>(C26) The two-failures rule: after any run of probes of a service that starts healthy, the failure counter
  is the number of failures that end the run, the service is reported healthy exactly when there are
  fewer than two of them, and the alerts strictly alternate between down and up, starting with down.\<close>

theorem two_failures_rule:
  assumes "gget (hc_statuses hc) name = Some st" and "Healthy st" and "FailureCnt st = 0"
    and "hc_checks name rs hc = (alerts, hc')"
  shows "\<exists>st'. gget (hc_statuses hc') name = Some st' \<and> FailureCnt st' = trailing (map fst rs) \<and>
           (hc_GetStatus name hc' = (trailing (map fst rs) < 2, True)) \<and> alternates False alerts"
proof -
  have inv: "Healthy st \<longleftrightarrow> FailureCnt st < 2" "0 \<le> FailureCnt st" using assms(2,3) by simp_all
  from hc_checks_status [OF assms(1) inv, of rs] obtain st' where
    "gget (hc_statuses hc') name = Some st'" "FailureCnt st' = trailing (map fst rs)"
    "Healthy st' \<longleftrightarrow> FailureCnt st' < 2" "alternates False alerts"
    unfolding assms(3,4) using assms(2) by force
  then show ?thesis by (simp add: hc_GetStatus_def)
qed

lemma two_failures_rule_witness:
  "hc_GetStatus ''p'' (snd (hc_checks ''p'' [(False, 1), (False, 2)] (AddService ''p'' demo_service (NewHealthChecker [])))) =
     (False, True)"
proof -
  let ?h = "AddService ''p'' demo_service (NewHealthChecker [])"
  have s: "gget (hc_statuses ?h) ''p'' = Some \<lparr>Healthy = True, LastChecked = 0, FailureCnt = 0\<rparr>"
    by (simp add: AddService_def startMonitor_def NewHealthChecker_def demo_service_def Let_def)
  from two_failures_rule [OF s, of "[(False, 1), (False, 2)]" "fst (hc_checks ''p'' [(False, 1), (False, 2)] ?h)"
      "snd (hc_checks ''p'' [(False, 1), (False, 2)] ?h)"]
  show ?thesis by (auto simp: trailing_def)
qed

text \<open>A probe that was in flight when its service was removed brings the service's status back: the
  status of a removed service is reported again, and no monitor updates it any more.\<close>

theorem removed_service_reappears:
  assumes "hc_reach hc" and "gget (hc_monitors hc) ctx = Some (name, svc)"
  shows "hc_GetStatus name (RemoveService name hc) = (False, False) \<and>
         hc_GetStatus name (snd (hc_check name healthy now (RemoveService name hc))) = (True, True) \<and>
         (\<forall>c u. gget (hc_monitors (snd (hc_check name healthy now (RemoveService name hc)))) c \<noteq> Some (name, u))"
proof -
  note ok = hc_ok_Remove [OF hc_reach_ok [OF assms(1)], of name]
  have "gget (hc_monitors (snd (hc_check name healthy now (RemoveService name hc)))) c \<noteq> Some (name, u)" for c u
    using hc_okD(3) [OF ok, where ctx = c and name = name and svc = u]
    by (auto simp: RemoveService_def Let_def hc_check_def)
  then show ?thesis by (simp add: hc_GetStatus_def hc_check_def RemoveService_def Let_def)
qed

lemma removed_service_reappears_witness:
  "hc_GetStatus ''p'' (snd (hc_check ''p'' False 5 (RemoveService ''p'' (AddService ''p'' demo_service (NewHealthChecker []))))) =
     (True, True)"
proof -
  let ?h = "AddService ''p'' demo_service (NewHealthChecker [])"
  have r: "hc_reach ?h" by (intro hc_reach.intros)
  have m: "gget (hc_monitors ?h) 0 = Some (''p'', demo_service)"
    by (simp add: AddService_def startMonitor_def cancel_monitor_def NewHealthChecker_def demo_service_def Let_def)
  from removed_service_reappears [OF r m] show ?thesis by blast
qed

text \<open>An HTTPS health check of a backend named by host and port is sent in the clear: the type selects the
  HTTP probe, whose URL gets the scheme \<^verbatim>\<open>http\<close> whatever the type.\<close>

theorem https_check_is_plain_http:
  assumes "\<not> strings_HasPrefix address ''http://''" and "\<not> strings_HasPrefix address ''https://''"
  shows "probe_of ''https'' = ProbeHTTP \<and> check_url address path = ''http://'' @ address @ path"
  using assms by (simp add: probe_of_def check_url_def)

lemma https_check_is_plain_http_witness: "check_url ''db:443'' ''/health'' = ''http://db:443/health''"
  using https_check_is_plain_http [of "''db:443''" "''/health''"] by (simp add: strings_HasPrefix_def)

end
