(* ===== verification/Listener_Core.thy ===== *)
theory Listener_Core
  imports Listener Approval
begin

text \<open>
  The two wrappers around the embedded listener that the manager runs in process:
  \<^verbatim>\<open>pkg/node/listener_core.go\<close> (the server side of the process-control service) and
  \<^verbatim>\<open>pkg/node/ffi_listener.go\<close> (its in-process client, which implements the \<open>Listener\<close> interface). The event
  streams are not modelled: a subscription is an entry of the subscriber table.
\<close>

section \<open>A listener with its services\<close>

text \<open>
  The node has one stats service, one approval manager and one store of global rules; whether a listener
  was given them is a flag. Giving it the approval manager makes it the closer of expired approvals.
\<close>

record Wired =
  wl :: EmbeddedListener
  wl_stats :: bool
  wl_approval :: bool
  wl_global :: bool

definition unwired :: "EmbeddedListener \<Rightarrow> Wired" where
  "unwired p = \<lparr>wl = p, wl_stats = False, wl_approval = False, wl_global = False\<rparr>"

definition SetStatsService :: "bool \<Rightarrow> Wired \<Rightarrow> Wired" where
  "SetStatsService s w = w\<lparr>wl_stats := s\<rparr>"

definition SetApprovalManager :: "ApprovalManager option \<Rightarrow> Wired \<Rightarrow> Wired \<times> ApprovalManager option" where
  "SetApprovalManager am w = (w\<lparr>wl_approval := am \<noteq> None\<rparr>, map_option (SetConnectionCloser (l_ID (wl w))) am)"

definition SetGlobalRules :: "bool \<Rightarrow> Wired \<Rightarrow> Wired" where
  "SetGlobalRules gr w = w\<lparr>wl_global := gr\<rparr>"

definition upd_wl :: "(EmbeddedListener \<Rightarrow> EmbeddedListener) \<Rightarrow> Wired \<Rightarrow> Wired" where
  "upd_wl f w = w\<lparr>wl := f (wl w)\<rparr>"

section \<open>The core\<close>

text \<open>The configuration a start request carries; the default mock is sent as a \<open>MockConfig\<close> with only a preset.\<close>

record listener_config =
  cf_ID :: string
  cf_Name :: string
  cf_ListenAddr :: string
  cf_DefaultBackend :: string
  cf_DefaultAction :: ActionType
  cf_DefaultMock :: MockPreset
  cf_FallbackAction :: FallbackAction
  cf_FallbackMock :: MockPreset
  cf_CertPEM :: string
  cf_KeyPEM :: string
  cf_CaPEM :: string
  cf_ClientAuthType :: ClientAuthType

text \<open>What the outside contributes to a start: the address bound (or a failure), whether the PEM data parse, the
  clock, and a fresh id.\<close>

record bind_env =
  be_bound :: "string option"
  be_keypair :: bool
  be_ca :: bool
  be_now :: gotime
  be_uuid :: string

record ListenerCore =
  c_cfg :: listener_config
  c_listener :: "Wired option"
  c_running :: bool
  c_stats :: bool
  c_approval :: bool
  c_globalRules :: bool
  c_nodeID :: string

datatype core_error = AlreadyRunning | StartFailed start_error | NotRunning | CloseFailed | TransportFailed

definition zero_config :: listener_config where
  "zero_config = \<lparr>cf_ID = [], cf_Name = [], cf_ListenAddr = [], cf_DefaultBackend = [],
     cf_DefaultAction = ACTION_TYPE_UNSPECIFIED, cf_DefaultMock = MOCK_PRESET_UNSPECIFIED,
     cf_FallbackAction = FALLBACK_ACTION_UNSPECIFIED, cf_FallbackMock = MOCK_PRESET_UNSPECIFIED,
     cf_CertPEM = [], cf_KeyPEM = [], cf_CaPEM = [], cf_ClientAuthType = CLIENT_AUTH_AUTO\<rparr>"

definition NewListenerCore :: ListenerCore where
  "NewListenerCore = \<lparr>c_cfg = zero_config, c_listener = None, c_running = False, c_stats = False, c_approval = False,
     c_globalRules = False, c_nodeID = []\<rparr>"

definition core_SetStatsService :: "bool \<Rightarrow> ListenerCore \<Rightarrow> ListenerCore" where
  "core_SetStatsService s c = c\<lparr>c_stats := s, c_listener := map_option (SetStatsService s) (c_listener c)\<rparr>"

definition core_SetApprovalManager ::
  "ApprovalManager option \<Rightarrow> ListenerCore \<Rightarrow> ListenerCore \<times> ApprovalManager option" where
  "core_SetApprovalManager am c =
     (let c1 = c\<lparr>c_approval := am \<noteq> None\<rparr> in
      case c_listener c of
        None \<Rightarrow> (c1, am)
      | Some w \<Rightarrow> (case SetApprovalManager am w of (w', am') \<Rightarrow> (c1\<lparr>c_listener := Some w'\<rparr>, am')))"

definition core_SetGlobalRules :: "bool \<Rightarrow> ListenerCore \<Rightarrow> ListenerCore" where
  "core_SetGlobalRules gr c = c\<lparr>c_globalRules := gr, c_listener := map_option (SetGlobalRules gr) (c_listener c)\<rparr>"

definition core_SetNodeID :: "string \<Rightarrow> ListenerCore \<Rightarrow> ListenerCore" where
  "core_SetNodeID nid c = c\<lparr>c_nodeID := nid, c_listener := map_option (upd_wl (SetNodeID nid)) (c_listener c)\<rparr>"

definition new_listener :: "gotime \<Rightarrow> listener_config \<Rightarrow> EmbeddedListener" where
  "new_listener now cfg =
     NewEmbeddedListener now (cf_ID cfg) (cf_Name cfg) (cf_ListenAddr cfg) (cf_DefaultBackend cfg) (cf_DefaultAction cfg)
       (cf_DefaultMock cfg) (cf_CertPEM cfg) (cf_KeyPEM cfg) (cf_CaPEM cfg) (cf_ClientAuthType cfg)"

definition start_config :: "bind_env \<Rightarrow> listener_config \<Rightarrow> listener_config" where
  "start_config env req =
     req\<lparr>cf_ID := (if cf_ID req = [] then be_uuid env else cf_ID req),
         cf_DefaultAction := (if cf_DefaultAction req = ACTION_TYPE_UNSPECIFIED then ACTION_TYPE_ALLOW
                              else cf_DefaultAction req)\<rparr>"

definition core_wire :: "ListenerCore \<Rightarrow> ApprovalManager option \<Rightarrow> Wired \<Rightarrow> Wired \<times> ApprovalManager option" where
  "core_wire c am w =
     (let w1 = (if c_stats c then SetStatsService True w else w);
          w2 = (if c_globalRules c then SetGlobalRules True w1 else w1);
          (w3, am') = (if c_approval c then SetApprovalManager am w2 else (w2, am));
          w4 = (if c_nodeID c \<noteq> [] then upd_wl (SetNodeID (c_nodeID c)) w3 else w3)
      in (w4, am'))"

definition StartListener ::
  "bind_env \<Rightarrow> listener_config \<Rightarrow> ListenerCore \<Rightarrow> ApprovalManager option \<Rightarrow>
   core_error option \<times> ListenerCore \<times> ApprovalManager option" where
  "StartListener env req c am =
     (if c_running c then (Some AlreadyRunning, c, am)
      else
        (let cfg = start_config env req;
             (w, am') = core_wire c am (unwired (new_listener (be_now env) cfg));
             p = SetFallback (cf_FallbackAction cfg) (cf_FallbackMock cfg) (wl w)
         in case Start (be_bound env) (be_keypair env) (be_ca env) p of
              (Inl err, p') \<Rightarrow> (Some (StartFailed err), c\<lparr>c_cfg := cfg, c_listener := Some (w\<lparr>wl := p'\<rparr>)\<rparr>, am')
            | (Inr _, p') \<Rightarrow>
                (None, c\<lparr>c_cfg := cfg\<lparr>cf_ListenAddr := l_ListenAddr p'\<rparr>, c_listener := Some (w\<lparr>wl := p'\<rparr>),
                        c_running := True\<rparr>, am')))"

definition StopListener :: "ListenerCore \<Rightarrow> ListenerCore outcome" where
  "StopListener c =
     (case c_listener c of
        None \<Rightarrow> Ret (c\<lparr>c_running := False\<rparr>)
      | Some w \<Rightarrow> obind (returns (Stop (wl w))) (\<lambda>_. Ret (c\<lparr>c_listener := None, c_running := False\<rparr>)))"

definition core_HealthCheck :: "gotime \<Rightarrow> ListenerCore \<Rightarrow> string \<times> int" where
  "core_HealthCheck now c =
     (case c_listener c of
        None \<Rightarrow> (''idle'', 0)
      | Some w \<Rightarrow> (''ok'', wrap32 (st_ActiveConnections (GetStatus now (wl w)))))"

definition GetMetrics :: "gotime \<Rightarrow> ListenerCore \<Rightarrow> ProxyStatus option" where
  "GetMetrics now c = map_option (\<lambda>w. GetStatus now (wl w)) (c_listener c)"

definition core_AddRule :: "Rule \<Rightarrow> ListenerCore \<Rightarrow> bool \<times> ListenerCore" where
  "core_AddRule rule c =
     (case c_listener c of
        None \<Rightarrow> (False, c)
      | Some w \<Rightarrow> (True, c\<lparr>c_listener := Some (upd_wl (AddRule rule) w)\<rparr>))"

definition core_RemoveRule :: "string \<Rightarrow> ListenerCore \<Rightarrow> bool \<times> ListenerCore" where
  "core_RemoveRule ruleID c =
     (case c_listener c of
        None \<Rightarrow> (False, c)
      | Some w \<Rightarrow>
          (case RemoveRule ruleID (wl w) of
             None \<Rightarrow> (False, c)
           | Some p \<Rightarrow> (True, c\<lparr>c_listener := Some (w\<lparr>wl := p\<rparr>)\<rparr>)))"

definition ListRules :: "ListenerCore \<Rightarrow> Rule list" where
  "ListRules c = (case c_listener c of None \<Rightarrow> [] | Some w \<Rightarrow> GetRules (wl w))"

text \<open>Timestamps of the wire format are kept as times.\<close>

record ActiveConnection =
  act_Id :: string
  act_SourceIp :: string
  act_SourcePort :: int
  act_DestAddr :: string
  act_StartTime :: gotime
  act_BytesIn :: int
  act_BytesOut :: int

definition ToActiveConnection :: "ConnectionMetadata \<Rightarrow> ActiveConnection" where
  "ToActiveConnection m =
     \<lparr>act_Id = cm_ID m, act_SourceIp = cm_SourceIP m, act_SourcePort = wrap32 (cm_SourcePort m),
      act_DestAddr = cm_DestAddr m, act_StartTime = cm_StartTime m, act_BytesIn = cm_BytesIn m, act_BytesOut = cm_BytesOut m\<rparr>"

definition ConnectionMetadataFromActive :: "ActiveConnection \<Rightarrow> ConnectionMetadata" where
  "ConnectionMetadataFromActive a =
     \<lparr>cm_ID = act_Id a, cm_SourceIP = act_SourceIp a, cm_SourcePort = 0, cm_DestAddr = act_DestAddr a,
      cm_StartTime = act_StartTime a, cm_BytesIn = act_BytesIn a, cm_BytesOut = act_BytesOut a\<rparr>"

definition core_GetActiveConnections :: "ListenerCore \<Rightarrow> ActiveConnection list" where
  "core_GetActiveConnections c =
     (case c_listener c of None \<Rightarrow> [] | Some w \<Rightarrow> map ToActiveConnection (GetActiveConnections (wl w)))"

definition core_CloseConnection :: "string \<Rightarrow> ListenerCore \<Rightarrow> core_error option \<times> ListenerCore" where
  "core_CloseConnection connID c =
     (case c_listener c of
        None \<Rightarrow> (Some NotRunning, c)
      | Some w \<Rightarrow>
          (case CloseConnection (cf_ID (c_cfg c)) connID (wl w) of
             (ok, p) \<Rightarrow> (if ok then None else Some CloseFailed, c\<lparr>c_listener := Some (w\<lparr>wl := p\<rparr>)\<rparr>)))"

definition core_CloseAllConnections :: "ListenerCore \<Rightarrow> core_error option \<times> ListenerCore" where
  "core_CloseAllConnections c =
     (case c_listener c of
        None \<Rightarrow> (Some NotRunning, c)
      | Some w \<Rightarrow> (None, c\<lparr>c_listener := Some (upd_wl CloseAllConnections w)\<rparr>))"

definition GetListenAddr :: "ListenerCore \<Rightarrow> string" where
  "GetListenAddr c = cf_ListenAddr (c_cfg c)"

definition IsRunning :: "ListenerCore \<Rightarrow> bool" where
  "IsRunning c = c_running c"

definition GetStartTime :: "ListenerCore \<Rightarrow> gotime" where
  "GetStartTime c = (case c_listener c of None \<Rightarrow> 0 | Some w \<Rightarrow> startTime (wl w))"

section \<open>The in-process client\<close>

text \<open>
  \<open>f_up\<close>: whether a call through the FFI transport reaches the core. The addresses of the channels given to
  subscribers are numbered.
\<close>

record FfiListener =
  f_core :: ListenerCore
  f_up :: bool
  f_cfg :: listener_config
  f_running :: bool
  f_startTime :: gotime
  f_subs :: "nat list"
  f_nextch :: nat

definition NewFfiListener :: "bool \<Rightarrow> listener_config \<Rightarrow> FfiListener" where
  "NewFfiListener up cfg =
     \<lparr>f_core = NewListenerCore, f_up = up,
      f_cfg = cfg\<lparr>cf_FallbackAction := FALLBACK_ACTION_UNSPECIFIED, cf_FallbackMock := MOCK_PRESET_UNSPECIFIED\<rparr>,
      f_running = False, f_startTime = 0, f_subs = [], f_nextch = 0\<rparr>"

definition upd_core :: "(ListenerCore \<Rightarrow> ListenerCore) \<Rightarrow> FfiListener \<Rightarrow> FfiListener" where
  "upd_core g f = f\<lparr>f_core := g (f_core f)\<rparr>"

definition ffi_SetStatsService :: "bool \<Rightarrow> FfiListener \<Rightarrow> FfiListener" where
  "ffi_SetStatsService s = upd_core (core_SetStatsService s)"

definition ffi_SetApprovalManager :: "ApprovalManager option \<Rightarrow> FfiListener \<Rightarrow> FfiListener \<times> ApprovalManager option" where
  "ffi_SetApprovalManager am f =
     (case core_SetApprovalManager am (f_core f) of (c, am') \<Rightarrow> (f\<lparr>f_core := c\<rparr>, am'))"

definition ffi_SetGlobalRules :: "bool \<Rightarrow> FfiListener \<Rightarrow> FfiListener" where
  "ffi_SetGlobalRules gr = upd_core (core_SetGlobalRules gr)"

definition ffi_SetNodeID :: "string \<Rightarrow> FfiListener \<Rightarrow> FfiListener" where
  "ffi_SetNodeID nid = upd_core (core_SetNodeID nid)"

definition ffi_SetFallback :: "FallbackAction \<Rightarrow> MockPreset \<Rightarrow> FfiListener \<Rightarrow> FfiListener" where
  "ffi_SetFallback action mock f = f\<lparr>f_cfg := (f_cfg f)\<lparr>cf_FallbackAction := action, cf_FallbackMock := mock\<rparr>\<rparr>"

definition ffi_Start ::
  "bind_env \<Rightarrow> ApprovalManager option \<Rightarrow> FfiListener \<Rightarrow> core_error option \<times> FfiListener \<times> ApprovalManager option" where
  "ffi_Start env am f =
     (if f_running f then (Some AlreadyRunning, f, am)
      else if \<not> f_up f then (Some TransportFailed, f, am)
      else case StartListener env (f_cfg f) (f_core f) am of
             (Some err, c, am') \<Rightarrow> (Some err, f\<lparr>f_core := c\<rparr>, am')
           | (None, c, am') \<Rightarrow>
               (None, f\<lparr>f_core := c, f_running := True, f_startTime := be_now env,
                       f_cfg := (f_cfg f)\<lparr>cf_ListenAddr := GetListenAddr c\<rparr>\<rparr>, am'))"

definition ffi_Stop :: "FfiListener \<Rightarrow> (core_error option \<times> FfiListener) outcome" where
  "ffi_Stop f =
     (let f1 = f\<lparr>f_subs := []\<rparr> in
      if \<not> f_running f1 then Ret (None, f1)
      else if \<not> f_up f1 then Ret (Some TransportFailed, f1)
      else obind (StopListener (f_core f1)) (\<lambda>c. Ret (None, f1\<lparr>f_core := c, f_running := False\<rparr>)))"

definition ffi_AddRule :: "Rule \<Rightarrow> FfiListener \<Rightarrow> FfiListener" where
  "ffi_AddRule rule f = (if f_up f then f\<lparr>f_core := snd (core_AddRule rule (f_core f))\<rparr> else f)"

definition ffi_RemoveRule :: "string \<Rightarrow> FfiListener \<Rightarrow> FfiListener option" where
  "ffi_RemoveRule ruleID f =
     (if \<not> f_up f then None
      else case core_RemoveRule ruleID (f_core f) of
             (False, _) \<Rightarrow> None
           | (True, c) \<Rightarrow> Some (f\<lparr>f_core := c\<rparr>))"

definition ffi_GetRules :: "FfiListener \<Rightarrow> Rule list" where
  "ffi_GetRules f = (if f_up f then ListRules (f_core f) else [])"

definition zero_status :: ProxyStatus where
  "zero_status =
     \<lparr>st_ProxyId = [], st_Running = False, st_ListenAddr = [], st_DefaultBackend = [], st_ActiveConnections = 0,
      st_TotalConnections = 0, st_BytesIn = 0, st_BytesOut = 0, st_UptimeSeconds = 0,
      st_DefaultAction = ACTION_TYPE_UNSPECIFIED, st_DefaultMock = MOCK_PRESET_UNSPECIFIED,
      st_FallbackAction = FALLBACK_ACTION_UNSPECIFIED, st_FallbackMock = MOCK_PRESET_UNSPECIFIED,
      st_ClientAuthType = CLIENT_AUTH_AUTO, st_MemoryRss = 0, st_Tags = [], st_HealthCheck = None,
      st_HealthStatus = HEALTH_STATUS_UNKNOWN\<rparr>"

definition ffi_GetStatus :: "gotime \<Rightarrow> FfiListener \<Rightarrow> ProxyStatus" where
  "ffi_GetStatus now f =
     (let uptime = trunc_seconds (time_sub now (f_startTime f)) in
      case (if f_up f then GetMetrics now (f_core f) else None) of
        None \<Rightarrow>
          zero_status\<lparr>st_ProxyId := cf_ID (f_cfg f), st_Running := f_running f, st_ListenAddr := cf_ListenAddr (f_cfg f),
            st_DefaultBackend := cf_DefaultBackend (f_cfg f), st_DefaultAction := cf_DefaultAction (f_cfg f),
            st_DefaultMock := cf_DefaultMock (f_cfg f), st_UptimeSeconds := uptime\<rparr>
      | Some status \<Rightarrow> status\<lparr>st_UptimeSeconds := uptime\<rparr>)"

definition ffi_Subscribe :: "FfiListener \<Rightarrow> nat \<times> FfiListener" where
  "ffi_Subscribe f = (f_nextch f, f\<lparr>f_subs := f_subs f @ [f_nextch f], f_nextch := f_nextch f + 1\<rparr>)"

definition ffi_Unsubscribe :: "nat \<Rightarrow> FfiListener \<Rightarrow> FfiListener" where
  "ffi_Unsubscribe ch f = f\<lparr>f_subs := removeAll ch (f_subs f)\<rparr>"

definition ffi_GetConnectionBytes :: "string \<Rightarrow> FfiListener \<Rightarrow> int \<times> int \<times> bool" where
  "ffi_GetConnectionBytes connID f = (0, 0, False)"

definition ffi_GetActiveConnections :: "FfiListener \<Rightarrow> ConnectionMetadata list" where
  "ffi_GetActiveConnections f =
     (if f_up f then map ConnectionMetadataFromActive (core_GetActiveConnections (f_core f)) else [])"

definition ffi_CloseConnection :: "string \<Rightarrow> string \<Rightarrow> FfiListener \<Rightarrow> core_error option \<times> FfiListener" where
  "ffi_CloseConnection proxyID connID f =
     (if \<not> f_up f then (Some TransportFailed, f)
      else case core_CloseConnection connID (f_core f) of (err, c) \<Rightarrow> (err, f\<lparr>f_core := c\<rparr>))"

definition ffi_CloseAllConnections :: "FfiListener \<Rightarrow> core_error option \<times> FfiListener" where
  "ffi_CloseAllConnections f =
     (if \<not> f_up f then (Some TransportFailed, f)
      else case core_CloseAllConnections (f_core f) of (err, c) \<Rightarrow> (err, f\<lparr>f_core := c\<rparr>))"

section \<open>The client is a rule store while it runs\<close>

definition ffi_ok :: "FfiListener \<Rightarrow> bool" where
  "ffi_ok f = (f_up f \<and> (case c_listener (f_core f) of None \<Rightarrow> False | Some w \<Rightarrow> by_priority (wl w)))"

lemma ffi_okE:
  assumes "ffi_ok f"
  obtains w where "f_up f" "c_listener (f_core f) = Some w" "by_priority (wl w)" "ffi_GetRules f = GetRules (wl w)"
    "\<And>r. ffi_AddRule r f = f\<lparr>f_core := (f_core f)\<lparr>c_listener := Some (upd_wl (AddRule r) w)\<rparr>\<rparr>"
    "\<And>i. ffi_RemoveRule i f =
       map_option (\<lambda>p. f\<lparr>f_core := (f_core f)\<lparr>c_listener := Some (w\<lparr>wl := p\<rparr>)\<rparr>\<rparr>) (RemoveRule i (wl w))"
  using assms
  by (auto simp: ffi_ok_def ffi_GetRules_def ListRules_def ffi_AddRule_def core_AddRule_def ffi_RemoveRule_def
      core_RemoveRule_def split: option.splits)

interpretation fs: rule_store ffi_AddRule ffi_RemoveRule ffi_GetRules ffi_ok
proof (unfold_locales, goal_cases)
  case (1 f)
  then show ?case by (elim ffi_okE) (simp add: ls.ordered)
next
  case (2 f r)
  then show ?case by (elim ffi_okE) (simp add: ffi_ok_def upd_wl_def inv_intros)
next
  case (3 f i f')
  then show ?case by (elim ffi_okE) (auto simp: ffi_ok_def intro: inv_intros)
next
  case (4 f r)
  then show ?case
    by (elim ffi_okE) (simp add: ffi_GetRules_def ListRules_def upd_wl_def ls.add_rules)
next
  case (5 f k r)
  then show ?case
    by (elim ffi_okE) (simp add: ffi_GetRules_def ListRules_def upd_wl_def ls.add_stable)
next
  case (6 f i)
  then show ?case by (elim ffi_okE) (simp add: ls.remove_None)
next
  case (7 f i f')
  then show ?case
    by (elim ffi_okE) (auto simp: ffi_GetRules_def ListRules_def dest: ls.remove_rules)
qed

section \<open>A fresh start\<close>

lemma core_wire_facts:
  assumes "core_wire c am (unwired p) = (w, am')"
  shows "rules (wl w) = rules p" "l_ID (wl w) = l_ID p" "l_quit (wl w) = l_quit p" "conns (wl w) = conns p"
    and "wl_stats w = c_stats c" "wl_global w = c_globalRules c" "wl_approval w = (c_approval c \<and> am \<noteq> None)"
    and "am' = (if c_approval c then map_option (SetConnectionCloser (l_ID p)) am else am)"
  using assms
  by (auto simp: core_wire_def unwired_def SetStatsService_def SetGlobalRules_def SetApprovalManager_def upd_wl_def
      SetNodeID_def Let_def split: if_splits)

lemma Start_facts:
  assumes "Start bound kp ca p = (res, p')"
  shows "rules p' = rules p" "l_ID p' = l_ID p" "l_quit p' = l_quit p" "conns p' = conns p"
    and "l_listening p' = (l_listening p \<or> (\<exists>tls. res = Inr tls))"
  using assms by (auto simp: Start_def split: option.splits sum.splits) metis

lemma new_listener_simps [simp]:
  "rules (new_listener now cfg) = []" "l_ID (new_listener now cfg) = cf_ID cfg" "\<not> l_quit (new_listener now cfg)"
  "conns (new_listener now cfg) = []" "\<not> l_listening (new_listener now cfg)"
  by (simp_all add: new_listener_def NewEmbeddedListener_def)

lemma SetFallback_simps [simp]:
  "rules (SetFallback a m p) = rules p" "l_ID (SetFallback a m p) = l_ID p" "l_quit (SetFallback a m p) = l_quit p"
  "conns (SetFallback a m p) = conns p" "l_listening (SetFallback a m p) = l_listening p"
  by (simp_all add: SetFallback_def)

text \<open>A listener that was started has no rules, the services the core was given, and is the closer of
  expired approvals when the core has the approval manager.\<close>

lemma StartListener_fresh:
  assumes "StartListener env req c am = (None, c', am')"
  obtains w where "c_listener c' = Some w" "rules (wl w) = []" "\<not> l_quit (wl w)" "l_listening (wl w)" "conns (wl w) = []"
    "l_ID (wl w) = cf_ID (start_config env req)" "wl_stats w = c_stats c" "wl_global w = c_globalRules c"
    "wl_approval w = (c_approval c \<and> am \<noteq> None)" "c_running c'"
    "am' = (if c_approval c then map_option (SetConnectionCloser (cf_ID (start_config env req))) am else am)"
proof -
  define cfg where "cfg = start_config env req"
  obtain w am1 where cw: "core_wire c am (unwired (new_listener (be_now env) cfg)) = (w, am1)" by fastforce
  obtain res p' where st: "Start (be_bound env) (be_keypair env) (be_ca env)
      (SetFallback (cf_FallbackAction cfg) (cf_FallbackMock cfg) (wl w)) = (res, p')" by fastforce
  have nr: "\<not> c_running c" using assms by (auto simp: StartListener_def)
  then obtain tls where r: "res = Inr tls" "am' = am1"
    "c' = c\<lparr>c_cfg := cfg\<lparr>cf_ListenAddr := l_ListenAddr p'\<rparr>, c_listener := Some (w\<lparr>wl := p'\<rparr>), c_running := True\<rparr>"
    using assms cw st by (auto simp: StartListener_def Let_def cfg_def [symmetric] split: sum.splits)
  show ?thesis
    by (rule that [of "w\<lparr>wl := p'\<rparr>"])
       (use r core_wire_facts [OF cw] Start_facts [OF st] in \<open>auto simp: cfg_def\<close>)
qed

lemma ffi_Start_fresh:
  assumes "ffi_Start env am f = (None, f', am')"
  shows "ffi_ok f'" "ffi_GetRules f' = []" "f_running f'" "f_up f'" "st_Running (ffi_GetStatus now f')"
    "f_subs f' = f_subs f" "f_nextch f' = f_nextch f" "c_running (f_core f')"
    "\<exists>w. c_listener (f_core f') = Some w \<and> \<not> l_quit (wl w) \<and> wl_global w = c_globalRules (f_core f) \<and>
         l_ID (wl w) = cf_ID (start_config env (f_cfg f)) \<and> wl_approval w = (c_approval (f_core f) \<and> am \<noteq> None)"
    "am' = (if c_approval (f_core f) then map_option (SetConnectionCloser (cf_ID (start_config env (f_cfg f)))) am else am)"
proof -
  obtain c where s: "StartListener env (f_cfg f) (f_core f) am = (None, c, am')" and up: "f_up f"
    and f': "f' = f\<lparr>f_core := c, f_running := True, f_startTime := be_now env,
                    f_cfg := (f_cfg f)\<lparr>cf_ListenAddr := GetListenAddr c\<rparr>\<rparr>"
    using assms by (auto simp: ffi_Start_def split: if_splits option.splits prod.splits)
  from s show "ffi_ok f'" "ffi_GetRules f' = []" "f_running f'" "f_up f'" "st_Running (ffi_GetStatus now f')"
    "f_subs f' = f_subs f" "f_nextch f' = f_nextch f" "c_running (f_core f')"
    "\<exists>w. c_listener (f_core f') = Some w \<and> \<not> l_quit (wl w) \<and> wl_global w = c_globalRules (f_core f) \<and>
         l_ID (wl w) = cf_ID (start_config env (f_cfg f)) \<and> wl_approval w = (c_approval (f_core f) \<and> am \<noteq> None)"
    "am' = (if c_approval (f_core f) then map_option (SetConnectionCloser (cf_ID (start_config env (f_cfg f)))) am else am)"
    by (elim StartListener_fresh;
        simp add: f' up ffi_ok_def by_priority_def ffi_GetRules_def ListRules_def GetRules_def ffi_GetStatus_def GetMetrics_def
          GetStatus_def)+
qed

lemma ffi_Stop_running:
  assumes "f_running f" "f_up f" "ffi_ok f" "\<forall>w. c_listener (f_core f) = Some w \<longrightarrow> \<not> l_quit (wl w)"
  shows "ffi_Stop f = Ret (None, f\<lparr>f_subs := [], f_core := (f_core f)\<lparr>c_listener := None, c_running := False\<rparr>, f_running := False\<rparr>)"
  using assms by (auto simp: ffi_Stop_def StopListener_def Stop_def ffi_ok_def Let_def split: option.splits)

section \<open>Properties\<close>

text \<open>The life cycle of an in-process listener: started, it reports that it runs and holds no rules; after a
  stop it reports that it does not, and a rule added to it then is dropped without an error.\<close>

theorem ffi_lifecycle:
  assumes "ffi_Start env am f = (None, f1, am1)" and "ffi_Stop f1 = Ret (err, f2)"
  shows "st_Running (ffi_GetStatus now f1) \<and> ffi_GetRules f1 = [] \<and>
         err = None \<and> \<not> st_Running (ffi_GetStatus now f2) \<and> ffi_GetRules (ffi_AddRule rule f2) = []"
proof -
  note s = ffi_Start_fresh [OF assms(1)]
  have st: "ffi_Stop f1 = Ret (None, f1\<lparr>f_subs := [], f_core := (f_core f1)\<lparr>c_listener := None, c_running := False\<rparr>, f_running := False\<rparr>)"
    by (rule ffi_Stop_running) (use s in auto)
  then show ?thesis
    using assms(2) s(2,5)
    by (auto simp: ffi_GetStatus_def GetMetrics_def ffi_GetRules_def ffi_AddRule_def core_AddRule_def ListRules_def Let_def)
qed

definition demo_bind :: bind_env where
  "demo_bind = \<lparr>be_bound = Some ''0.0.0.0:8080'', be_keypair = True, be_ca = True, be_now = 0, be_uuid = ''u''\<rparr>"

definition demo_ffi :: FfiListener where
  "demo_ffi = NewFfiListener True (zero_config\<lparr>cf_ID := ''p'', cf_ListenAddr := '':8080''\<rparr>)"

lemma ffi_lifecycle_witness:
  "st_Running (ffi_GetStatus 0 (fst (snd (ffi_Start demo_bind None demo_ffi)))) \<and>
   (\<exists>f2. ffi_Stop (fst (snd (ffi_Start demo_bind None demo_ffi))) = Ret (None, f2) \<and>
         ffi_GetRules (ffi_AddRule zero_Rule f2) = [])"
proof -
  obtain f1 am1 where s: "ffi_Start demo_bind None demo_ffi = (None, f1, am1)"
    by (simp add: ffi_Start_def demo_ffi_def NewFfiListener_def NewListenerCore_def StartListener_def Start_def demo_bind_def
        core_wire_def tls_setup_def start_config_def zero_config_def new_listener_def NewEmbeddedListener_def unwired_def
        SetFallback_def split: if_splits)
  obtain f2 where t: "ffi_Stop f1 = Ret (None, f2)"
    using ffi_Stop_running [of f1] ffi_Start_fresh [OF s] by auto
  from ffi_lifecycle [OF s t, of 0 zero_Rule] s t show ?thesis by simp
qed

text \<open>Connections listed across the process boundary lose their source port: converting a connection to
  the wire format and back keeps everything but the port, which becomes zero.\<close>

theorem active_connection_loses_port:
  "ConnectionMetadataFromActive (ToActiveConnection m) = m\<lparr>cm_SourcePort := 0\<rparr>"
  by (simp add: ConnectionMetadataFromActive_def ToActiveConnection_def)

end
