(* ===== verification/Process_Listener.thy ===== *)
theory Process_Listener
  imports Listener_Core
begin

text \<open>
  The listener in a child process, \<^verbatim>\<open>pkg/node/process_listener.go\<close>. The child and the calls to it go through
  code that is not part of the repository; they are the record \<open>child_ops\<close>, an argument of the operations.
  A reply \<open>None\<close> is a failed call. The mutex of the listener (\<open>pl_mu\<close>) is not re-entrant: locking it while the
  same goroutine holds it never returns. It is written out where one method calls another under it.
\<close>

section \<open>The child and the listener\<close>

record 'c child_ops =
  ch_spawn :: "listener_config \<Rightarrow> 'c option"
  ch_StartListener :: "listener_config \<Rightarrow> 'c \<Rightarrow> bool option \<times> 'c"
  ch_AddRule :: "Rule \<Rightarrow> 'c \<Rightarrow> bool option \<times> 'c"
  ch_RemoveRule :: "string \<Rightarrow> 'c \<Rightarrow> bool option \<times> 'c"
  ch_ListRules :: "'c \<Rightarrow> Rule list option"
  ch_GetMetrics :: "'c \<Rightarrow> ProxyStatus option option"
  ch_GetActiveConnections :: "'c \<Rightarrow> ActiveConnection list option"
  ch_CloseConnection :: "string \<Rightarrow> 'c \<Rightarrow> bool option \<times> 'c"
  ch_CloseAllConnections :: "'c \<Rightarrow> bool option \<times> 'c"
  ch_Kill :: "'c \<Rightarrow> bool"
  ch_rss :: "'c \<Rightarrow> int"

text \<open>\<open>pl_client\<close> is the client with the child behind it; \<open>pl_conn\<close> whether its connection is open.\<close>

record 'c ProcessListener =
  pl_cfg :: listener_config
  pl_client :: "'c option"
  pl_conn :: bool
  pl_cmd :: bool
  pl_running :: bool
  pl_startTime :: gotime
  pl_subs :: "nat list"
  pl_nextch :: nat
  pl_mu :: bool

datatype process_error = ProcAlreadyRunning | SpawnFailed | CallFailed | ClientNotReady | ChildRefused | KillFailed

definition NewProcessListener :: "listener_config \<Rightarrow> 'c ProcessListener" where
  "NewProcessListener cfg =
     \<lparr>pl_cfg = cfg\<lparr>cf_FallbackAction := FALLBACK_ACTION_UNSPECIFIED, cf_FallbackMock := MOCK_PRESET_UNSPECIFIED\<rparr>,
      pl_client = None, pl_conn = False, pl_cmd = False, pl_running = False, pl_startTime = 0, pl_subs = [], pl_nextch = 0,
      pl_mu = False\<rparr>"

definition pl_SetFallback :: "FallbackAction \<Rightarrow> MockPreset \<Rightarrow> 'c ProcessListener \<Rightarrow> 'c ProcessListener" where
  "pl_SetFallback action mock p = p\<lparr>pl_cfg := (pl_cfg p)\<lparr>cf_FallbackAction := action, cf_FallbackMock := mock\<rparr>\<rparr>"

section \<open>Calls to the child\<close>

definition pl_update :: "('c \<Rightarrow> bool option \<times> 'c) \<Rightarrow> 'c ProcessListener \<Rightarrow> bool option \<times> 'c ProcessListener" where
  "pl_update f p =
     (case pl_client p of
        None \<Rightarrow> (None, p)
      | Some c \<Rightarrow> if \<not> pl_conn p then (None, p) else (case f c of (r, c') \<Rightarrow> (r, p\<lparr>pl_client := Some c'\<rparr>)))"

definition pl_query :: "('c \<Rightarrow> 'a option) \<Rightarrow> 'c ProcessListener \<Rightarrow> 'a option" where
  "pl_query f p = (case pl_client p of None \<Rightarrow> None | Some c \<Rightarrow> if pl_conn p then f c else None)"

section \<open>Operations\<close>

definition pl_Lock :: "'c ProcessListener \<Rightarrow> 'c ProcessListener outcome" where
  "pl_Lock p = (if pl_mu p then Deadlocks else Ret (p\<lparr>pl_mu := True\<rparr>))"

definition pl_Unlock :: "'c ProcessListener \<Rightarrow> 'c ProcessListener" where
  "pl_Unlock p = p\<lparr>pl_mu := False\<rparr>"

definition pl_Stop :: "'c child_ops \<Rightarrow> 'c ProcessListener \<Rightarrow> (process_error option \<times> 'c ProcessListener) outcome" where
  "pl_Stop ops p =
     obind (pl_Lock (p\<lparr>pl_subs := []\<rparr>)) (\<lambda>p0.
       let p1 = p0\<lparr>pl_conn := False\<rparr> in
       if \<not> pl_running p1 \<or> \<not> pl_cmd p1 then Ret (None, pl_Unlock p1)
       else if \<not> (case pl_client p1 of None \<Rightarrow> False | Some c \<Rightarrow> ch_Kill ops c) then Ret (Some KillFailed, pl_Unlock p1)
       else Ret (None, pl_Unlock (p1\<lparr>pl_running := False\<rparr>)))"

definition pl_Start :: "'c child_ops \<Rightarrow> gotime \<Rightarrow> 'c ProcessListener \<Rightarrow> (process_error option \<times> 'c ProcessListener) outcome" where
  "pl_Start ops now p =
     obind (pl_Lock p) (\<lambda>p0.
       if pl_running p0 then Ret (Some ProcAlreadyRunning, pl_Unlock p0)
       else case ch_spawn ops (pl_cfg p0) of
              None \<Rightarrow> Ret (Some SpawnFailed, pl_Unlock p0)
            | Some c \<Rightarrow>
                (let p1 = p0\<lparr>pl_cmd := True, pl_conn := True, pl_running := True, pl_startTime := now\<rparr> in
                 case ch_StartListener ops (pl_cfg p0) c of
                   (None, c') \<Rightarrow>
                     obind (pl_Stop ops (p1\<lparr>pl_client := Some c'\<rparr>)) (\<lambda>(_, p2). Ret (Some CallFailed, pl_Unlock p2))
                 | (Some _, c') \<Rightarrow> Ret (None, pl_Unlock (p1\<lparr>pl_client := Some c'\<rparr>))))"

definition monitorExit :: "'c ProcessListener \<Rightarrow> 'c ProcessListener" where
  "monitorExit p = (if \<not> pl_cmd p then p else p\<lparr>pl_running := False, pl_conn := False, pl_client := None\<rparr>)"

definition pl_AddRule :: "'c child_ops \<Rightarrow> Rule \<Rightarrow> 'c ProcessListener \<Rightarrow> 'c ProcessListener" where
  "pl_AddRule ops rule p = snd (pl_update (ch_AddRule ops rule) p)"

definition pl_RemoveRule :: "'c child_ops \<Rightarrow> string \<Rightarrow> 'c ProcessListener \<Rightarrow> process_error option \<times> 'c ProcessListener" where
  "pl_RemoveRule ops ruleID p =
     (if pl_client p = None then (Some ClientNotReady, p)
      else case pl_update (ch_RemoveRule ops ruleID) p of
             (None, p') \<Rightarrow> (Some CallFailed, p')
           | (Some _, p') \<Rightarrow> (None, p'))"

definition pl_GetRules :: "'c child_ops \<Rightarrow> 'c ProcessListener \<Rightarrow> Rule list" where
  "pl_GetRules ops p = (case pl_query (ch_ListRules ops) p of None \<Rightarrow> [] | Some rs \<Rightarrow> rs)"

definition pl_GetStatus :: "'c child_ops \<Rightarrow> gotime \<Rightarrow> 'c ProcessListener \<Rightarrow> ProxyStatus" where
  "pl_GetStatus ops now p =
     (let status = zero_status\<lparr>st_ProxyId := cf_ID (pl_cfg p), st_Running := pl_running p,
            st_MemoryRss := (case pl_client p of None \<Rightarrow> 0 | Some c \<Rightarrow> if pl_cmd p then ch_rss ops c else 0),
            st_ListenAddr := cf_ListenAddr (pl_cfg p), st_DefaultBackend := cf_DefaultBackend (pl_cfg p),
            st_DefaultAction := cf_DefaultAction (pl_cfg p), st_DefaultMock := cf_DefaultMock (pl_cfg p),
            st_UptimeSeconds := trunc_seconds (time_sub now (pl_startTime p))\<rparr>
      in case pl_query (ch_GetMetrics ops) p of
           Some (Some m) \<Rightarrow>
             status\<lparr>st_ActiveConnections := st_ActiveConnections m, st_TotalConnections := st_TotalConnections m,
               st_BytesIn := st_BytesIn m, st_BytesOut := st_BytesOut m,
               st_ListenAddr := (if st_ListenAddr m \<noteq> [] then st_ListenAddr m else st_ListenAddr status)\<rparr>
         | _ \<Rightarrow> status)"

definition pl_Subscribe :: "'c ProcessListener \<Rightarrow> nat \<times> 'c ProcessListener" where
  "pl_Subscribe p = (pl_nextch p, p\<lparr>pl_subs := pl_subs p @ [pl_nextch p], pl_nextch := pl_nextch p + 1\<rparr>)"

definition pl_Unsubscribe :: "nat \<Rightarrow> 'c ProcessListener \<Rightarrow> 'c ProcessListener" where
  "pl_Unsubscribe ch p = p\<lparr>pl_subs := removeAll ch (pl_subs p)\<rparr>"

definition pl_GetConnectionBytes :: "string \<Rightarrow> 'c ProcessListener \<Rightarrow> int \<times> int \<times> bool" where
  "pl_GetConnectionBytes connID p = (0, 0, False)"

definition pl_GetActiveConnections :: "'c child_ops \<Rightarrow> 'c ProcessListener \<Rightarrow> ConnectionMetadata list" where
  "pl_GetActiveConnections ops p =
     (case pl_query (ch_GetActiveConnections ops) p of None \<Rightarrow> [] | Some xs \<Rightarrow> map ConnectionMetadataFromActive xs)"

definition pl_result :: "bool option \<times> 'c ProcessListener \<Rightarrow> process_error option \<times> 'c ProcessListener" where
  "pl_result x =
     (case x of
        (None, p) \<Rightarrow> (Some CallFailed, p)
      | (Some False, p) \<Rightarrow> (Some ChildRefused, p)
      | (Some True, p) \<Rightarrow> (None, p))"

definition pl_CloseConnection :: "'c child_ops \<Rightarrow> string \<Rightarrow> string \<Rightarrow> 'c ProcessListener \<Rightarrow> process_error option \<times> 'c ProcessListener" where
  "pl_CloseConnection ops proxyID connID p =
     (if pl_client p = None then (Some ClientNotReady, p)
      else pl_result (pl_update (ch_CloseConnection ops connID) p))"

definition pl_CloseAllConnections :: "'c child_ops \<Rightarrow> 'c ProcessListener \<Rightarrow> process_error option \<times> 'c ProcessListener" where
  "pl_CloseAllConnections ops p =
     (if pl_client p = None then (Some ClientNotReady, p)
      else pl_result (pl_update (ch_CloseAllConnections ops) p))"

section \<open>Properties\<close>

text \<open>A child that refuses every start and every rule, for the examples.\<close>

definition refusing_child :: "bool option \<Rightarrow> unit child_ops" where
  "refusing_child reply =
     \<lparr>ch_spawn = (\<lambda>_. Some ()), ch_StartListener = (\<lambda>_ c. (reply, c)), ch_AddRule = (\<lambda>_ c. (Some False, c)),
      ch_RemoveRule = (\<lambda>_ c. (Some False, c)), ch_ListRules = (\<lambda>_. Some []), ch_GetMetrics = (\<lambda>_. Some None),
      ch_GetActiveConnections = (\<lambda>_. Some []), ch_CloseConnection = (\<lambda>_ c. (Some False, c)),
      ch_CloseAllConnections = (\<lambda>c. (Some False, c)), ch_Kill = (\<lambda>_. True), ch_rss = (\<lambda>_. 0)\<rparr>"

text \<open>A failed start call to the child deadlocks: \<open>Start\<close> holds the listener's mutex and calls \<open>Stop\<close>,
  which locks it again, so \<open>Start\<close> never returns (and the manager, which waits for it, keeps its own lock).\<close>

theorem failed_start_call_deadlocks:
  assumes "\<not> pl_running p" and "ch_spawn ops (pl_cfg p) = Some c" and "fst (ch_StartListener ops (pl_cfg p) c) = None"
  shows "pl_Start ops now p = Deadlocks"
  using assms by (auto simp: pl_Start_def pl_Stop_def pl_Lock_def Let_def split: prod.splits)

lemma failed_start_call_deadlocks_witness:
  "pl_Start (refusing_child None) 0 (NewProcessListener zero_config) = Deadlocks"
  by (rule failed_start_call_deadlocks [where c = "()"]) (simp_all add: NewProcessListener_def refusing_child_def)

text \<open>A child that answers that it could not start its listener is taken for running: the answer's
  success flag is not read, \<open>Start\<close> succeeds and the status says that the proxy runs.\<close>

theorem refused_start_reported_running:
  assumes "\<not> pl_mu p" and "\<not> pl_running p" and "ch_spawn ops (pl_cfg p) = Some c"
    and "ch_StartListener ops (pl_cfg p) c = (Some False, c')"
  shows "\<exists>p'. pl_Start ops now p = Ret (None, p') \<and> st_Running (pl_GetStatus ops now' p')"
  using assms by (auto simp: pl_Start_def pl_Lock_def pl_Unlock_def pl_GetStatus_def Let_def split: option.split)

lemma refused_start_reported_running_witness:
  "\<exists>p'. pl_Start (refusing_child (Some False)) 0 (NewProcessListener zero_config) = Ret (None, p') \<and>
        st_Running (pl_GetStatus (refusing_child (Some False)) 1 p')"
  by (rule refused_start_reported_running [where c = "()" and c' = "()"])
     (simp_all add: NewProcessListener_def refusing_child_def)

end
