(* ===== verification/Proxy_Manager.thy ===== *)
theory Proxy_Manager
  imports Process_Listener Health Global_Rules
begin

text \<open>
  The proxy manager, \<^verbatim>\<open>pkg/node/manager.go\<close> with the rows of \<^verbatim>\<open>pkg/node/model.go\<close>: the table of proxies, their
  life cycle (create, disable, enable, restart, remove), their rules in memory and in the database, the
  global event bus, and the state restored at a start of the node.

  The database engine and the JSON encoding of the generated messages are arguments: the records \<open>dbops\<close>
  and \<open>json_codec\<close>. A Go map is an association list, so a statement about all managers covers every order
  in which a loop may range over the proxies.
\<close>

section \<open>Rows\<close>

record ProxyModel =
  px_ID :: string
  px_Name :: string
  px_ListenAddr :: string
  px_DefaultBackend :: string
  px_DefaultAction :: int
  px_DefaultMock :: string
  px_FallbackAction :: int
  px_FallbackMock :: string
  px_Enabled :: bool
  px_CertPEM :: string
  px_KeyPEM :: string
  px_CaPEM :: string
  px_ClientAuthType :: int
  px_HealthCheckJSON :: string
  px_CreatedAt :: gotime
  px_UpdatedAt :: gotime

record RuleModel =
  rm_ID :: string
  rm_ProxyID :: string
  rm_Name :: string
  rm_Priority :: int
  rm_Enabled :: bool
  rm_Action :: int
  rm_TargetBackend :: string
  rm_ConditionsJSON :: string
  rm_MockConfigJSON :: string
  rm_RateLimitJSON :: string
  rm_Expression :: string
  rm_CreatedAt :: gotime
  rm_UpdatedAt :: gotime

text \<open>
  \<open>js_unconds\<close> and \<open>js_unmock\<close> give what the target holds after the call, also when the text does not parse;
  \<open>js_unhealth\<close> is \<open>None\<close> then.
\<close>

record json_codec =
  js_conds :: "Condition list \<Rightarrow> string"
  js_unconds :: "string \<Rightarrow> Condition list"
  js_mock :: "MockConfig option \<Rightarrow> string"
  js_unmock :: "string \<Rightarrow> MockConfig"
  js_health :: "HealthCheckConfig \<Rightarrow> string"
  js_unhealth :: "string \<Rightarrow> HealthCheckConfig option"

text \<open>The database: a writing call may fail, a failed query gives \<open>None\<close>.\<close>

record 'd dbops =
  db_InsertProxy :: "ProxyModel \<Rightarrow> 'd \<Rightarrow> bool \<times> 'd"
  db_InsertRule :: "RuleModel \<Rightarrow> 'd \<Rightarrow> bool \<times> 'd"
  db_SetEnabled :: "string \<Rightarrow> bool \<Rightarrow> 'd \<Rightarrow> bool \<times> 'd"
  db_UpdateProxy :: "string \<Rightarrow> ProxyModel \<Rightarrow> 'd \<Rightarrow> bool \<times> 'd"
  db_DeleteProxy :: "string \<Rightarrow> 'd \<Rightarrow> 'd"
  db_DeleteRule :: "string \<Rightarrow> 'd \<Rightarrow> 'd"
  db_DeleteRulesOf :: "string \<Rightarrow> 'd \<Rightarrow> 'd"
  db_FindProxies :: "'d \<Rightarrow> ProxyModel list option"
  db_FindRules :: "string \<Rightarrow> 'd \<Rightarrow> RuleModel list option"

definition model_of_rule :: "json_codec \<Rightarrow> gotime \<Rightarrow> string \<Rightarrow> Rule \<Rightarrow> RuleModel" where
  "model_of_rule js now proxyID rule =
     \<lparr>rm_ID = r_Id rule, rm_ProxyID = proxyID, rm_Name = r_Name rule, rm_Priority = r_Priority rule,
      rm_Enabled = r_Enabled rule, rm_Action = action_to_int (r_Action rule), rm_TargetBackend = r_TargetBackend rule,
      rm_ConditionsJSON = js_conds js (r_Conditions rule), rm_MockConfigJSON = js_mock js (r_MockResponse rule),
      rm_RateLimitJSON = [], rm_Expression = r_Expression rule, rm_CreatedAt = now, rm_UpdatedAt = now\<rparr>"

definition rule_of_model :: "json_codec \<Rightarrow> RuleModel \<Rightarrow> Rule" where
  "rule_of_model js r =
     \<lparr>r_Id = rm_ID r, r_Name = rm_Name r, r_Priority = wrap32 (rm_Priority r), r_Enabled = rm_Enabled r,
      r_Conditions = (if rm_ConditionsJSON r \<noteq> [] then js_unconds js (rm_ConditionsJSON r) else []),
      r_Action = action_of_int (rm_Action r), r_TargetBackend = rm_TargetBackend r, r_RateLimit = None,
      r_MockResponse = Some (if rm_MockConfigJSON r \<noteq> [] then js_unmock js (rm_MockConfigJSON r) else zero_MockConfig),
      r_Expression = rm_Expression r\<rparr>"

text \<open>The rule list of a stopped proxy comes from the database without conditions and mock.\<close>

definition listed_rule :: "RuleModel \<Rightarrow> Rule" where
  "listed_rule r =
     zero_Rule\<lparr>r_Id := rm_ID r, r_Name := rm_Name r, r_Priority := wrap32 (rm_Priority r), r_Enabled := rm_Enabled r,
       r_Action := action_of_int (rm_Action r), r_TargetBackend := rm_TargetBackend r, r_Expression := rm_Expression r\<rparr>"

section \<open>The listener interface\<close>

datatype 'c listener = LEmb Wired | LFfi FfiListener | LProc "'c ProcessListener"

datatype listener_error = EmbErr start_error | CoreErr core_error | ProcErr process_error | RuleNotFound | ConnNotFound

definition lis_Start ::
  "'c child_ops \<Rightarrow> bind_env \<Rightarrow> ApprovalManager option \<Rightarrow> 'c listener \<Rightarrow>
   (listener_error option \<times> 'c listener \<times> ApprovalManager option) outcome" where
  "lis_Start ops be am l =
     (case l of
        LEmb w \<Rightarrow>
          (case Start (be_bound be) (be_keypair be) (be_ca be) (wl w) of
             (Inl err, p) \<Rightarrow> Ret (Some (EmbErr err), LEmb (w\<lparr>wl := p\<rparr>), am)
           | (Inr _, p) \<Rightarrow> Ret (None, LEmb (w\<lparr>wl := p\<rparr>), am))
      | LFfi f \<Rightarrow> (case ffi_Start be am f of (err, f', am') \<Rightarrow> Ret (map_option CoreErr err, LFfi f', am'))
      | LProc p \<Rightarrow> obind (pl_Start ops (be_now be) p) (\<lambda>(err, p'). Ret (map_option ProcErr err, LProc p', am)))"

definition lis_Stop :: "'c child_ops \<Rightarrow> 'c listener \<Rightarrow> (listener_error option \<times> 'c listener) outcome" where
  "lis_Stop ops l =
     (case l of
        LEmb w \<Rightarrow> obind (returns (Stop (wl w))) (\<lambda>p. Ret (None, LEmb (w\<lparr>wl := p\<rparr>)))
      | LFfi f \<Rightarrow> obind (ffi_Stop f) (\<lambda>(err, f'). Ret (map_option CoreErr err, LFfi f'))
      | LProc p \<Rightarrow> obind (pl_Stop ops p) (\<lambda>(err, p'). Ret (map_option ProcErr err, LProc p')))"

definition lis_AddRule :: "'c child_ops \<Rightarrow> Rule \<Rightarrow> 'c listener \<Rightarrow> 'c listener" where
  "lis_AddRule ops rule l =
     (case l of
        LEmb w \<Rightarrow> LEmb (upd_wl (AddRule rule) w)
      | LFfi f \<Rightarrow> LFfi (ffi_AddRule rule f)
      | LProc p \<Rightarrow> LProc (pl_AddRule ops rule p))"

definition lis_RemoveRule :: "'c child_ops \<Rightarrow> string \<Rightarrow> 'c listener \<Rightarrow> listener_error option \<times> 'c listener" where
  "lis_RemoveRule ops ruleID l =
     (case l of
        LEmb w \<Rightarrow> (case RemoveRule ruleID (wl w) of None \<Rightarrow> (Some RuleNotFound, l) | Some p \<Rightarrow> (None, LEmb (w\<lparr>wl := p\<rparr>)))
      | LFfi f \<Rightarrow> (case ffi_RemoveRule ruleID f of None \<Rightarrow> (Some RuleNotFound, l) | Some f' \<Rightarrow> (None, LFfi f'))
      | LProc p \<Rightarrow> (case pl_RemoveRule ops ruleID p of (err, p') \<Rightarrow> (map_option ProcErr err, LProc p')))"

definition lis_GetRules :: "'c child_ops \<Rightarrow> 'c listener \<Rightarrow> Rule list" where
  "lis_GetRules ops l =
     (case l of LEmb w \<Rightarrow> GetRules (wl w) | LFfi f \<Rightarrow> ffi_GetRules f | LProc p \<Rightarrow> pl_GetRules ops p)"

definition lis_GetStatus :: "'c child_ops \<Rightarrow> gotime \<Rightarrow> 'c listener \<Rightarrow> ProxyStatus" where
  "lis_GetStatus ops now l =
     (case l of LEmb w \<Rightarrow> GetStatus now (wl w) | LFfi f \<Rightarrow> ffi_GetStatus now f | LProc p \<Rightarrow> pl_GetStatus ops now p)"

definition lis_Subscribe :: "'c listener \<Rightarrow> nat \<times> 'c listener" where
  "lis_Subscribe l =
     (case l of
        LEmb w \<Rightarrow> (case Subscribe (wl w) of (ch, p) \<Rightarrow> (ch, LEmb (w\<lparr>wl := p\<rparr>)))
      | LFfi f \<Rightarrow> (case ffi_Subscribe f of (ch, f') \<Rightarrow> (ch, LFfi f'))
      | LProc p \<Rightarrow> (case pl_Subscribe p of (ch, p') \<Rightarrow> (ch, LProc p')))"

definition lis_Unsubscribe :: "nat \<Rightarrow> 'c listener \<Rightarrow> 'c listener outcome" where
  "lis_Unsubscribe ch l =
     (case l of
        LEmb w \<Rightarrow> obind (returns (Unsubscribe ch (wl w))) (\<lambda>p. Ret (LEmb (w\<lparr>wl := p\<rparr>)))
      | LFfi f \<Rightarrow> Ret (LFfi (ffi_Unsubscribe ch f))
      | LProc p \<Rightarrow> Ret (LProc (pl_Unsubscribe ch p)))"

definition lis_GetConnectionBytes :: "string \<Rightarrow> 'c listener \<Rightarrow> int \<times> int \<times> bool" where
  "lis_GetConnectionBytes connID l =
     (case l of
        LEmb w \<Rightarrow> GetConnectionBytes connID (wl w)
      | LFfi f \<Rightarrow> ffi_GetConnectionBytes connID f
      | LProc p \<Rightarrow> pl_GetConnectionBytes connID p)"

definition lis_GetActiveConnections :: "'c child_ops \<Rightarrow> 'c listener \<Rightarrow> ConnectionMetadata list" where
  "lis_GetActiveConnections ops l =
     (case l of
        LEmb w \<Rightarrow> GetActiveConnections (wl w)
      | LFfi f \<Rightarrow> ffi_GetActiveConnections f
      | LProc p \<Rightarrow> pl_GetActiveConnections ops p)"

definition lis_CloseConnection ::
  "'c child_ops \<Rightarrow> string \<Rightarrow> string \<Rightarrow> 'c listener \<Rightarrow> listener_error option \<times> 'c listener" where
  "lis_CloseConnection ops proxyID connID l =
     (case l of
        LEmb w \<Rightarrow>
          (case CloseConnection proxyID connID (wl w) of
             (ok, p) \<Rightarrow> (if ok then None else Some ConnNotFound, LEmb (w\<lparr>wl := p\<rparr>)))
      | LFfi f \<Rightarrow> (case ffi_CloseConnection proxyID connID f of (err, f') \<Rightarrow> (map_option CoreErr err, LFfi f'))
      | LProc p \<Rightarrow> (case pl_CloseConnection ops proxyID connID p of (err, p') \<Rightarrow> (map_option ProcErr err, LProc p')))"

definition lis_CloseAllConnections :: "'c child_ops \<Rightarrow> 'c listener \<Rightarrow> listener_error option \<times> 'c listener" where
  "lis_CloseAllConnections ops l =
     (case l of
        LEmb w \<Rightarrow> (None, LEmb (upd_wl CloseAllConnections w))
      | LFfi f \<Rightarrow> (case ffi_CloseAllConnections f of (err, f') \<Rightarrow> (map_option CoreErr err, LFfi f'))
      | LProc p \<Rightarrow> (case pl_CloseAllConnections ops p of (err, p') \<Rightarrow> (map_option ProcErr err, LProc p')))"

section \<open>The manager\<close>

datatype ListenerMode = ListenerModeFfi | ListenerModeProcess | ListenerModeOther int

definition mode_String :: "ListenerMode \<Rightarrow> string" where
  "mode_String m =
     (case m of ListenerModeFfi \<Rightarrow> ''ffi'' | ListenerModeProcess \<Rightarrow> ''process'' | ListenerModeOther _ \<Rightarrow> ''unknown'')"

text \<open>\<open>mp_eventSub\<close> is set together with the cancel function of the event forwarder.\<close>

record 'c ManagedProxy =
  mp_Listener :: "'c listener option"
  mp_Model :: ProxyModel
  mp_eventSub :: "nat option"

record ('c, 'd) ProxyManager =
  pm_proxies :: "(string, 'c ManagedProxy) gomap"
  pm_mode :: ListenerMode
  pm_db :: "'d option"
  pm_globalSubs :: "nat list"
  pm_globalChans :: "(nat, sub_chan) gomap"
  pm_Stats :: bool
  pm_HealthCheck :: HealthChecker
  pm_GlobalRules :: GlobalRulesStore
  pm_Approval :: "ApprovalManager option"
  pm_NodeID :: string

text \<open>The outside of an operation: the child processes, the database engine, the JSON codec, whether the FFI
  transport works, what a start of each proxy meets, the clock and the fresh ids.\<close>

record ('c, 'd) node_env =
  ne_ops :: "'c child_ops"
  ne_db :: "'d dbops"
  ne_json :: json_codec
  ne_up :: bool
  ne_bind :: "string \<Rightarrow> bind_env"
  ne_now :: gotime
  ne_uuid :: string

definition NewProxyManager :: "ListenerMode \<Rightarrow> ('c, 'd) ProxyManager" where
  "NewProxyManager mode =
     \<lparr>pm_proxies = [], pm_mode = mode, pm_db = None, pm_globalSubs = [], pm_globalChans = [], pm_Stats = False,
      pm_HealthCheck = hc_Start (NewHealthChecker []), pm_GlobalRules = NewGlobalRulesStore, pm_Approval = None,
      pm_NodeID = []\<rparr>"

definition NewProxyManagerWithBool :: "bool \<Rightarrow> ('c, 'd) ProxyManager" where
  "NewProxyManagerWithBool useEmbedded = NewProxyManager (if useEmbedded then ListenerModeFfi else ListenerModeProcess)"

definition put_proxy :: "string \<Rightarrow> 'c ManagedProxy \<Rightarrow> ('c, 'd) ProxyManager \<Rightarrow> ('c, 'd) ProxyManager" where
  "put_proxy pid mp m = m\<lparr>pm_proxies := gput pid mp (pm_proxies m)\<rparr>"

definition on_db :: "('d \<Rightarrow> 'd) \<Rightarrow> ('c, 'd) ProxyManager \<Rightarrow> ('c, 'd) ProxyManager" where
  "on_db f m = m\<lparr>pm_db := map_option f (pm_db m)\<rparr>"

section \<open>Services\<close>

text \<open>The manager's setters hand the service to every embedded and in-process listener.\<close>

definition wire_approval ::
  "('c, 'd) ProxyManager \<Rightarrow> 'c listener \<Rightarrow> ApprovalManager option \<Rightarrow> 'c listener \<times> ApprovalManager option" where
  "wire_approval m l am =
     (case l of
        LEmb w \<Rightarrow>
          (case SetApprovalManager am w of
             (w', am') \<Rightarrow> (LEmb (upd_wl (SetNodeID (pm_NodeID m)) (SetGlobalRules True w')), am'))
      | LFfi f \<Rightarrow>
          (case ffi_SetApprovalManager am f of
             (f', am') \<Rightarrow> (LFfi (ffi_SetNodeID (pm_NodeID m) (ffi_SetGlobalRules True f')), am'))
      | LProc p \<Rightarrow> (l, am))"

fun wire_all ::
  "('c, 'd) ProxyManager \<Rightarrow> (string, 'c ManagedProxy) gomap \<Rightarrow> ApprovalManager option \<Rightarrow>
   (string, 'c ManagedProxy) gomap \<times> ApprovalManager option" where
  "wire_all m [] am = ([], am)"
| "wire_all m ((pid, mp) # ps) am =
     (case mp_Listener mp of
        None \<Rightarrow> (case wire_all m ps am of (ps', am') \<Rightarrow> ((pid, mp) # ps', am'))
      | Some l \<Rightarrow>
          (case wire_approval m l am of
             (l', am1) \<Rightarrow> (case wire_all m ps am1 of (ps', am') \<Rightarrow> ((pid, mp\<lparr>mp_Listener := Some l'\<rparr>) # ps', am'))))"

definition pm_SetApprovalManager :: "ApprovalManager option \<Rightarrow> ('c, 'd) ProxyManager \<Rightarrow> ('c, 'd) ProxyManager" where
  "pm_SetApprovalManager am m =
     (case wire_all m (pm_proxies m) am of (ps, am') \<Rightarrow> m\<lparr>pm_proxies := ps, pm_Approval := am'\<rparr>)"

definition map_listeners :: "('c listener \<Rightarrow> 'c listener) \<Rightarrow> ('c, 'd) ProxyManager \<Rightarrow> ('c, 'd) ProxyManager" where
  "map_listeners f m =
     m\<lparr>pm_proxies := map (\<lambda>(pid, mp). (pid, mp\<lparr>mp_Listener := map_option f (mp_Listener mp)\<rparr>)) (pm_proxies m)\<rparr>"

definition pm_SetNodeID :: "string \<Rightarrow> ('c, 'd) ProxyManager \<Rightarrow> ('c, 'd) ProxyManager" where
  "pm_SetNodeID nodeID m =
     map_listeners (\<lambda>l. case l of LEmb w \<Rightarrow> LEmb (upd_wl (SetNodeID nodeID) w) | LFfi f \<Rightarrow> LFfi (ffi_SetNodeID nodeID f) | LProc p \<Rightarrow> l)
       (m\<lparr>pm_NodeID := nodeID\<rparr>)"

definition pm_SetStatsService :: "bool \<Rightarrow> ('c, 'd) ProxyManager \<Rightarrow> ('c, 'd) ProxyManager" where
  "pm_SetStatsService s m =
     map_listeners (\<lambda>l. case l of LEmb w \<Rightarrow> LEmb (SetStatsService s w) | LFfi f \<Rightarrow> LFfi (ffi_SetStatsService s f) | LProc p \<Rightarrow> l)
       (m\<lparr>pm_Stats := s\<rparr>)"

section \<open>Events\<close>

definition SubscribeGlobal :: "('c, 'd) ProxyManager \<Rightarrow> nat \<times> ('c, 'd) ProxyManager" where
  "SubscribeGlobal m =
     (let ch = length (pm_globalChans m)
      in (ch, m\<lparr>pm_globalSubs := pm_globalSubs m @ [ch], pm_globalChans := pm_globalChans m @ [(ch, Open [])]\<rparr>))"

definition UnsubscribeGlobal :: "nat \<Rightarrow> ('c, 'd) ProxyManager \<Rightarrow> ('c, 'd) ProxyManager outcome" where
  "UnsubscribeGlobal ch m =
     (case gget (pm_globalChans m) ch of
        Some (Open buf) \<Rightarrow>
          Ret (m\<lparr>pm_globalSubs := removeAll ch (pm_globalSubs m), pm_globalChans := gput ch (Closed buf) (pm_globalChans m)\<rparr>)
      | _ \<Rightarrow> Panics)"

fun send_global :: "ConnectionEvent \<Rightarrow> nat list \<Rightarrow> (nat, sub_chan) gomap \<Rightarrow> (nat, sub_chan) gomap outcome" where
  "send_global ev [] chs = Ret chs"
| "send_global ev (ch # rest) chs =
     (case gget chs ch of
        Some (Open buf) \<Rightarrow> send_global ev rest (if length buf < 100 then gput ch (Open (buf @ [ev])) chs else chs)
      | _ \<Rightarrow> Panics)"

definition broadcastGlobal :: "ConnectionEvent \<Rightarrow> ('c, 'd) ProxyManager \<Rightarrow> ('c, 'd) ProxyManager outcome" where
  "broadcastGlobal ev m =
     obind (send_global ev (pm_globalSubs m) (pm_globalChans m)) (\<lambda>chs. Ret (m\<lparr>pm_globalChans := chs\<rparr>))"

definition stopEventForwarder :: "'c ManagedProxy \<Rightarrow> 'c ManagedProxy outcome" where
  "stopEventForwarder mp =
     (case mp_eventSub mp of
        None \<Rightarrow> Ret mp
      | Some ch \<Rightarrow>
          (case mp_Listener mp of
             None \<Rightarrow> Ret (mp\<lparr>mp_eventSub := None\<rparr>)
           | Some l \<Rightarrow> obind (lis_Unsubscribe ch l) (\<lambda>l'. Ret (mp\<lparr>mp_Listener := Some l', mp_eventSub := None\<rparr>))))"

definition startEventForwarder :: "'c ManagedProxy \<Rightarrow> 'c ManagedProxy outcome" where
  "startEventForwarder mp =
     (if mp_Listener mp = None then Ret mp
      else obind (stopEventForwarder mp) (\<lambda>mp1.
        case mp_Listener mp1 of
          None \<Rightarrow> Ret mp1
        | Some l \<Rightarrow> (case lis_Subscribe l of (ch, l') \<Rightarrow> Ret (mp1\<lparr>mp_Listener := Some l', mp_eventSub := Some ch\<rparr>))))"

section \<open>Creation\<close>

record CreateProxyRequest =
  cr_Name :: string
  cr_ListenAddr :: string
  cr_DefaultBackend :: string
  cr_DefaultAction :: ActionType
  cr_DefaultMock :: MockPreset
  cr_FallbackAction :: FallbackAction
  cr_FallbackMock :: MockPreset
  cr_CertPem :: string
  cr_KeyPem :: string
  cr_CaPem :: string
  cr_ClientAuthType :: ClientAuthType
  cr_HealthCheck :: "HealthCheckConfig option"

datatype manager_error =
    AddressInUse string
  | ListenerStart listener_error
  | ListenerStop listener_error
  | ProxyNotFound
  | ProxyNotRunning
  | IdRequired
  | DbFailed
  | RuleError listener_error
  | ConnectionError listener_error
  | ConnectionNotFound

definition convertHealthCheck :: "HealthCheckConfig \<Rightarrow> HealthCheck" where
  "convertHealthCheck cfg =
     \<lparr>hk_Interval = hcc_Interval cfg, hk_Timeout = hcc_Timeout cfg,
      hk_Type = (case hcc_Type cfg of
                   HEALTH_CHECK_TYPE_HTTP \<Rightarrow> ''http''
                 | HEALTH_CHECK_TYPE_HTTPS \<Rightarrow> ''https''
                 | _ \<Rightarrow> ''tcp''),
      hk_Path = hcc_Path cfg, hk_ExpectedStatus = hcc_ExpectedStatus cfg\<rparr>"

definition sanitizeAddress :: "string \<Rightarrow> string" where
  "sanitizeAddress addr = strings_TrimSpace addr"

text \<open>The switch on the mode that \<open>CreateProxyWithID\<close>, \<open>EnableProxy\<close> and \<open>RestartListeners\<close> share. An unknown
  mode leaves the listener nil, and starting it panics.\<close>

definition build_ffi :: "bool \<Rightarrow> ('c, 'd) ProxyManager \<Rightarrow> listener_config \<Rightarrow> FfiListener" where
  "build_ffi up m cfg =
     (let f1 = NewFfiListener up cfg;
          f2 = (if pm_Stats m then ffi_SetStatsService True f1 else f1);
          f3 = ffi_SetFallback (cf_FallbackAction cfg) (cf_FallbackMock cfg) f2;
          f4 = ffi_SetGlobalRules True f3;
          f5 = (if pm_Approval m \<noteq> None then fst (ffi_SetApprovalManager (pm_Approval m) f4) else f4)
      in if pm_NodeID m \<noteq> [] then ffi_SetNodeID (pm_NodeID m) f5 else f5)"

definition build_listener :: "bool \<Rightarrow> ('c, 'd) ProxyManager \<Rightarrow> listener_config \<Rightarrow> 'c listener outcome" where
  "build_listener up m cfg =
     (case pm_mode m of
        ListenerModeFfi \<Rightarrow> Ret (LFfi (build_ffi up m cfg))
      | ListenerModeProcess \<Rightarrow>
          Ret (LProc (pl_SetFallback (cf_FallbackAction cfg) (cf_FallbackMock cfg) (NewProcessListener cfg)))
      | ListenerModeOther _ \<Rightarrow> Panics)"

definition request_config :: "string \<Rightarrow> CreateProxyRequest \<Rightarrow> listener_config" where
  "request_config pid req =
     \<lparr>cf_ID = pid, cf_Name = cr_Name req, cf_ListenAddr = sanitizeAddress (cr_ListenAddr req),
      cf_DefaultBackend = sanitizeAddress (cr_DefaultBackend req),
      cf_DefaultAction = (if cr_DefaultAction req = ACTION_TYPE_UNSPECIFIED \<and> cr_DefaultMock req \<noteq> MOCK_PRESET_UNSPECIFIED
                          then ACTION_TYPE_MOCK else cr_DefaultAction req),
      cf_DefaultMock = cr_DefaultMock req, cf_FallbackAction = cr_FallbackAction req, cf_FallbackMock = cr_FallbackMock req,
      cf_CertPEM = cr_CertPem req, cf_KeyPEM = cr_KeyPem req, cf_CaPEM = cr_CaPem req,
      cf_ClientAuthType = cr_ClientAuthType req\<rparr>"

definition model_of_config :: "listener_config \<Rightarrow> string \<Rightarrow> gotime \<Rightarrow> ProxyModel" where
  "model_of_config cfg hcJSON now =
     \<lparr>px_ID = cf_ID cfg, px_Name = cf_Name cfg, px_ListenAddr = cf_ListenAddr cfg, px_DefaultBackend = cf_DefaultBackend cfg,
      px_DefaultAction = action_to_int (cf_DefaultAction cfg), px_DefaultMock = MockPresetToString (cf_DefaultMock cfg),
      px_FallbackAction = fallback_to_int (cf_FallbackAction cfg), px_FallbackMock = MockPresetToString (cf_FallbackMock cfg),
      px_Enabled = True, px_CertPEM = cf_CertPEM cfg, px_KeyPEM = cf_KeyPEM cfg, px_CaPEM = cf_CaPEM cfg,
      px_ClientAuthType = client_auth_to_int (cf_ClientAuthType cfg), px_HealthCheckJSON = hcJSON,
      px_CreatedAt = now, px_UpdatedAt = now\<rparr>"

definition address_owner :: "string \<Rightarrow> ('c, 'd) ProxyManager \<Rightarrow> 'c ManagedProxy option" where
  "address_owner addr m = map_option snd (find (\<lambda>(_, p). px_ListenAddr (mp_Model p) = addr) (pm_proxies m))"

definition CreateProxyWithID ::
  "('c, 'd) node_env \<Rightarrow> string \<Rightarrow> CreateProxyRequest \<Rightarrow> ('c, 'd) ProxyManager \<Rightarrow>
   ((manager_error + string) \<times> ('c, 'd) ProxyManager) outcome" where
  "CreateProxyWithID env pid0 req m =
     (case (if strings_HasSuffix (cr_ListenAddr req) '':0'' then None else address_owner (cr_ListenAddr req) m) of
        Some owner \<Rightarrow> Ret (Inl (AddressInUse (px_Name (mp_Model owner))), m)
      | None \<Rightarrow>
          (let pid = (if pid0 = [] then ne_uuid env else pid0);
               cfg = request_config pid req
           in obind (build_listener (ne_up env) m cfg) (\<lambda>proxy.
              obind (lis_Start (ne_ops env) (ne_bind env pid) (pm_Approval m) proxy) (\<lambda>(err, proxy1, am).
                let m1 = m\<lparr>pm_Approval := am\<rparr> in
                case err of
                  Some e \<Rightarrow> Ret (Inl (ListenerStart e), m1)
                | None \<Rightarrow>
                    (let hcJSON = (case cr_HealthCheck req of None \<Rightarrow> [] | Some h \<Rightarrow> js_health (ne_json env) h);
                         model = model_of_config cfg hcJSON (ne_now env)
                     in obind (startEventForwarder \<lparr>mp_Listener = Some proxy1, mp_Model = model, mp_eventSub = None\<rparr>) (\<lambda>mp.
                        let m2 = put_proxy pid mp m1;
                            m3 = (case cr_HealthCheck req of
                                    None \<Rightarrow> m2
                                  | Some h \<Rightarrow>
                                      m2\<lparr>pm_HealthCheck := AddService pid
                                           \<lparr>svc_Address = cf_DefaultBackend cfg, svc_HealthCheck = Some (convertHealthCheck h)\<rparr>
                                           (pm_HealthCheck m2)\<rparr>)
                        in Ret (Inr pid, on_db (\<lambda>d. snd (db_InsertProxy (ne_db env) model d)) m3)))))))"

definition CreateProxy ::
  "('c, 'd) node_env \<Rightarrow> CreateProxyRequest \<Rightarrow> ('c, 'd) ProxyManager \<Rightarrow>
   ((manager_error + string) \<times> ('c, 'd) ProxyManager) outcome" where
  "CreateProxy env req m = CreateProxyWithID env [] req m"

section \<open>Removal, disabling, enabling\<close>

definition stop_health :: "string \<Rightarrow> ('c, 'd) ProxyManager \<Rightarrow> ('c, 'd) ProxyManager" where
  "stop_health pid m = m\<lparr>pm_HealthCheck := RemoveService pid (pm_HealthCheck m)\<rparr>"

definition RemoveProxy :: "('c, 'd) node_env \<Rightarrow> string \<Rightarrow> ('c, 'd) ProxyManager \<Rightarrow> ('c, 'd) ProxyManager outcome" where
  "RemoveProxy env pid m =
     (case gget (pm_proxies m) pid of
        None \<Rightarrow> Ret m
      | Some mp \<Rightarrow>
          obind (stopEventForwarder mp) (\<lambda>mp1.
          obind (case mp_Listener mp1 of None \<Rightarrow> Ret () | Some l \<Rightarrow> obind (lis_Stop (ne_ops env) l) (\<lambda>_. Ret ())) (\<lambda>_.
            let m1 = stop_health pid m
            in Ret (on_db (db_DeleteProxy (ne_db env) pid) (m1\<lparr>pm_proxies := gdel pid (pm_proxies m1)\<rparr>)))))"

text \<open>The common body of the two branches of \<open>DisableProxy\<close>.\<close>

definition disable_one ::
  "('c, 'd) node_env \<Rightarrow> string \<Rightarrow> 'c ManagedProxy \<Rightarrow> ('c, 'd) ProxyManager \<Rightarrow>
   (manager_error option \<times> ('c, 'd) ProxyManager) outcome" where
  "disable_one env pid mp m =
     obind (stopEventForwarder mp) (\<lambda>mp1.
     obind (case mp_Listener mp1 of
              None \<Rightarrow> Ret (None, mp1)
            | Some l \<Rightarrow>
                obind (lis_Stop (ne_ops env) l) (\<lambda>(err, l').
                  Ret (err, mp1\<lparr>mp_Listener := (if err = None then None else Some l')\<rparr>))) (\<lambda>(err, mp2).
       case err of
         Some e \<Rightarrow> Ret (Some (ListenerStop e), put_proxy pid mp2 m)
       | None \<Rightarrow>
           (let mp3 = mp2\<lparr>mp_Model := (mp_Model mp2)\<lparr>px_Enabled := False\<rparr>\<rparr>;
                m1 = stop_health pid (put_proxy pid mp3 m)
            in Ret (None, on_db (\<lambda>d. snd (db_SetEnabled (ne_db env) pid False d)) m1))))"

fun disable_all ::
  "('c, 'd) node_env \<Rightarrow> string list \<Rightarrow> ('c, 'd) ProxyManager \<Rightarrow> (manager_error option \<times> ('c, 'd) ProxyManager) outcome" where
  "disable_all env [] m = Ret (None, m)"
| "disable_all env (pid # pids) m =
     (case gget (pm_proxies m) pid of
        None \<Rightarrow> disable_all env pids m
      | Some mp \<Rightarrow>
          obind (disable_one env pid mp m) (\<lambda>(err, m').
            case err of Some e \<Rightarrow> Ret (Some e, m') | None \<Rightarrow> disable_all env pids m'))"

definition DisableProxy ::
  "('c, 'd) node_env \<Rightarrow> string \<Rightarrow> ('c, 'd) ProxyManager \<Rightarrow> (manager_error option \<times> ('c, 'd) ProxyManager) outcome" where
  "DisableProxy env pid m =
     (if pid = [] then disable_all env (map fst (pm_proxies m)) m
      else case gget (pm_proxies m) pid of
             None \<Rightarrow> Ret (Some ProxyNotFound, m)
           | Some mp \<Rightarrow> disable_one env pid mp m)"

definition config_of_model :: "string \<Rightarrow> ProxyModel \<Rightarrow> listener_config" where
  "config_of_model pid model =
     \<lparr>cf_ID = pid, cf_Name = px_Name model, cf_ListenAddr = px_ListenAddr model, cf_DefaultBackend = px_DefaultBackend model,
      cf_DefaultAction = action_of_int (px_DefaultAction model), cf_DefaultMock = StringToMockPreset (px_DefaultMock model),
      cf_FallbackAction = fallback_of_int (px_FallbackAction model), cf_FallbackMock = StringToMockPreset (px_FallbackMock model),
      cf_CertPEM = px_CertPEM model, cf_KeyPEM = px_KeyPEM model, cf_CaPEM = px_CaPEM model,
      cf_ClientAuthType = client_auth_of_int (px_ClientAuthType model)\<rparr>"

text \<open>The stale listener that \<open>EnableProxy\<close> replaces is stopped first; the error of that stop is ignored.\<close>

definition drop_listener :: "('c, 'd) node_env \<Rightarrow> 'c ManagedProxy \<Rightarrow> 'c ManagedProxy outcome" where
  "drop_listener env mp =
     (if mp_Listener mp = None then Ret mp
      else obind (stopEventForwarder mp) (\<lambda>mp1.
        case mp_Listener mp1 of
          None \<Rightarrow> Ret mp1
        | Some l \<Rightarrow> obind (lis_Stop (ne_ops env) l) (\<lambda>_. Ret (mp1\<lparr>mp_Listener := None\<rparr>))))"

definition EnableProxy ::
  "('c, 'd) node_env \<Rightarrow> string \<Rightarrow> ('c, 'd) ProxyManager \<Rightarrow> (manager_error option \<times> ('c, 'd) ProxyManager) outcome" where
  "EnableProxy env pid m =
     (case gget (pm_proxies m) pid of
        None \<Rightarrow> Ret (Some ProxyNotFound, m)
      | Some mp \<Rightarrow>
          if (case mp_Listener mp of None \<Rightarrow> False | Some l \<Rightarrow> st_Running (lis_GetStatus (ne_ops env) (ne_now env) l))
          then Ret (None, m)
          else
            obind (drop_listener env mp) (\<lambda>mp1.
            obind (build_listener (ne_up env) m (config_of_model pid (mp_Model mp1))) (\<lambda>proxy.
            obind (lis_Start (ne_ops env) (ne_bind env pid) (pm_Approval m) proxy) (\<lambda>(err, proxy1, am).
              let m1 = m\<lparr>pm_Approval := am\<rparr> in
              case err of
                Some e \<Rightarrow> Ret (Some (ListenerStart e), put_proxy pid mp1 m1)
              | None \<Rightarrow>
                  obind (startEventForwarder
                    (mp1\<lparr>mp_Listener := Some proxy1, mp_Model := (mp_Model mp1)\<lparr>px_Enabled := True\<rparr>\<rparr>)) (\<lambda>mp2.
                    Ret (None, on_db (\<lambda>d. snd (db_SetEnabled (ne_db env) pid True d)) (put_proxy pid mp2 m1)))))))"

record UpdateProxyRequest =
  up_ProxyId :: string
  up_ListenAddr :: string
  up_DefaultBackend :: string
  up_DefaultAction :: ActionType
  up_DefaultMock :: MockPreset

definition updated_model :: "UpdateProxyRequest \<Rightarrow> ProxyModel \<Rightarrow> ProxyModel" where
  "updated_model req model =
     model\<lparr>px_ListenAddr := (if up_ListenAddr req \<noteq> [] then up_ListenAddr req else px_ListenAddr model),
           px_DefaultBackend := (if up_DefaultBackend req \<noteq> [] then up_DefaultBackend req else px_DefaultBackend model),
           px_DefaultAction := (if up_DefaultAction req \<noteq> ACTION_TYPE_UNSPECIFIED then action_to_int (up_DefaultAction req)
                                else px_DefaultAction model),
           px_DefaultMock := (if up_DefaultMock req \<noteq> MOCK_PRESET_UNSPECIFIED then MockPresetToString (up_DefaultMock req)
                              else px_DefaultMock model)\<rparr>"

definition UpdateProxy ::
  "('c, 'd) node_env \<Rightarrow> UpdateProxyRequest \<Rightarrow> ('c, 'd) ProxyManager \<Rightarrow> manager_error option \<times> ('c, 'd) ProxyManager" where
  "UpdateProxy env req m =
     (case gget (pm_proxies m) (up_ProxyId req) of
        None \<Rightarrow> (Some ProxyNotFound, m)
      | Some mp \<Rightarrow>
          (let model = updated_model req (mp_Model mp);
               m1 = put_proxy (up_ProxyId req) (mp\<lparr>mp_Model := model\<rparr>) m
           in case pm_db m1 of
                None \<Rightarrow> (None, m1)
              | Some d \<Rightarrow>
                  (case db_UpdateProxy (ne_db env) (up_ProxyId req) model d of
                     (ok, d') \<Rightarrow> (if ok then None else Some DbFailed, m1\<lparr>pm_db := Some d'\<rparr>))))"

text \<open>One turn of the loop of \<open>RestartListeners\<close>; the flag tells whether the listener was restarted. When the
  new listener does not start, the stopped one stays in the table.\<close>

definition restart_one ::
  "('c, 'd) node_env \<Rightarrow> string \<Rightarrow> 'c ManagedProxy \<Rightarrow> ('c, 'd) ProxyManager \<Rightarrow> (bool \<times> ('c, 'd) ProxyManager) outcome" where
  "restart_one env pid mp m =
     (if mp_Listener mp = None \<or> \<not> px_Enabled (mp_Model mp) then Ret (False, m)
      else
        obind (stopEventForwarder mp) (\<lambda>mp1.
        case mp_Listener mp1 of
          None \<Rightarrow> Ret (False, put_proxy pid mp1 m)
        | Some l \<Rightarrow>
            obind (lis_Stop (ne_ops env) l) (\<lambda>(serr, l').
              let mp2 = mp1\<lparr>mp_Listener := Some l'\<rparr> in
              if serr \<noteq> None then Ret (False, put_proxy pid mp2 m)
              else
                obind (build_listener (ne_up env) m (config_of_model pid (mp_Model mp2))) (\<lambda>proxy.
                obind (lis_Start (ne_ops env) (ne_bind env pid) (pm_Approval m) proxy) (\<lambda>(err, proxy1, am).
                  let m1 = m\<lparr>pm_Approval := am\<rparr> in
                  if err \<noteq> None then Ret (False, put_proxy pid mp2 m1)
                  else obind (startEventForwarder (mp2\<lparr>mp_Listener := Some proxy1\<rparr>)) (\<lambda>mp3.
                         Ret (True, put_proxy pid mp3 m1)))))))"

fun restart_all ::
  "('c, 'd) node_env \<Rightarrow> string list \<Rightarrow> ('c, 'd) ProxyManager \<Rightarrow> (nat \<times> ('c, 'd) ProxyManager) outcome" where
  "restart_all env [] m = Ret (0, m)"
| "restart_all env (pid # pids) m =
     (case gget (pm_proxies m) pid of
        None \<Rightarrow> restart_all env pids m
      | Some mp \<Rightarrow>
          obind (restart_one env pid mp m) (\<lambda>(ok, m').
          obind (restart_all env pids m') (\<lambda>(n, m'').
            Ret ((if ok then Suc n else n), m''))))"

definition RestartListeners :: "('c, 'd) node_env \<Rightarrow> ('c, 'd) ProxyManager \<Rightarrow> (nat \<times> ('c, 'd) ProxyManager) outcome" where
  "RestartListeners env m = restart_all env (map fst (pm_proxies m)) m"

fun stop_all :: "('c, 'd) node_env \<Rightarrow> string list \<Rightarrow> ('c, 'd) ProxyManager \<Rightarrow> ('c, 'd) ProxyManager outcome" where
  "stop_all env [] m = Ret m"
| "stop_all env (pid # pids) m =
     (case gget (pm_proxies m) pid of
        None \<Rightarrow> stop_all env pids m
      | Some mp \<Rightarrow>
          obind (stopEventForwarder mp) (\<lambda>mp1.
          obind (case mp_Listener mp1 of
                   None \<Rightarrow> Ret mp1
                 | Some l \<Rightarrow> obind (lis_Stop (ne_ops env) l) (\<lambda>_. Ret (mp1\<lparr>mp_Listener := None\<rparr>))) (\<lambda>mp2.
            stop_all env pids (stop_health pid (put_proxy pid mp2 m)))))"

definition StopAllListeners :: "('c, 'd) node_env \<Rightarrow> ('c, 'd) ProxyManager \<Rightarrow> ('c, 'd) ProxyManager outcome" where
  "StopAllListeners env m = obind (stop_all env (map fst (pm_proxies m)) m) (\<lambda>m'. Ret (m'\<lparr>pm_proxies := []\<rparr>))"

definition pm_Close :: "('c, 'd) node_env \<Rightarrow> ('c, 'd) ProxyManager \<Rightarrow> ('c, 'd) ProxyManager outcome" where
  "pm_Close env m = obind (StopAllListeners env m) (\<lambda>m'. Ret (m'\<lparr>pm_HealthCheck := hc_Stop (pm_HealthCheck m')\<rparr>))"

section \<open>Rules\<close>

definition remove_rules :: "'c child_ops \<Rightarrow> string list \<Rightarrow> 'c listener \<Rightarrow> 'c listener" where
  "remove_rules ops ids l = fold (\<lambda>i l. snd (lis_RemoveRule ops i l)) ids l"

definition insert_rules :: "('c, 'd) node_env \<Rightarrow> string \<Rightarrow> Rule list \<Rightarrow> 'd \<Rightarrow> 'd" where
  "insert_rules env proxyID rs d =
     fold (\<lambda>r d. snd (db_InsertRule (ne_db env) (model_of_rule (ne_json env) 0 proxyID r) d)) rs d"

definition ReloadRules ::
  "('c, 'd) node_env \<Rightarrow> string \<Rightarrow> Rule list \<Rightarrow> ('c, 'd) ProxyManager \<Rightarrow> (manager_error + int) \<times> ('c, 'd) ProxyManager" where
  "ReloadRules env proxyID rs m =
     (case gget (pm_proxies m) proxyID of
        None \<Rightarrow> (Inl ProxyNotFound, m)
      | Some mp \<Rightarrow>
          (case mp_Listener mp of
             None \<Rightarrow> (Inl ProxyNotRunning, m)
           | Some l \<Rightarrow>
               (let ops = ne_ops env;
                    l1 = remove_rules ops (map r_Id (lis_GetRules ops l)) l;
                    l2 = fold (lis_AddRule ops) rs l1;
                    m1 = put_proxy proxyID (mp\<lparr>mp_Listener := Some l2\<rparr>) m
                in (Inr (wrap32 (int (length rs))),
                    on_db (\<lambda>d. insert_rules env proxyID rs (db_DeleteRulesOf (ne_db env) proxyID d)) m1))))"

definition pm_AddRule ::
  "('c, 'd) node_env \<Rightarrow> string \<Rightarrow> Rule \<Rightarrow> ('c, 'd) ProxyManager \<Rightarrow> (manager_error + Rule) \<times> ('c, 'd) ProxyManager" where
  "pm_AddRule env proxyID rule0 m =
     (case gget (pm_proxies m) proxyID of
        None \<Rightarrow> (Inl ProxyNotFound, m)
      | Some mp \<Rightarrow>
          (let rule = (if r_Id rule0 = [] then rule0\<lparr>r_Id := ne_uuid env\<rparr> else rule0);
               m1 = (case mp_Listener mp of
                       None \<Rightarrow> m
                     | Some l \<Rightarrow> put_proxy proxyID (mp\<lparr>mp_Listener := Some (lis_AddRule (ne_ops env) rule l)\<rparr>) m)
           in (Inr rule,
               on_db (\<lambda>d. snd (db_InsertRule (ne_db env) (model_of_rule (ne_json env) (ne_now env) proxyID rule) d)) m1)))"

definition pm_RemoveRule ::
  "('c, 'd) node_env \<Rightarrow> string \<Rightarrow> string \<Rightarrow> ('c, 'd) ProxyManager \<Rightarrow> manager_error option \<times> ('c, 'd) ProxyManager" where
  "pm_RemoveRule env proxyID ruleID m =
     (case gget (pm_proxies m) proxyID of
        None \<Rightarrow> (Some ProxyNotFound, m)
      | Some mp \<Rightarrow>
          (case mp_Listener mp of
             None \<Rightarrow> (None, on_db (db_DeleteRule (ne_db env) ruleID) m)
           | Some l \<Rightarrow>
               (case lis_RemoveRule (ne_ops env) ruleID l of
                  (err, l') \<Rightarrow>
                    (let m1 = put_proxy proxyID (mp\<lparr>mp_Listener := Some l'\<rparr>) m in
                     case err of
                       Some e \<Rightarrow> (Some (RuleError e), m1)
                     | None \<Rightarrow> (None, on_db (db_DeleteRule (ne_db env) ruleID) m1)))))"

definition pm_GetRules :: "('c, 'd) node_env \<Rightarrow> string \<Rightarrow> ('c, 'd) ProxyManager \<Rightarrow> manager_error + Rule list" where
  "pm_GetRules env proxyID m =
     (case gget (pm_proxies m) proxyID of
        None \<Rightarrow> Inl ProxyNotFound
      | Some mp \<Rightarrow>
          (case mp_Listener mp of
             Some l \<Rightarrow> Inr (lis_GetRules (ne_ops env) l)
           | None \<Rightarrow>
               (case pm_db m of
                  None \<Rightarrow> Inr []
                | Some d \<Rightarrow>
                    (case db_FindRules (ne_db env) proxyID d of
                       None \<Rightarrow> Inl DbFailed
                     | Some rs \<Rightarrow> Inr (map listed_rule rs)))))"

section \<open>Status and connections\<close>

definition stopped_status :: "ProxyModel \<Rightarrow> ProxyStatus" where
  "stopped_status model =
     zero_status\<lparr>st_ProxyId := px_ID model, st_Running := False, st_ListenAddr := px_ListenAddr model,
       st_DefaultBackend := px_DefaultBackend model, st_DefaultAction := action_of_int (px_DefaultAction model),
       st_DefaultMock := StringToMockPreset (px_DefaultMock model),
       st_FallbackAction := fallback_of_int (px_FallbackAction model),
       st_FallbackMock := StringToMockPreset (px_FallbackMock model)\<rparr>"

text \<open>\<open>name\<close> is the key under which the health status is looked up.\<close>

definition proxy_status ::
  "('c, 'd) node_env \<Rightarrow> string \<Rightarrow> 'c ManagedProxy \<Rightarrow> ('c, 'd) ProxyManager \<Rightarrow> ProxyStatus" where
  "proxy_status env name mp m =
     (let st = (case mp_Listener mp of
                  Some l \<Rightarrow> lis_GetStatus (ne_ops env) (ne_now env) l
                | None \<Rightarrow> stopped_status (mp_Model mp))
      in if px_HealthCheckJSON (mp_Model mp) = [] then st
         else case js_unhealth (ne_json env) (px_HealthCheckJSON (mp_Model mp)) of
                None \<Rightarrow> st
              | Some h \<Rightarrow>
                  st\<lparr>st_HealthCheck := Some h,
                     st_HealthStatus := (case hc_GetStatus name (pm_HealthCheck m) of
                                           (healthy, exists) \<Rightarrow>
                                             if exists then (if healthy then HEALTH_STATUS_HEALTHY else HEALTH_STATUS_UNHEALTHY)
                                             else HEALTH_STATUS_UNKNOWN)\<rparr>)"

definition pm_GetStatus :: "('c, 'd) node_env \<Rightarrow> string \<Rightarrow> ('c, 'd) ProxyManager \<Rightarrow> manager_error + ProxyStatus" where
  "pm_GetStatus env pid m =
     (if pid = [] then Inl IdRequired
      else case gget (pm_proxies m) pid of
             None \<Rightarrow> Inl ProxyNotFound
           | Some mp \<Rightarrow> Inr (proxy_status env pid mp m))"

definition pm_GetAllStatuses :: "('c, 'd) node_env \<Rightarrow> ('c, 'd) ProxyManager \<Rightarrow> ProxyStatus list" where
  "pm_GetAllStatuses env m = map (\<lambda>(_, mp). proxy_status env (px_ID (mp_Model mp)) mp m) (pm_proxies m)"

definition pm_GetConnectionBytes :: "string \<Rightarrow> string \<Rightarrow> ('c, 'd) ProxyManager \<Rightarrow> int \<times> int" where
  "pm_GetConnectionBytes proxyID connID m =
     (case Option.bind (gget (pm_proxies m) proxyID) mp_Listener of
        None \<Rightarrow> (0, 0)
      | Some l \<Rightarrow> (case lis_GetConnectionBytes connID l of (i, out, ok) \<Rightarrow> if ok then (i, out) else (0, 0)))"

definition pm_GetActiveConnections :: "('c, 'd) node_env \<Rightarrow> string \<Rightarrow> ('c, 'd) ProxyManager \<Rightarrow> ConnectionMetadata list" where
  "pm_GetActiveConnections env proxyID m =
     (if proxyID \<noteq> [] then
        (case Option.bind (gget (pm_proxies m) proxyID) mp_Listener of
           None \<Rightarrow> []
         | Some l \<Rightarrow> lis_GetActiveConnections (ne_ops env) l)
      else concat (map (\<lambda>(_, mp). case mp_Listener mp of
                                     None \<Rightarrow> []
                                   | Some l \<Rightarrow> lis_GetActiveConnections (ne_ops env) l) (pm_proxies m)))"

text \<open>The search of \<open>CloseConnection\<close> without a proxy: it ends at the first listener that closes the connection.\<close>

fun close_search ::
  "'c child_ops \<Rightarrow> string \<Rightarrow> (string, 'c ManagedProxy) gomap \<Rightarrow> bool \<times> (string, 'c ManagedProxy) gomap" where
  "close_search ops connID [] = (False, [])"
| "close_search ops connID ((pid, mp) # ps) =
     (case mp_Listener mp of
        None \<Rightarrow> (case close_search ops connID ps of (ok, ps') \<Rightarrow> (ok, (pid, mp) # ps'))
      | Some l \<Rightarrow>
          (case lis_CloseConnection ops pid connID l of
             (err, l') \<Rightarrow>
               (let mp' = mp\<lparr>mp_Listener := Some l'\<rparr> in
                if err = None then (True, (pid, mp') # ps)
                else case close_search ops connID ps of (ok, ps') \<Rightarrow> (ok, (pid, mp') # ps'))))"

definition pm_CloseConnection ::
  "('c, 'd) node_env \<Rightarrow> string \<Rightarrow> string \<Rightarrow> ('c, 'd) ProxyManager \<Rightarrow> manager_error option \<times> ('c, 'd) ProxyManager" where
  "pm_CloseConnection env proxyID connID m =
     (if proxyID \<noteq> [] then
        (case gget (pm_proxies m) proxyID of
           None \<Rightarrow> (Some ProxyNotFound, m)
         | Some mp \<Rightarrow>
             (case mp_Listener mp of
                None \<Rightarrow> (Some ProxyNotFound, m)
              | Some l \<Rightarrow>
                  (case lis_CloseConnection (ne_ops env) proxyID connID l of
                     (err, l') \<Rightarrow> (map_option ConnectionError err, put_proxy proxyID (mp\<lparr>mp_Listener := Some l'\<rparr>) m))))
      else case close_search (ne_ops env) connID (pm_proxies m) of
             (ok, ps) \<Rightarrow> (if ok then None else Some ConnectionNotFound, m\<lparr>pm_proxies := ps\<rparr>))"

definition pm_CloseAllConnections ::
  "('c, 'd) node_env \<Rightarrow> string \<Rightarrow> ('c, 'd) ProxyManager \<Rightarrow> manager_error option \<times> ('c, 'd) ProxyManager" where
  "pm_CloseAllConnections env proxyID m =
     (if proxyID \<noteq> [] then
        (case gget (pm_proxies m) proxyID of
           None \<Rightarrow> (Some ProxyNotFound, m)
         | Some mp \<Rightarrow>
             (case mp_Listener mp of
                None \<Rightarrow> (Some ProxyNotFound, m)
              | Some l \<Rightarrow>
                  (case lis_CloseAllConnections (ne_ops env) l of
                     (err, l') \<Rightarrow> (map_option ConnectionError err, put_proxy proxyID (mp\<lparr>mp_Listener := Some l'\<rparr>) m))))
      else (None, map_listeners (\<lambda>l. snd (lis_CloseAllConnections (ne_ops env) l)) m))"

section \<open>Start of the node\<close>

text \<open>A proxy restored from its row: always an embedded listener, whatever the mode.\<close>

definition restore_wire :: "('c, 'd) ProxyManager \<Rightarrow> ProxyModel \<Rightarrow> gotime \<Rightarrow> Wired \<times> ApprovalManager option" where
  "restore_wire m p now =
     (let w0 = unwired (new_listener now (config_of_model (px_ID p) p));
          w1 = (if pm_Stats m then SetStatsService True w0 else w0);
          w2 = upd_wl (SetFallback (fallback_of_int (px_FallbackAction p)) (StringToMockPreset (px_FallbackMock p))) w1;
          w3 = SetGlobalRules True w2;
          (w4, am) = (if pm_Approval m \<noteq> None then SetApprovalManager (pm_Approval m) w3 else (w3, pm_Approval m))
      in (if pm_NodeID m \<noteq> [] then upd_wl (SetNodeID (pm_NodeID m)) w4 else w4, am))"

definition restore_rules :: "('c, 'd) node_env \<Rightarrow> string \<Rightarrow> 'd \<Rightarrow> EmbeddedListener \<Rightarrow> EmbeddedListener" where
  "restore_rules env proxyID d p =
     (case db_FindRules (ne_db env) proxyID d of
        None \<Rightarrow> p
      | Some rs \<Rightarrow> fold (\<lambda>r. AddRule (rule_of_model (ne_json env) r)) rs p)"

definition restore_one :: "('c, 'd) node_env \<Rightarrow> 'd \<Rightarrow> ProxyModel \<Rightarrow> ('c, 'd) ProxyManager \<Rightarrow> ('c, 'd) ProxyManager outcome" where
  "restore_one env d p m =
     (if \<not> px_Enabled p then Ret m
      else
        (let be = ne_bind env (px_ID p);
             (w, am) = restore_wire m p (be_now be);
             m1 = m\<lparr>pm_Approval := am\<rparr>
         in case Start (be_bound be) (be_keypair be) (be_ca be) (wl w) of
              (Inl _, _) \<Rightarrow> Ret m1
            | (Inr _, l) \<Rightarrow>
                obind (startEventForwarder
                  \<lparr>mp_Listener = Some (LEmb (w\<lparr>wl := restore_rules env (px_ID p) d l\<rparr>)), mp_Model = p, mp_eventSub = None\<rparr>)
                  (\<lambda>mp. Ret (put_proxy (px_ID p) mp m1))))"

fun restore_all :: "('c, 'd) node_env \<Rightarrow> 'd \<Rightarrow> ProxyModel list \<Rightarrow> ('c, 'd) ProxyManager \<Rightarrow> ('c, 'd) ProxyManager outcome" where
  "restore_all env d [] m = Ret m"
| "restore_all env d (p # ps) m = obind (restore_one env d p m) (restore_all env d ps)"

definition LoadState :: "('c, 'd) node_env \<Rightarrow> ('c, 'd) ProxyManager \<Rightarrow> (manager_error option \<times> ('c, 'd) ProxyManager) outcome" where
  "LoadState env m =
     (case pm_db m of
        None \<Rightarrow> Ret (None, m)
      | Some d \<Rightarrow>
          (case db_FindProxies (ne_db env) d of
             None \<Rightarrow> Ret (Some DbFailed, m)
           | Some ps \<Rightarrow> obind (restore_all env d ps m) (\<lambda>m'. Ret (None, m'))))"

text \<open>The entry points and services of the YAML file, \<^verbatim>\<open>pkg/config/yaml_config.go\<close>; \<open>ids\<close> gives the fresh ids.\<close>

record TLSConfig =
  tls_CertFile :: string
  tls_KeyFile :: string
  tls_ClientCA :: string
  tls_ClientAuth :: string

record EntryPoint =
  ep_Address :: string
  ep_DefaultAction :: string
  ep_DefaultBackend :: string
  ep_DefaultMock :: string
  ep_FallbackAction :: string
  ep_FallbackMock :: string
  ep_TLS :: "TLSConfig option"

definition entry_action :: "EntryPoint \<Rightarrow> ActionType" where
  "entry_action ep =
     (if ep_DefaultAction ep = ''mock'' then ACTION_TYPE_MOCK
      else if ep_DefaultAction ep = ''allow'' then ACTION_TYPE_ALLOW
      else ACTION_TYPE_BLOCK)"

definition load_entry ::
  "('c, 'd) node_env \<Rightarrow> (string \<Rightarrow> string) \<Rightarrow> string \<times> EntryPoint \<Rightarrow> ('c, 'd) ProxyManager \<Rightarrow> ('c, 'd) ProxyManager outcome" where
  "load_entry env ids entry m =
     (let name = fst entry; ep = snd entry; pid = ids name; be = ne_bind env pid;
          p = NewEmbeddedListener (be_now be) pid name (ep_Address ep) (ep_DefaultBackend ep) (entry_action ep)
                (StringToMockPreset (ep_DefaultMock ep)) [] [] [] CLIENT_AUTH_AUTO
      in case Start (be_bound be) (be_keypair be) (be_ca be) p of
           (Inl _, _) \<Rightarrow> Ret m
         | (Inr _, p') \<Rightarrow>
             obind (startEventForwarder
               \<lparr>mp_Listener = Some (LEmb (unwired p')),
                mp_Model = \<lparr>px_ID = pid, px_Name = name, px_ListenAddr = ep_Address ep, px_DefaultBackend = ep_DefaultBackend ep,
                  px_DefaultAction = action_to_int (entry_action ep), px_DefaultMock = ep_DefaultMock ep,
                  px_FallbackAction = 0, px_FallbackMock = [], px_Enabled = True, px_CertPEM = [], px_KeyPEM = [],
                  px_CaPEM = [], px_ClientAuthType = 0, px_HealthCheckJSON = [], px_CreatedAt = 0, px_UpdatedAt = 0\<rparr>,
                mp_eventSub = None\<rparr>) (\<lambda>mp. Ret (put_proxy pid mp m)))"

fun load_entries ::
  "('c, 'd) node_env \<Rightarrow> (string \<Rightarrow> string) \<Rightarrow> (string \<times> EntryPoint) list \<Rightarrow> ('c, 'd) ProxyManager \<Rightarrow> ('c, 'd) ProxyManager outcome" where
  "load_entries env ids [] m = Ret m"
| "load_entries env ids (e # es) m = obind (load_entry env ids e m) (load_entries env ids es)"

definition LoadConfig ::
  "('c, 'd) node_env \<Rightarrow> (string \<Rightarrow> string) \<Rightarrow> (string, EntryPoint) gomap \<Rightarrow> (string, Service) gomap \<Rightarrow> ('c, 'd) ProxyManager \<Rightarrow>
   ('c, 'd) ProxyManager outcome" where
  "LoadConfig env ids entryPoints services m =
     (let m1 = (if services \<noteq> [] then m\<lparr>pm_HealthCheck := hc_Start (NewHealthChecker services)\<rparr> else m)
      in load_entries env ids entryPoints m1)"

end
