(* ===== verification/Proxy_Lifecycle.thy ===== *)
theory Proxy_Lifecycle
  imports Proxy_Manager
begin

text \<open>
  Properties of the proxy manager (theory Proxy_Manager): what replacing, restarting, disabling and restoring
  a proxy do to its rules, which listener closes expired approvals, and the global event bus.
\<close>

section \<open>The listener interface is a rule store\<close>

definition lis_ok :: "'c listener \<Rightarrow> bool" where
  "lis_ok l = (case l of LEmb w \<Rightarrow> by_priority (wl w) | LFfi f \<Rightarrow> ffi_ok f | LProc _ \<Rightarrow> False)"

definition lis_Remove :: "'c child_ops \<Rightarrow> string \<Rightarrow> 'c listener \<Rightarrow> 'c listener option" where
  "lis_Remove ops ruleID l =
     (case lis_RemoveRule ops ruleID l of (None, l') \<Rightarrow> Some l' | (Some _, _) \<Rightarrow> None)"

lemma lis_Remove_simps:
  "lis_Remove ops i (LEmb w) = map_option (\<lambda>p. LEmb (w\<lparr>wl := p\<rparr>)) (RemoveRule i (wl w))"
  "lis_Remove ops i (LFfi f) = map_option LFfi (ffi_RemoveRule i f)"
  by (simp_all add: lis_Remove_def lis_RemoveRule_def split: option.split)

lemma lis_okE:
  assumes "lis_ok l"
  obtains w where "l = LEmb w" "by_priority (wl w)" | f where "l = LFfi f" "ffi_ok f"
  using assms by (cases l) (auto simp: lis_ok_def)

lemma lis_GetRules_simps [simp]:
  "lis_GetRules ops (LEmb w) = GetRules (wl w)" "lis_GetRules ops (LFfi f) = ffi_GetRules f"
  by (simp_all add: lis_GetRules_def)

lemma lis_AddRule_simps [simp]:
  "lis_AddRule ops r (LEmb w) = LEmb (upd_wl (AddRule r) w)" "lis_AddRule ops r (LFfi f) = LFfi (ffi_AddRule r f)"
  by (simp_all add: lis_AddRule_def)

lemma lis_ok_simps [simp]: "lis_ok (LEmb w) = by_priority (wl w)" "lis_ok (LFfi f) = ffi_ok f"
  by (simp_all add: lis_ok_def)

interpretation lr: rule_store "lis_AddRule ops" "lis_Remove ops" "lis_GetRules ops" lis_ok for ops
proof (unfold_locales, goal_cases)
  case (1 l)
  then show ?case by (elim lis_okE) (auto simp: ls.ordered fs.ordered)
next
  case (2 l r)
  then show ?case by (elim lis_okE) (auto simp: upd_wl_def fs.add_ok intro: inv_intros)
next
  case (3 l i l')
  then show ?case by (elim lis_okE) (auto simp: lis_Remove_simps intro: inv_intros fs.remove_ok)
next
  case (4 l r)
  then show ?case by (elim lis_okE) (auto simp: upd_wl_def ls.add_rules fs.add_rules)
next
  case (5 l k r)
  then show ?case by (elim lis_okE) (auto simp: upd_wl_def ls.add_stable fs.add_stable)
next
  case (6 l i)
  then show ?case by (elim lis_okE) (auto simp: lis_Remove_simps ls.remove_None fs.remove_None)
next
  case (7 l i l')
  then show ?case by (elim lis_okE) (auto simp: lis_Remove_simps dest: ls.remove_rules fs.remove_rules)
qed

lemma remove_rules_ids: "lis_ok l \<Longrightarrow> remove_rules ops ids l = lr.remove_ids ops ids l"
proof (induction ids arbitrary: l)
  case Nil
  then show ?case by (simp add: remove_rules_def lr.remove_ids_def)
next
  case (Cons i ids)
  have step: "snd (lis_RemoveRule ops i l) = (case lis_Remove ops i l of None \<Rightarrow> l | Some l' \<Rightarrow> l')"
    using Cons.prems by (elim lis_okE) (auto simp: lis_Remove_simps lis_RemoveRule_def split: option.split)
  then have "lis_ok (snd (lis_RemoveRule ops i l))"
    using Cons.prems lr.remove_ok by (auto split: option.split)
  from Cons.IH [OF this] show ?case by (simp add: remove_rules_def lr.remove_ids_def step)
qed

section \<open>Frame lemmas\<close>

lemma pm_frames [simp]:
  "pm_proxies (put_proxy pid mp m) = gput pid mp (pm_proxies m)" "pm_proxies (on_db f m) = pm_proxies m"
  "pm_HealthCheck (put_proxy pid mp m) = pm_HealthCheck m" "pm_HealthCheck (on_db f m) = pm_HealthCheck m"
  "pm_Approval (put_proxy pid mp m) = pm_Approval m" "pm_Approval (on_db f m) = pm_Approval m"
  "pm_mode (put_proxy pid mp m) = pm_mode m" "pm_mode (on_db f m) = pm_mode m"
  "pm_proxies (stop_health pid m) = pm_proxies m" "pm_mode (stop_health pid m) = pm_mode m"
  "pm_Approval (stop_health pid m) = pm_Approval m"
  "pm_HealthCheck (stop_health pid m) = RemoveService pid (pm_HealthCheck m)"
  by (simp_all add: put_proxy_def on_db_def stop_health_def)

lemma hc_GetStatus_Remove [simp]: "hc_GetStatus name (RemoveService name hc) = (False, False)"
  by (simp add: hc_GetStatus_def RemoveService_def Let_def)

lemma lis_Subscribe_rules:
  "lis_Subscribe l = (ch, l') \<Longrightarrow> lis_GetRules ops l' = lis_GetRules ops l \<and> (lis_ok l' \<longleftrightarrow> lis_ok l)"
  by (cases l)
     (auto simp: lis_Subscribe_def Subscribe_def ffi_Subscribe_def pl_Subscribe_def lis_GetRules_def GetRules_def ffi_GetRules_def
       pl_GetRules_def pl_query_def by_priority_def ffi_ok_def lis_ok_def Let_def split: option.split)

lemma startEventForwarder_fresh:
  assumes "startEventForwarder \<lparr>mp_Listener = Some l, mp_Model = p, mp_eventSub = None\<rparr> = Ret mp"
  shows "mp_Model mp = p" "\<exists>l'. mp_Listener mp = Some l' \<and> lis_GetRules ops l' = lis_GetRules ops l"
  using assms lis_Subscribe_rules [of l _ _ ops]
  by (auto simp: startEventForwarder_def stopEventForwarder_def split: prod.splits)

section \<open>Replacing the rules\<close>

text \<open>(C15) Reloading replaces the rules of a running proxy: whatever rules it had (also several under one id), it
  ends with exactly the new rules in descending order of priority, equal priorities in the given order,
  and no other proxy is touched.\<close>

theorem reload_replaces_rules:
  assumes "gget (pm_proxies m) pid = Some mp" and "mp_Listener mp = Some l" and "lis_ok l"
    and "ReloadRules env pid rs m = (res, m')"
  shows "res = Inr (wrap32 (int (length rs))) \<and> pm_GetRules env pid m' = Inr (sort_key (\<lambda>r. - r_Priority r) rs) \<and>
         (\<forall>q. q \<noteq> pid \<longrightarrow> gget (pm_proxies m') q = gget (pm_proxies m) q)"
  using assms lr.replace_all [OF assms(3), of "ne_ops env" rs]
  by (auto simp: ReloadRules_def pm_GetRules_def Let_def remove_rules_ids)

text \<open>The outside used by the examples: no child process, a database that forgets, a codec that knows one rule.\<close>

definition demo_json :: "Condition list \<Rightarrow> json_codec" where
  "demo_json cs =
     \<lparr>js_conds = (\<lambda>_. ''[...]''), js_unconds = (\<lambda>s. if s = ''[...]'' then cs else []), js_mock = (\<lambda>_. ''null''),
      js_unmock = (\<lambda>_. zero_MockConfig), js_health = (\<lambda>_. ''{}''), js_unhealth = (\<lambda>_. None)\<rparr>"

definition demo_node :: "(string \<Rightarrow> bind_env) \<Rightarrow> (unit, ProxyModel list) node_env" where
  "demo_node binds =
     \<lparr>ne_ops = refusing_child (Some False),
      ne_db = \<lparr>db_InsertProxy = (\<lambda>p ps. (True, ps @ [p])), db_InsertRule = (\<lambda>_ ps. (True, ps)),
        db_SetEnabled = (\<lambda>pid b ps. (True, map (\<lambda>p. if px_ID p = pid then p\<lparr>px_Enabled := b\<rparr> else p) ps)),
        db_UpdateProxy = (\<lambda>pid q ps. (True, map (\<lambda>p. if px_ID p = pid then q else p) ps)),
        db_DeleteProxy = (\<lambda>pid ps. filter (\<lambda>p. px_ID p \<noteq> pid) ps), db_DeleteRule = (\<lambda>_ ps. ps),
        db_DeleteRulesOf = (\<lambda>_ ps. ps), db_FindProxies = Some, db_FindRules = (\<lambda>_ _. Some [])\<rparr>,
      ne_json = demo_json [], ne_up = True, ne_bind = binds, ne_now = 0, ne_uuid = ''u''\<rparr>"

definition demo_row :: ProxyModel where
  "demo_row =
     \<lparr>px_ID = ''p'', px_Name = ''demo'', px_ListenAddr = '':8080'', px_DefaultBackend = ''b:80'', px_DefaultAction = 1,
      px_DefaultMock = [], px_FallbackAction = 0, px_FallbackMock = [], px_Enabled = True, px_CertPEM = [], px_KeyPEM = [],
      px_CaPEM = [], px_ClientAuthType = 0, px_HealthCheckJSON = [], px_CreatedAt = 0, px_UpdatedAt = 0\<rparr>"

definition demo_proxy :: "Rule list \<Rightarrow> unit ManagedProxy" where
  "demo_proxy rs =
     \<lparr>mp_Listener = Some (LEmb (unwired (fold AddRule rs demo_listener))), mp_Model = demo_row, mp_eventSub = None\<rparr>"

definition demo_manager :: "Rule list \<Rightarrow> (unit, ProxyModel list) ProxyManager" where
  "demo_manager rs = put_proxy ''p'' (demo_proxy rs) (NewProxyManager ListenerModeFfi)"

lemma demo_manager_simps [simp]:
  "gget (pm_proxies (demo_manager rs)) ''p'' = Some (demo_proxy rs)" "pm_mode (demo_manager rs) = ListenerModeFfi"
  "mp_Listener (demo_proxy rs) = Some (LEmb (unwired (fold AddRule rs demo_listener)))" "mp_eventSub (demo_proxy rs) = None"
  "mp_Model (demo_proxy rs) = demo_row" "px_Enabled demo_row"
  by (simp_all add: demo_manager_def demo_proxy_def demo_row_def NewProxyManager_def)

lemma demo_listener_ok: "lis_ok (LEmb (unwired (fold AddRule rs demo_listener)))"
  using ls.adds_ok [of demo_listener rs]
  by (simp add: unwired_def by_priority_def demo_listener_def NewEmbeddedListener_def)

lemma reload_replaces_rules_witness:
  "\<exists>m'. ReloadRules (demo_node (\<lambda>_. demo_bind)) ''p'' [prio_rule ''x'' 1, prio_rule ''y'' 2]
          (demo_manager [prio_rule ''a'' 5, prio_rule ''a'' 7]) = (Inr 2, m') \<and>
        pm_GetRules (demo_node (\<lambda>_. demo_bind)) ''p'' m' = Inr [prio_rule ''y'' 2, prio_rule ''x'' 1]"
proof -
  let ?m = "demo_manager [prio_rule ''a'' 5, prio_rule ''a'' 7]"
  obtain res m' where r: "ReloadRules (demo_node (\<lambda>_. demo_bind)) ''p'' [prio_rule ''x'' 1, prio_rule ''y'' 2] ?m = (res, m')"
    by fastforce
  from reload_replaces_rules [OF demo_manager_simps(1) demo_manager_simps(3) demo_listener_ok r] r show ?thesis
    by (simp add: sort_key_def prio_rule_def wrap32_def)
qed

section \<open>Fresh listeners\<close>

lemma build_ffi_simps [simp]:
  "f_running (build_ffi up m cfg) = False" "f_subs (build_ffi up m cfg) = []"
  "c_approval (f_core (build_ffi up m cfg)) = (pm_Approval m \<noteq> None)" "c_globalRules (f_core (build_ffi up m cfg))"
  "f_cfg (build_ffi up m cfg) = cfg"
  by (auto simp: build_ffi_def NewFfiListener_def NewListenerCore_def ffi_SetStatsService_def ffi_SetFallback_def
      ffi_SetGlobalRules_def ffi_SetApprovalManager_def ffi_SetNodeID_def upd_core_def core_SetStatsService_def
      core_SetGlobalRules_def core_SetApprovalManager_def core_SetNodeID_def Let_def)

text \<open>A listener built in the in-process mode that starts has no rules, enforces the global rules, and makes
  itself the closer of expired approvals.\<close>

lemma built_listener_starts:
  assumes "pm_mode m = ListenerModeFfi" "build_listener up m cfg = Ret l"
    and "lis_Start ops be (pm_Approval m) l = Ret (None, l', am)"
  obtains f where "l' = LFfi f" "ffi_ok f" "ffi_GetRules f = []" "f_running f" "f_up f"
    "\<exists>w. c_listener (f_core f) = Some w \<and> \<not> l_quit (wl w) \<and> wl_global w \<and>
         l_ID (wl w) = cf_ID (start_config be cfg) \<and> wl_approval w = (pm_Approval m \<noteq> None)"
    "am = map_option (SetConnectionCloser (cf_ID (start_config be cfg))) (pm_Approval m)"
proof -
  have l: "l = LFfi (build_ffi up m cfg)" using assms(1,2) by (simp add: build_listener_def)
  then obtain f where s: "ffi_Start be (pm_Approval m) (build_ffi up m cfg) = (None, f, am)" "l' = LFfi f"
    using assms(3) by (auto simp: lis_Start_def split: prod.splits)
  note facts = ffi_Start_fresh [OF s(1)]
  show ?thesis
    by (rule that [OF s(2) facts(1,2,3,4)]) (use facts(9,10) in \<open>auto split: if_splits\<close>)
qed

lemma startEventForwarder_rules:
  assumes "startEventForwarder mp = Ret mp'" "mp_Listener mp = Some l" "mp_eventSub mp = None"
  shows "\<exists>l'. mp_Listener mp' = Some l' \<and> lis_GetRules ops l' = lis_GetRules ops l"
  using assms lis_Subscribe_rules [of l _ _ ops]
  by (auto simp: startEventForwarder_def stopEventForwarder_def split: prod.splits)

lemma stopEventForwarder_sub: "stopEventForwarder mp = Ret mp' \<Longrightarrow> mp_eventSub mp' = None \<and> mp_Model mp' = mp_Model mp"
  by (auto simp: stopEventForwarder_def split: option.splits)

lemma disable_one_result:
  assumes "disable_one env pid mp m = Ret (None, m')"
  obtains mp' where "gget (pm_proxies m') pid = Some mp'" "mp_Listener mp' = None" "mp_eventSub mp' = None"
    "pm_mode m' = pm_mode m" "hc_GetStatus pid (pm_HealthCheck m') = (False, False)" "pm_Approval m' = pm_Approval m"
    "\<not> px_Enabled (mp_Model mp')" "\<And>q. q \<noteq> pid \<Longrightarrow> gget (pm_proxies m') q = gget (pm_proxies m) q"
proof -
  from assms obtain mp1 where st: "stopEventForwarder mp = Ret mp1"
    by (auto simp: disable_one_def)
  have "\<exists>mp2. mp_Listener mp2 = None \<and> mp_eventSub mp2 = None \<and>
    m' = on_db (\<lambda>d. snd (db_SetEnabled (ne_db env) pid False d))
      (stop_health pid (put_proxy pid (mp2\<lparr>mp_Model := (mp_Model mp2)\<lparr>px_Enabled := False\<rparr>\<rparr>) m))"
  proof (cases "mp_Listener mp1")
    case None
    then show ?thesis using assms stopEventForwarder_sub [OF st] by (auto simp: disable_one_def st Let_def)
  next
    case (Some l)
    then show ?thesis using assms stopEventForwarder_sub [OF st]
      by (intro exI [of _ "mp1\<lparr>mp_Listener := None\<rparr>"])
        (auto simp: disable_one_def st Let_def split: option.splits)
  qed
  then obtain mp2 where "mp_Listener mp2 = None" "mp_eventSub mp2 = None"
    "m' = on_db (\<lambda>d. snd (db_SetEnabled (ne_db env) pid False d))
      (stop_health pid (put_proxy pid (mp2\<lparr>mp_Model := (mp_Model mp2)\<lparr>px_Enabled := False\<rparr>\<rparr>) m))" by blast
  then show ?thesis by (intro that [of "mp2\<lparr>mp_Model := (mp_Model mp2)\<lparr>px_Enabled := False\<rparr>\<rparr>"]) auto
qed

section \<open>Disabling and enabling\<close>

text \<open>Disabling and enabling a proxy again loses its rules and its health check: the new listener
  starts empty, although the database still holds the rules, and no monitor is started, so that a proxy
  whose rules block or ask for approval then applies its default action to everyone.\<close>

theorem enable_forgets_rules:
  assumes "pm_mode m = ListenerModeFfi" and "pid \<noteq> []"
    and "DisableProxy env pid m = Ret (None, m1)" and "EnableProxy env2 pid m1 = Ret (None, m2)"
  shows "pm_GetRules env2 pid m2 = Inr [] \<and> hc_GetStatus pid (pm_HealthCheck m2) = (False, False)"
proof -
  obtain mp0 where "disable_one env pid mp0 m = Ret (None, m1)"
    using assms(2,3) by (auto simp: DisableProxy_def split: option.splits)
  then obtain mp where mp: "gget (pm_proxies m1) pid = Some mp" "mp_Listener mp = None" "mp_eventSub mp = None"
    "pm_mode m1 = pm_mode m" "hc_GetStatus pid (pm_HealthCheck m1) = (False, False)"
    by (elim disable_one_result)
  from assms(4) mp(1,2) obtain l l1 am mp2 where
    b: "build_listener (ne_up env2) m1 (config_of_model pid (mp_Model mp)) = Ret l"
    and s: "lis_Start (ne_ops env2) (ne_bind env2 pid) (pm_Approval m1) l = Ret (None, l1, am)"
    and f: "startEventForwarder (mp\<lparr>mp_Listener := Some l1, mp_Model := (mp_Model mp)\<lparr>px_Enabled := True\<rparr>\<rparr>) = Ret mp2"
    and m2: "m2 = on_db (\<lambda>d. snd (db_SetEnabled (ne_db env2) pid True d)) (put_proxy pid mp2 (m1\<lparr>pm_Approval := am\<rparr>))"
    by (auto simp: EnableProxy_def drop_listener_def Let_def split: option.splits)
  obtain fl where fl: "l1 = LFfi fl" "ffi_GetRules fl = []"
    using built_listener_starts [OF _ b s] assms(1) mp(4) by metis
  obtain l' where "mp_Listener mp2 = Some l'" "lis_GetRules (ne_ops env2) l' = []"
    using startEventForwarder_rules [OF f, of l1 "ne_ops env2"] mp(3) fl by auto
  then show ?thesis by (simp add: m2 mp(5) pm_GetRules_def)
qed

lemmas demo_run_defs =
  demo_manager_def demo_proxy_def demo_row_def put_proxy_def NewProxyManager_def demo_node_def demo_bind_def unwired_def
  demo_listener_def NewEmbeddedListener_def AddRule_def prio_rule_def zero_Rule_def NewRateLimiter_def

lemmas start_run_defs =
  build_listener_def lis_Start_def ffi_Start_def StartListener_def Start_def tls_setup_def build_ffi_def
  NewFfiListener_def NewListenerCore_def ffi_SetGlobalRules_def ffi_SetFallback_def upd_core_def core_SetGlobalRules_def
  core_wire_def start_config_def new_listener_def SetFallback_def SetGlobalRules_def config_of_model_def
  startEventForwarder_def stopEventForwarder_def lis_Subscribe_def ffi_Subscribe_def

lemma enable_forgets_rules_witness:
  "\<exists>m1 m2. DisableProxy (demo_node (\<lambda>_. demo_bind)) ''p'' (demo_manager [prio_rule ''a'' 5]) = Ret (None, m1) \<and>
     EnableProxy (demo_node (\<lambda>_. demo_bind)) ''p'' m1 = Ret (None, m2) \<and>
     pm_GetRules (demo_node (\<lambda>_. demo_bind)) ''p'' (demo_manager [prio_rule ''a'' 5]) = Inr [prio_rule ''a'' 5] \<and>
     pm_GetRules (demo_node (\<lambda>_. demo_bind)) ''p'' m2 = Inr []"
proof -
  let ?env = "demo_node (\<lambda>_. demo_bind)" and ?m = "demo_manager [prio_rule ''a'' 5]"
  obtain m1 where d: "DisableProxy ?env ''p'' ?m = Ret (None, m1)"
    by (simp add: DisableProxy_def disable_one_def stopEventForwarder_def lis_Stop_def Stop_def
        demo_run_defs Let_def)
  then obtain m2 where e: "EnableProxy ?env ''p'' m1 = Ret (None, m2)"
    by (auto simp: DisableProxy_def disable_one_def lis_Stop_def Stop_def on_db_def stop_health_def
        EnableProxy_def drop_listener_def demo_run_defs start_run_defs Let_def)
  have "pm_GetRules ?env ''p'' ?m = Inr [prio_rule ''a'' 5]"
    by (simp add: pm_GetRules_def GetRules_def demo_run_defs)
  then show ?thesis using d e enable_forgets_rules [OF demo_manager_simps(2) _ d e] by blast
qed

section \<open>Restarting\<close>

text \<open>A restart of all listeners loses every rule: a proxy that was restarted has none left.\<close>

theorem restart_forgets_rules:
  assumes "pm_mode m = ListenerModeFfi" and "restart_one env pid mp m = Ret (True, m')"
  shows "pm_GetRules env pid m' = Inr []"
proof -
  from assms(2) obtain mp1 lo lo' l l1 am mp3 where
    st: "stopEventForwarder mp = Ret mp1" and mp1: "mp_Listener mp1 = Some lo"
    and b: "build_listener (ne_up env) m (config_of_model pid (mp_Model mp1)) = Ret l"
    and s: "lis_Start (ne_ops env) (ne_bind env pid) (pm_Approval m) l = Ret (None, l1, am)"
    and f: "startEventForwarder (mp1\<lparr>mp_Listener := Some l1\<rparr>) = Ret mp3"
    and m': "m' = put_proxy pid mp3 (m\<lparr>pm_Approval := am\<rparr>)"
    by (auto simp: restart_one_def Let_def split: option.splits if_splits)
  obtain fl where fl: "l1 = LFfi fl" "ffi_GetRules fl = []"
    using built_listener_starts [OF assms(1) b s] by metis
  obtain l' where "mp_Listener mp3 = Some l'" "lis_GetRules (ne_ops env) l' = []"
    using startEventForwarder_rules [OF f, of l1 "ne_ops env"] stopEventForwarder_sub [OF st] fl by auto
  then show ?thesis by (simp add: m' pm_GetRules_def)
qed

lemma restart_forgets_rules_witness:
  "\<exists>m'. restart_one (demo_node (\<lambda>_. demo_bind)) ''p'' (demo_proxy [prio_rule ''a'' 5]) (demo_manager [prio_rule ''a'' 5]) =
         Ret (True, m') \<and>
     pm_GetRules (demo_node (\<lambda>_. demo_bind)) ''p'' m' = Inr []"
proof -
  obtain m' where "restart_one (demo_node (\<lambda>_. demo_bind)) ''p'' (demo_proxy [prio_rule ''a'' 5])
      (demo_manager [prio_rule ''a'' 5]) = Ret (True, m')"
    by (auto simp: restart_one_def lis_Stop_def Stop_def demo_run_defs start_run_defs Let_def)
  then show ?thesis using restart_forgets_rules [OF demo_manager_simps(2)] by blast
qed

section \<open>Restoring from the database\<close>

text \<open>A rule written to the database and read back is the same rule except for its rate limit, which is not
  stored, and its mock response, which is never absent afterwards.\<close>

theorem stored_rule_loses_rate_limit:
  assumes "js_conds js (r_Conditions r) \<noteq> []" and "js_unconds js (js_conds js (r_Conditions r)) = r_Conditions r"
    and "js_mock js (r_MockResponse r) \<noteq> []"
    and "js_unmock js (js_mock js (r_MockResponse r)) = (case r_MockResponse r of None \<Rightarrow> zero_MockConfig | Some c \<Rightarrow> c)"
    and "- (2 ^ 31) \<le> r_Priority r" and "r_Priority r < 2 ^ 31"
    and "\<And>n. r_Action r = ACTION_TYPE_OTHER n \<Longrightarrow> n < 0 \<or> 4 < n"
  shows "rule_of_model js (model_of_rule js now pid r) =
         r\<lparr>r_RateLimit := None,
           r_MockResponse := Some (case r_MockResponse r of None \<Rightarrow> zero_MockConfig | Some c \<Rightarrow> c)\<rparr>"
  using assms action_of_to_int [of "r_Action r"]
  by (cases r) (simp add: rule_of_model_def model_of_rule_def wrap32_def signed_take_bit_int_eq_self_iff)

definition demo_limit :: RateLimitConfig where
  "demo_limit = \<lparr>MaxConnections = 3, IntervalSeconds = 60, AutoBlock = False, BlockDurationSeconds = 0, BlockStepsSeconds = [],
     CountOnlyFailures = False, FailureDurationThreshold = 0\<rparr>"

lemma stored_rule_loses_rate_limit_witness:
  "rule_of_model (demo_json []) (model_of_rule (demo_json []) 0 ''p'' (prio_rule ''a'' 5\<lparr>r_RateLimit := Some demo_limit\<rparr>)) =
   (prio_rule ''a'' 5)\<lparr>r_MockResponse := Some zero_MockConfig\<rparr>"
  using stored_rule_loses_rate_limit [of "demo_json []" "prio_rule ''a'' 5\<lparr>r_RateLimit := Some demo_limit\<rparr>" 0 "''p''"]
  by (simp add: prio_rule_def zero_Rule_def demo_json_def)

lemma restore_wire_facts:
  assumes "restore_wire m p now = (w, am)"
  shows "rules (wl w) = []" "am = map_option (SetConnectionCloser (px_ID p)) (pm_Approval m)"
  using assms
  by (auto simp: restore_wire_def unwired_def SetStatsService_def SetGlobalRules_def SetApprovalManager_def upd_wl_def
      SetNodeID_def config_of_model_def Let_def split: if_splits)

lemma startEventForwarder_returns: "mp_eventSub mp = None \<Longrightarrow> \<exists>mp'. startEventForwarder mp = Ret mp'"
  by (auto simp: startEventForwarder_def stopEventForwarder_def split: option.split prod.splits)

text \<open>Whether the listener of a stored proxy can be opened in the environment of the restart.\<close>

definition opens :: "('c, 'd) node_env \<Rightarrow> ProxyModel \<Rightarrow> bool" where
  "opens env p =
     (let be = ne_bind env (px_ID p)
      in \<not> isl (fst (Start (be_bound be) (be_keypair be) (be_ca be) (new_listener 0 (config_of_model (px_ID p) p)))))"

lemma Start_result_cong:
  assumes "l_CertPEM p = l_CertPEM q" "l_KeyPEM p = l_KeyPEM q" "l_CaPEM p = l_CaPEM q" "l_ClientAuthType p = l_ClientAuthType q"
  shows "fst (Start b kp ca p) = fst (Start b kp ca q)"
  using assms by (auto simp: Start_def tls_setup_def client_auth_mode_def Let_def split: option.split sum.split)

lemma restore_wire_tls:
  assumes "restore_wire m p now = (w, am)"
  shows "l_CertPEM (wl w) = px_CertPEM p" "l_KeyPEM (wl w) = px_KeyPEM p" "l_CaPEM (wl w) = px_CaPEM p"
    "l_ClientAuthType (wl w) = client_auth_of_int (px_ClientAuthType p)"
  using assms
  by (auto simp: restore_wire_def unwired_def SetStatsService_def SetGlobalRules_def SetApprovalManager_def upd_wl_def
      SetNodeID_def SetFallback_def config_of_model_def new_listener_def NewEmbeddedListener_def Let_def split: if_splits)

lemma opens_wired:
  assumes "restore_wire m p now = (w, am)"
  shows "isl (fst (Start (be_bound (ne_bind env (px_ID p))) (be_keypair (ne_bind env (px_ID p))) (be_ca (ne_bind env (px_ID p)))
           (wl w))) = (\<not> opens env p)"
proof -
  have "fst (Start b kp ca (new_listener 0 (config_of_model (px_ID p) p))) = fst (Start b kp ca (wl w))" for b kp ca
    by (rule Start_result_cong)
       (simp_all add: restore_wire_tls [OF assms] new_listener_def NewEmbeddedListener_def config_of_model_def)
  then show ?thesis by (simp add: opens_def Let_def)
qed

definition stored_rules :: "('c, 'd) node_env \<Rightarrow> 'd \<Rightarrow> string \<Rightarrow> Rule list" where
  "stored_rules env d pid =
     sort_key (\<lambda>r. - r_Priority r)
       (case db_FindRules (ne_db env) pid d of None \<Rightarrow> [] | Some rs \<Rightarrow> map (rule_of_model (ne_json env)) rs)"

lemma restore_rules_sorted:
  assumes "rules p = []" shows "GetRules (restore_rules env pid d p) = stored_rules env d pid"
proof (cases "db_FindRules (ne_db env) pid d")
  case None
  then show ?thesis using assms by (simp add: restore_rules_def stored_rules_def GetRules_def)
next
  case (Some rs)
  have "GetRules (fold AddRule (map (rule_of_model (ne_json env)) rs) p) =
        sort_key (\<lambda>r. - r_Priority r) (map (rule_of_model (ne_json env)) rs)"
    by (rule ls.adds_sort) (simp_all add: by_priority_def GetRules_def assms)
  then show ?thesis using Some by (simp add: restore_rules_def stored_rules_def fold_map comp_def)
qed

definition runs_rules :: "('c, 'd) node_env \<Rightarrow> 'c ManagedProxy option \<Rightarrow> Rule list \<Rightarrow> bool" where
  "runs_rules env e rs = (\<exists>mp l. e = Some mp \<and> mp_Listener mp = Some l \<and> lis_GetRules (ne_ops env) l = rs)"

lemma restore_one_spec:
  fixes env :: "('c, 'd) node_env"
  shows "\<exists>m'. restore_one env d p m = Ret m' \<and> (\<forall>q. q \<noteq> px_ID p \<longrightarrow> gget (pm_proxies m') q = gget (pm_proxies m) q) \<and>
     (if px_Enabled p \<and> opens env p then runs_rules env (gget (pm_proxies m') (px_ID p)) (stored_rules env d (px_ID p))
      else gget (pm_proxies m') (px_ID p) = gget (pm_proxies m) (px_ID p))"
proof (cases "px_Enabled p")
  case True
  let ?be = "ne_bind env (px_ID p)"
  obtain w am where w: "restore_wire m p (be_now ?be) = (w, am)" by fastforce
  obtain res l where s: "Start (be_bound ?be) (be_keypair ?be) (be_ca ?be) (wl w) = (res, l)" by fastforce
  show ?thesis
  proof (cases res)
    case (Inl e)
    then show ?thesis using True opens_wired [OF w, of env] by (simp add: restore_one_def w s Let_def)
  next
    case (Inr t)
    let ?w = "w\<lparr>wl := restore_rules env (px_ID p) d l\<rparr>"
    let ?mp = "\<lparr>mp_Listener = Some (LEmb ?w), mp_Model = p, mp_eventSub = None\<rparr> :: 'c ManagedProxy"
    obtain mp where mp: "startEventForwarder ?mp = Ret mp" using startEventForwarder_returns [of ?mp] by auto
    have "GetRules (wl ?w) = stored_rules env d (px_ID p)"
      using Start_facts(1) [OF s] restore_wire_facts(1) [OF w] by (simp add: restore_rules_sorted)
    moreover obtain l' where "mp_Listener mp = Some l'" "lis_GetRules (ne_ops env) l' = GetRules (wl ?w)"
      using startEventForwarder_rules [OF mp, of "LEmb ?w" "ne_ops env"] by auto
    ultimately show ?thesis using True Inr opens_wired [OF w, of env] mp
      by (simp add: restore_one_def w s Let_def runs_rules_def)
  qed
qed (simp add: restore_one_def)

lemma restore_all_spec:
  assumes "distinct (map px_ID ps)"
  shows "\<exists>m'. restore_all env d ps m = Ret m' \<and>
     (\<forall>q. q \<notin> px_ID ` set ps \<longrightarrow> gget (pm_proxies m') q = gget (pm_proxies m) q) \<and>
     (\<forall>p \<in> set ps. if px_Enabled p \<and> opens env p
        then runs_rules env (gget (pm_proxies m') (px_ID p)) (stored_rules env d (px_ID p))
        else gget (pm_proxies m') (px_ID p) = gget (pm_proxies m) (px_ID p))"
  using assms
proof (induction ps arbitrary: m)
  case (Cons p ps)
  obtain m1 where m1: "restore_one env d p m = Ret m1" "\<forall>q. q \<noteq> px_ID p \<longrightarrow> gget (pm_proxies m1) q = gget (pm_proxies m) q"
    "if px_Enabled p \<and> opens env p then runs_rules env (gget (pm_proxies m1) (px_ID p)) (stored_rules env d (px_ID p))
     else gget (pm_proxies m1) (px_ID p) = gget (pm_proxies m) (px_ID p)"
    using restore_one_spec by metis
  obtain m' where m': "restore_all env d ps m1 = Ret m'"
    "\<forall>q. q \<notin> px_ID ` set ps \<longrightarrow> gget (pm_proxies m') q = gget (pm_proxies m1) q"
    "\<forall>p \<in> set ps. if px_Enabled p \<and> opens env p
        then runs_rules env (gget (pm_proxies m') (px_ID p)) (stored_rules env d (px_ID p))
        else gget (pm_proxies m') (px_ID p) = gget (pm_proxies m1) (px_ID p)"
    using Cons.IH [of m1] Cons.prems by auto
  have p: "px_ID p \<notin> px_ID ` set ps" using Cons.prems by auto
  then have "gget (pm_proxies m') (px_ID p) = gget (pm_proxies m1) (px_ID p)" using m'(2) by blast
  moreover have "gget (pm_proxies m1) (px_ID q) = gget (pm_proxies m) (px_ID q)" if "q \<in> set ps" for q
    using m1(2) p that by (metis image_eqI)
  ultimately show ?case using m1 m' by (intro exI [of _ m']) auto
qed simp

text \<open>(C14) Loading the stored state always returns. A stored proxy that is enabled and whose listener opens runs with
  exactly its stored rules in descending order of priority; a disabled one, or one whose listener does not
  open, is not known to the manager any more, so that enabling it fails until the next restart.\<close>

theorem restart_restores_rules:
  assumes "pm_db m = Some d" and "db_FindProxies (ne_db env) d = Some ps" and "distinct (map px_ID ps)"
    and "pm_proxies m = []" and "p \<in> set ps" and "db_FindRules (ne_db env) (px_ID p) d = Some rs"
  shows "\<exists>m'. LoadState env m = Ret (None, m') \<and>
    (if px_Enabled p \<and> opens env p
     then pm_GetRules env (px_ID p) m' = Inr (sort_key (\<lambda>r. - r_Priority r) (map (rule_of_model (ne_json env)) rs))
     else EnableProxy env (px_ID p) m' = Ret (Some ProxyNotFound, m'))"
proof -
  obtain m' where m': "restore_all env d ps m = Ret m'"
    "\<forall>p \<in> set ps. if px_Enabled p \<and> opens env p
        then runs_rules env (gget (pm_proxies m') (px_ID p)) (stored_rules env d (px_ID p))
        else gget (pm_proxies m') (px_ID p) = gget (pm_proxies m) (px_ID p)"
    using restore_all_spec [OF assms(3)] by metis
  show ?thesis using m'(1) bspec [OF m'(2) assms(5)] assms(1,2,4,6)
    by (intro exI [of _ m']) (auto simp: LoadState_def runs_rules_def pm_GetRules_def stored_rules_def EnableProxy_def)
qed

definition stored_node :: "Rule list \<Rightarrow> (unit, ProxyModel list) node_env" where
  "stored_node rs =
     (demo_node (\<lambda>_. demo_bind))\<lparr>ne_db := (ne_db (demo_node (\<lambda>_. demo_bind)))
        \<lparr>db_FindRules := (\<lambda>_ _. Some (map (model_of_rule (demo_json []) 0 ''p'') rs))\<rparr>\<rparr>"

lemma restart_restores_rules_witness:
  "\<exists>m'. LoadState (stored_node [prio_rule ''a'' 1, prio_rule ''b'' 2]) ((NewProxyManager ListenerModeFfi)\<lparr>pm_db := Some [demo_row]\<rparr>) =
        Ret (None, m') \<and>
     map_sum id (map r_Id) (pm_GetRules (stored_node [prio_rule ''a'' 1, prio_rule ''b'' 2]) ''p'' m') = Inr [''b'', ''a'']"
proof -
  let ?env = "stored_node [prio_rule ''a'' 1, prio_rule ''b'' 2]"
  have o: "px_Enabled demo_row \<and> opens ?env demo_row"
    by (simp add: opens_def stored_node_def demo_node_def demo_bind_def demo_row_def Start_def tls_setup_def
        config_of_model_def new_listener_def NewEmbeddedListener_def)
  have r: "db_FindRules (ne_db ?env) (px_ID demo_row) [demo_row] =
      Some (map (model_of_rule (demo_json []) 0 ''p'') [prio_rule ''a'' 1, prio_rule ''b'' 2])"
    by (simp add: stored_node_def)
  have "\<exists>m'. LoadState ?env ((NewProxyManager ListenerModeFfi)\<lparr>pm_db := Some [demo_row]\<rparr>) = Ret (None, m') \<and>
    (if px_Enabled demo_row \<and> opens ?env demo_row
     then pm_GetRules ?env (px_ID demo_row) m' = Inr (sort_key (\<lambda>r. - r_Priority r) (map (rule_of_model (ne_json ?env))
            (map (model_of_rule (demo_json []) 0 ''p'') [prio_rule ''a'' 1, prio_rule ''b'' 2])))
     else EnableProxy ?env (px_ID demo_row) m' = Ret (Some ProxyNotFound, m'))"
    by (rule restart_restores_rules [OF _ _ _ _ _ r, of _ "[demo_row]"])
       (simp_all add: stored_node_def demo_node_def NewProxyManager_def)
  then show ?thesis using o
    by (auto simp: sort_key_def rule_of_model_def model_of_rule_def prio_rule_def wrap32_def demo_row_def)
qed

section \<open>Who closes expired approvals\<close>

text \<open>The approval manager is shared by all proxies of a node, but has one connection closer: creating a proxy makes
  the new listener the closer, and this listener refuses to close a connection of any other proxy. When an
  approval of an older proxy expires, its live connections therefore stay open.\<close>

theorem new_proxy_takes_over_closing:
  assumes "pm_mode m = ListenerModeFfi" and "pm_Approval m = Some am" and "pid \<noteq> []"
    and "CreateProxyWithID env pid0 req m = Ret (Inr pid, m')"
  shows "pm_Approval m' = Some (am\<lparr>connCloser := Some pid\<rparr>) \<and>
    (\<exists>mp f w. gget (pm_proxies m') pid = Some mp \<and> mp_Listener mp = Some (LFfi f) \<and> c_listener (f_core f) = Some w \<and>
       (\<forall>q cid. q \<noteq> [] \<and> q \<noteq> pid \<longrightarrow> CloseConnection q cid (wl w) = (False, wl w)))"
proof -
  let ?be = "ne_bind env pid" and ?cfg = "request_config pid req"
  from assms(4) obtain l l1 am' model mp where b: "build_listener (ne_up env) m ?cfg = Ret l"
    and s: "lis_Start (ne_ops env) ?be (pm_Approval m) l = Ret (None, l1, am')"
    and f: "startEventForwarder \<lparr>mp_Listener = Some l1, mp_Model = model, mp_eventSub = None\<rparr> = Ret mp"
    and m': "pm_Approval m' = am'" "gget (pm_proxies m') pid = Some mp"
    by (auto simp: CreateProxyWithID_def Let_def split: option.splits)
  obtain fl w where fl: "l1 = LFfi fl" "c_listener (f_core fl) = Some w" "l_ID (wl w) = cf_ID (start_config ?be ?cfg)"
    "am' = map_option (SetConnectionCloser (cf_ID (start_config ?be ?cfg))) (pm_Approval m)"
    using built_listener_starts [OF assms(1) b s] by metis
  have i: "cf_ID (start_config ?be ?cfg) = pid" using assms(3) by (simp add: start_config_def request_config_def)
  from f fl(1) obtain fl' where "mp_Listener mp = Some (LFfi fl')" "f_core fl' = f_core fl"
    by (auto simp: startEventForwarder_def stopEventForwarder_def lis_Subscribe_def ffi_Subscribe_def)
  then show ?thesis using fl m' i assms(2) by (auto simp: SetConnectionCloser_def CloseConnection_def)
qed

definition demo_request :: CreateProxyRequest where
  "demo_request =
     \<lparr>cr_Name = ''second'', cr_ListenAddr = '':9090'', cr_DefaultBackend = ''b:80'', cr_DefaultAction = ACTION_TYPE_ALLOW,
      cr_DefaultMock = MOCK_PRESET_UNSPECIFIED, cr_FallbackAction = FALLBACK_ACTION_UNSPECIFIED,
      cr_FallbackMock = MOCK_PRESET_UNSPECIFIED, cr_CertPem = [], cr_KeyPem = [], cr_CaPem = [],
      cr_ClientAuthType = CLIENT_AUTH_AUTO, cr_HealthCheck = None\<rparr>"

lemma new_proxy_takes_over_closing_witness:
  "\<exists>m'. CreateProxyWithID (demo_node (\<lambda>_. demo_bind)) ''q'' demo_request
          ((demo_manager [])\<lparr>pm_Approval := Some (NewApprovalManager\<lparr>connCloser := Some ''p''\<rparr>)\<rparr>) = Ret (Inr ''q'', m') \<and>
        map_option connCloser (pm_Approval m') = Some (Some ''q'')"
proof -
  let ?m = "(demo_manager [])\<lparr>pm_Approval := Some (NewApprovalManager\<lparr>connCloser := Some ''p''\<rparr>)\<rparr>"
  obtain m' where "CreateProxyWithID (demo_node (\<lambda>_. demo_bind)) ''q'' demo_request ?m = Ret (Inr ''q'', m')"
    by (auto simp: CreateProxyWithID_def address_owner_def request_config_def demo_request_def
        ffi_SetApprovalManager_def core_SetApprovalManager_def SetApprovalManager_def strings_HasSuffix_def sanitizeAddress_def
        demo_run_defs start_run_defs Let_def)
  then show ?thesis
    using new_proxy_takes_over_closing [of ?m "NewApprovalManager\<lparr>connCloser := Some ''p''\<rparr>" "''q''"] by (simp add: exI)
qed

section \<open>A failed restart\<close>

text \<open>A restart stops the old listener first. When the new listener then fails to start, the stopped one stays in
  the proxy, and every later attempt to disable or remove the proxy stops it a second time, which
  panics for the embedded listeners of restored proxies.\<close>

theorem failed_restart_then_panics:
  assumes "restart_one env pid mp m = Ret (False, m1)" and "mp_Listener mp = Some (LEmb w)" and "px_Enabled (mp_Model mp)"
    and "pid \<noteq> []"
  shows "DisableProxy env2 pid m1 = Panics \<and> RemoveProxy env2 pid m1 = Panics"
proof -
  obtain mp1 where st: "stopEventForwarder mp = Ret mp1" using assms(1-3) by (auto simp: restart_one_def)
  then obtain w1 where w1: "mp_Listener mp1 = Some (LEmb w1)" "mp_eventSub mp1 = None"
    using assms(2) by (auto simp: stopEventForwarder_def lis_Unsubscribe_def split: option.splits)
  with assms(1-3) st obtain p w2 where p: "Stop (wl w1) = Some p" "w2 = w1\<lparr>wl := p\<rparr>"
    "gget (pm_proxies m1) pid = Some (mp1\<lparr>mp_Listener := Some (LEmb w2)\<rparr>)"
    by (auto simp: restart_one_def lis_Stop_def Let_def split: option.splits if_splits)
  then have "Stop (wl w2) = None" by (auto simp: Stop_def split: if_splits)
  then show ?thesis using p(3) w1(2) assms(4)
    by (simp add: DisableProxy_def disable_one_def RemoveProxy_def stopEventForwarder_def lis_Stop_def)
qed

definition busy_bind :: bind_env where
  "busy_bind = demo_bind\<lparr>be_bound := None\<rparr>"

lemma failed_restart_then_panics_witness:
  "\<exists>m1. restart_one (demo_node (\<lambda>_. busy_bind)) ''p'' (demo_proxy []) (demo_manager []) = Ret (False, m1) \<and>
        DisableProxy (demo_node (\<lambda>_. demo_bind)) ''p'' m1 = Panics"
proof -
  obtain m1 where r: "restart_one (demo_node (\<lambda>_. busy_bind)) ''p'' (demo_proxy []) (demo_manager []) = Ret (False, m1)"
    by (auto simp: restart_one_def busy_bind_def lis_Stop_def Stop_def demo_run_defs start_run_defs Let_def)
  show ?thesis
    using r failed_restart_then_panics [OF r, of _ "demo_node (\<lambda>_. demo_bind)"] by (auto simp: demo_proxy_def demo_row_def)
qed

end
