(* ===== verification/Hub_Store.thy ===== *)
theory Hub_Store
  imports Go_Net
begin

text \<open>
  The hub's rows, \<^verbatim>\<open>pkg/hub/model/model.go\<close>, and its store, \<^verbatim>\<open>pkg/hub/store/store.go\<close>. The XORM engine and the
  database under it are a parameter: an \<open>engine\<close> gives, for every query the store makes, its answer on a
  database of an arbitrary type \<open>'d\<close>. \<open>None\<close> is an engine error. \<open>Get\<close> answers \<open>Some None\<close> when no row
  matches, and \<open>Update\<close> the number of rows it changed. A session is a copy of the database that is kept by
  \<open>Commit\<close> and dropped otherwise.
\<close>

section \<open>Rows\<close>

record Node =
  n_ID :: string
  n_RoutingToken :: string
  n_EncryptedMetadata :: string
  n_Status :: string
  n_LastSeen :: gotime
  n_CertPEM :: string
  n_PublicKeyPEM :: string
  n_CreatedAt :: gotime
  n_UpdatedAt :: gotime

definition zero_Node :: Node where
  "zero_Node =
     \<lparr>n_ID = [], n_RoutingToken = [], n_EncryptedMetadata = [], n_Status = [], n_LastSeen = 0, n_CertPEM = [],
      n_PublicKeyPEM = [], n_CreatedAt = 0, n_UpdatedAt = 0\<rparr>"

record User =
  u_ID :: string
  u_BlindIndex :: string
  u_EncryptedProfile :: string
  u_Role :: string
  u_LastLogin :: gotime
  u_PublicKeyPEM :: string
  u_BiometricPublicKey :: string
  u_Tier :: string
  u_MaxNodes :: int
  u_LicenseKey :: string
  u_InviteCode :: string
  u_CreatedAt :: gotime

definition zero_User :: User where
  "zero_User =
     \<lparr>u_ID = [], u_BlindIndex = [], u_EncryptedProfile = [], u_Role = [], u_LastLogin = 0, u_PublicKeyPEM = [],
      u_BiometricPublicKey = [], u_Tier = [], u_MaxNodes = 0, u_LicenseKey = [], u_InviteCode = [], u_CreatedAt = 0\<rparr>"

record RoutingTokenInfo =
  ri_RoutingToken :: string
  ri_LicenseKey :: string
  ri_Tier :: string
  ri_FCMTopic :: string
  ri_AuditPubKey :: string
  ri_CreatedAt :: gotime
  ri_UpdatedAt :: gotime

definition zero_RoutingTokenInfo :: RoutingTokenInfo where
  "zero_RoutingTokenInfo =
     \<lparr>ri_RoutingToken = [], ri_LicenseKey = [], ri_Tier = [], ri_FCMTopic = [], ri_AuditPubKey = [], ri_CreatedAt = 0,
      ri_UpdatedAt = 0\<rparr>"

record FCMToken =
  fm_Token :: string
  fm_FCMTopic :: string
  fm_DeviceType :: string
  fm_UpdatedAt :: gotime

record RegistrationRequest =
  rr_Code :: string
  rr_CSR :: string
  rr_EncryptedMetadata :: string
  rr_NodeID :: string
  rr_RoutingToken :: string
  rr_Status :: string
  rr_CertPEM :: string
  rr_CaPEM :: string
  rr_LicenseKey :: string
  rr_WatchSecret :: string
  rr_ExpiresAt :: gotime
  rr_CreatedAt :: gotime
  rr_UpdatedAt :: gotime
  rr_Version :: int

definition zero_RegistrationRequest :: RegistrationRequest where
  "zero_RegistrationRequest =
     \<lparr>rr_Code = [], rr_CSR = [], rr_EncryptedMetadata = [], rr_NodeID = [], rr_RoutingToken = [], rr_Status = [], rr_CertPEM = [],
      rr_CaPEM = [], rr_LicenseKey = [], rr_WatchSecret = [], rr_ExpiresAt = 0, rr_CreatedAt = 0, rr_UpdatedAt = 0,
      rr_Version = 0\<rparr>"

record InviteCode =
  ic_Code :: string
  ic_CreatedBy :: string
  ic_MaxUses :: int
  ic_CurrentUses :: int
  ic_TierID :: string
  ic_ExpiresAt :: gotime
  ic_CreatedAt :: gotime
  ic_Note :: string
  ic_Active :: bool

record EncryptedMetric =
  em_ID :: int
  em_NodeID :: string
  em_RoutingToken :: string
  em_Timestamp :: gotime
  em_EncryptedBlob :: string
  em_Nonce :: string
  em_SenderKeyID :: string

record EncryptedLog =
  el_ID :: int
  el_NodeID :: string
  el_RoutingToken :: string
  el_Timestamp :: gotime
  el_EncryptedBlob :: string
  el_Nonce :: string
  el_SenderKeyID :: string

record ProxyConfig =
  pc_ProxyID :: string
  pc_RoutingToken :: string
  pc_CreatedAt :: gotime
  pc_UpdatedAt :: gotime
  pc_Deleted :: bool

record ProxyRevision =
  pv_ID :: int
  pv_ProxyID :: string
  pv_RevisionNum :: int
  pv_EncryptedBlob :: string
  pv_SizeBytes :: int
  pv_CreatedAt :: gotime

record AuditLog =
  al_ID :: int
  al_RoutingToken :: string
  al_Timestamp :: gotime
  al_EncryptedPayload :: string
  al_ExpiresAt :: gotime

section \<open>The engine\<close>

record ('d, 'r) xtab =
  xt_get :: "string \<Rightarrow> 'd \<Rightarrow> 'r option option"
  xt_exist :: "string \<Rightarrow> 'd \<Rightarrow> bool option"
  xt_update :: "string \<Rightarrow> 'r \<Rightarrow> 'd \<Rightarrow> (int \<times> 'd) option"
  xt_insert :: "'r \<Rightarrow> 'd \<Rightarrow> 'd option"
  xt_delete :: "string \<Rightarrow> 'd \<Rightarrow> 'd option"

text \<open>A failed insert of a proxy row tells a duplicate key by the error text.\<close>

datatype 'd insertion = Inserted 'd | DuplicateKey | InsertFailed

record log_filter =
  lf_token :: "string option"
  lf_node :: "string option"
  lf_from :: "gotime option"
  lf_to :: "gotime option"
  lf_before :: "gotime option"

record 'd engine =
  en_node :: "('d, Node) xtab"
  en_user :: "('d, User) xtab"
  en_info :: "('d, RoutingTokenInfo) xtab"
  en_fcm :: "('d, FCMToken) xtab"
  en_reg :: "('d, RegistrationRequest) xtab"
  en_invite :: "('d, InviteCode) xtab"
  en_begin :: "'d \<Rightarrow> bool"
  en_commit :: "'d \<Rightarrow> 'd option"
  en_incInvite :: "string \<Rightarrow> 'd \<Rightarrow> 'd option"
  en_approved :: "'d \<Rightarrow> RegistrationRequest list option"
  en_regByCA :: "string \<Rightarrow> 'd \<Rightarrow> RegistrationRequest option option"
  en_nodeByToken :: "string \<Rightarrow> 'd \<Rightarrow> Node option option"
  en_setStatus :: "string \<Rightarrow> string \<Rightarrow> gotime \<Rightarrow> 'd \<Rightarrow> 'd option"
  en_countNodes :: "'d \<Rightarrow> int option"
  en_countOnline :: "'d \<Rightarrow> int option"
  en_countUsers :: "'d \<Rightarrow> int option"
  en_fcmByTopic :: "string \<Rightarrow> 'd \<Rightarrow> FCMToken list option"
  en_revoked :: "string \<Rightarrow> 'd \<Rightarrow> bool option"
  en_insertMetric :: "EncryptedMetric \<Rightarrow> 'd \<Rightarrow> 'd option"
  en_metrics :: "string \<Rightarrow> gotime \<Rightarrow> gotime \<Rightarrow> nat option \<Rightarrow> 'd \<Rightarrow> EncryptedMetric list option"
  en_insertLog :: "EncryptedLog \<Rightarrow> 'd \<Rightarrow> 'd option"
  en_countLogs :: "string option \<Rightarrow> 'd \<Rightarrow> int option"
  en_findLogs :: "log_filter \<Rightarrow> (int \<times> int) option \<Rightarrow> 'd \<Rightarrow> EncryptedLog list option"
  en_logTokens :: "'d \<Rightarrow> string list option"
  en_deleteLogs :: "log_filter \<Rightarrow> int list option \<Rightarrow> 'd \<Rightarrow> (int \<times> 'd) option"
  en_insertProxy :: "ProxyConfig \<Rightarrow> 'd \<Rightarrow> 'd insertion"
  en_getProxy :: "string \<Rightarrow> 'd \<Rightarrow> ProxyConfig option option"
  en_proxiesOf :: "string \<Rightarrow> 'd \<Rightarrow> ProxyConfig list option"
  en_countProxies :: "string \<Rightarrow> 'd \<Rightarrow> int option"
  en_softDelete :: "string \<Rightarrow> 'd \<Rightarrow> 'd option"
  en_insertRev :: "ProxyRevision \<Rightarrow> 'd \<Rightarrow> 'd option"
  en_getRev :: "string \<Rightarrow> int \<Rightarrow> 'd \<Rightarrow> ProxyRevision option option"
  en_latestRev :: "string \<Rightarrow> 'd \<Rightarrow> ProxyRevision option option"
  en_revs :: "string \<Rightarrow> 'd \<Rightarrow> ProxyRevision list option"
  en_countRevs :: "string \<Rightarrow> 'd \<Rightarrow> int option"
  en_deleteRev :: "int \<Rightarrow> 'd \<Rightarrow> 'd option"
  en_sumSizes :: "string \<Rightarrow> 'd \<Rightarrow> int option"
  en_insertAudit :: "AuditLog \<Rightarrow> 'd \<Rightarrow> 'd option"

datatype store_error =
  DbError | RowNotFound | AlreadyApproved | WasRejected | ModifiedConcurrently | SaveNodeFailed | SaveInfoFailed |
  NotActive | CodeExpired | MaxUsesReached | ConfigDeleted | DuplicateRow

section \<open>Rows by key\<close>

definition save_row :: "('d, 'r) xtab \<Rightarrow> string \<Rightarrow> 'r \<Rightarrow> 'd \<Rightarrow> store_error option \<times> 'd" where
  "save_row t k r d =
     (case xt_exist t k d of
        None \<Rightarrow> (Some DbError, d)
      | Some True \<Rightarrow> (case xt_update t k r d of None \<Rightarrow> (Some DbError, d) | Some (_, d') \<Rightarrow> (None, d'))
      | Some False \<Rightarrow> (case xt_insert t r d of None \<Rightarrow> (Some DbError, d) | Some d' \<Rightarrow> (None, d')))"

definition get_row :: "('d, 'r) xtab \<Rightarrow> string \<Rightarrow> 'd \<Rightarrow> store_error + 'r" where
  "get_row t k d =
     (case xt_get t k d of None \<Rightarrow> Inl DbError | Some None \<Rightarrow> Inl RowNotFound | Some (Some r) \<Rightarrow> Inr r)"

definition update_db :: "'d option \<Rightarrow> 'd \<Rightarrow> store_error option \<times> 'd" where
  "update_db res d = (case res of None \<Rightarrow> (Some DbError, d) | Some d' \<Rightarrow> (None, d'))"

definition query_db :: "'a option \<Rightarrow> store_error + 'a" where
  "query_db res = (case res of None \<Rightarrow> Inl DbError | Some x \<Rightarrow> Inr x)"

definition SaveRegistrationRequest :: "'d engine \<Rightarrow> RegistrationRequest \<Rightarrow> 'd \<Rightarrow> store_error option \<times> 'd" where
  "SaveRegistrationRequest e req d = save_row (en_reg e) (rr_Code req) req d"

definition GetRegistrationRequest :: "'d engine \<Rightarrow> string \<Rightarrow> 'd \<Rightarrow> store_error + RegistrationRequest" where
  "GetRegistrationRequest e code d = get_row (en_reg e) code d"

definition DeleteRegistrationRequest :: "'d engine \<Rightarrow> string \<Rightarrow> 'd \<Rightarrow> store_error option \<times> 'd" where
  "DeleteRegistrationRequest e code d = update_db (xt_delete (en_reg e) code d) d"

definition SaveNode :: "'d engine \<Rightarrow> Node \<Rightarrow> 'd \<Rightarrow> store_error option \<times> 'd" where
  "SaveNode e node d = save_row (en_node e) (n_ID node) node d"

definition GetNode :: "'d engine \<Rightarrow> string \<Rightarrow> 'd \<Rightarrow> store_error + Node" where
  "GetNode e nid d = get_row (en_node e) nid d"

definition GetNodeByRoutingToken :: "'d engine \<Rightarrow> string \<Rightarrow> 'd \<Rightarrow> store_error + Node" where
  "GetNodeByRoutingToken e token d =
     (case en_nodeByToken e token d of None \<Rightarrow> Inl DbError | Some None \<Rightarrow> Inl RowNotFound | Some (Some n) \<Rightarrow> Inr n)"

definition UpdateNodeStatus :: "'d engine \<Rightarrow> string \<Rightarrow> string \<Rightarrow> gotime \<Rightarrow> 'd \<Rightarrow> store_error option \<times> 'd" where
  "UpdateNodeStatus e nid status now d = update_db (en_setStatus e nid status now d) d"

definition DeleteNode :: "'d engine \<Rightarrow> string \<Rightarrow> 'd \<Rightarrow> store_error option \<times> 'd" where
  "DeleteNode e nid d = update_db (xt_delete (en_node e) nid d) d"

definition CountNodes :: "'d engine \<Rightarrow> 'd \<Rightarrow> int \<times> int \<times> store_error option" where
  "CountNodes e d =
     (case en_countNodes e d of
        None \<Rightarrow> (0, 0, Some DbError)
      | Some tot \<Rightarrow> (case en_countOnline e d of None \<Rightarrow> (tot, 0, Some DbError) | Some online \<Rightarrow> (tot, online, None)))"

definition SaveUser :: "'d engine \<Rightarrow> User \<Rightarrow> 'd \<Rightarrow> store_error option \<times> 'd" where
  "SaveUser e user d = save_row (en_user e) (u_ID user) user d"

definition GetUser :: "'d engine \<Rightarrow> string \<Rightarrow> 'd \<Rightarrow> store_error + User" where
  "GetUser e uid d = get_row (en_user e) uid d"

definition CountUsers :: "'d engine \<Rightarrow> 'd \<Rightarrow> store_error + int" where
  "CountUsers e d = query_db (en_countUsers e d)"

definition SaveFCMToken :: "'d engine \<Rightarrow> FCMToken \<Rightarrow> 'd \<Rightarrow> store_error option \<times> 'd" where
  "SaveFCMToken e token d = save_row (en_fcm e) (fm_Token token) token d"

definition GetFCMTokensByTopic :: "'d engine \<Rightarrow> string \<Rightarrow> 'd \<Rightarrow> store_error + FCMToken list" where
  "GetFCMTokensByTopic e topic d = query_db (en_fcmByTopic e topic d)"

definition SaveRoutingTokenInfo :: "'d engine \<Rightarrow> RoutingTokenInfo \<Rightarrow> 'd \<Rightarrow> store_error option \<times> 'd" where
  "SaveRoutingTokenInfo e info d = save_row (en_info e) (ri_RoutingToken info) info d"

definition GetRoutingTokenInfo :: "'d engine \<Rightarrow> string \<Rightarrow> 'd \<Rightarrow> store_error + RoutingTokenInfo" where
  "GetRoutingTokenInfo e token d = get_row (en_info e) token d"

definition IsRevoked :: "'d engine \<Rightarrow> string \<Rightarrow> 'd \<Rightarrow> store_error + bool" where
  "IsRevoked e serial d = query_db (en_revoked e serial d)"

definition GetInviteCode :: "'d engine \<Rightarrow> string \<Rightarrow> 'd \<Rightarrow> store_error + InviteCode" where
  "GetInviteCode e code d = get_row (en_invite e) code d"

definition SaveInviteCode :: "'d engine \<Rightarrow> InviteCode \<Rightarrow> 'd \<Rightarrow> store_error option \<times> 'd" where
  "SaveInviteCode e code d = save_row (en_invite e) (ic_Code code) code d"

definition SaveAuditLog :: "'d engine \<Rightarrow> AuditLog \<Rightarrow> 'd \<Rightarrow> store_error option \<times> 'd" where
  "SaveAuditLog e l d = update_db (en_insertAudit e l d) d"

definition SaveEncryptedMetric :: "'d engine \<Rightarrow> EncryptedMetric \<Rightarrow> 'd \<Rightarrow> store_error option \<times> 'd" where
  "SaveEncryptedMetric e m d = update_db (en_insertMetric e m d) d"

definition GetEncryptedMetricsHistory ::
  "'d engine \<Rightarrow> string \<Rightarrow> gotime \<Rightarrow> gotime \<Rightarrow> int \<Rightarrow> 'd \<Rightarrow> store_error + EncryptedMetric list" where
  "GetEncryptedMetricsHistory e token start stop limit d =
     query_db (en_metrics e token start stop (if limit > 0 then Some (nat limit) else None) d)"

section \<open>Registrations and invite codes\<close>

text \<open>Each of the two approvals reads the row, refuses an approved or rejected one, and updates it under the version the
  engine adds to the condition, so that no row changed means another request was faster.\<close>

definition approve_row :: "'d engine \<Rightarrow> string \<Rightarrow> string \<Rightarrow> string \<Rightarrow> string \<Rightarrow> 'd \<Rightarrow> (store_error + RegistrationRequest) \<times> 'd" where
  "approve_row e code certPEM caPEM routingToken d =
     (case xt_get (en_reg e) code d of
        None \<Rightarrow> (Inl DbError, d)
      | Some None \<Rightarrow> (Inl RowNotFound, d)
      | Some (Some req) \<Rightarrow>
          (if rr_Status req = ''APPROVED'' then (Inl AlreadyApproved, d)
           else if rr_Status req = ''REJECTED'' then (Inl WasRejected, d)
           else
             (let req' = req\<lparr>rr_Status := ''APPROVED'', rr_CertPEM := certPEM, rr_CaPEM := caPEM, rr_RoutingToken := routingToken\<rparr>
              in case xt_update (en_reg e) code req' d of
                   None \<Rightarrow> (Inl DbError, d)
                 | Some (affected, d') \<Rightarrow>
                     (if affected = 0 then (Inl ModifiedConcurrently, d') else (Inr req', d')))))"

definition ApproveRegistration ::
  "'d engine \<Rightarrow> string \<Rightarrow> string \<Rightarrow> string \<Rightarrow> string \<Rightarrow> 'd \<Rightarrow> (store_error + RegistrationRequest) \<times> 'd" where
  "ApproveRegistration e code certPEM caPEM routingToken d = approve_row e code certPEM caPEM routingToken d"

definition ApproveNodeAtomic ::
  "'d engine \<Rightarrow> string \<Rightarrow> string \<Rightarrow> string \<Rightarrow> string \<Rightarrow> Node \<Rightarrow> RoutingTokenInfo option \<Rightarrow> 'd \<Rightarrow>
   (store_error + RegistrationRequest) \<times> 'd" where
  "ApproveNodeAtomic e code certPEM caPEM routingToken node info d =
     (if \<not> en_begin e d then (Inl DbError, d)
      else case approve_row e code certPEM caPEM routingToken d of
             (Inl err, _) \<Rightarrow> (Inl err, d)
           | (Inr req, d1) \<Rightarrow>
               (case xt_insert (en_node e) node d1 of
                  None \<Rightarrow> (Inl SaveNodeFailed, d)
                | Some d2 \<Rightarrow>
                    (case (case info of None \<Rightarrow> Some d2 | Some i \<Rightarrow> xt_insert (en_info e) i d2) of
                       None \<Rightarrow> (Inl SaveInfoFailed, d)
                     | Some d3 \<Rightarrow> (case en_commit e d3 of None \<Rightarrow> (Inl DbError, d) | Some d4 \<Rightarrow> (Inr req, d4)))))"

fun dedup_cas :: "RegistrationRequest list \<Rightarrow> string list \<Rightarrow> string list" where
  "dedup_cas [] seen = []"
| "dedup_cas (r # rs) seen =
     (if rr_CaPEM r \<noteq> [] \<and> rr_CaPEM r \<notin> set seen then rr_CaPEM r # dedup_cas rs (rr_CaPEM r # seen) else dedup_cas rs seen)"

definition GetApprovedCLICAs :: "'d engine \<Rightarrow> 'd \<Rightarrow> store_error + string list" where
  "GetApprovedCLICAs e d = (case en_approved e d of None \<Rightarrow> Inl DbError | Some reqs \<Rightarrow> Inr (dedup_cas reqs []))"

definition GetRoutingTokenByCA :: "'d engine \<Rightarrow> string \<Rightarrow> 'd \<Rightarrow> store_error + string" where
  "GetRoutingTokenByCA e caPEM d =
     (case en_regByCA e caPEM d of
        None \<Rightarrow> Inl DbError
      | Some None \<Rightarrow> Inl RowNotFound
      | Some (Some req) \<Rightarrow> Inr (rr_RoutingToken req))"

definition invite_usable :: "gotime \<Rightarrow> InviteCode \<Rightarrow> store_error option" where
  "invite_usable now ic =
     (if \<not> ic_Active ic then Some NotActive
      else if ic_ExpiresAt ic \<noteq> 0 \<and> ic_ExpiresAt ic < now then Some CodeExpired
      else if ic_MaxUses ic > 0 \<and> ic_CurrentUses ic \<ge> ic_MaxUses ic then Some MaxUsesReached
      else None)"

definition ConsumeInviteCode :: "'d engine \<Rightarrow> string \<Rightarrow> gotime \<Rightarrow> 'd \<Rightarrow> store_error option \<times> 'd" where
  "ConsumeInviteCode e code now d =
     (if \<not> en_begin e d then (Some DbError, d)
      else case xt_get (en_invite e) code d of
             None \<Rightarrow> (Some DbError, d)
           | Some None \<Rightarrow> (Some RowNotFound, d)
           | Some (Some ic) \<Rightarrow>
               (case invite_usable now ic of
                  Some err \<Rightarrow> (Some err, d)
                | None \<Rightarrow>
                    (case en_incInvite e code d of
                       None \<Rightarrow> (Some DbError, d)
                     | Some d1 \<Rightarrow> update_db (en_commit e d1) d)))"

section \<open>Logs\<close>

definition no_filter :: log_filter where
  "no_filter = \<lparr>lf_token = None, lf_node = None, lf_from = None, lf_to = None, lf_before = None\<rparr>"

definition SaveEncryptedLog :: "'d engine \<Rightarrow> EncryptedLog \<Rightarrow> 'd \<Rightarrow> store_error option \<times> 'd" where
  "SaveEncryptedLog e l d = update_db (en_insertLog e l d) d"

definition CountLogs :: "'d engine \<Rightarrow> string \<Rightarrow> 'd \<Rightarrow> store_error + int" where
  "CountLogs e token d = query_db (en_countLogs e (Some token) d)"

definition CountAllLogs :: "'d engine \<Rightarrow> 'd \<Rightarrow> store_error + int" where
  "CountAllLogs e d = query_db (en_countLogs e None d)"

text \<open>The engine's \<open>findLogs\<close> orders by time, newest first.\<close>

definition GetEncryptedLogsByNode ::
  "'d engine \<Rightarrow> string \<Rightarrow> string \<Rightarrow> gotime \<Rightarrow> gotime \<Rightarrow> int \<Rightarrow> int \<Rightarrow> 'd \<Rightarrow> store_error + EncryptedLog list" where
  "GetEncryptedLogsByNode e token nodeID start stop limit offset d =
     query_db (en_findLogs e
       (no_filter\<lparr>lf_token := Some token, lf_node := (if nodeID \<noteq> [] then Some nodeID else None),
          lf_from := (if start \<noteq> 0 then Some start else None), lf_to := (if stop \<noteq> 0 then Some stop else None)\<rparr>)
       (if limit > 0 then Some (limit, offset) else None) d)"

fun count_tokens :: "'d engine \<Rightarrow> 'd \<Rightarrow> string list \<Rightarrow> (string, int) gomap \<Rightarrow> (string, int) gomap" where
  "count_tokens e d [] m = m"
| "count_tokens e d (t # ts) m =
     count_tokens e d ts (case en_countLogs e (Some t) d of None \<Rightarrow> m | Some n \<Rightarrow> gput t n m)"

definition GetLogsStatsByRoutingToken :: "'d engine \<Rightarrow> 'd \<Rightarrow> store_error + (string, int) gomap" where
  "GetLogsStatsByRoutingToken e d =
     (case en_logTokens e d of None \<Rightarrow> Inl DbError | Some ts \<Rightarrow> Inr (count_tokens e d ts []))"

definition gint0 :: "(string, int) gomap \<Rightarrow> string \<Rightarrow> int" where
  "gint0 m k = (case gget m k of None \<Rightarrow> 0 | Some n \<Rightarrow> n)"

definition add_size :: "EncryptedLog \<Rightarrow> (string, int) gomap \<Rightarrow> (string, int) gomap" where
  "add_size l m = gput (el_RoutingToken l) (gint0 m (el_RoutingToken l) + int (length (el_EncryptedBlob l))) m"

definition GetLogStorageByRoutingToken :: "'d engine \<Rightarrow> 'd \<Rightarrow> store_error + (string, int) gomap" where
  "GetLogStorageByRoutingToken e d =
     (case en_findLogs e no_filter None d of None \<Rightarrow> Inl DbError | Some ls \<Rightarrow> Inr (fold add_size ls []))"

definition DeleteOldLogs :: "'d engine \<Rightarrow> gotime \<Rightarrow> 'd \<Rightarrow> store_error option \<times> 'd" where
  "DeleteOldLogs e before d = update_db (map_option snd (en_deleteLogs e (no_filter\<lparr>lf_before := Some before\<rparr>) None d)) d"

definition DeleteOldestLogs :: "'d engine \<Rightarrow> string \<Rightarrow> int \<Rightarrow> 'd \<Rightarrow> store_error option \<times> 'd" where
  "DeleteOldestLogs e token keepCount d =
     (case en_findLogs e (no_filter\<lparr>lf_token := Some token\<rparr>) (Some (keepCount, 0)) d of
        None \<Rightarrow> (Some DbError, d)
      | Some keep \<Rightarrow>
          (if keep = [] then (None, d)
           else update_db (map_option snd (en_deleteLogs e (no_filter\<lparr>lf_token := Some token\<rparr>) (Some (map el_ID keep)) d)) d))"

definition delete_logs :: "'d engine \<Rightarrow> log_filter \<Rightarrow> 'd \<Rightarrow> (store_error + int) \<times> 'd" where
  "delete_logs e f d = (case en_deleteLogs e f None d of None \<Rightarrow> (Inl DbError, d) | Some (n, d') \<Rightarrow> (Inr n, d'))"

definition DeleteLogsByRoutingToken :: "'d engine \<Rightarrow> string \<Rightarrow> 'd \<Rightarrow> (store_error + int) \<times> 'd" where
  "DeleteLogsByRoutingToken e token d = delete_logs e (no_filter\<lparr>lf_token := Some token\<rparr>) d"

definition DeleteLogsByNodeID :: "'d engine \<Rightarrow> string \<Rightarrow> string \<Rightarrow> 'd \<Rightarrow> (store_error + int) \<times> 'd" where
  "DeleteLogsByNodeID e token nodeID d = delete_logs e (no_filter\<lparr>lf_token := Some token, lf_node := Some nodeID\<rparr>) d"

definition DeleteLogsBefore :: "'d engine \<Rightarrow> string \<Rightarrow> gotime \<Rightarrow> 'd \<Rightarrow> (store_error + int) \<times> 'd" where
  "DeleteLogsBefore e token before d = delete_logs e (no_filter\<lparr>lf_token := Some token, lf_before := Some before\<rparr>) d"

section \<open>Proxy configurations and revisions\<close>

definition CreateProxyConfig :: "'d engine \<Rightarrow> ProxyConfig \<Rightarrow> 'd \<Rightarrow> store_error option \<times> 'd" where
  "CreateProxyConfig e cfg d =
     (case en_insertProxy e cfg d of
        Inserted d' \<Rightarrow> (None, d')
      | DuplicateKey \<Rightarrow> (Some DuplicateRow, d)
      | InsertFailed \<Rightarrow> (Some DbError, d))"

definition GetProxyConfig :: "'d engine \<Rightarrow> string \<Rightarrow> 'd \<Rightarrow> store_error + ProxyConfig" where
  "GetProxyConfig e proxyID d =
     (case en_getProxy e proxyID d of
        None \<Rightarrow> Inl DbError
      | Some None \<Rightarrow> Inl RowNotFound
      | Some (Some cfg) \<Rightarrow> (if pc_Deleted cfg then Inl ConfigDeleted else Inr cfg))"

definition ListProxyConfigsByRoutingToken :: "'d engine \<Rightarrow> string \<Rightarrow> 'd \<Rightarrow> store_error + ProxyConfig list" where
  "ListProxyConfigsByRoutingToken e token d = query_db (en_proxiesOf e token d)"

definition CountProxyConfigsByRoutingToken :: "'d engine \<Rightarrow> string \<Rightarrow> 'd \<Rightarrow> store_error + int" where
  "CountProxyConfigsByRoutingToken e token d = query_db (en_countProxies e token d)"

definition DeleteProxyConfig :: "'d engine \<Rightarrow> string \<Rightarrow> 'd \<Rightarrow> store_error option \<times> 'd" where
  "DeleteProxyConfig e proxyID d = update_db (en_softDelete e proxyID d) d"

definition CreateProxyRevision :: "'d engine \<Rightarrow> ProxyRevision \<Rightarrow> 'd \<Rightarrow> store_error option \<times> 'd" where
  "CreateProxyRevision e r d = update_db (en_insertRev e r d) d"

definition GetProxyRevision :: "'d engine \<Rightarrow> string \<Rightarrow> int \<Rightarrow> 'd \<Rightarrow> store_error + ProxyRevision" where
  "GetProxyRevision e proxyID n d =
     (case en_getRev e proxyID n d of None \<Rightarrow> Inl DbError | Some None \<Rightarrow> Inl RowNotFound | Some (Some r) \<Rightarrow> Inr r)"

definition GetLatestProxyRevision :: "'d engine \<Rightarrow> string \<Rightarrow> 'd \<Rightarrow> store_error + ProxyRevision" where
  "GetLatestProxyRevision e proxyID d =
     (case en_latestRev e proxyID d of None \<Rightarrow> Inl DbError | Some None \<Rightarrow> Inl RowNotFound | Some (Some r) \<Rightarrow> Inr r)"

definition ListProxyRevisions :: "'d engine \<Rightarrow> string \<Rightarrow> 'd \<Rightarrow> store_error + ProxyRevision list" where
  "ListProxyRevisions e proxyID d = query_db (en_revs e proxyID d)"

definition CountProxyRevisions :: "'d engine \<Rightarrow> string \<Rightarrow> 'd \<Rightarrow> store_error + int" where
  "CountProxyRevisions e proxyID d = query_db (en_countRevs e proxyID d)"

fun delete_revs :: "'d engine \<Rightarrow> ProxyRevision list \<Rightarrow> int \<Rightarrow> 'd \<Rightarrow> int \<times> store_error option \<times> 'd" where
  "delete_revs e [] deleted d = (deleted, None, d)"
| "delete_revs e (r # rs) deleted d =
     (case en_deleteRev e (pv_ID r) d of
        None \<Rightarrow> (deleted, Some DbError, d)
      | Some d' \<Rightarrow> delete_revs e rs (deleted + 1) d')"

definition DeleteOldestProxyRevisions :: "'d engine \<Rightarrow> string \<Rightarrow> int \<Rightarrow> 'd \<Rightarrow> int \<times> store_error option \<times> 'd" where
  "DeleteOldestProxyRevisions e proxyID keepCount d =
     (if keepCount \<le> 0 then (0, None, d)
      else case en_revs e proxyID d of
             None \<Rightarrow> (0, Some DbError, d)
           | Some revs \<Rightarrow>
               (if int (length revs) \<le> keepCount then (0, None, d)
                else delete_revs e (drop (nat keepCount) revs) 0 d))"

text \<open>The sum the engine computes is dropped; \<open>sum\<close> is only filled by the fallback after an engine error.\<close>

definition proxy_storage :: "'d engine \<Rightarrow> 'd \<Rightarrow> ProxyConfig \<Rightarrow> int" where
  "proxy_storage e d proxy =
     (case en_sumSizes e (pc_ProxyID proxy) d of
        Some _ \<Rightarrow> 0
      | None \<Rightarrow> (case en_revs e (pc_ProxyID proxy) d of None \<Rightarrow> 0 | Some revs \<Rightarrow> sum_list (map pv_SizeBytes revs)))"

definition GetTotalProxyStorageByRoutingToken :: "'d engine \<Rightarrow> string \<Rightarrow> 'd \<Rightarrow> store_error + int" where
  "GetTotalProxyStorageByRoutingToken e token d =
     (case en_proxiesOf e token d of
        None \<Rightarrow> Inl DbError
      | Some proxies \<Rightarrow> Inr (sum_list (map (proxy_storage e d) proxies)))"

section \<open>Index names\<close>

definition isProxyRevisionCompositeUnique :: "string list \<Rightarrow> bool" where
  "isProxyRevisionCompositeUnique cols \<longleftrightarrow>
     length cols = 2 \<and>
     (cols ! 0 = ''proxy_id'' \<and> cols ! 1 = ''revision_num'' \<or> cols ! 0 = ''revision_num'' \<and> cols ! 1 = ''proxy_id'')"

fun double_char :: "char \<Rightarrow> string \<Rightarrow> string" where
  "double_char c [] = []"
| "double_char c (x # xs) = (if x = c then c # c # double_char c xs else x # double_char c xs)"

definition quoteSQLiteIdent :: "string \<Rightarrow> string" where
  "quoteSQLiteIdent name = CHR 0x22 # double_char (CHR 0x22) name @ [CHR 0x22]"

definition quoteSQLiteString :: "string \<Rightarrow> string" where
  "quoteSQLiteString val = CHR 0x27 # double_char (CHR 0x27) val @ [CHR 0x27]"

section \<open>Properties\<close>


text \<open>The uses of an invite code that the store accepts, one after the other at the given times.\<close>

fun consume_all :: "'d engine \<Rightarrow> string \<Rightarrow> gotime list \<Rightarrow> 'd \<Rightarrow> nat \<times> 'd" where
  "consume_all e code [] d = (0, d)"
| "consume_all e code (t # ts) d =
     (case ConsumeInviteCode e code t d of
        (None, d') \<Rightarrow> (case consume_all e code ts d' of (n, d'') \<Rightarrow> (Suc n, d''))
      | (Some _, d') \<Rightarrow> consume_all e code ts d')"

text \<open>What the store relies on: the committed increment of a code is read back.\<close>

definition counts_uses :: "'d engine \<Rightarrow> string \<Rightarrow> bool" where
  "counts_uses e code \<longleftrightarrow>
     (\<forall>d ic d1 d2. xt_get (en_invite e) code d = Some (Some ic) \<longrightarrow> en_incInvite e code d = Some d1 \<longrightarrow> en_commit e d1 = Some d2 \<longrightarrow>
        xt_get (en_invite e) code d2 = Some (Some (ic\<lparr>ic_CurrentUses := ic_CurrentUses ic + 1\<rparr>)))"

lemma ConsumeInviteCode_cases:
  assumes "ConsumeInviteCode e code t d = (err, d')" "xt_get (en_invite e) code d = Some (Some ic)" "counts_uses e code"
  shows "err = None \<and> invite_usable t ic = None \<and>
           xt_get (en_invite e) code d' = Some (Some (ic\<lparr>ic_CurrentUses := ic_CurrentUses ic + 1\<rparr>)) \<or>
         err \<noteq> None \<and> d' = d"
proof (cases "en_begin e d \<and> invite_usable t ic = None")
  case True
  then show ?thesis using assms
    by (cases "en_incInvite e code d"; cases "en_commit e (the (en_incInvite e code d))")
       (auto simp: ConsumeInviteCode_def update_db_def counts_uses_def)
next
  case False
  then show ?thesis using assms by (auto simp: ConsumeInviteCode_def split: if_splits option.splits)
qed

lemma consume_all_bound:
  assumes "counts_uses e code" "xt_get (en_invite e) code d = Some (Some ic)" "0 < ic_MaxUses ic" "ic_CurrentUses ic \<le> ic_MaxUses ic"
    and "consume_all e code ts d = (n, d')"
  shows "int n \<le> ic_MaxUses ic - ic_CurrentUses ic"
  using assms(2-5)
proof (induction ts arbitrary: d ic n)
  case (Cons t ts)
  obtain err d1 where c: "ConsumeInviteCode e code t d = (err, d1)" by fastforce
  from ConsumeInviteCode_cases [OF c Cons.prems(1) assms(1)] show ?case
  proof
    assume a: "err = None \<and> invite_usable t ic = None \<and>
      xt_get (en_invite e) code d1 = Some (Some (ic\<lparr>ic_CurrentUses := ic_CurrentUses ic + 1\<rparr>))"
    then have "ic_CurrentUses ic < ic_MaxUses ic" using Cons.prems(2) by (auto simp: invite_usable_def split: if_splits)
    moreover obtain m d2 where "consume_all e code ts d1 = (m, d2)" by fastforce
    ultimately show ?thesis using Cons.IH [of d1 "ic\<lparr>ic_CurrentUses := ic_CurrentUses ic + 1\<rparr>" m] Cons.prems(2,4) a c by auto
  next
    assume "err \<noteq> None \<and> d1 = d"
    then show ?thesis using Cons.IH [OF Cons.prems(1,2,3)] Cons.prems(4) c by auto
  qed
qed simp

text \<open>An invite code is never used more often than it allows.\<close>

theorem invite_uses_bounded:
  assumes "counts_uses e code" and "xt_get (en_invite e) code d = Some (Some ic)" and "0 < ic_MaxUses ic"
    and "ic_CurrentUses ic \<le> ic_MaxUses ic"
  shows "int (fst (consume_all e code ts d)) + ic_CurrentUses ic \<le> ic_MaxUses ic"
  using consume_all_bound [OF assms, of ts] by (cases "consume_all e code ts d") auto

text \<open>The storage in use is reported as zero as long as the database can compute sums: the sum is computed but not used.\<close>

theorem storage_always_zero:
  assumes "\<And>pid. en_sumSizes e pid d \<noteq> None" and "GetTotalProxyStorageByRoutingToken e token d = Inr n"
  shows "n = 0"
proof -
  have "proxy_storage e d p = 0" for p using assms(1) [of "pc_ProxyID p"] by (auto simp: proxy_storage_def)
  then show ?thesis using assms(2)
    by (auto simp: GetTotalProxyStorageByRoutingToken_def sum_list_eq_0_iff split: option.splits)
       (metis (no_types) comp_apply map_eq_conv sum_list_0)
qed

section \<open>An engine over lists\<close>

text \<open>A concrete engine for the examples: every table is a list of rows by key, all statements succeed, an update replaces
  the row.\<close>

record hub_db =
  db_nodes :: "(string, Node) gomap"
  db_users :: "(string, User) gomap"
  db_infos :: "(string, RoutingTokenInfo) gomap"
  db_fcm :: "(string, FCMToken) gomap"
  db_regs :: "(string, RegistrationRequest) gomap"
  db_invites :: "(string, InviteCode) gomap"
  db_proxies :: "ProxyConfig list"
  db_revs :: "ProxyRevision list"
  db_logs :: "EncryptedLog list"
  db_metrics :: "EncryptedMetric list"
  db_audits :: "AuditLog list"
  db_revoked :: "string list"

definition empty_db :: hub_db where
  "empty_db =
     \<lparr>db_nodes = [], db_users = [], db_infos = [], db_fcm = [], db_regs = [], db_invites = [], db_proxies = [], db_revs = [],
      db_logs = [], db_metrics = [], db_audits = [], db_revoked = []\<rparr>"

definition list_tab ::
  "('r \<Rightarrow> string) \<Rightarrow> (hub_db \<Rightarrow> (string, 'r) gomap) \<Rightarrow> (((string, 'r) gomap \<Rightarrow> (string, 'r) gomap) \<Rightarrow> hub_db \<Rightarrow> hub_db) \<Rightarrow>
   (hub_db, 'r) xtab" where
  "list_tab key tab upd =
     \<lparr>xt_get = (\<lambda>k d. Some (gget (tab d) k)), xt_exist = (\<lambda>k d. Some (gget (tab d) k \<noteq> None)),
      xt_update = (\<lambda>k r d. Some (if gget (tab d) k = None then (0, d) else (1, upd (gput k r) d))),
      xt_insert = (\<lambda>r d. if gget (tab d) (key r) = None then Some (upd (gput (key r) r) d) else None),
      xt_delete = (\<lambda>k d. Some (upd (gdel k) d))\<rparr>"

definition log_matches :: "log_filter \<Rightarrow> EncryptedLog \<Rightarrow> bool" where
  "log_matches f l \<longleftrightarrow>
     (case lf_token f of None \<Rightarrow> True | Some t \<Rightarrow> el_RoutingToken l = t) \<and>
     (case lf_node f of None \<Rightarrow> True | Some n \<Rightarrow> el_NodeID l = n) \<and>
     (case lf_from f of None \<Rightarrow> True | Some t \<Rightarrow> t \<le> el_Timestamp l) \<and>
     (case lf_to f of None \<Rightarrow> True | Some t \<Rightarrow> el_Timestamp l \<le> t) \<and>
     (case lf_before f of None \<Rightarrow> True | Some t \<Rightarrow> el_Timestamp l < t)"

definition page :: "(int \<times> int) option \<Rightarrow> 'a list \<Rightarrow> 'a list" where
  "page lim xs = (case lim of None \<Rightarrow> xs | Some (n, off) \<Rightarrow> take (nat n) (drop (nat off) xs))"

definition list_engine :: "hub_db engine" where
  "list_engine =
     \<lparr>en_node = list_tab n_ID db_nodes (\<lambda>f d. d\<lparr>db_nodes := f (db_nodes d)\<rparr>),
      en_user = list_tab u_ID db_users (\<lambda>f d. d\<lparr>db_users := f (db_users d)\<rparr>),
      en_info = list_tab ri_RoutingToken db_infos (\<lambda>f d. d\<lparr>db_infos := f (db_infos d)\<rparr>),
      en_fcm = list_tab fm_Token db_fcm (\<lambda>f d. d\<lparr>db_fcm := f (db_fcm d)\<rparr>),
      en_reg = list_tab rr_Code db_regs (\<lambda>f d. d\<lparr>db_regs := f (db_regs d)\<rparr>),
      en_invite = list_tab ic_Code db_invites (\<lambda>f d. d\<lparr>db_invites := f (db_invites d)\<rparr>),
      en_begin = (\<lambda>_. True), en_commit = Some,
      en_incInvite = (\<lambda>k d. Some (d\<lparr>db_invites := gmod k (\<lambda>ic. ic\<lparr>ic_CurrentUses := ic_CurrentUses ic + 1\<rparr>) (db_invites d)\<rparr>)),
      en_approved = (\<lambda>d. Some (filter (\<lambda>r. rr_Status r = ''APPROVED'') (map snd (db_regs d)))),
      en_regByCA = (\<lambda>ca d. Some (find (\<lambda>r. rr_CaPEM r = ca \<and> rr_Status r = ''APPROVED'') (map snd (db_regs d)))),
      en_nodeByToken = (\<lambda>t d. Some (find (\<lambda>n. n_RoutingToken n = t) (map snd (db_nodes d)))),
      en_setStatus = (\<lambda>k st now d. Some (d\<lparr>db_nodes := gmod k (\<lambda>n. n\<lparr>n_Status := st, n_LastSeen := now\<rparr>) (db_nodes d)\<rparr>)),
      en_countNodes = (\<lambda>d. Some (int (length (db_nodes d)))),
      en_countOnline = (\<lambda>d. Some (int (length (filter (\<lambda>(_, n). n_Status n = ''online'') (db_nodes d))))),
      en_countUsers = (\<lambda>d. Some (int (length (db_users d)))),
      en_fcmByTopic = (\<lambda>t d. Some (filter (\<lambda>f. fm_FCMTopic f = t) (map snd (db_fcm d)))),
      en_revoked = (\<lambda>sn d. Some (sn \<in> set (db_revoked d))),
      en_insertMetric = (\<lambda>m d. Some (d\<lparr>db_metrics := m # db_metrics d\<rparr>)),
      en_metrics = (\<lambda>t a b lim d. Some (filter (\<lambda>m. em_RoutingToken m = t \<and> a \<le> em_Timestamp m \<and> em_Timestamp m \<le> b) (db_metrics d))),
      en_insertLog = (\<lambda>l d. Some (d\<lparr>db_logs := l # db_logs d\<rparr>)),
      en_countLogs = (\<lambda>t d. Some (int (length (filter (log_matches (no_filter\<lparr>lf_token := t\<rparr>)) (db_logs d))))),
      en_findLogs = (\<lambda>f lim d. Some (page lim (sort_key (\<lambda>l. - el_Timestamp l) (filter (log_matches f) (db_logs d))))),
      en_logTokens = (\<lambda>d. Some (remdups (map el_RoutingToken (db_logs d)))),
      en_deleteLogs = (\<lambda>f keep d.
        let gone = (\<lambda>l. log_matches f l \<and> (case keep of None \<Rightarrow> True | Some ids \<Rightarrow> el_ID l \<notin> set ids))
        in Some (int (length (filter gone (db_logs d))), d\<lparr>db_logs := filter (\<lambda>l. \<not> gone l) (db_logs d)\<rparr>)),
      en_insertProxy = (\<lambda>c d. if pc_ProxyID c \<in> pc_ProxyID ` set (db_proxies d) then DuplicateKey
                              else Inserted (d\<lparr>db_proxies := c # db_proxies d\<rparr>)),
      en_getProxy = (\<lambda>p d. Some (find (\<lambda>c. pc_ProxyID c = p) (db_proxies d))),
      en_proxiesOf = (\<lambda>t d. Some (filter (\<lambda>c. pc_RoutingToken c = t \<and> \<not> pc_Deleted c) (db_proxies d))),
      en_countProxies = (\<lambda>t d. Some (int (length (filter (\<lambda>c. pc_RoutingToken c = t \<and> \<not> pc_Deleted c) (db_proxies d))))),
      en_softDelete = (\<lambda>p d. Some (d\<lparr>db_proxies := map (\<lambda>c. if pc_ProxyID c = p then c\<lparr>pc_Deleted := True\<rparr> else c) (db_proxies d)\<rparr>)),
      en_insertRev = (\<lambda>r d. Some (d\<lparr>db_revs := r\<lparr>pv_ID := int (length (db_revs d))\<rparr> # db_revs d\<rparr>)),
      en_getRev = (\<lambda>p n d. Some (find (\<lambda>r. pv_ProxyID r = p \<and> pv_RevisionNum r = n) (db_revs d))),
      en_latestRev = (\<lambda>p d. Some (find (\<lambda>r. pv_ProxyID r = p) (sort_key (\<lambda>r. - pv_RevisionNum r) (db_revs d)))),
      en_revs = (\<lambda>p d. Some (filter (\<lambda>r. pv_ProxyID r = p) (sort_key (\<lambda>r. - pv_RevisionNum r) (db_revs d)))),
      en_countRevs = (\<lambda>p d. Some (int (length (filter (\<lambda>r. pv_ProxyID r = p) (db_revs d))))),
      en_deleteRev = (\<lambda>i d. Some (d\<lparr>db_revs := filter (\<lambda>r. pv_ID r \<noteq> i) (db_revs d)\<rparr>)),
      en_sumSizes = (\<lambda>p d. Some (sum_list (map pv_SizeBytes (filter (\<lambda>r. pv_ProxyID r = p) (db_revs d))))),
      en_insertAudit = (\<lambda>a d. Some (d\<lparr>db_audits := a # db_audits d\<rparr>))\<rparr>"

lemma list_counts_uses: "counts_uses list_engine code"
  by (simp add: counts_uses_def list_engine_def list_tab_def)

definition demo_invite :: InviteCode where
  "demo_invite =
     \<lparr>ic_Code = ''NITELLA'', ic_CreatedBy = [], ic_MaxUses = 1, ic_CurrentUses = 0, ic_TierID = ''free'', ic_ExpiresAt = 0,
      ic_CreatedAt = 0, ic_Note = [], ic_Active = True\<rparr>"

definition demo_reg :: RegistrationRequest where
  "demo_reg = zero_RegistrationRequest\<lparr>rr_Code := ''AAAA-BBBB'', rr_NodeID := ''n1'', rr_Status := ''PENDING'', rr_ExpiresAt := 5\<rparr>"


lemma invite_uses_bounded_witness:
  "fst (consume_all list_engine ''NITELLA'' [1, 2, 3] (empty_db\<lparr>db_invites := [(''NITELLA'', demo_invite)]\<rparr>)) = 1"
proof -
  let ?d = "empty_db\<lparr>db_invites := [(''NITELLA'', demo_invite)]\<rparr>"
  have "int (fst (consume_all list_engine ''NITELLA'' [1, 2, 3] ?d)) + ic_CurrentUses demo_invite \<le> ic_MaxUses demo_invite"
    by (rule invite_uses_bounded [OF list_counts_uses]) (simp_all add: list_engine_def list_tab_def demo_invite_def)
  moreover have "0 < fst (consume_all list_engine ''NITELLA'' [1, 2, 3] ?d)"
    by (simp add: ConsumeInviteCode_def list_engine_def list_tab_def invite_usable_def demo_invite_def update_db_def empty_db_def
        split: prod.split)
  ultimately show ?thesis by (simp add: demo_invite_def)
qed

definition demo_rev :: "string \<Rightarrow> int \<Rightarrow> int \<Rightarrow> ProxyRevision" where
  "demo_rev pid n bytes =
     \<lparr>pv_ID = n, pv_ProxyID = pid, pv_RevisionNum = n, pv_EncryptedBlob = [], pv_SizeBytes = bytes, pv_CreatedAt = 0\<rparr>"

definition demo_config :: "string \<Rightarrow> string \<Rightarrow> ProxyConfig" where
  "demo_config pid token = \<lparr>pc_ProxyID = pid, pc_RoutingToken = token, pc_CreatedAt = 0, pc_UpdatedAt = 0, pc_Deleted = False\<rparr>"

lemma storage_always_zero_witness:
  "GetTotalProxyStorageByRoutingToken list_engine ''t1''
     (empty_db\<lparr>db_proxies := [demo_config ''p'' ''t1''], db_revs := [demo_rev ''p'' 1 99000, demo_rev ''p'' 2 99000]\<rparr>) = Inr 0"
proof -
  let ?d = "empty_db\<lparr>db_proxies := [demo_config ''p'' ''t1''], db_revs := [demo_rev ''p'' 1 99000, demo_rev ''p'' 2 99000]\<rparr>"
  obtain n where n: "GetTotalProxyStorageByRoutingToken list_engine ''t1'' ?d = Inr n"
    by (auto simp: GetTotalProxyStorageByRoutingToken_def list_engine_def)
  have "n = 0" by (rule storage_always_zero [OF _ n]) (simp add: list_engine_def)
  then show ?thesis using n by simp
qed

end
