(* ===== verification/Hub_Limits.thy ===== *)
theory Hub_Limits
  imports Go_Net
begin

text \<open>
  The limits of the hub: the subscription tiers of \<^verbatim>\<open>pkg/tier/config.go\<close>, the token buckets per client address of
  \<^verbatim>\<open>pkg/hub/ratelimit/ip.go\<close> and the token buckets per routing token of \<^verbatim>\<open>pkg/hub/ratelimit/ratelimit.go\<close>, with
  their cleanups and the gRPC interceptors. The file read by \<open>LoadConfig\<close>, the handler an interceptor
  calls, the peer address of a request and the tier lookup in the store are arguments.

  What both limiters promise is the locale \<open>token_bucket\<close>: its lemmas bound what is admitted in a stretch of
  time, say when an idle client is admitted again and that a client which never pauses for a second is
  never refilled.
\<close>

section \<open>Tiers\<close>

record RPCConfig =
  RequestsPerSecond :: int
  BurstSize :: int
  MaxStreams :: int

record StreamingConfig =
  sc_IntervalSeconds :: int
  sc_Mode :: string

record ProxyManagementConfig =
  pmc_Enabled :: bool
  pmc_MaxProxies :: int
  pmc_MaxRevisionsPerProxy :: int
  pmc_MaxStorageKB :: int
  pmc_TTLDays :: int

record AuditConfig =
  au_MaxLogs :: int
  au_RetentionDays :: int

record LogsConfig =
  lo_MaxLogs :: int
  lo_RetentionDays :: int

record TierConfig =
  t_ID :: string
  t_Name :: string
  t_MaxNodes :: int
  t_MaxProxies :: int
  t_MonthlyPushLimit :: int
  t_LicensePrefix :: string
  t_RPC :: RPCConfig
  t_Streaming :: StreamingConfig
  t_ProxyManagement :: ProxyManagementConfig
  t_TemplateSync :: ProxyManagementConfig
  t_Audit :: AuditConfig
  t_Logs :: LogsConfig

type_synonym tier_Config = "TierConfig list"

definition tier_LoadConfig :: "string option \<Rightarrow> (string \<Rightarrow> tier_Config option) \<Rightarrow> tier_Config option" where
  "tier_LoadConfig file unmarshal = (case file of None \<Rightarrow> None | Some data \<Rightarrow> unmarshal data)"

definition GetTier :: "tier_Config \<Rightarrow> string \<Rightarrow> TierConfig option" where
  "GetTier c tid = find (\<lambda>t. t_ID t = tid) c"

definition GetTierOrDefault :: "tier_Config \<Rightarrow> string \<Rightarrow> TierConfig option" where
  "GetTierOrDefault c tid = (case GetTier c tid of Some t \<Rightarrow> Some t | None \<Rightarrow> GetTier c ''free'')"

definition zero_ProxyManagement :: ProxyManagementConfig where
  "zero_ProxyManagement =
     \<lparr>pmc_Enabled = False, pmc_MaxProxies = 0, pmc_MaxRevisionsPerProxy = 0, pmc_MaxStorageKB = 0, pmc_TTLDays = 0\<rparr>"

definition tier_DefaultConfig :: tier_Config where
  "tier_DefaultConfig =
    [\<lparr>t_ID = ''free'', t_Name = ''Starter'', t_MaxNodes = 3, t_MaxProxies = 5, t_MonthlyPushLimit = 10, t_LicensePrefix = [],
      t_RPC = \<lparr>RequestsPerSecond = 10, BurstSize = 20, MaxStreams = 2\<rparr>,
      t_Streaming = \<lparr>sc_IntervalSeconds = 5, sc_Mode = ''conflation''\<rparr>,
      t_ProxyManagement = \<lparr>pmc_Enabled = True, pmc_MaxProxies = 3, pmc_MaxRevisionsPerProxy = 1, pmc_MaxStorageKB = 100,
                           pmc_TTLDays = 7\<rparr>,
      t_TemplateSync = zero_ProxyManagement,
      t_Audit = \<lparr>au_MaxLogs = 1000, au_RetentionDays = 7\<rparr>, t_Logs = \<lparr>lo_MaxLogs = 10000, lo_RetentionDays = 7\<rparr>\<rparr>,
     \<lparr>t_ID = ''pro'', t_Name = ''Pro'', t_MaxNodes = 20, t_MaxProxies = 20, t_MonthlyPushLimit = 500, t_LicensePrefix = ''PRO'',
      t_RPC = \<lparr>RequestsPerSecond = 100, BurstSize = 200, MaxStreams = 10\<rparr>,
      t_Streaming = \<lparr>sc_IntervalSeconds = 1, sc_Mode = ''conflation''\<rparr>,
      t_ProxyManagement = \<lparr>pmc_Enabled = True, pmc_MaxProxies = 20, pmc_MaxRevisionsPerProxy = 5, pmc_MaxStorageKB = 1024,
                           pmc_TTLDays = 30\<rparr>,
      t_TemplateSync = zero_ProxyManagement,
      t_Audit = \<lparr>au_MaxLogs = 100000, au_RetentionDays = 90\<rparr>, t_Logs = \<lparr>lo_MaxLogs = 1000000, lo_RetentionDays = 30\<rparr>\<rparr>,
     \<lparr>t_ID = ''business'', t_Name = ''Business'', t_MaxNodes = 0, t_MaxProxies = 0, t_MonthlyPushLimit = 0,
      t_LicensePrefix = ''BIZ'',
      t_RPC = \<lparr>RequestsPerSecond = 1000, BurstSize = 2000, MaxStreams = 100\<rparr>,
      t_Streaming = \<lparr>sc_IntervalSeconds = 0, sc_Mode = ''realtime''\<rparr>,
      t_ProxyManagement = \<lparr>pmc_Enabled = True, pmc_MaxProxies = 0, pmc_MaxRevisionsPerProxy = 0, pmc_MaxStorageKB = 0,
                           pmc_TTLDays = 365\<rparr>,
      t_TemplateSync = zero_ProxyManagement,
      t_Audit = \<lparr>au_MaxLogs = 0, au_RetentionDays = 365\<rparr>, t_Logs = \<lparr>lo_MaxLogs = 0, lo_RetentionDays = 365\<rparr>\<rparr>]"

record TierLimits =
  tl_MaxNodes :: int
  tl_MaxProxies :: int
  tl_MonthlyPushLimit :: int
  tl_RPSLimit :: int
  tl_BurstSize :: int
  tl_MaxStreams :: int
  tl_MaxProxyConfigs :: int
  tl_MaxRevisionsPerProxy :: int
  tl_MaxStorageKB :: int
  tl_ProxyTTLDays :: int
  tl_MaxAuditLogs :: int
  tl_AuditRetentionDays :: int
  tl_MaxLogs :: int
  tl_LogsRetentionDays :: int

definition GetLimits :: "TierConfig \<Rightarrow> TierLimits" where
  "GetLimits t =
     \<lparr>tl_MaxNodes = t_MaxNodes t, tl_MaxProxies = t_MaxProxies t, tl_MonthlyPushLimit = t_MonthlyPushLimit t,
      tl_RPSLimit = RequestsPerSecond (t_RPC t), tl_BurstSize = BurstSize (t_RPC t), tl_MaxStreams = MaxStreams (t_RPC t),
      tl_MaxProxyConfigs = pmc_MaxProxies (t_ProxyManagement t),
      tl_MaxRevisionsPerProxy = pmc_MaxRevisionsPerProxy (t_ProxyManagement t),
      tl_MaxStorageKB = pmc_MaxStorageKB (t_ProxyManagement t), tl_ProxyTTLDays = pmc_TTLDays (t_ProxyManagement t),
      tl_MaxAuditLogs = au_MaxLogs (t_Audit t), tl_AuditRetentionDays = au_RetentionDays (t_Audit t),
      tl_MaxLogs = lo_MaxLogs (t_Logs t), tl_LogsRetentionDays = lo_RetentionDays (t_Logs t)\<rparr>"

definition IsUnlimited :: "int \<Rightarrow> bool" where
  "IsUnlimited limit \<longleftrightarrow> limit \<le> 0"

definition CheckNodeLimit :: "TierConfig \<Rightarrow> int \<Rightarrow> bool" where
  "CheckNodeLimit t currentCount = (if IsUnlimited (t_MaxNodes t) then True else currentCount < t_MaxNodes t)"

definition CheckProxyLimit :: "TierConfig \<Rightarrow> int \<Rightarrow> bool" where
  "CheckProxyLimit t currentCount = (if IsUnlimited (t_MaxProxies t) then True else currentCount < t_MaxProxies t)"

definition CheckPushLimit :: "TierConfig \<Rightarrow> int \<Rightarrow> bool" where
  "CheckPushLimit t currentCount =
     (if IsUnlimited (t_MonthlyPushLimit t) then True else currentCount < t_MonthlyPushLimit t)"

definition CheckProxyConfigLimit :: "TierConfig \<Rightarrow> int \<Rightarrow> bool" where
  "CheckProxyConfigLimit t currentCount =
     (if IsUnlimited (pmc_MaxProxies (t_ProxyManagement t)) then True else currentCount < pmc_MaxProxies (t_ProxyManagement t))"

definition CheckRevisionLimit :: "TierConfig \<Rightarrow> int \<Rightarrow> bool" where
  "CheckRevisionLimit t currentCount =
     (if IsUnlimited (pmc_MaxRevisionsPerProxy (t_ProxyManagement t)) then True
      else currentCount < pmc_MaxRevisionsPerProxy (t_ProxyManagement t))"

definition CheckAuditLogLimit :: "TierConfig \<Rightarrow> int \<Rightarrow> bool" where
  "CheckAuditLogLimit t currentCount = (if IsUnlimited (au_MaxLogs (t_Audit t)) then True else currentCount < au_MaxLogs (t_Audit t))"

definition CheckLogLimit :: "TierConfig \<Rightarrow> int \<Rightarrow> bool" where
  "CheckLogLimit t currentCount = (if IsUnlimited (lo_MaxLogs (t_Logs t)) then True else currentCount < lo_MaxLogs (t_Logs t))"

section \<open>Buckets per client address\<close>

record ipBucket =
  ib_tokens :: int
  ib_lastUpdate :: gotime

record IPRateLimiterConfig =
  ipc_RateLimit :: int
  ipc_BurstSize :: int
  ipc_CleanupInterval :: duration
  ipc_BucketExpiry :: duration

record IPRateLimiter =
  ip_buckets :: "(string, ipBucket) gomap"
  ip_rateLimit :: int
  ip_burstSize :: int
  ip_cleanupInterval :: duration
  ip_bucketExpiry :: duration
  ip_stopped :: bool

definition DefaultIPRateLimiterConfig :: IPRateLimiterConfig where
  "DefaultIPRateLimiterConfig =
     \<lparr>ipc_RateLimit = 30, ipc_BurstSize = 60, ipc_CleanupInterval = 60 * second, ipc_BucketExpiry = 600 * second\<rparr>"

definition NewIPRateLimiter :: "IPRateLimiterConfig \<Rightarrow> IPRateLimiter" where
  "NewIPRateLimiter cfg =
     \<lparr>ip_buckets = [], ip_rateLimit = ipc_RateLimit cfg, ip_burstSize = ipc_BurstSize cfg,
      ip_cleanupInterval = ipc_CleanupInterval cfg, ip_bucketExpiry = ipc_BucketExpiry cfg, ip_stopped = False\<rparr>"

definition ip_Stop :: "IPRateLimiter \<Rightarrow> IPRateLimiter outcome" where
  "ip_Stop rl = (if ip_stopped rl then Panics else Ret (rl\<lparr>ip_stopped := True\<rparr>))"

definition ip_Allow :: "string \<Rightarrow> gotime \<Rightarrow> IPRateLimiter \<Rightarrow> bool \<times> IPRateLimiter" where
  "ip_Allow ip now rl =
     (case gget (ip_buckets rl) ip of
        None \<Rightarrow>
          (True, rl\<lparr>ip_buckets := gput ip \<lparr>ib_tokens = wrap64 (ip_burstSize rl - 1), ib_lastUpdate = now\<rparr> (ip_buckets rl)\<rparr>)
      | Some b \<Rightarrow>
          (let elapsed = time_sub now (ib_lastUpdate b);
               refill = wrap64 (trunc_seconds elapsed * ip_rateLimit rl);
               tokens = min (wrap64 (ib_tokens b + refill)) (ip_burstSize rl)
           in if tokens > 0
              then (True, rl\<lparr>ip_buckets := gput ip \<lparr>ib_tokens = tokens - 1, ib_lastUpdate = now\<rparr> (ip_buckets rl)\<rparr>)
              else (False, rl\<lparr>ip_buckets := gput ip \<lparr>ib_tokens = tokens, ib_lastUpdate = now\<rparr> (ip_buckets rl)\<rparr>)))"

text \<open>One tick of the cleanup: the stale keys are collected under the read lock and deleted in batches, each under
  the lock and checked again; between the batches other requests may run, which the model leaves out.\<close>

fun delete_stale :: "(string \<Rightarrow> (string, 'b) gomap \<Rightarrow> bool) \<Rightarrow> string list \<Rightarrow> (string, 'b) gomap \<Rightarrow> (string, 'b) gomap" where
  "delete_stale stale [] m = m"
| "delete_stale stale (k # ks) m = delete_stale stale ks (if stale k m then gdel k m else m)"

definition ip_stale :: "gotime \<Rightarrow> string \<Rightarrow> (string, ipBucket) gomap \<Rightarrow> bool" where
  "ip_stale threshold ip m = (case gget m ip of None \<Rightarrow> False | Some b \<Rightarrow> ib_lastUpdate b < threshold)"

definition cleanupStale :: "gotime \<Rightarrow> IPRateLimiter \<Rightarrow> IPRateLimiter" where
  "cleanupStale now rl =
     (let threshold = now - ip_bucketExpiry rl;
          staleKeys = map fst (filter (\<lambda>(ip, b). ib_lastUpdate b < threshold) (ip_buckets rl))
      in rl\<lparr>ip_buckets := delete_stale (ip_stale threshold) staleKeys (ip_buckets rl)\<rparr>)"

text \<open>The peer of a request is absent or has an address text.\<close>

definition extractIP :: "string option \<Rightarrow> string" where
  "extractIP peer =
     (case peer of
        None \<Rightarrow> []
      | Some addr \<Rightarrow> (case SplitHostPort addr of None \<Rightarrow> addr | Some (host, _) \<Rightarrow> host))"

datatype 'a rpc = Handled 'a | ResourceExhausted

definition ip_Interceptor ::
  "string option \<Rightarrow> gotime \<Rightarrow> (unit \<Rightarrow> 'a) \<Rightarrow> IPRateLimiter \<Rightarrow> 'a rpc \<times> IPRateLimiter" where
  "ip_Interceptor peer now handler rl =
     (let ip = extractIP peer in
      if ip = [] then (Handled (handler ()), rl)
      else case ip_Allow ip now rl of
             (True, rl') \<Rightarrow> (Handled (handler ()), rl')
           | (False, rl') \<Rightarrow> (ResourceExhausted, rl'))"

section \<open>Buckets per routing token\<close>

record tier_bucket =
  tb_tokens :: int
  tb_lastUpdate :: gotime
  tb_tier :: string

record TieredRateLimiter =
  trl_buckets :: "(string, tier_bucket) gomap"
  trl_configs :: tier_Config

definition NewTieredRateLimiter :: "tier_Config option \<Rightarrow> TieredRateLimiter" where
  "NewTieredRateLimiter cfg =
     \<lparr>trl_buckets = [], trl_configs = (case cfg of None \<Rightarrow> tier_DefaultConfig | Some c \<Rightarrow> c)\<rparr>"

text \<open>The lookup of the tier in the store is absent or a function.\<close>

definition trl_getTier :: "(string \<Rightarrow> string) option \<Rightarrow> string \<Rightarrow> string" where
  "trl_getTier getTierFunc routingToken =
     (case getTierFunc of
        None \<Rightarrow> ''free''
      | Some f \<Rightarrow> (if f routingToken = [] then ''free'' else f routingToken))"

text \<open>A configuration without a \<^verbatim>\<open>free\<close> tier makes the lookup of an unknown tier \<^verbatim>\<open>nil\<close>, which the next line
  dereferences.\<close>

definition trl_Allow ::
  "(string \<Rightarrow> string) option \<Rightarrow> string \<Rightarrow> gotime \<Rightarrow> TieredRateLimiter \<Rightarrow> (bool \<times> TieredRateLimiter) outcome" where
  "trl_Allow getTierFunc routingToken now trl =
     (let tierID = trl_getTier getTierFunc routingToken;
          config = (case GetTierOrDefault (trl_configs trl) tierID of
                      Some c \<Rightarrow> Some c
                    | None \<Rightarrow> GetTier (trl_configs trl) ''free'')
      in case config of
           None \<Rightarrow> Panics
         | Some cfg \<Rightarrow>
             (let burst = BurstSize (t_RPC cfg);
                  put = (\<lambda>b. trl\<lparr>trl_buckets := gput routingToken b (trl_buckets trl)\<rparr>)
              in case gget (trl_buckets trl) routingToken of
                   None \<Rightarrow> Ret (True, put \<lparr>tb_tokens = wrap64 (burst - 1), tb_lastUpdate = now, tb_tier = tierID\<rparr>)
                 | Some b0 \<Rightarrow>
                     (let b = (if tb_tier b0 \<noteq> tierID then b0\<lparr>tb_tier := tierID, tb_tokens := burst\<rparr> else b0);
                          elapsed = time_sub now (tb_lastUpdate b);
                          refill = wrap64 (trunc_seconds elapsed * RequestsPerSecond (t_RPC cfg));
                          tokens = min (wrap64 (tb_tokens b + refill)) burst
                      in if tokens > 0
                         then Ret (True, put (b\<lparr>tb_tokens := tokens - 1, tb_lastUpdate := now\<rparr>))
                         else Ret (False, put (b\<lparr>tb_tokens := tokens, tb_lastUpdate := now\<rparr>)))))"

definition GetRemainingTokens :: "string \<Rightarrow> TieredRateLimiter \<Rightarrow> int" where
  "GetRemainingTokens routingToken trl =
     (case gget (trl_buckets trl) routingToken of Some b \<Rightarrow> tb_tokens b | None \<Rightarrow> - 1)"

definition GetTierLimit :: "(string \<Rightarrow> string) option \<Rightarrow> string \<Rightarrow> TieredRateLimiter \<Rightarrow> int" where
  "GetTierLimit getTierFunc routingToken trl =
     (case GetTierOrDefault (trl_configs trl) (trl_getTier getTierFunc routingToken) of
        None \<Rightarrow> 10
      | Some cfg \<Rightarrow> RequestsPerSecond (t_RPC cfg))"

definition trl_stale :: "gotime \<Rightarrow> string \<Rightarrow> (string, tier_bucket) gomap \<Rightarrow> bool" where
  "trl_stale threshold token m = (case gget m token of None \<Rightarrow> False | Some b \<Rightarrow> tb_lastUpdate b < threshold)"

definition trl_cleanup :: "gotime \<Rightarrow> TieredRateLimiter \<Rightarrow> TieredRateLimiter" where
  "trl_cleanup now trl =
     (let threshold = now - 600 * second;
          staleKeys = map fst (filter (\<lambda>(token, b). tb_lastUpdate b < threshold) (trl_buckets trl))
      in trl\<lparr>trl_buckets := delete_stale (trl_stale threshold) staleKeys (trl_buckets trl)\<rparr>)"

text \<open>The token of a request is the one the authentication put into the context or, for a unary call, the one in its
  message.\<close>

definition request_token :: "string \<Rightarrow> string option \<Rightarrow> string" where
  "request_token ctxToken msgToken =
     (if ctxToken \<noteq> [] then ctxToken else case msgToken of None \<Rightarrow> [] | Some t \<Rightarrow> t)"

datatype 'a tier_rpc = THandled 'a | TExhausted string int

definition trl_Interceptor ::
  "(string \<Rightarrow> string) option \<Rightarrow> string \<Rightarrow> gotime \<Rightarrow> (unit \<Rightarrow> 'a) \<Rightarrow> TieredRateLimiter \<Rightarrow>
   ('a tier_rpc \<times> TieredRateLimiter) outcome" where
  "trl_Interceptor getTierFunc routingToken now handler trl =
     (if routingToken = [] then Ret (THandled (handler ()), trl)
      else obind (trl_Allow getTierFunc routingToken now trl) (\<lambda>(ok, trl').
             if ok then Ret (THandled (handler ()), trl')
             else Ret (TExhausted (trl_getTier getTierFunc routingToken) (GetTierLimit getTierFunc routingToken trl'), trl')))"

section \<open>What a token bucket promises\<close>

text \<open>The decisions of a limiter on calls at the given times, by one client.\<close>

fun calls :: "(gotime \<Rightarrow> 's \<Rightarrow> bool \<times> 's) \<Rightarrow> gotime list \<Rightarrow> 's \<Rightarrow> bool list" where
  "calls allow [] s = []"
| "calls allow (t # ts) s = fst (allow t s) # calls allow ts (snd (allow t s))"

definition admitted_calls :: "(gotime \<Rightarrow> 's \<Rightarrow> bool \<times> 's) \<Rightarrow> gotime list \<Rightarrow> 's \<Rightarrow> int" where
  "admitted_calls allow ts s = int (length (filter id (calls allow ts s)))"

text \<open>Every call comes less than a second after the one before.\<close>

fun busy :: "gotime \<Rightarrow> gotime list \<Rightarrow> bool" where
  "busy t0 [] = True"
| "busy t0 (t # ts) = (t0 \<le> t \<and> t - t0 < second \<and> busy t ts)"

lemma second_pos: "0 < second"
  by (simp add: second_def)

lemma seconds_add: "l \<le> n \<Longrightarrow> n \<le> u \<Longrightarrow> (n - l) div second + (u - n) div second \<le> (u - l) div second"
proof -
  have "((n - l) + (u - n)) div second =
      (n - l) div second + (u - n) div second + ((n - l) mod second + (u - n) mod second) div second"
    by (rule div_add1_eq)
  moreover have "0 \<le> ((n - l) mod second + (u - n) mod second) div second"
    by (simp add: second_def)
  ultimately show ?thesis by simp
qed

locale token_bucket =
  fixes allow :: "gotime \<Rightarrow> 's \<Rightarrow> bool \<times> 's"
    and level :: "'s \<Rightarrow> (int \<times> gotime) option"
    and ok :: "'s \<Rightarrow> bool"
    and rate burst :: int
  assumes rate: "0 \<le> rate" and burst: "0 < burst"
    and range: "ok s \<Longrightarrow> level s = Some (k, l) \<Longrightarrow> 0 \<le> k \<and> k \<le> burst"
    and ok_fresh: "ok s \<Longrightarrow> level s = None \<Longrightarrow> ok (snd (allow now s))"
    and ok_refill: "ok s \<Longrightarrow> level s = Some (k, l) \<Longrightarrow> l \<le> now \<Longrightarrow> now - l < 2 ^ 63 \<Longrightarrow> ok (snd (allow now s))"
    and fresh: "ok s \<Longrightarrow> level s = None \<Longrightarrow> fst (allow now s) \<and> level (snd (allow now s)) = Some (burst - 1, now)"
    and refill: "ok s \<Longrightarrow> level s = Some (k, l) \<Longrightarrow> l \<le> now \<Longrightarrow> now - l < 2 ^ 63 \<Longrightarrow>
      fst (allow now s) = (0 < min (k + (now - l) div second * rate) burst) \<and>
      level (snd (allow now s)) = Some (max 0 (min (k + (now - l) div second * rate) burst - 1), now)"
begin

lemma idle_admitted:
  assumes "ok s" "level s = Some (k, l)" "second \<le> now - l" "now - l < 2 ^ 63" "0 < rate"
  shows "fst (allow now s)"
proof -
  have "l \<le> now" using assms(3) second_pos by linarith
  moreover have "1 \<le> (now - l) div second" using assms(3) second_pos by (simp add: pos_imp_zdiv_pos_iff int_one_le_iff_zero_less)
  ultimately show ?thesis
    using refill [OF assms(1,2) _ assms(4)] range [OF assms(1,2)] assms(5) burst
    by (simp add: add_nonneg_pos)
qed

lemma admitted_since:
  assumes "ok s" "level s = Some (k, l)" "sorted ts" "\<forall>t \<in> set ts. l \<le> t \<and> t \<le> u" "l \<le> u" "u - l < 2 ^ 63"
  shows "admitted_calls allow ts s \<le> k + rate * ((u - l) div second)"
  using assms
proof (induction ts arbitrary: s k l)
  case Nil
  then show ?case using range [OF Nil(1,2)] rate second_pos by (simp add: admitted_calls_def pos_imp_zdiv_nonneg_iff)
next
  case (Cons n ts)
  define s' where "s' = snd (allow n s)"
  define k' where "k' = min (k + (n - l) div second * rate) burst"
  have n: "l \<le> n" "n \<le> u" "n - l < 2 ^ 63" using Cons.prems(4,6) by auto
  note r = refill [OF Cons.prems(1,2) n(1,3), folded k'_def s'_def]
  have ok': "ok s'" unfolding s'_def by (rule ok_refill [OF Cons.prems(1,2) n(1,3)])
  have "admitted_calls allow ts s' \<le> max 0 (k' - 1) + rate * ((u - n) div second)"
    by (rule Cons.IH [OF ok' conjunct2 [OF r]]) (use Cons.prems n in auto)
  moreover have "0 \<le> k'"
    using range [OF Cons.prems(1,2)] rate burst n second_pos by (simp add: k'_def pos_imp_zdiv_nonneg_iff)
  ultimately have "admitted_calls allow (n # ts) s \<le> k' + rate * ((u - n) div second)"
    using r by (auto simp: admitted_calls_def s'_def)
  also have "\<dots> \<le> k + rate * ((n - l) div second + (u - n) div second)"
    by (simp add: k'_def algebra_simps min_le_iff_disj)
  also have "\<dots> \<le> k + rate * ((u - l) div second)"
    using seconds_add [OF n(1,2)] rate by (simp add: mult_left_mono)
  finally show ?case .
qed

lemma admitted_fresh:
  assumes "ok s" "level s = None" "sorted (t0 # ts)" "\<forall>t \<in> set ts. t \<le> u" "t0 \<le> u" "u - t0 < 2 ^ 63"
  shows "admitted_calls allow (t0 # ts) s \<le> burst + rate * ((u - t0) div second)"
proof -
  note f = fresh [OF assms(1,2), of t0]
  have "admitted_calls allow ts (snd (allow t0 s)) \<le> burst - 1 + rate * ((u - t0) div second)"
    by (rule admitted_since [OF ok_fresh [OF assms(1,2)] conjunct2 [OF f]]) (use assms in auto)
  then show ?thesis using f by (simp add: admitted_calls_def)
qed

lemma busy_drains:
  assumes "ok s" "level s = Some (k, l)" "busy l ts"
  shows "calls allow ts s = replicate (min (nat k) (length ts)) True @ replicate (length ts - nat k) False"
  using assms
proof (induction ts arbitrary: s k l)
  case (Cons n ts)
  have n: "l \<le> n" "n - l < 2 ^ 63" "(n - l) div second = 0" "busy n ts"
    using Cons.prems(3) by (auto simp: second_def)
  have k: "0 \<le> k" "min k burst = k" using range [OF Cons.prems(1,2)] by auto
  note r = refill [OF Cons.prems(1,2) n(1,2), unfolded n(3), simplified, unfolded k(2)]
  have "calls allow ts (snd (allow n s)) = replicate (min (nat (max 0 (k - 1))) (length ts)) True @
      replicate (length ts - nat (max 0 (k - 1))) False"
    by (rule Cons.IH [OF ok_refill [OF Cons.prems(1,2) n(1,2)] conjunct2 [OF r] n(4)])
  moreover have "nat (max 0 (k - 1)) = nat k - 1" by simp
  moreover have "fst (allow n s) = (0 < nat k)" using r k burst by simp
  ultimately show ?case by (cases "nat k") simp_all
qed simp

lemma busy_fresh:
  assumes "ok s" "level s = None" "busy t0 ts"
  shows "calls allow (t0 # ts) s =
    replicate (min (nat burst) (Suc (length ts))) True @ replicate (Suc (length ts) - nat burst) False"
proof -
  note f = fresh [OF assms(1,2), of t0]
  have "calls allow ts (snd (allow t0 s)) =
      replicate (min (nat (burst - 1)) (length ts)) True @ replicate (length ts - nat (burst - 1)) False"
    by (rule busy_drains [OF ok_fresh [OF assms(1,2)] conjunct2 [OF f] assms(3)])
  moreover obtain b where "nat burst = Suc b" using burst by (cases "nat burst") auto
  moreover from this have "nat (burst - 1) = b" by simp
  ultimately show ?thesis using f by simp
qed

end

section \<open>The address limiter is a token bucket\<close>

definition ip_level :: "string \<Rightarrow> IPRateLimiter \<Rightarrow> (int \<times> gotime) option" where
  "ip_level ip rl = map_option (\<lambda>b. (ib_tokens b, ib_lastUpdate b)) (gget (ip_buckets rl) ip)"

definition sane_limits :: "int \<Rightarrow> int \<Rightarrow> bool" where
  "sane_limits rate burst \<longleftrightarrow> 0 \<le> rate \<and> rate \<le> 2 ^ 29 \<and> 0 < burst \<and> burst \<le> 2 ^ 30"

definition ip_ok :: "string \<Rightarrow> int \<Rightarrow> int \<Rightarrow> IPRateLimiter \<Rightarrow> bool" where
  "ip_ok ip rate burst rl \<longleftrightarrow>
     ip_rateLimit rl = rate \<and> ip_burstSize rl = burst \<and>
     (case ip_level ip rl of None \<Rightarrow> True | Some (k, _) \<Rightarrow> 0 \<le> k \<and> k \<le> burst)"

text \<open>The refill does not overflow: a duration has at most \<open>2^63\<close> nanoseconds.\<close>

lemma refill_exact:
  assumes "sane_limits rate burst" "0 \<le> k" "k \<le> burst" "l \<le> now" "now - l < 2 ^ 63"
  shows "wrap64 (k + wrap64 (trunc_seconds (time_sub now l) * rate)) = k + (now - l) div second * rate"
proof -
  define e where "e = (now - l) div second"
  have d: "trunc_seconds (time_sub now l) = e"
    using assms(4,5) by (simp add: time_sub_exact trunc_seconds_def e_def)
  have "e \<le> 2 ^ 63 div second" unfolding e_def using assms(5) second_pos by (intro zdiv_mono1) auto
  then have e: "0 \<le> e" "e \<le> 9223372037" using assms(4) second_pos by (auto simp: e_def second_def pos_imp_zdiv_nonneg_iff)
  have "e * rate \<le> 9223372037 * 2 ^ 29" using e assms(1) by (intro mult_mono) (auto simp: sane_limits_def)
  moreover have "0 \<le> e * rate" using e assms(1) by (simp add: sane_limits_def)
  ultimately show ?thesis using assms(1-3) by (simp add: d wrap64_id sane_limits_def e_def [symmetric])
qed

lemma ip_Allow_level:
  assumes "ip_level ip rl = Some (k, l)" "sane_limits rate burst" "ip_ok ip rate burst rl" "l \<le> now" "now - l < 2 ^ 63"
  shows "fst (ip_Allow ip now rl) = (0 < min (k + (now - l) div second * rate) burst)"
    and "ip_level ip (snd (ip_Allow ip now rl)) = Some (max 0 (min (k + (now - l) div second * rate) burst - 1), now)"
    and "ip_ok ip rate burst (snd (ip_Allow ip now rl))"
proof -
  obtain b where b: "gget (ip_buckets rl) ip = Some b" "k = ib_tokens b" "l = ib_lastUpdate b"
    using assms(1) by (auto simp: ip_level_def)
  have k: "0 \<le> k" "k \<le> burst" "ip_rateLimit rl = rate" "ip_burstSize rl = burst"
    using assms(1,3) by (auto simp: ip_ok_def)
  have "0 \<le> (now - l) div second * rate"
    using assms(2,4) second_pos by (simp add: sane_limits_def pos_imp_zdiv_nonneg_iff)
  then show "fst (ip_Allow ip now rl) = (0 < min (k + (now - l) div second * rate) burst)"
    "ip_level ip (snd (ip_Allow ip now rl)) = Some (max 0 (min (k + (now - l) div second * rate) burst - 1), now)"
    "ip_ok ip rate burst (snd (ip_Allow ip now rl))"
    using k assms(2) refill_exact [OF assms(2) k(1,2) assms(4,5)]
    by (auto simp: ip_Allow_def b(1) b(2,3) [symmetric] ip_level_def ip_ok_def sane_limits_def Let_def)
qed

lemma ip_Allow_fresh:
  assumes "ip_level ip rl = None" "sane_limits rate burst" "ip_ok ip rate burst rl"
  shows "fst (ip_Allow ip now rl)" "ip_level ip (snd (ip_Allow ip now rl)) = Some (burst - 1, now)"
    "ip_ok ip rate burst (snd (ip_Allow ip now rl))"
  using assms by (auto simp: ip_Allow_def ip_level_def ip_ok_def sane_limits_def wrap64_id)

text \<open>Limits that are not sane satisfy the contract vacuously, so that it holds for every configuration.\<close>

interpretation ib: token_bucket "ip_Allow ip" "ip_level ip"
  "\<lambda>rl. sane_limits rate burst \<and> ip_ok ip rate burst rl" "max 0 rate" "max 1 burst" for ip rate burst
proof (unfold_locales, goal_cases)
  case (3 rl k l)
  then show ?case by (auto simp: ip_ok_def)
next
  case (4 rl now)
  then show ?case using ip_Allow_fresh by blast
next
  case (5 rl k l now)
  then show ?case by (simp add: ip_Allow_level(3))
next
  case (6 rl now)
  then show ?case using ip_Allow_fresh [of ip rl rate burst now] by (auto simp: sane_limits_def max_def)
next
  case (7 rl k l now)
  then show ?case using ip_Allow_level [of ip rl k l rate burst now] by (auto simp: sane_limits_def max_def)
qed auto

section \<open>The tier limiter is a token bucket\<close>

definition tier_step ::
  "(string \<Rightarrow> string) option \<Rightarrow> string \<Rightarrow> gotime \<Rightarrow> TieredRateLimiter \<Rightarrow> bool \<times> TieredRateLimiter" where
  "tier_step f token now trl = (case trl_Allow f token now trl of Ret r \<Rightarrow> r | _ \<Rightarrow> (False, trl))"

definition tier_level :: "string \<Rightarrow> TieredRateLimiter \<Rightarrow> (int \<times> gotime) option" where
  "tier_level token trl = map_option (\<lambda>b. (tb_tokens b, tb_lastUpdate b)) (gget (trl_buckets trl) token)"

definition tier_ok :: "(string \<Rightarrow> string) option \<Rightarrow> string \<Rightarrow> TierConfig \<Rightarrow> TieredRateLimiter \<Rightarrow> bool" where
  "tier_ok f token cfg trl \<longleftrightarrow>
     GetTierOrDefault (trl_configs trl) (trl_getTier f token) = Some cfg \<and>
     (case gget (trl_buckets trl) token of
        None \<Rightarrow> True
      | Some b \<Rightarrow> tb_tier b = trl_getTier f token \<and> 0 \<le> tb_tokens b \<and> tb_tokens b \<le> BurstSize (t_RPC cfg))"

definition sane_tier :: "TierConfig \<Rightarrow> bool" where
  "sane_tier cfg = sane_limits (RequestsPerSecond (t_RPC cfg)) (BurstSize (t_RPC cfg))"

lemma tier_step_level:
  assumes "tier_level token trl = Some (k, l)" "sane_tier cfg" "tier_ok f token cfg trl" "l \<le> now" "now - l < 2 ^ 63"
  shows "fst (tier_step f token now trl) =
      (0 < min (k + (now - l) div second * RequestsPerSecond (t_RPC cfg)) (BurstSize (t_RPC cfg)))"
    and "tier_level token (snd (tier_step f token now trl)) =
      Some (max 0 (min (k + (now - l) div second * RequestsPerSecond (t_RPC cfg)) (BurstSize (t_RPC cfg)) - 1), now)"
    and "tier_ok f token cfg (snd (tier_step f token now trl))"
proof -
  let ?rate = "RequestsPerSecond (t_RPC cfg)" and ?burst = "BurstSize (t_RPC cfg)"
  obtain b where b: "gget (trl_buckets trl) token = Some b" "k = tb_tokens b" "l = tb_lastUpdate b"
    using assms(1) by (auto simp: tier_level_def)
  have k: "0 \<le> k" "k \<le> ?burst" "tb_tier b = trl_getTier f token" "GetTierOrDefault (trl_configs trl) (trl_getTier f token) = Some cfg"
    using assms(3) b by (auto simp: tier_ok_def)
  have s: "sane_limits ?rate ?burst" using assms(2) by (simp add: sane_tier_def)
  have "0 \<le> (now - l) div second * ?rate"
    using s assms(4) second_pos by (simp add: sane_limits_def pos_imp_zdiv_nonneg_iff)
  then show "fst (tier_step f token now trl) = (0 < min (k + (now - l) div second * ?rate) ?burst)"
    "tier_level token (snd (tier_step f token now trl)) = Some (max 0 (min (k + (now - l) div second * ?rate) ?burst - 1), now)"
    "tier_ok f token cfg (snd (tier_step f token now trl))"
    using k s refill_exact [OF s k(1,2) assms(4,5)]
    by (auto simp: tier_step_def trl_Allow_def b(1) b(2,3) [symmetric] tier_level_def tier_ok_def sane_limits_def Let_def)
qed

lemma tier_step_fresh:
  assumes "tier_level token trl = None" "sane_tier cfg" "tier_ok f token cfg trl"
  shows "fst (tier_step f token now trl)"
    "tier_level token (snd (tier_step f token now trl)) = Some (BurstSize (t_RPC cfg) - 1, now)"
    "tier_ok f token cfg (snd (tier_step f token now trl))"
  using assms
  by (auto simp: tier_step_def trl_Allow_def tier_level_def tier_ok_def sane_tier_def sane_limits_def wrap64_id Let_def)

interpretation tb: token_bucket "tier_step f token" "tier_level token" "\<lambda>trl. sane_tier cfg \<and> tier_ok f token cfg trl"
  "max 0 (RequestsPerSecond (t_RPC cfg))" "max 1 (BurstSize (t_RPC cfg))" for f token cfg
proof (unfold_locales, goal_cases)
  case (3 rl k l)
  then show ?case by (auto simp: tier_ok_def tier_level_def)
next
  case (4 rl now)
  then show ?case using tier_step_fresh by blast
next
  case (5 rl k l now)
  then show ?case by (simp add: tier_step_level(3))
next
  case (6 rl now)
  then show ?case using tier_step_fresh [of token rl cfg f now] by (auto simp: sane_tier_def sane_limits_def max_def)
next
  case (7 rl k l now)
  then show ?case using tier_step_level [of token rl k l cfg f now] by (auto simp: sane_tier_def sane_limits_def max_def)
qed auto

section \<open>Properties\<close>

lemma ip_New_ok: "sane_limits (ipc_RateLimit cfg) (ipc_BurstSize cfg) \<Longrightarrow>
    ip_ok ip (ipc_RateLimit cfg) (ipc_BurstSize cfg) (NewIPRateLimiter cfg) \<and> ip_level ip (NewIPRateLimiter cfg) = None"
  by (simp add: ip_ok_def ip_level_def NewIPRateLimiter_def)

lemma sane_max: "sane_limits rate burst \<Longrightarrow> max 0 rate = rate \<and> max 1 burst = burst"
  by (auto simp: sane_limits_def)

text \<open>(C32) No address gets more through the limiter than its burst plus the sustained rate for every full second since its
  first request.\<close>

theorem address_admits_at_most:
  assumes "sane_limits (ipc_RateLimit cfg) (ipc_BurstSize cfg)" and "sorted (t0 # ts)"
    and "\<forall>t \<in> set ts. t \<le> u" and "t0 \<le> u" and "u - t0 < 2 ^ 63"
  shows "admitted_calls (ip_Allow ip) (t0 # ts) (NewIPRateLimiter cfg) \<le>
         ipc_BurstSize cfg + ipc_RateLimit cfg * ((u - t0) div second)"
  using ib.admitted_fresh [OF _ _ assms(2-5), where ip = ip and rate = "ipc_RateLimit cfg" and burst = "ipc_BurstSize cfg"
      and s = "NewIPRateLimiter cfg"] assms(1) ip_New_ok [OF assms(1)] sane_max [OF assms(1)] by simp

definition small_limits :: IPRateLimiterConfig where
  "small_limits = \<lparr>ipc_RateLimit = 10, ipc_BurstSize = 2, ipc_CleanupInterval = 60 * second, ipc_BucketExpiry = 600 * second\<rparr>"

lemma address_admits_at_most_witness:
  "admitted_calls (ip_Allow ''10.0.0.1'') [0, 0, 0, 0, 2 * second] (NewIPRateLimiter small_limits) \<le> 2 + 10 * 2"
  using address_admits_at_most [of small_limits 0 "[0, 0, 0, 2 * second]" "2 * second" "''10.0.0.1''"]
  by (simp add: small_limits_def sane_limits_def second_def)

text \<open>A client that never pauses for a full second is never refilled: a refused call moves the time of the last update
  too, so the fraction of a second that has passed is lost. Of the calls of such a client exactly the first
  \<open>BurstSize\<close> succeed and none ever after, also when it calls twice a second under a sustained rate of thirty.\<close>

theorem steady_client_starves:
  assumes "sane_limits (ipc_RateLimit cfg) (ipc_BurstSize cfg)" and "busy t0 ts"
  shows "calls (ip_Allow ip) (t0 # ts) (NewIPRateLimiter cfg) =
         replicate (min (nat (ipc_BurstSize cfg)) (Suc (length ts))) True @
         replicate (Suc (length ts) - nat (ipc_BurstSize cfg)) False"
  using ib.busy_fresh [OF _ _ assms(2), where ip = ip and rate = "ipc_RateLimit cfg" and burst = "ipc_BurstSize cfg"
      and s = "NewIPRateLimiter cfg"] assms(1) ip_New_ok [OF assms(1)] sane_max [OF assms(1)] by simp

lemma steady_client_starves_witness:
  "calls (ip_Allow ''10.0.0.1'') [0, 500000000, 1000000000, 1500000000, 2000000000] (NewIPRateLimiter small_limits) =
   [True, True, False, False, False]"
  using steady_client_starves [of small_limits 0 "[500000000, 1000000000, 1500000000, 2000000000]" "''10.0.0.1''"]
  by (simp add: small_limits_def sane_limits_def second_def numeral_eq_Suc)

text \<open>The same holds for the routing tokens of a tier: a user gets at most the burst of the tier plus its rate for every
  full second, and a user of any tier whose requests are never a second apart gets exactly the burst, once.\<close>

theorem tier_bounds_and_starvation:
  assumes "GetTierOrDefault cfgs (trl_getTier f token) = Some cfg" and "sane_tier cfg"
    and "sorted (t0 # ts)" and "\<forall>t \<in> set ts. t \<le> u" and "t0 \<le> u" and "u - t0 < 2 ^ 63"
  shows "admitted_calls (tier_step f token) (t0 # ts) (NewTieredRateLimiter (Some cfgs)) \<le>
           BurstSize (t_RPC cfg) + RequestsPerSecond (t_RPC cfg) * ((u - t0) div second) \<and>
         (busy t0 ts \<longrightarrow> calls (tier_step f token) (t0 # ts) (NewTieredRateLimiter (Some cfgs)) =
            replicate (min (nat (BurstSize (t_RPC cfg))) (Suc (length ts))) True @
            replicate (Suc (length ts) - nat (BurstSize (t_RPC cfg))) False)"
proof -
  let ?s = "NewTieredRateLimiter (Some cfgs)"
  have ok: "sane_tier cfg \<and> tier_ok f token cfg ?s" "tier_level token ?s = None"
    using assms(1,2) by (simp_all add: tier_ok_def tier_level_def NewTieredRateLimiter_def)
  have "max 0 (RequestsPerSecond (t_RPC cfg)) = RequestsPerSecond (t_RPC cfg) \<and> max 1 (BurstSize (t_RPC cfg)) = BurstSize (t_RPC cfg)"
    using assms(2) sane_max by (simp add: sane_tier_def)
  then show ?thesis using tb.admitted_fresh [OF ok assms(3-6)] tb.busy_fresh [OF ok, of t0 ts] by simp
qed

lemma tier_bounds_and_starvation_witness:
  "calls (tier_step None ''tok'') (0 # map (\<lambda>i. int i * 500000000) [1 ..< 31]) (NewTieredRateLimiter (Some tier_DefaultConfig)) =
   replicate 20 True @ replicate 11 False"
proof -
  have f: "GetTierOrDefault tier_DefaultConfig (trl_getTier None ''tok'') = Some (hd tier_DefaultConfig)" "sane_tier (hd tier_DefaultConfig)"
    "BurstSize (t_RPC (hd tier_DefaultConfig)) = 20"
    by (simp_all add: GetTierOrDefault_def GetTier_def tier_DefaultConfig_def trl_getTier_def sane_tier_def sane_limits_def)
  have ts: "sorted (0 # map (\<lambda>i. int i * 500000000) [1 ..< 31])" "busy 0 (map (\<lambda>i. int i * 500000000) [1 ..< 31])"
    "\<forall>t \<in> set (map (\<lambda>i. int i * 500000000) [1 ..< 31]). t \<le> 30 * second"
    by (simp_all add: upt_rec second_def)
  show ?thesis
    using tier_bounds_and_starvation [OF f(1,2) ts(1,3)] ts(2) by (simp add: f(3) second_def)
qed

lemma gget_delete_stale:
  assumes "\<And>k m k'. k' \<noteq> k \<Longrightarrow> stale k (gdel k' m) = stale k m"
  shows "gget (delete_stale stale ks m) k = (if k \<in> set ks \<and> stale k m then None else gget m k)"
proof (induction ks arbitrary: m)
  case (Cons k' ks)
  show ?case using Cons.IH [of "if stale k' m then gdel k' m else m"] assms [of k' k m]
    by (cases "k' = k") auto
qed simp

lemma cleanupStale_bucket:
  "gget (ip_buckets (cleanupStale now rl)) ip =
     (if ip_stale (now - ip_bucketExpiry rl) ip (ip_buckets rl) then None else gget (ip_buckets rl) ip)"
proof -
  have "ip_stale th k (gdel k' m) = ip_stale th k m" if "k' \<noteq> k" for th k k' and m :: "(string, ipBucket) gomap"
    using that by (simp add: ip_stale_def)
  moreover have "ip \<in> fst ` {x \<in> set (ip_buckets rl). case x of (ip, b) \<Rightarrow> ib_lastUpdate b < th}"
    if "ip_stale th ip (ip_buckets rl)" for th
    using that by (force simp: ip_stale_def dest: gget_Some_mem split: option.splits)
  ultimately show ?thesis by (auto simp: cleanupStale_def Let_def gget_delete_stale)
qed

text \<open>Forgetting stale buckets never changes a decision when the expiry covers the time in which an empty bucket fills up:
  the next call of every address is decided the same, and leaves the same bucket.\<close>

theorem bucket_cleanup_transparent:
  assumes "sane_limits (ip_rateLimit rl) (ip_burstSize rl)" and "ip_ok ip (ip_rateLimit rl) (ip_burstSize rl) rl"
    and "ip_burstSize rl \<le> ip_rateLimit rl * (ip_bucketExpiry rl div second)" and "now \<le> now'"
    and "\<And>b. gget (ip_buckets rl) ip = Some b \<Longrightarrow> ib_lastUpdate b \<le> now' \<and> now' - ib_lastUpdate b < 2 ^ 63"
  shows "fst (ip_Allow ip now' (cleanupStale now rl)) = fst (ip_Allow ip now' rl) \<and>
         gget (ip_buckets (snd (ip_Allow ip now' (cleanupStale now rl)))) ip = gget (ip_buckets (snd (ip_Allow ip now' rl))) ip"
proof (cases "ip_stale (now - ip_bucketExpiry rl) ip (ip_buckets rl)")
  case False
  have "gget (ip_buckets (cleanupStale now rl)) ip = gget (ip_buckets rl) ip"
    "ip_rateLimit (cleanupStale now rl) = ip_rateLimit rl" "ip_burstSize (cleanupStale now rl) = ip_burstSize rl"
    using False by (simp add: cleanupStale_bucket) (simp_all add: cleanupStale_def Let_def)
  then show ?thesis by (auto simp: ip_Allow_def Let_def split: option.split)
next
  case True
  then obtain b where b: "gget (ip_buckets rl) ip = Some b" "ib_lastUpdate b < now - ip_bucketExpiry rl"
    by (auto simp: ip_stale_def split: option.splits)
  let ?e = "(now' - ib_lastUpdate b) div second" and ?r = "ip_rateLimit rl" and ?u = "ip_burstSize rl"
  have k: "0 \<le> ib_tokens b" "ib_tokens b \<le> ?u" using assms(2) b(1) by (auto simp: ip_ok_def ip_level_def)
  have "ip_bucketExpiry rl div second \<le> ?e" using b(2) assms(4) second_pos by (intro zdiv_mono1) auto
  then have "?r * (ip_bucketExpiry rl div second) \<le> ?r * ?e"
    using assms(1) by (intro mult_left_mono) (auto simp: sane_limits_def)
  then have full: "min (ib_tokens b + ?e * ?r) ?u = ?u" using assms(3) k by (simp add: mult.commute min_def)
  have "wrap64 (ib_tokens b + wrap64 (trunc_seconds (time_sub now' (ib_lastUpdate b)) * ?r)) = ib_tokens b + ?e * ?r"
    by (rule refill_exact [OF assms(1) k]) (use assms(5) [OF b(1)] in auto)
  then have "ip_Allow ip now' rl = (True, rl\<lparr>ip_buckets := gput ip \<lparr>ib_tokens = ?u - 1, ib_lastUpdate = now'\<rparr> (ip_buckets rl)\<rparr>)"
    using assms(1) full min.cobounded1 [of "ib_tokens b + ?e * ?r" ?u] by (auto simp: ip_Allow_def b(1) Let_def sane_limits_def)
  moreover have "gget (ip_buckets (cleanupStale now rl)) ip = None" "ip_burstSize (cleanupStale now rl) = ?u"
    using True by (simp add: cleanupStale_bucket) (simp add: cleanupStale_def Let_def)
  ultimately show ?thesis using assms(1) by (simp add: ip_Allow_def sane_limits_def wrap64_id)
qed

lemma bucket_cleanup_transparent_witness:
  "fst (ip_Allow ''a'' (700 * second) (cleanupStale (700 * second) (snd (ip_Allow ''a'' 0 (NewIPRateLimiter small_limits))))) =
   fst (ip_Allow ''a'' (700 * second) (snd (ip_Allow ''a'' 0 (NewIPRateLimiter small_limits)))) \<and>
   ip_buckets (cleanupStale (700 * second) (snd (ip_Allow ''a'' 0 (NewIPRateLimiter small_limits)))) = []"
proof -
  let ?rl = "snd (ip_Allow ''a'' 0 (NewIPRateLimiter small_limits))"
  have rl: "?rl = (NewIPRateLimiter small_limits)\<lparr>ip_buckets := [(''a'', \<lparr>ib_tokens = 1, ib_lastUpdate = 0\<rparr>)]\<rparr>"
    by (simp add: ip_Allow_def NewIPRateLimiter_def small_limits_def wrap64_id)
  have "fst (ip_Allow ''a'' (700 * second) (cleanupStale (700 * second) ?rl)) = fst (ip_Allow ''a'' (700 * second) ?rl) \<and>
     gget (ip_buckets (snd (ip_Allow ''a'' (700 * second) (cleanupStale (700 * second) ?rl)))) ''a'' =
     gget (ip_buckets (snd (ip_Allow ''a'' (700 * second) ?rl))) ''a''"
    by (rule bucket_cleanup_transparent, simp_all only: rl)
       (auto simp: NewIPRateLimiter_def small_limits_def sane_limits_def ip_ok_def ip_level_def second_def)
  moreover have "ip_buckets (cleanupStale (700 * second) ?rl) = []"
    unfolding rl by (simp add: cleanupStale_def ip_stale_def NewIPRateLimiter_def small_limits_def second_def)
  ultimately show ?thesis by blast
qed

end
