(* ===== verification/Hub_Auth.thy ===== *)
theory Hub_Auth
  imports Hub_Store Hub_Limits
begin

text \<open>
  Authentication at the hub: the token manager of \<^verbatim>\<open>pkg/hub/auth/jwt.go\<close>, the interceptors of
  \<^verbatim>\<open>pkg/hub/server/server.go\<close> and the registration of nodes by their certificate (\<open>ensureNodeRegistered\<close>).
  The JWT library and the X.509 and PEM routines are parameters. An interceptor answers with the context it
  passes to the handler or with its refusal.

  The properties say which calls get past the interceptors: what a node's certificate must satisfy for a
  unary call, that streams skip most of these checks, and that the administration service takes the token of
  every user.
\<close>

section \<open>Tokens\<close>

record Claims =
  cl_Issuer :: string
  cl_Subject :: string
  cl_IssuedAt :: gotime
  cl_ExpiresAt :: gotime
  cl_NotBefore :: gotime
  cl_UserID :: string
  cl_NodeID :: string
  cl_DeviceID :: string
  cl_Role :: string
  cl_TierID :: string

text \<open>The JWT library: parsing with a key (the signature method, the signature and the validity period are checked by it) and
  signing with one; \<open>jw_public\<close> derives the public key.\<close>

record jwt_lib =
  jw_parse :: "gotime \<Rightarrow> string \<Rightarrow> string \<Rightarrow> Claims option"
  jw_sign :: "string \<Rightarrow> Claims \<Rightarrow> string option"
  jw_public :: "string \<Rightarrow> string"

record TokenManager =
  tm_privateKey :: "string option"
  tm_publicKey :: "string option"
  tm_legacyPublicKey :: "string option"
  tm_issuer :: string
  tm_refreshAttempts :: "(string, gotime list) gomap"
  tm_maxRefreshPerMin :: int
  tm_lastCleanup :: gotime

datatype token_error = PrivateKeyRequired | PublicKeyRequired | InvalidToken | SignFailed | RefreshLimited | NoKey | BadKey

text \<open>The decoding of the key files is a parameter; \<open>None\<close> is a text that does not decode.\<close>

definition NewTokenManager ::
  "jwt_lib \<Rightarrow> (string \<Rightarrow> string option) \<Rightarrow> (string \<Rightarrow> string option) \<Rightarrow> string \<Rightarrow> string \<Rightarrow> string \<Rightarrow> token_error + TokenManager" where
  "NewTokenManager jw decPriv decPub privPEM pubPEM issuer =
     (let tm0 = \<lparr>tm_privateKey = None, tm_publicKey = None, tm_legacyPublicKey = None, tm_issuer = issuer,
                 tm_refreshAttempts = [], tm_maxRefreshPerMin = 10, tm_lastCleanup = 0\<rparr>
      in case (if privPEM = [] then Inr tm0
               else case decPriv privPEM of
                      None \<Rightarrow> Inl BadKey
                    | Some k \<Rightarrow> Inr (tm0\<lparr>tm_privateKey := Some k, tm_publicKey := Some (jw_public jw k)\<rparr>)) of
           Inl err \<Rightarrow> Inl err
         | Inr tm1 \<Rightarrow>
             (case (if pubPEM = [] then Inr tm1
                    else case decPub pubPEM of None \<Rightarrow> Inl BadKey | Some k \<Rightarrow> Inr (tm1\<lparr>tm_publicKey := Some k\<rparr>)) of
                Inl err \<Rightarrow> Inl err
              | Inr tm2 \<Rightarrow> (if tm_privateKey tm2 = None \<and> tm_publicKey tm2 = None then Inl NoKey else Inr tm2)))"

definition NewTokenManagerWithRotation ::
  "jwt_lib \<Rightarrow> (string \<Rightarrow> string option) \<Rightarrow> (string \<Rightarrow> string option) \<Rightarrow> string \<Rightarrow> string \<Rightarrow> string \<Rightarrow> string \<Rightarrow>
   token_error + TokenManager" where
  "NewTokenManagerWithRotation jw decPriv decPub privPEM pubPEM legacyPEM issuer =
     (case NewTokenManager jw decPriv decPub privPEM pubPEM issuer of
        Inl err \<Rightarrow> Inl err
      | Inr tm \<Rightarrow>
          (if legacyPEM = [] then Inr tm
           else case decPriv legacyPEM of
                  None \<Rightarrow> Inl BadKey
                | Some k \<Rightarrow> Inr (tm\<lparr>tm_legacyPublicKey := Some (jw_public jw k)\<rparr>)))"

definition sign_claims :: "jwt_lib \<Rightarrow> TokenManager \<Rightarrow> Claims \<Rightarrow> token_error + string" where
  "sign_claims jw tm c =
     (case tm_privateKey tm of
        None \<Rightarrow> Inl PrivateKeyRequired
      | Some k \<Rightarrow> (case jw_sign jw k c of None \<Rightarrow> Inl SignFailed | Some t \<Rightarrow> Inr t))"

definition GenerateTokenWithAllClaims ::
  "jwt_lib \<Rightarrow> gotime \<Rightarrow> string \<Rightarrow> string \<Rightarrow> string \<Rightarrow> string \<Rightarrow> string \<Rightarrow> duration \<Rightarrow> TokenManager \<Rightarrow> token_error + string" where
  "GenerateTokenWithAllClaims jw now userID nodeID deviceID role tierID dur tm =
     sign_claims jw tm
       \<lparr>cl_Issuer = tm_issuer tm, cl_Subject = userID, cl_IssuedAt = now, cl_ExpiresAt = now + dur, cl_NotBefore = now,
        cl_UserID = userID, cl_NodeID = nodeID, cl_DeviceID = deviceID, cl_Role = role, cl_TierID = tierID\<rparr>"

definition GenerateToken ::
  "jwt_lib \<Rightarrow> gotime \<Rightarrow> string \<Rightarrow> string \<Rightarrow> string \<Rightarrow> duration \<Rightarrow> TokenManager \<Rightarrow> token_error + string" where
  "GenerateToken jw now userID nodeID role dur tm =
     sign_claims jw tm
       \<lparr>cl_Issuer = tm_issuer tm, cl_Subject = userID, cl_IssuedAt = now, cl_ExpiresAt = now + dur, cl_NotBefore = now,
        cl_UserID = userID, cl_NodeID = nodeID, cl_DeviceID = [], cl_Role = role, cl_TierID = []\<rparr>"

definition GenerateMobileToken :: "jwt_lib \<Rightarrow> gotime \<Rightarrow> string \<Rightarrow> string \<Rightarrow> TokenManager \<Rightarrow> token_error + string" where
  "GenerateMobileToken jw now userID deviceID tm =
     sign_claims jw tm
       \<lparr>cl_Issuer = tm_issuer tm, cl_Subject = userID, cl_IssuedAt = now, cl_ExpiresAt = now + 24 * 3600 * second, cl_NotBefore = now,
        cl_UserID = userID, cl_NodeID = [], cl_DeviceID = deviceID, cl_Role = ''mobile'', cl_TierID = []\<rparr>"

definition GenerateNodeToken :: "jwt_lib \<Rightarrow> gotime \<Rightarrow> string \<Rightarrow> string \<Rightarrow> TokenManager \<Rightarrow> token_error + string" where
  "GenerateNodeToken jw now nodeID userID tm =
     sign_claims jw tm
       \<lparr>cl_Issuer = tm_issuer tm, cl_Subject = nodeID, cl_IssuedAt = now, cl_ExpiresAt = now + 7 * 24 * 3600 * second,
        cl_NotBefore = now, cl_UserID = userID, cl_NodeID = nodeID, cl_DeviceID = [], cl_Role = ''node'', cl_TierID = []\<rparr>"

definition GenerateAdminToken :: "jwt_lib \<Rightarrow> gotime \<Rightarrow> string \<Rightarrow> TokenManager \<Rightarrow> token_error + string" where
  "GenerateAdminToken jw now adminID tm =
     sign_claims jw tm
       \<lparr>cl_Issuer = tm_issuer tm, cl_Subject = adminID, cl_IssuedAt = now, cl_ExpiresAt = now + 3600 * second, cl_NotBefore = now,
        cl_UserID = adminID, cl_NodeID = [], cl_DeviceID = [], cl_Role = ''admin'', cl_TierID = []\<rparr>"

definition ValidateToken :: "jwt_lib \<Rightarrow> gotime \<Rightarrow> string \<Rightarrow> TokenManager \<Rightarrow> token_error + Claims" where
  "ValidateToken jw now token tm =
     (case tm_publicKey tm of
        None \<Rightarrow> Inl PublicKeyRequired
      | Some k \<Rightarrow>
          (case jw_parse jw now k token of
             Some c \<Rightarrow> Inr c
           | None \<Rightarrow>
               (case tm_legacyPublicKey tm of
                  None \<Rightarrow> Inl InvalidToken
                | Some lk \<Rightarrow> (case jw_parse jw now lk token of None \<Rightarrow> Inl InvalidToken | Some c \<Rightarrow> Inr c))))"

text \<open>The attempts of the last minute; every five minutes the users without any are dropped.\<close>

definition recent_attempts :: "gotime \<Rightarrow> gotime list \<Rightarrow> gotime list" where
  "recent_attempts cutoff ts = filter (\<lambda>t. cutoff < t) ts"

definition refresh_sweep :: "gotime \<Rightarrow> TokenManager \<Rightarrow> TokenManager" where
  "refresh_sweep now tm =
     (if time_sub now (tm_lastCleanup tm) > 300 * second
      then tm\<lparr>tm_refreshAttempts := gkeep (\<lambda>_ ts. recent_attempts (now - 60 * second) ts \<noteq> []) (tm_refreshAttempts tm),
              tm_lastCleanup := now\<rparr>
      else tm)"

definition attempts_of :: "TokenManager \<Rightarrow> string \<Rightarrow> gotime list" where
  "attempts_of tm userID = (case gget (tm_refreshAttempts tm) userID of None \<Rightarrow> [] | Some ts \<Rightarrow> ts)"

definition checkRefreshRateLimit :: "gotime \<Rightarrow> string \<Rightarrow> TokenManager \<Rightarrow> bool \<times> TokenManager" where
  "checkRefreshRateLimit now userID tm =
     (let tm1 = refresh_sweep now tm;
          recent = recent_attempts (now - 60 * second) (attempts_of tm1 userID)
      in if int (length recent) \<ge> tm_maxRefreshPerMin tm1
         then (False, tm1\<lparr>tm_refreshAttempts := gput userID recent (tm_refreshAttempts tm1)\<rparr>)
         else (True, tm1\<lparr>tm_refreshAttempts := gput userID (recent @ [now]) (tm_refreshAttempts tm1)\<rparr>))"

definition role_duration :: "string \<Rightarrow> duration" where
  "role_duration role =
     (if role = ''mobile'' then 24 * 3600 * second
      else if role = ''node'' then 7 * 24 * 3600 * second
      else 3600 * second)"

definition RefreshToken :: "jwt_lib \<Rightarrow> gotime \<Rightarrow> string \<Rightarrow> TokenManager \<Rightarrow> (token_error + string) \<times> TokenManager" where
  "RefreshToken jw now token tm =
     (case ValidateToken jw now token tm of
        Inl _ \<Rightarrow> (Inl InvalidToken, tm)
      | Inr c \<Rightarrow>
          (if time_sub (cl_ExpiresAt c) now > 3600 * second then (Inr token, tm)
           else
             (let userKey = (if cl_UserID c = [] then cl_NodeID c else cl_UserID c);
                  (ok, tm1) = (if userKey = [] then (True, tm) else checkRefreshRateLimit now userKey tm)
              in if \<not> ok then (Inl RefreshLimited, tm1)
                 else (GenerateTokenWithAllClaims jw now (cl_UserID c) (cl_NodeID c) (cl_DeviceID c) (cl_Role c) (cl_TierID c)
                         (role_duration (cl_Role c)) tm1, tm1))))"

section \<open>Certificates\<close>

record Certificate =
  ct_Raw :: string
  ct_CommonName :: string
  ct_NotBefore :: gotime
  ct_NotAfter :: gotime
  ct_KeyUsage :: int
  ct_ExtKeyUsage :: "int list"
  ct_Serial :: string

text \<open>The X.509 and PEM routines.\<close>

record x509_lib =
  x_decode :: "string \<Rightarrow> string option"
  x_encode :: "string \<Rightarrow> string"
  x_parse :: "string \<Rightarrow> Certificate option"
  x_signedBy :: "Certificate \<Rightarrow> Certificate \<Rightarrow> bool"

record tls_state =
  ts_PeerCertificates :: "Certificate list"
  ts_VerifiedChains :: "Certificate list list"

datatype auth_error =
  NoPeer | NoTLS | NoClientCert | NotYetValid | Expired | KeyUsageInvalid | NoClientAuth | RevocationCheckFailed | Revoked |
  PinningFailed | CertUpdateFailed | NoTrustedChain | CaNotRecognized | JitSaveFailed |
  NoMetadata | NoAuthorization | NoTokenManager | BadToken | NodeStreamNeedsCert

text \<open>The chains of the connection or, when it has none, those the certificate manager verifies.\<close>

definition client_chains :: "(string \<Rightarrow> Certificate list list) option \<Rightarrow> tls_state \<Rightarrow> Certificate \<Rightarrow> Certificate list list" where
  "client_chains certMgr ts peer =
     (if ts_VerifiedChains ts = [] then (case certMgr of None \<Rightarrow> [] | Some verify \<Rightarrow> verify (ct_Raw peer)) else ts_VerifiedChains ts)"

definition save_pinned :: "'d engine \<Rightarrow> Node \<Rightarrow> 'd \<Rightarrow> (auth_error + Node) \<times> 'd" where
  "save_pinned e node d =
     (case SaveNode e node d of (None, d') \<Rightarrow> (Inr node, d') | (Some _, d') \<Rightarrow> (Inl CertUpdateFailed, d'))"

fun rotate_pin ::
  "x509_lib \<Rightarrow> 'd engine \<Rightarrow> Node \<Rightarrow> string \<Rightarrow> Certificate option \<Rightarrow> Certificate list list \<Rightarrow> 'd \<Rightarrow> (auth_error + Node) \<times> 'd" where
  "rotate_pin x e node peerPEM pinned [] d = (Inl PinningFailed, d)"
| "rotate_pin x e node peerPEM pinned (chain # ccs) d =
     (if length chain < 2 then rotate_pin x e node peerPEM pinned ccs d
      else
        (let root = last chain in
         case GetRoutingTokenByCA e (x_encode x (ct_Raw root)) d of
           Inr token \<Rightarrow>
             (if token \<noteq> [] then
                (if n_RoutingToken node \<noteq> [] \<and> n_RoutingToken node \<noteq> token then rotate_pin x e node peerPEM pinned ccs d
                 else save_pinned e (node\<lparr>n_RoutingToken := token, n_CertPEM := peerPEM\<rparr>) d)
              else
                (case pinned of
                   None \<Rightarrow> rotate_pin x e node peerPEM pinned ccs d
                 | Some old \<Rightarrow> (if x_signedBy x old root then save_pinned e (node\<lparr>n_CertPEM := peerPEM\<rparr>) d
                                else rotate_pin x e node peerPEM pinned ccs d)))
         | Inl _ \<Rightarrow>
             (case pinned of
                None \<Rightarrow> rotate_pin x e node peerPEM pinned ccs d
              | Some old \<Rightarrow> (if x_signedBy x old root then save_pinned e (node\<lparr>n_CertPEM := peerPEM\<rparr>) d
                             else rotate_pin x e node peerPEM pinned ccs d))))"

fun jit_register ::
  "x509_lib \<Rightarrow> 'd engine \<Rightarrow> gotime \<Rightarrow> string \<Rightarrow> string \<Rightarrow> Certificate list list \<Rightarrow> 'd \<Rightarrow> (auth_error + Node) \<times> 'd" where
  "jit_register x e now nodeID peerPEM [] d = (Inl CaNotRecognized, d)"
| "jit_register x e now nodeID peerPEM (chain # ccs) d =
     (if length chain < 2 then jit_register x e now nodeID peerPEM ccs d
      else case GetRoutingTokenByCA e (x_encode x (ct_Raw (last chain))) d of
             Inl _ \<Rightarrow> jit_register x e now nodeID peerPEM ccs d
           | Inr token \<Rightarrow>
               (if token = [] then jit_register x e now nodeID peerPEM ccs d
                else
                  (let node = zero_Node\<lparr>n_ID := nodeID, n_RoutingToken := token, n_CertPEM := peerPEM, n_Status := ''online'',
                         n_LastSeen := now, n_CreatedAt := now, n_UpdatedAt := now\<rparr>
                   in case SaveNode e node d of (None, d') \<Rightarrow> (Inr node, d') | (Some _, d') \<Rightarrow> (Inl JitSaveFailed, d'))))"

definition ensureNodeRegistered ::
  "x509_lib \<Rightarrow> 'd engine \<Rightarrow> (string \<Rightarrow> Certificate list list) option \<Rightarrow> gotime \<Rightarrow> string \<Rightarrow> tls_state \<Rightarrow> 'd \<Rightarrow>
   (auth_error + Node) \<times> 'd" where
  "ensureNodeRegistered x e certMgr now nodeID ts d =
     (let peer = hd (ts_PeerCertificates ts);
          peerPEM = x_encode x (ct_Raw peer);
          ccs = client_chains certMgr ts peer
      in case GetNode e nodeID d of
           Inr node \<Rightarrow>
             (case x_decode x (n_CertPEM node) of
                Some raw \<Rightarrow> (if raw = ct_Raw peer then (Inr node, d) else rotate_pin x e node peerPEM (x_parse x raw) ccs d)
              | None \<Rightarrow> rotate_pin x e node peerPEM None ccs d)
         | Inl _ \<Rightarrow>
             (if ccs = [] then (Inl NoTrustedChain, d) else jit_register x e now nodeID peerPEM ccs d))"

section \<open>Interceptors\<close>

text \<open>What is known of a call: the transport (absent, plain, or TLS), the metadata with its authorization values.\<close>

datatype transport = NoPeerInfo | PlainPeer | TLSPeer tls_state

record call_info =
  ci_method :: string
  ci_transport :: transport
  ci_authorization :: "string list option"

datatype auth_context =
  Public | NodeContext string string | UserContext Claims

definition check_validity :: "gotime \<Rightarrow> Certificate \<Rightarrow> auth_error option" where
  "check_validity now cert =
     (if now < ct_NotBefore cert then Some NotYetValid
      else if ct_NotAfter cert < now then Some Expired
      else if ct_KeyUsage cert \<noteq> 0 \<and> even (ct_KeyUsage cert) then Some KeyUsageInvalid
      else if ct_ExtKeyUsage cert \<noteq> [] \<and> 2 \<notin> set (ct_ExtKeyUsage cert) \<and> 0 \<notin> set (ct_ExtKeyUsage cert) then Some NoClientAuth
      else None)"

definition node_login ::
  "x509_lib \<Rightarrow> 'd engine \<Rightarrow> (string \<Rightarrow> Certificate list list) option \<Rightarrow> gotime \<Rightarrow> tls_state \<Rightarrow> 'd \<Rightarrow>
   (auth_error + auth_context) \<times> 'd" where
  "node_login x e certMgr now ts d =
     (let cert = hd (ts_PeerCertificates ts) in
      case IsRevoked e (ct_Serial cert) d of
        Inl _ \<Rightarrow> (Inl RevocationCheckFailed, d)
      | Inr True \<Rightarrow> (Inl Revoked, d)
      | Inr False \<Rightarrow>
          (case ensureNodeRegistered x e certMgr now (ct_CommonName cert) ts d of
             (Inl err, d') \<Rightarrow> (Inl err, d')
           | (Inr node, d') \<Rightarrow> (Inr (NodeContext (ct_CommonName cert) (n_RoutingToken node)), d')))"

definition strip_bearer :: "string \<Rightarrow> string" where
  "strip_bearer s = (if strings_HasPrefix s ''Bearer '' then drop 7 s else s)"

definition user_login :: "jwt_lib \<Rightarrow> gotime \<Rightarrow> TokenManager option \<Rightarrow> string list option \<Rightarrow> auth_error + auth_context" where
  "user_login jw now tmo authorization =
     (case authorization of
        None \<Rightarrow> Inl NoMetadata
      | Some [] \<Rightarrow> Inl NoAuthorization
      | Some (tok # _) \<Rightarrow>
          (case tmo of
             None \<Rightarrow> Inl NoTokenManager
           | Some tm \<Rightarrow> (case ValidateToken jw now (strip_bearer tok) tm of Inl _ \<Rightarrow> Inl BadToken | Inr c \<Rightarrow> Inr (UserContext c))))"

definition public_method :: "string \<Rightarrow> bool" where
  "public_method m \<longleftrightarrow>
     m = ''/nitella.hub.NodeService/Register'' \<or> strings_HasPrefix m ''/nitella.hub.PairingService/'' \<or>
     strings_HasPrefix m ''/nitella.hub.AuthService/Register''"

definition AuthInterceptor ::
  "x509_lib \<Rightarrow> jwt_lib \<Rightarrow> 'd engine \<Rightarrow> (string \<Rightarrow> Certificate list list) option \<Rightarrow> TokenManager option \<Rightarrow> gotime \<Rightarrow> call_info \<Rightarrow> 'd \<Rightarrow>
   (auth_error + auth_context) \<times> 'd" where
  "AuthInterceptor x jw e certMgr tmo now ci d =
     (if public_method (ci_method ci) then (Inr Public, d)
      else if strings_HasPrefix (ci_method ci) ''/nitella.hub.NodeService/'' then
        (case ci_transport ci of
           NoPeerInfo \<Rightarrow> (Inl NoPeer, d)
         | PlainPeer \<Rightarrow> (Inl NoTLS, d)
         | TLSPeer ts \<Rightarrow>
             (if ts_PeerCertificates ts = [] then (Inl NoClientCert, d)
              else case check_validity now (hd (ts_PeerCertificates ts)) of
                     Some err \<Rightarrow> (Inl err, d)
                   | None \<Rightarrow> node_login x e certMgr now ts d))
      else (user_login jw now tmo (ci_authorization ci), d))"

definition StreamAuthInterceptor ::
  "x509_lib \<Rightarrow> jwt_lib \<Rightarrow> 'd engine \<Rightarrow> (string \<Rightarrow> Certificate list list) option \<Rightarrow> TokenManager option \<Rightarrow> gotime \<Rightarrow> call_info \<Rightarrow> 'd \<Rightarrow>
   ((auth_error + auth_context) \<times> 'd) outcome" where
  "StreamAuthInterceptor x jw e certMgr tmo now ci d =
     (if strings_HasPrefix (ci_method ci) ''/nitella.hub.PairingService/'' then Ret (Inr Public, d)
      else if strings_HasPrefix (ci_method ci) ''/nitella.hub.NodeService/'' then
        (case ci_transport ci of
           TLSPeer ts \<Rightarrow>
             (if ts_PeerCertificates ts = [] then Ret (Inl NodeStreamNeedsCert, d) else Ret (node_login x e certMgr now ts d))
         | _ \<Rightarrow> Ret (Inl NodeStreamNeedsCert, d))
      else
        (case ci_authorization ci of
           None \<Rightarrow> Ret (Inl NoMetadata, d)
         | Some [] \<Rightarrow> Ret (Inl NoAuthorization, d)
         | Some (tok # _) \<Rightarrow>
             (case tmo of
                None \<Rightarrow> Panics
              | Some tm \<Rightarrow>
                  Ret (case ValidateToken jw now (strip_bearer tok) tm of Inl _ \<Rightarrow> Inl BadToken | Inr c \<Rightarrow> Inr (UserContext c), d))))"

definition AdminAuthInterceptor :: "jwt_lib \<Rightarrow> TokenManager option \<Rightarrow> gotime \<Rightarrow> call_info \<Rightarrow> auth_error + auth_context" where
  "AdminAuthInterceptor jw tmo now ci = user_login jw now tmo (ci_authorization ci)"

section \<open>Who is a node\<close>

text \<open>The certificate is the one pinned for the node, or some verified chain ends in a certificate authority that the
  store maps to the node's routing token, or in the one that signed the pinned certificate.\<close>

definition pinned_to :: "x509_lib \<Rightarrow> Node \<Rightarrow> Certificate \<Rightarrow> bool" where
  "pinned_to x node cert \<longleftrightarrow> x_decode x (n_CertPEM node) = Some (ct_Raw cert)"

definition ca_owner :: "x509_lib \<Rightarrow> 'd engine \<Rightarrow> Certificate list \<Rightarrow> 'd \<Rightarrow> string \<Rightarrow> bool" where
  "ca_owner x e chain d token \<longleftrightarrow>
     2 \<le> length chain \<and> token \<noteq> [] \<and> GetRoutingTokenByCA e (x_encode x (ct_Raw (last chain))) d = Inr token"

definition same_signer :: "x509_lib \<Rightarrow> Certificate option \<Rightarrow> Certificate list \<Rightarrow> bool" where
  "same_signer x pinned chain \<longleftrightarrow>
     2 \<le> length chain \<and> (case pinned of None \<Rightarrow> False | Some old \<Rightarrow> x_signedBy x old (last chain))"

lemma same_signer_None [simp]: "same_signer x None chain = False"
  by (simp add: same_signer_def)

definition vouched ::
  "x509_lib \<Rightarrow> 'd engine \<Rightarrow> (string \<Rightarrow> Certificate list list) option \<Rightarrow> tls_state \<Rightarrow> string \<Rightarrow> string \<Rightarrow> 'd \<Rightarrow> bool" where
  "vouched x e certMgr ts nid token d \<longleftrightarrow>
     (let cert = hd (ts_PeerCertificates ts) in
      (case GetNode e nid d of
         Inl _ \<Rightarrow> (\<exists>chain \<in> set (client_chains certMgr ts cert). ca_owner x e chain d token)
       | Inr node \<Rightarrow>
           (n_RoutingToken node \<noteq> [] \<longrightarrow> token = n_RoutingToken node) \<and>
           (pinned_to x node cert \<or>
            (\<exists>chain \<in> set (client_chains certMgr ts cert).
               ca_owner x e chain d token \<or>
               same_signer x (case x_decode x (n_CertPEM node) of None \<Rightarrow> None | Some raw \<Rightarrow> x_parse x raw) chain))))"

lemma save_pinned_Inr: "save_pinned e node d = (Inr n, d') \<Longrightarrow> n = node"
  by (auto simp: save_pinned_def split: prod.splits option.splits)

lemma rotate_pin_trusted:
  assumes "rotate_pin x e node peerPEM pinned ccs d = (Inr n, d')"
  shows "n_ID n = n_ID node \<and> (n_RoutingToken node \<noteq> [] \<longrightarrow> n_RoutingToken n = n_RoutingToken node) \<and>
    (\<exists>chain \<in> set ccs. ca_owner x e chain d (n_RoutingToken n) \<or> same_signer x pinned chain)"
  using assms
proof (induction ccs)
  case (Cons chain ccs)
  then show ?case
    by (auto simp: Let_def ca_owner_def same_signer_def split: if_splits sum.splits option.splits dest!: save_pinned_Inr)
qed simp

lemma jit_register_trusted:
  assumes "jit_register x e now nodeID peerPEM ccs d = (Inr n, d')"
  shows "n_ID n = nodeID \<and> (\<exists>chain \<in> set ccs. ca_owner x e chain d (n_RoutingToken n))"
  using assms
proof (induction ccs)
  case (Cons chain ccs)
  then show ?case
    by (auto simp: Let_def ca_owner_def split: if_splits sum.splits option.splits prod.splits)
qed simp

lemma ensure_vouched:
  assumes "ensureNodeRegistered x e certMgr now nid ts d = (Inr n, d')"
  shows "vouched x e certMgr ts nid (n_RoutingToken n) d"
  using assms
  by (auto simp: ensureNodeRegistered_def vouched_def pinned_to_def Let_def split: sum.splits if_splits option.splits
      dest!: rotate_pin_trusted jit_register_trusted)

lemma user_login_no_node: "user_login jw now tmo authz \<noteq> Inr (NodeContext nid token)"
  by (simp add: user_login_def split: option.split list.split sum.split)


text \<open>The stream interceptor does not look at the validity of the certificate: a node whose pinned certificate has
  expired, or must not be used for client authentication, is refused for unary calls but keeps its streams,
  among them the one that delivers commands.\<close>

theorem streams_skip_validity:
  assumes "ci_transport ci = TLSPeer ts" and "ts_PeerCertificates ts \<noteq> []" and "cert = hd (ts_PeerCertificates ts)"
    and "check_validity now cert = Some err" and "IsRevoked e (ct_Serial cert) d = Inr False"
    and "GetNode e (ct_CommonName cert) d = Inr node" and "pinned_to x node cert"
    and "strings_HasPrefix (ci_method ci) ''/nitella.hub.NodeService/''"
    and "\<not> public_method (ci_method ci)"
  shows "AuthInterceptor x jw e certMgr tmo now ci d = (Inl err, d) \<and>
         StreamAuthInterceptor x jw e certMgr tmo now ci d =
           Ret (Inr (NodeContext (ct_CommonName cert) (n_RoutingToken node)), d)"
  using assms
  by (auto simp: AuthInterceptor_def StreamAuthInterceptor_def node_login_def ensureNodeRegistered_def pinned_to_def
      public_method_def Let_def)

text \<open>Every valid token opens the administration service: the interceptor the server installs does not ask for the role,
  so the token of a mobile user is enough to read and delete the logs of all tenants.\<close>

theorem user_tokens_reach_administration:
  assumes "ValidateToken jw now token tm = Inr c" and "\<not> strings_HasPrefix token ''Bearer ''"
  shows "AuthInterceptor x jw e certMgr (Some tm) now
           \<lparr>ci_method = ''/nitella.hub.AdminService/DeleteLogs'', ci_transport = tr, ci_authorization = Some [''Bearer '' @ token]\<rparr> d =
         (Inr (UserContext c), d)"
  using assms
  by (simp add: AuthInterceptor_def public_method_def user_login_def strip_bearer_def strings_HasPrefix_def)

section \<open>Refreshing tokens\<close>

text \<open>The refresh attempts of several users, in the order of their times, with the decisions.\<close>

fun refreshes :: "(gotime \<times> string) list \<Rightarrow> TokenManager \<Rightarrow> (string \<times> bool) list" where
  "refreshes [] tm = []"
| "refreshes ((t, u) # cs) tm = (u, fst (checkRefreshRateLimit t u tm)) # refreshes cs (snd (checkRefreshRateLimit t u tm))"

definition granted :: "string \<Rightarrow> (string \<times> bool) list \<Rightarrow> int" where
  "granted u rs = int (length (filter (\<lambda>(v, ok). v = u \<and> ok) rs))"

definition attempts_since :: "gotime \<Rightarrow> string \<Rightarrow> TokenManager \<Rightarrow> int" where
  "attempts_since a u tm = int (length (filter (\<lambda>t. a < t) (attempts_of tm u)))"

lemma refresh_sweep_frame [simp]:
  "tm_maxRefreshPerMin (refresh_sweep now tm) = tm_maxRefreshPerMin tm"
  "gwf (tm_refreshAttempts tm) \<Longrightarrow> gwf (tm_refreshAttempts (refresh_sweep now tm))"
  by (simp_all add: refresh_sweep_def)

lemma refresh_sweep_since:
  assumes "now - 60 * second \<le> a" "gwf (tm_refreshAttempts tm)"
  shows "attempts_since a u (refresh_sweep now tm) = attempts_since a u tm"
proof (cases "gget (tm_refreshAttempts tm) u")
  case (Some ts)
  have "filter (\<lambda>t. a < t) ts = []" if "recent_attempts (now - 60 * second) ts = []"
    using that assms(1) by (force simp: recent_attempts_def filter_empty_conv)
  then show ?thesis using Some assms(2) by (simp add: refresh_sweep_def attempts_since_def attempts_of_def)
qed (use assms(2) in \<open>simp add: refresh_sweep_def attempts_since_def attempts_of_def\<close>)

lemma filter_recent_since:
  assumes "cutoff \<le> a"
  shows "filter (\<lambda>t. a < t) (recent_attempts cutoff ts) = filter (\<lambda>t. a < t) ts"
proof -
  have "(\<lambda>t. a < t \<and> cutoff < t) = (\<lambda>t. a < t)" using assms by auto
  then show ?thesis by (simp add: recent_attempts_def conj_commute)
qed

lemma check_since:
  assumes "now - 60 * second \<le> a" "a < now" "gwf (tm_refreshAttempts tm)" "checkRefreshRateLimit now v tm = (ok, tm')"
  shows "attempts_since a u tm' = attempts_since a u tm + (if v = u \<and> ok then 1 else 0)"
    and "v = u \<Longrightarrow> ok \<Longrightarrow> attempts_since a u tm < tm_maxRefreshPerMin tm"
    and "tm_maxRefreshPerMin tm' = tm_maxRefreshPerMin tm" and "gwf (tm_refreshAttempts tm')"
proof -
  define tm1 where "tm1 = refresh_sweep now tm"
  define ts where "ts = recent_attempts (now - 60 * second) (attempts_of tm1 v)"
  have sw: "attempts_since a x tm1 = attempts_since a x tm" for x
    unfolding tm1_def by (rule refresh_sweep_since [OF assms(1,3)])
  have fr: "tm_maxRefreshPerMin tm1 = tm_maxRefreshPerMin tm" "gwf (tm_refreshAttempts tm1)"
    using assms(3) by (simp_all add: tm1_def)
  have ts: "int (length (filter (\<lambda>t. a < t) ts)) = attempts_since a v tm1"
    by (simp add: ts_def filter_recent_since [OF assms(1)] attempts_since_def)
  then have le: "attempts_since a v tm1 \<le> int (length ts)" by (metis length_filter_le of_nat_le_iff)
  have tm': "tm' = tm1\<lparr>tm_refreshAttempts := gput v (if ok then ts @ [now] else ts) (tm_refreshAttempts tm1)\<rparr>"
    "ok = (\<not> tm_maxRefreshPerMin tm1 \<le> int (length ts))"
    using assms(4) by (auto simp: checkRefreshRateLimit_def Let_def tm1_def ts_def split: if_splits)
  have "attempts_since a u tm' = attempts_since a u tm1 + (if v = u \<and> ok then 1 else 0)"
    using ts assms(2) unfolding tm'(1) by (simp add: attempts_since_def attempts_of_def)
  then show "attempts_since a u tm' = attempts_since a u tm + (if v = u \<and> ok then 1 else 0)" by (simp add: sw)
  show "v = u \<Longrightarrow> ok \<Longrightarrow> attempts_since a u tm < tm_maxRefreshPerMin tm"
    using le tm'(2) sw fr(1) by simp
  show "tm_maxRefreshPerMin tm' = tm_maxRefreshPerMin tm" "gwf (tm_refreshAttempts tm')" using fr by (simp_all add: tm'(1))
qed

lemma refreshes_bound:
  assumes "\<forall>(t, v) \<in> set cs. a < t \<and> t - 60 * second \<le> a" "attempts_since a u tm \<le> tm_maxRefreshPerMin tm"
    "gwf (tm_refreshAttempts tm)"
  shows "granted u (refreshes cs tm) + attempts_since a u tm \<le> tm_maxRefreshPerMin tm"
  using assms
proof (induction cs arbitrary: tm)
  case (Cons c cs)
  obtain t v where c: "c = (t, v)" by (cases c)
  obtain ok tm' where k: "checkRefreshRateLimit t v tm = (ok, tm')" by fastforce
  have t: "t - 60 * second \<le> a" "a < t" using Cons.prems(1) c by auto
  note st = check_since [OF t Cons.prems(3) k]
  have le: "attempts_since a u tm' \<le> tm_maxRefreshPerMin tm'"
    using st(1,2) [of u] st(3) Cons.prems(2) by (cases "v = u \<and> ok") auto
  have "granted u (refreshes cs tm') + attempts_since a u tm' \<le> tm_maxRefreshPerMin tm'"
    by (rule Cons.IH [OF _ le st(4)]) (use Cons.prems(1) in simp)
  moreover have "granted u (refreshes (c # cs) tm) = granted u (refreshes cs tm') + (if v = u \<and> ok then 1 else 0)"
    by (simp add: c k granted_def)
  ultimately show ?case using st(1) [of u] st(3) by simp
qed (simp add: granted_def)

text \<open>In every minute a user is granted at most the configured number of refreshes, whatever the other users do and however
  the stale entries are swept in between.\<close>

theorem refreshes_per_minute:
  assumes "\<forall>(t, v) \<in> set cs. a < t \<and> t \<le> a + 60 * second" and "tm_refreshAttempts tm = []" and "0 \<le> tm_maxRefreshPerMin tm"
  shows "granted u (refreshes cs tm) \<le> tm_maxRefreshPerMin tm"
proof -
  have "attempts_since a u tm = 0" using assms(2) by (simp add: attempts_since_def attempts_of_def)
  moreover have "\<forall>(t, v) \<in> set cs. a < t \<and> t - 60 * second \<le> a" using assms(1) by auto
  ultimately show ?thesis using refreshes_bound [of cs a u tm] assms(2,3) by simp
qed

section \<open>Examples\<close>

definition demo_x509 :: x509_lib where
  "demo_x509 =
     \<lparr>x_decode = (\<lambda>s. case s of [] \<Rightarrow> None | c # raw \<Rightarrow> (if c = CHR ''P'' then Some raw else None)), x_encode = (\<lambda>raw. CHR ''P'' # raw),
      x_parse = (\<lambda>_. None), x_signedBy = (\<lambda>_ _. False)\<rparr>"

definition demo_cert :: Certificate where
  "demo_cert =
     \<lparr>ct_Raw = ''c1'', ct_CommonName = ''n1'', ct_NotBefore = 0, ct_NotAfter = 10, ct_KeyUsage = 1, ct_ExtKeyUsage = [2],
      ct_Serial = ''01''\<rparr>"

definition demo_claims :: Claims where
  "demo_claims =
     \<lparr>cl_Issuer = ''hub'', cl_Subject = ''u1'', cl_IssuedAt = 0, cl_ExpiresAt = 100, cl_NotBefore = 0, cl_UserID = ''u1'', cl_NodeID = [],
      cl_DeviceID = [], cl_Role = ''mobile'', cl_TierID = []\<rparr>"

definition demo_jwt :: jwt_lib where
  "demo_jwt =
     \<lparr>jw_parse = (\<lambda>now k t. if t = ''tok'' then Some demo_claims else None), jw_sign = (\<lambda>k c. Some ''tok''), jw_public = (\<lambda>k. k)\<rparr>"

definition demo_tm :: TokenManager where
  "demo_tm =
     \<lparr>tm_privateKey = Some ''k'', tm_publicKey = Some ''k'', tm_legacyPublicKey = None, tm_issuer = ''hub'', tm_refreshAttempts = [],
      tm_maxRefreshPerMin = 10, tm_lastCleanup = 0\<rparr>"

definition demo_hub_db :: hub_db where
  "demo_hub_db =
     empty_db\<lparr>db_nodes := [(''n1'', zero_Node\<lparr>n_ID := ''n1'', n_RoutingToken := ''t1'', n_CertPEM := ''Pc1''\<rparr>)]\<rparr>"

definition demo_call :: "string \<Rightarrow> call_info" where
  "demo_call m =
     \<lparr>ci_method = m, ci_transport = TLSPeer \<lparr>ts_PeerCertificates = [demo_cert], ts_VerifiedChains = []\<rparr>, ci_authorization = None\<rparr>"

lemmas demo_auth_defs =
  demo_x509_def demo_cert_def demo_hub_db_def demo_call_def empty_db_def list_engine_def list_tab_def zero_Node_def
  GetNode_def get_row_def IsRevoked_def query_db_def


lemma streams_skip_validity_witness:
  "AuthInterceptor demo_x509 demo_jwt list_engine None None 99 (demo_call ''/nitella.hub.NodeService/ReceiveCommands'') demo_hub_db =
     (Inl Expired, demo_hub_db) \<and>
   StreamAuthInterceptor demo_x509 demo_jwt list_engine None None 99 (demo_call ''/nitella.hub.NodeService/ReceiveCommands'') demo_hub_db =
     Ret (Inr (NodeContext ''n1'' ''t1''), demo_hub_db)"
proof -
  let ?ci = "demo_call ''/nitella.hub.NodeService/ReceiveCommands''" and ?n = "snd (hd (db_nodes demo_hub_db))"
  have "AuthInterceptor demo_x509 demo_jwt list_engine None None 99 ?ci demo_hub_db = (Inl Expired, demo_hub_db) \<and>
    StreamAuthInterceptor demo_x509 demo_jwt list_engine None None 99 ?ci demo_hub_db =
      Ret (Inr (NodeContext (ct_CommonName demo_cert) (n_RoutingToken ?n)), demo_hub_db)"
    by (rule streams_skip_validity [where ts = "\<lparr>ts_PeerCertificates = [demo_cert], ts_VerifiedChains = []\<rparr>"])
       (simp_all add: check_validity_def pinned_to_def public_method_def strings_HasPrefix_def demo_auth_defs)
  then show ?thesis by (simp add: demo_cert_def demo_hub_db_def zero_Node_def)
qed

lemma user_tokens_reach_administration_witness:
  "AuthInterceptor demo_x509 demo_jwt list_engine None (Some demo_tm) 5
     \<lparr>ci_method = ''/nitella.hub.AdminService/DeleteLogs'', ci_transport = PlainPeer, ci_authorization = Some [''Bearer tok'']\<rparr> demo_hub_db =
   (Inr (UserContext demo_claims), demo_hub_db) \<and> cl_Role demo_claims = ''mobile''"
  using user_tokens_reach_administration [of demo_jwt 5 "''tok''" demo_tm demo_claims demo_x509 list_engine None PlainPeer demo_hub_db]
  by (simp add: ValidateToken_def demo_tm_def demo_jwt_def strings_HasPrefix_def demo_claims_def)

lemma refreshes_per_minute_witness:
  "granted ''u1'' (refreshes (replicate 12 (5, ''u1'')) demo_tm) \<le> 10"
  using refreshes_per_minute [of "replicate 12 (5, ''u1'')" 0 demo_tm "''u1''"] by (simp add: second_def demo_tm_def)

end
