(* ===== verification/Hub_Server.thy ===== *)
theory Hub_Server
  imports Hub_Auth
begin

text \<open>
  The state of the hub and the operations of \<^verbatim>\<open>pkg/hub/server/server.go\<close> on it: channels, the broadcaster of
  registrations, the pairing limits, pending alerts with their cleanup, tiers, and the delivery of
  notifications. Channels live in a heap by number, with their buffer, capacity and whether they are open; a
  send on a closed channel panics. The database is of the engine's type, and what is random (ids, codes), the
  time, the encryption of the audit log and calendar arithmetic are arguments.
\<close>

section \<open>Messages and channels\<close>

record EncryptedPayload =
  ep_ephemeralPubkey :: string
  ep_nonce :: string
  ep_ciphertext :: string
  ep_senderFingerprint :: string
  ep_signature :: string
  ep_algorithm :: int

record Alert =
  a_Id :: string
  a_NodeId :: string
  a_Severity :: string
  a_TimestampUnix :: int
  a_Acknowledged :: bool
  a_Encrypted :: "EncryptedPayload option"
  a_Metadata :: "(string, string) gomap"

record Command =
  cmd_Id :: string
  cmd_Encrypted :: "EncryptedPayload option"

record CommandResponse =
  resp_CommandId :: string
  resp_EncryptedData :: "EncryptedPayload option"

record EncryptedEntry =
  ee_NodeId :: string
  ee_Timestamp :: "gotime option"
  ee_Encrypted :: "EncryptedPayload option"

record SignalMessage =
  sm_TargetId :: string
  sm_SourceId :: string
  sm_Type :: string
  sm_Payload :: string
  sm_SourceUserId :: string

datatype hub_msg =
  MAlert Alert | MCommand Command | MResponse CommandResponse | MMetrics EncryptedEntry | MLog EncryptedEntry |
  MSignal SignalMessage | MCert string

record hub_chan =
  ch_buf :: "hub_msg list"
  ch_cap :: nat
  ch_open :: bool

type_synonym heap = "(nat, hub_chan) gomap"

text \<open>A send in a \<^verbatim>\<open>select\<close> with a default: it is dropped when the buffer is full.\<close>

definition try_send :: "nat \<Rightarrow> hub_msg \<Rightarrow> heap \<Rightarrow> heap outcome" where
  "try_send ch msg h =
     (case gget h ch of
        None \<Rightarrow> Panics
      | Some c \<Rightarrow>
          (if \<not> ch_open c then Panics
           else if length (ch_buf c) < ch_cap c then Ret (gput ch (c\<lparr>ch_buf := ch_buf c @ [msg]\<rparr>) h)
           else Ret h))"

fun send_each :: "nat list \<Rightarrow> hub_msg \<Rightarrow> heap \<Rightarrow> heap outcome" where
  "send_each [] msg h = Ret h"
| "send_each (ch # chs) msg h = obind (try_send ch msg h) (send_each chs msg)"

definition close_chan :: "nat \<Rightarrow> heap \<Rightarrow> heap outcome" where
  "close_chan ch h =
     (case gget h ch of
        None \<Rightarrow> Panics
      | Some c \<Rightarrow> (if ch_open c then Ret (gput ch (c\<lparr>ch_open := False\<rparr>) h) else Panics))"

section \<open>The hub\<close>

definition GlobalPairingRateLimit :: int where "GlobalPairingRateLimit = 100"

definition PendingAlertExpiry :: duration where "PendingAlertExpiry = 300 * second"

definition MaxGlobalPendingAlerts :: nat where "MaxGlobalPendingAlerts = 100000"

record PendingAlert =
  pa_NodeID :: string
  pa_RoutingToken :: string
  pa_Alert :: Alert
  pa_CreatedAt :: gotime

record 'd HubServer =
  h_db :: 'd
  h_tierConfig :: tier_Config
  h_pairingRateLimit :: "(string, gotime) gomap"
  h_globalPairingCount :: int
  h_globalPairingReset :: gotime
  h_userStreams :: "(string, nat list) gomap"
  h_commandResp :: "(string, nat) gomap"
  h_nodeCommandChans :: "(string, nat) gomap"
  h_nodeMetricStreams :: "(string, nat) gomap"
  h_nodeLogStreams :: "(string, nat) gomap"
  h_nodeSignalingStreams :: "(string, nat) gomap"
  h_mobileSignalingStreams :: "(string, nat) gomap"
  h_pendingAlerts :: "(string, PendingAlert) gomap"
  h_broadcaster :: "(string, nat list) gomap"
  h_heap :: heap

definition new_chan :: "nat \<Rightarrow> 'd HubServer \<Rightarrow> nat \<times> 'd HubServer" where
  "new_chan cap s =
     (let ch = length (h_heap s)
      in (ch, s\<lparr>h_heap := h_heap s @ [(ch, \<lparr>ch_buf = [], ch_cap = cap, ch_open = True\<rparr>)]\<rparr>))"

definition on_heap :: "(heap \<Rightarrow> heap outcome) \<Rightarrow> 'd HubServer \<Rightarrow> 'd HubServer outcome" where
  "on_heap f s = obind (f (h_heap s)) (\<lambda>h. Ret (s\<lparr>h_heap := h\<rparr>))"

definition on_hub_db :: "('d \<Rightarrow> store_error option \<times> 'd) \<Rightarrow> 'd HubServer \<Rightarrow> store_error option \<times> 'd HubServer" where
  "on_hub_db f s = (case f (h_db s) of (err, d) \<Rightarrow> (err, s\<lparr>h_db := d\<rparr>))"

section \<open>Registration broadcaster\<close>

definition subscribers_of :: "string \<Rightarrow> 'd HubServer \<Rightarrow> nat list" where
  "subscribers_of code s = (case gget (h_broadcaster s) code of None \<Rightarrow> [] | Some chs \<Rightarrow> chs)"

definition rb_Subscribe :: "string \<Rightarrow> 'd HubServer \<Rightarrow> nat \<times> 'd HubServer" where
  "rb_Subscribe code s =
     (case new_chan 1 s of
        (ch, s1) \<Rightarrow> (ch, s1\<lparr>h_broadcaster := gput code (subscribers_of code s1 @ [ch]) (h_broadcaster s1)\<rparr>))"

definition rb_Unsubscribe :: "string \<Rightarrow> nat \<Rightarrow> 'd HubServer \<Rightarrow> 'd HubServer outcome" where
  "rb_Unsubscribe code ch s =
     (let subs = subscribers_of code s;
          subs' = remove1 ch subs
      in obind (if ch \<in> set subs then on_heap (close_chan ch) (s\<lparr>h_broadcaster := gput code subs' (h_broadcaster s)\<rparr>) else Ret s) (\<lambda>s1.
         Ret (if subscribers_of code s1 = [] then s1\<lparr>h_broadcaster := gdel code (h_broadcaster s1)\<rparr> else s1)))"

definition rb_Broadcast :: "string \<Rightarrow> string \<Rightarrow> 'd HubServer \<Rightarrow> 'd HubServer outcome" where
  "rb_Broadcast code certPEM s = on_heap (send_each (subscribers_of code s) (MCert certPEM)) s"

section \<open>Audit log and tiers\<close>

text \<open>What the operations take from outside: the engine, the crypto routines, identifiers.\<close>

record 'd hub_env =
  he_engine :: "'d engine"
  he_x509 :: x509_lib
  he_ed25519 :: "Certificate \<Rightarrow> string option"
  he_verify :: "Certificate \<Rightarrow> Certificate \<Rightarrow> bool"
  he_encrypt :: "string \<Rightarrow> string \<Rightarrow> string option"
  he_addDate :: "int \<Rightarrow> int \<Rightarrow> gotime \<Rightarrow> gotime"
  he_now :: gotime
  he_uuid :: string
  he_addClientCA :: "string \<Rightarrow> bool"

definition auditLog :: "'d hub_env \<Rightarrow> string \<Rightarrow> string \<Rightarrow> 'd HubServer \<Rightarrow> 'd HubServer" where
  "auditLog env routingToken payload s =
     (if routingToken = [] then s
      else case GetRoutingTokenInfo (he_engine env) routingToken (h_db s) of
             Inl _ \<Rightarrow> s
           | Inr info \<Rightarrow>
               (if length (ri_AuditPubKey info) \<noteq> 32 then s
                else case he_encrypt env payload (ri_AuditPubKey info) of
                       None \<Rightarrow> s
                     | Some blob \<Rightarrow>
                         snd (on_hub_db (SaveAuditLog (he_engine env)
                           \<lparr>al_ID = 0, al_RoutingToken = routingToken, al_Timestamp = he_now env, al_EncryptedPayload = blob,
                            al_ExpiresAt = (if ri_Tier info = ''business'' then he_addDate env 1 0 (he_now env)
                                            else he_addDate env 0 1 (he_now env))\<rparr>) s)))"

definition getTierByRoutingToken :: "'d hub_env \<Rightarrow> string \<Rightarrow> 'd HubServer \<Rightarrow> TierConfig option" where
  "getTierByRoutingToken env routingToken s =
     (case GetRoutingTokenInfo (he_engine env) routingToken (h_db s) of
        Inl _ \<Rightarrow> GetTierOrDefault (h_tierConfig s) ''free''
      | Inr info \<Rightarrow> GetTierOrDefault (h_tierConfig s) (if ri_Tier info = [] then ''free'' else ri_Tier info))"

definition getTierByLicenseKey :: "string \<Rightarrow> 'd HubServer \<Rightarrow> string \<times> TierConfig option" where
  "getTierByLicenseKey licenseKey s =
     (if licenseKey = [] then (''free'', GetTierOrDefault (h_tierConfig s) ''free'')
      else case find (\<lambda>t. t_LicensePrefix t \<noteq> [] \<and> strings_HasPrefix licenseKey (t_LicensePrefix t)) (h_tierConfig s) of
             Some t \<Rightarrow> (t_ID t, Some t)
           | None \<Rightarrow> (''free'', GetTierOrDefault (h_tierConfig s) ''free''))"

text \<open>The invite file is absent, unreadable as YAML (\<open>Some None\<close>), or a list of codes with limit and tier.\<close>

definition seed_code :: "'d hub_env \<Rightarrow> string \<times> int \<times> string \<Rightarrow> 'd HubServer \<Rightarrow> 'd HubServer" where
  "seed_code env c s =
     (case c of (code, limit, tid) \<Rightarrow>
        snd (on_hub_db (SaveInviteCode (he_engine env)
          \<lparr>ic_Code = code, ic_CreatedBy = [], ic_MaxUses = limit, ic_CurrentUses = 0, ic_TierID = (if tid = [] then ''free'' else tid),
           ic_ExpiresAt = 0, ic_CreatedAt = he_now env, ic_Note = [], ic_Active = True\<rparr>) s))"

definition seedInviteCodes :: "'d hub_env \<Rightarrow> (string \<times> int \<times> string) list option option \<Rightarrow> 'd HubServer \<Rightarrow> 'd HubServer" where
  "seedInviteCodes env file s =
     (case GetInviteCode (he_engine env) ''NITELLA'' (h_db s) of
        Inr _ \<Rightarrow> s
      | Inl _ \<Rightarrow>
          (case file of
             None \<Rightarrow> seed_code env (''NITELLA'', 100, ''free'') s
           | Some None \<Rightarrow> s
           | Some (Some cs) \<Rightarrow> fold (seed_code env) cs s))"

definition NewHubServer ::
  "'d hub_env \<Rightarrow> (string \<times> int \<times> string) list option option \<Rightarrow> tier_Config option \<Rightarrow> 'd \<Rightarrow> 'd HubServer" where
  "NewHubServer env file tierCfg d =
     seedInviteCodes env file
       \<lparr>h_db = d, h_tierConfig = (case tierCfg of None \<Rightarrow> tier_DefaultConfig | Some c \<Rightarrow> c), h_pairingRateLimit = [],
        h_globalPairingCount = 0, h_globalPairingReset = 0, h_userStreams = [], h_commandResp = [], h_nodeCommandChans = [],
        h_nodeMetricStreams = [], h_nodeLogStreams = [], h_nodeSignalingStreams = [], h_mobileSignalingStreams = [],
        h_pendingAlerts = [], h_broadcaster = [], h_heap = []\<rparr>"

section \<open>Notifications\<close>

definition streams_of :: "string \<Rightarrow> 'd HubServer \<Rightarrow> nat list" where
  "streams_of routingToken s = (case gget (h_userStreams s) routingToken of None \<Rightarrow> [] | Some chs \<Rightarrow> chs)"

text \<open>The pushes that \<open>NotifyByRoutingToken\<close> starts are the device tokens it returns; \<open>fb\<close> is whether push messages are enabled.\<close>

definition NotifyByRoutingToken ::
  "'d hub_env \<Rightarrow> bool \<Rightarrow> string \<Rightarrow> (string, string) gomap \<Rightarrow> 'd HubServer \<Rightarrow> (string list \<times> 'd HubServer) outcome" where
  "NotifyByRoutingToken env fb routingToken data s =
     (if streams_of routingToken s \<noteq> [] then
        obind (on_heap (send_each (streams_of routingToken s)
          (MAlert \<lparr>a_Id = he_uuid env, a_NodeId = [], a_Severity = ''INFO'', a_TimestampUnix = time_Unix (he_now env),
                  a_Acknowledged = False, a_Encrypted = None, a_Metadata = data\<rparr>)) s) (\<lambda>s'. Ret ([], s'))
      else if fb then
        (case GetRoutingTokenInfo (he_engine env) routingToken (h_db s) of
           Inl _ \<Rightarrow> Ret ([], s)
         | Inr info \<Rightarrow>
             (if ri_FCMTopic info = [] then Ret ([], s)
              else case GetFCMTokensByTopic (he_engine env) (ri_FCMTopic info) (h_db s) of
                     Inl _ \<Rightarrow> Ret ([], s)
                   | Inr ts \<Rightarrow> Ret (map fm_Token ts, s)))
      else Ret ([], s))"

definition ForwardAlertToClients :: "string \<Rightarrow> Alert \<Rightarrow> 'd HubServer \<Rightarrow> 'd HubServer outcome" where
  "ForwardAlertToClients routingToken alert s =
     (if streams_of routingToken s = [] then Ret s else on_heap (send_each (streams_of routingToken s) (MAlert alert)) s)"

section \<open>Pairing and registration limits\<close>

definition peer_host :: "string \<Rightarrow> string" where
  "peer_host addr = (case last_index CHR '':'' addr of None \<Rightarrow> addr | Some i \<Rightarrow> take i addr)"

definition pairing_window :: "gotime \<Rightarrow> 'd HubServer \<Rightarrow> 'd HubServer" where
  "pairing_window now s =
     (let s1 = (if h_globalPairingReset s < now
                then s\<lparr>h_globalPairingCount := 0, h_globalPairingReset := now + 60 * second\<rparr> else s)
      in s1\<lparr>h_globalPairingCount := h_globalPairingCount s1 + 1\<rparr>)"

datatype limit_error = ServiceBusy | TooManyAttempts

definition checkPairingRateLimit :: "string option \<Rightarrow> gotime \<Rightarrow> 'd HubServer \<Rightarrow> limit_error option \<times> 'd HubServer" where
  "checkPairingRateLimit peer now s =
     (case peer of
        None \<Rightarrow> (None, s)
      | Some addr \<Rightarrow>
          (let ip = peer_host addr;
               s1 = pairing_window now s
           in if h_globalPairingCount s1 > GlobalPairingRateLimit then (Some ServiceBusy, s1)
              else if (case gget (h_pairingRateLimit s1) ip of None \<Rightarrow> False | Some t \<Rightarrow> time_sub now t < 3 * second)
              then (Some TooManyAttempts, s1)
              else (None, s1\<lparr>h_pairingRateLimit := gput ip now (h_pairingRateLimit s1)\<rparr>)))"

text \<open>\<open>disabled\<close> is the environment variable of the end-to-end tests.\<close>

definition checkRegistrationRateLimit ::
  "bool \<Rightarrow> string option \<Rightarrow> gotime \<Rightarrow> 'd HubServer \<Rightarrow> limit_error option \<times> 'd HubServer" where
  "checkRegistrationRateLimit disabled peer now s =
     (case peer of
        None \<Rightarrow> (None, s)
      | Some addr \<Rightarrow>
          (let ip = peer_host addr;
               s1 = pairing_window now s
           in if h_globalPairingCount s1 > 50 then (Some ServiceBusy, s1)
              else if \<not> disabled \<and> (case gget (h_pairingRateLimit s1) ip of None \<Rightarrow> False | Some t \<Rightarrow> time_sub now t < 5 * second)
              then (Some TooManyAttempts, s1)
              else (None, s1\<lparr>h_pairingRateLimit := gput ip now (h_pairingRateLimit s1)\<rparr>)))"

definition rateLimitCleanup :: "gotime \<Rightarrow> 'd HubServer \<Rightarrow> 'd HubServer" where
  "rateLimitCleanup now s =
     s\<lparr>h_pairingRateLimit := gkeep (\<lambda>_ t. \<not> time_sub now t > 60 * second) (h_pairingRateLimit s)\<rparr>"

definition pendingAlertsCleanup :: "gotime \<Rightarrow> 'd HubServer \<Rightarrow> 'd HubServer" where
  "pendingAlertsCleanup now s =
     s\<lparr>h_pendingAlerts := gkeep (\<lambda>_ p. \<not> time_sub now (pa_CreatedAt p) > PendingAlertExpiry) (h_pendingAlerts s)\<rparr>"

section \<open>Properties\<close>

text \<open>Registration attempts one after the other: the address, the time, and whether it was admitted.\<close>

fun registrations :: "(string \<times> gotime) list \<Rightarrow> 'd HubServer \<Rightarrow> bool list \<times> 'd HubServer" where
  "registrations [] s = ([], s)"
| "registrations ((a, t) # rest) s =
     (case checkRegistrationRateLimit False (Some a) t s of
        (err, s1) \<Rightarrow> (case registrations rest s1 of (bs, s2) \<Rightarrow> ((err = None) # bs, s2)))"

lemma window_open:
  "t \<le> h_globalPairingReset s \<Longrightarrow> pairing_window t s = s\<lparr>h_globalPairingCount := h_globalPairingCount s + 1\<rparr>"
  by (simp add: pairing_window_def)

lemma registration_counts:
  assumes "t \<le> h_globalPairingReset s" and "checkRegistrationRateLimit dis (Some a) t s = (err, s')"
  shows "h_globalPairingCount s' = h_globalPairingCount s + 1 \<and> h_globalPairingReset s' = h_globalPairingReset s \<and>
    (err = None \<longrightarrow> h_globalPairingCount s < 50)"
  using assms by (auto simp: checkRegistrationRateLimit_def window_open Let_def split: if_splits)

lemma registrations_count:
  assumes "\<forall>(a, t) \<in> set xs. t \<le> h_globalPairingReset s" and "registrations xs s = (bs, s')"
  shows "h_globalPairingCount s' = h_globalPairingCount s + int (length xs) \<and> h_globalPairingReset s' = h_globalPairingReset s \<and>
    int (length (filter (\<lambda>b. b) bs)) \<le> max 0 (50 - h_globalPairingCount s)"
  using assms
proof (induction xs arbitrary: s bs s')
  case (Cons x xs)
  obtain a t where x: "x = (a, t)" by (cases x)
  obtain err s1 where c: "checkRegistrationRateLimit False (Some a) t s = (err, s1)" by fastforce
  obtain cs s2 where r: "registrations xs s1 = (cs, s2)" by fastforce
  have s1: "h_globalPairingCount s1 = h_globalPairingCount s + 1" "h_globalPairingReset s1 = h_globalPairingReset s"
    "err = None \<longrightarrow> h_globalPairingCount s < 50"
    using registration_counts [OF _ c] Cons.prems(1) x by auto
  have "h_globalPairingCount s2 = h_globalPairingCount s1 + int (length xs) \<and> h_globalPairingReset s2 = h_globalPairingReset s1 \<and>
    int (length (filter (\<lambda>b. b) cs)) \<le> max 0 (50 - h_globalPairingCount s1)"
    by (rule Cons.IH [OF _ r]) (use Cons.prems(1) s1(2) in auto)
  moreover have "bs = (err = None) # cs" "s' = s2" using Cons.prems(2) x c r by auto
  ultimately show ?case using s1 by auto
qed auto

text \<open>In a window of a minute at most fifty registrations are admitted, from all addresses together. Refused attempts count as
  well: fifty attempts of a single address, all but one of which are refused, leave no room for anybody else until
  the window ends.\<close>

theorem registration_budget:
  assumes "\<forall>(a, t) \<in> set xs. t \<le> h_globalPairingReset s" and "h_globalPairingCount s = 0" and "registrations xs s = (bs, s')"
  shows "length (filter (\<lambda>b. b) bs) \<le> 50 \<and>
    (50 \<le> length xs \<longrightarrow> now \<le> h_globalPairingReset s \<longrightarrow> fst (checkRegistrationRateLimit dis (Some b) now s') = Some ServiceBusy)"
proof -
  note c = registrations_count [OF assms(1,3)]
  have "fst (checkRegistrationRateLimit dis (Some b) now s') = Some ServiceBusy"
    if "50 \<le> length xs" "now \<le> h_globalPairingReset s"
    using that c assms(2) by (simp add: checkRegistrationRateLimit_def window_open Let_def)
  then show ?thesis using c assms(2) by simp
qed

definition demo_window :: "unit HubServer" where
  "demo_window =
     \<lparr>h_db = (), h_tierConfig = [], h_pairingRateLimit = [], h_globalPairingCount = 0, h_globalPairingReset = 60 * second,
      h_userStreams = [], h_commandResp = [], h_nodeCommandChans = [], h_nodeMetricStreams = [], h_nodeLogStreams = [],
      h_nodeSignalingStreams = [], h_mobileSignalingStreams = [], h_pendingAlerts = [], h_broadcaster = [], h_heap = []\<rparr>"

theorem registration_budget_witness:
  "\<exists>bs s'. registrations (replicate 50 (''1.2.3.4:1'', 0)) demo_window = (bs, s') \<and>
     fst (checkRegistrationRateLimit False (Some ''5.6.7.8:1'') 0 s') = Some ServiceBusy"
proof -
  obtain bs s' where r: "registrations (replicate 50 (''1.2.3.4:1'', 0)) demo_window = (bs, s')" by fastforce
  from registration_budget [OF _ _ r, of 0] show ?thesis using r by (auto simp: demo_window_def second_def)
qed

end
