(* ===== verification/Hub_Nodes.thy ===== *)
theory Hub_Nodes
  imports Hub_Server
begin

text \<open>
  The services for nodes and for logging in: \<^verbatim>\<open>pkg/hub/server/node_server.go\<close> and \<^verbatim>\<open>pkg/hub/server/auth_server.go\<close>.
  A streaming call is split into what it does when it starts, per message, and when it ends, so that calls of
  several clients can be interleaved. The properties are about the registration code, the command streams
  of a node that reconnects, the responses to commands and the pending alerts.
\<close>

datatype code =
  C_InvalidArgument | C_NotFound | C_PermissionDenied | C_Unauthenticated | C_Unavailable | C_Internal | C_FailedPrecondition |
  C_ResourceExhausted | C_DeadlineExceeded | C_AlreadyExists

section \<open>Registration\<close>

record csr_info =
  cs_sigOK :: bool
  cs_CommonName :: string
  cs_ed25519 :: bool

definition is_hex :: "char \<Rightarrow> bool" where
  "is_hex c \<longleftrightarrow>
     (let n = of_char c :: nat in (48 \<le> n \<and> n \<le> 57) \<or> (97 \<le> n \<and> n \<le> 102) \<or> (65 \<le> n \<and> n \<le> 70))"

definition uuid_format :: "string \<Rightarrow> bool" where
  "uuid_format cn =
     list_all (\<lambda>(i, c). if i = 8 \<or> i = 13 \<or> i = 18 \<or> i = 23 then c = CHR ''-'' else is_hex c) (enumerate 0 cn)"

definition csr_ok :: "csr_info \<Rightarrow> bool" where
  "csr_ok csr \<longleftrightarrow>
     cs_sigOK csr \<and> cs_CommonName csr \<noteq> [] \<and> \<not> length (cs_CommonName csr) > 64 \<and>
     (length (cs_CommonName csr) = 36 \<longrightarrow> uuid_format (cs_CommonName csr)) \<and> cs_ed25519 csr"

text \<open>The parsed request, the new code and the watch secret (absent when no random bytes can be read) are given.\<close>

definition nd_Register ::
  "'d hub_env \<Rightarrow> bool \<Rightarrow> string option \<Rightarrow> csr_info option \<Rightarrow> string \<Rightarrow> string \<Rightarrow> string \<Rightarrow> string option \<Rightarrow> 'd HubServer \<Rightarrow>
   (code + string \<times> string) \<times> 'd HubServer" where
  "nd_Register env disabled peer csr csrPem inviteCode newCode secret s =
     (case checkRegistrationRateLimit disabled peer (he_now env) s of
        (Some _, s1) \<Rightarrow> (Inl C_ResourceExhausted, s1)
      | (None, s1) \<Rightarrow>
          (case csr of
             None \<Rightarrow> (Inl C_InvalidArgument, s1)
           | Some c \<Rightarrow>
               (if \<not> csr_ok c then (Inl C_InvalidArgument, s1)
                else case (if inviteCode = [] then (None, s1)
                           else on_hub_db (ConsumeInviteCode (he_engine env) inviteCode (he_now env)) s1) of
                       (Some _, s2) \<Rightarrow> (Inl C_InvalidArgument, s2)
                     | (None, s2) \<Rightarrow>
                         (case secret of
                            None \<Rightarrow> (Inl C_Internal, s2)
                          | Some ws \<Rightarrow>
                              (case on_hub_db (SaveRegistrationRequest (he_engine env)
                                      (zero_RegistrationRequest\<lparr>rr_Code := newCode, rr_CSR := csrPem, rr_NodeID := cs_CommonName c,
                                         rr_Status := ''PENDING'', rr_LicenseKey := inviteCode, rr_WatchSecret := ws,
                                         rr_ExpiresAt := he_now env + 600 * second\<rparr>)) s2 of
                                 (Some _, s3) \<Rightarrow> (Inl C_Internal, s3)
                               | (None, s3) \<Rightarrow> (Inr (newCode, ws), s3))))))"

text \<open>The comparison in constant time: both secrets padded to the longer length, their lengths, and that there is one.\<close>

definition pad_bytes :: "nat \<Rightarrow> string \<Rightarrow> string" where
  "pad_bytes n b = b @ replicate (n - length b) (CHR 0x00)"

definition secret_valid :: "string \<Rightarrow> string \<Rightarrow> bool" where
  "secret_valid stored provided \<longleftrightarrow>
     (let maxLen = max (length stored) (length provided);
          n = (if maxLen = 0 then 1 else maxLen)
      in pad_bytes n stored = pad_bytes n provided \<and>
         wrap32 (int (length stored)) = wrap32 (int (length provided)) \<and> wrap32 (int (length stored)) \<noteq> 0)"

datatype watch_reply = Approved string string | Waiting nat

definition nd_WatchRegistration :: "'d hub_env \<Rightarrow> string \<Rightarrow> string \<Rightarrow> 'd HubServer \<Rightarrow> (code + nat \<times> watch_reply) \<times> 'd HubServer" where
  "nd_WatchRegistration env regCode watchSecret s =
     (case GetRegistrationRequest (he_engine env) regCode (h_db s) of
        Inl _ \<Rightarrow> (Inl C_NotFound, s)
      | Inr req \<Rightarrow>
          (if \<not> secret_valid (rr_WatchSecret req) watchSecret then (Inl C_PermissionDenied, s)
           else case rb_Subscribe regCode s of
                  (ch, s1) \<Rightarrow>
                    (Inr (ch, if rr_Status req = ''APPROVED'' then Approved (rr_CertPEM req) (rr_CaPEM req) else Waiting ch), s1)))"

text \<open>The rest of the call: an approval arrives on the channel, or the caller leaves, or ten minutes pass. The registration
  is read again for its CA without a check that it is still there. The deferred end of the subscription is last.\<close>

datatype watch_event = CertArrives string | CallerLeaves | TenMinutes

definition nd_WatchRegistration_rest ::
  "'d hub_env \<Rightarrow> string \<Rightarrow> nat \<times> watch_reply \<Rightarrow> watch_event \<Rightarrow> 'd HubServer \<Rightarrow>
   ((code option + string \<times> string) \<times> 'd HubServer) outcome" where
  "nd_WatchRegistration_rest env regCode w ev s =
     obind (case snd w of
              Approved cert ca \<Rightarrow> Ret (Inr (cert, ca))
            | Waiting _ \<Rightarrow>
                (case ev of
                   CallerLeaves \<Rightarrow> Ret (Inl None)
                 | TenMinutes \<Rightarrow> Ret (Inl (Some C_DeadlineExceeded))
                 | CertArrives cert \<Rightarrow>
                     (case GetRegistrationRequest (he_engine env) regCode (h_db s) of
                        Inl _ \<Rightarrow> Panics
                      | Inr req \<Rightarrow> Ret (Inr (cert, rr_CaPEM req))))) (\<lambda>r.
     obind (rb_Unsubscribe regCode (fst w) s) (\<lambda>s'. Ret (r, s')))"

definition nd_CheckCertificate :: "'d hub_env \<Rightarrow> string \<Rightarrow> 'd HubServer \<Rightarrow> string option" where
  "nd_CheckCertificate env fingerprint s =
     (case GetNode (he_engine env) fingerprint (h_db s) of Inl _ \<Rightarrow> None | Inr node \<Rightarrow> Some (n_CertPEM node))"

section \<open>Commands\<close>

definition set_status :: "'d hub_env \<Rightarrow> string \<Rightarrow> string \<Rightarrow> 'd HubServer \<Rightarrow> 'd HubServer" where
  "set_status env nodeID status s = snd (on_hub_db (UpdateNodeStatus (he_engine env) nodeID status (he_now env)) s)"

definition nd_Heartbeat :: "'d hub_env \<Rightarrow> string option \<Rightarrow> 'd HubServer \<Rightarrow> code option \<times> 'd HubServer" where
  "nd_Heartbeat env node s =
     (case node of None \<Rightarrow> (Some C_Unauthenticated, s) | Some nodeID \<Rightarrow> (None, set_status env nodeID ''online'' s))"

text \<open>The start of a command stream closes the channel of the stream it replaces.\<close>

definition nd_ReceiveCommands_begin ::
  "'d hub_env \<Rightarrow> string option \<Rightarrow> 'd HubServer \<Rightarrow> ((code + string \<times> nat) \<times> 'd HubServer) outcome" where
  "nd_ReceiveCommands_begin env node s =
     (case node of
        None \<Rightarrow> Ret (Inl C_Unauthenticated, s)
      | Some nodeID \<Rightarrow>
          (case new_chan 10 (set_status env nodeID ''online'' s) of
             (ch, s1) \<Rightarrow>
               obind (case gget (h_nodeCommandChans s1) nodeID of None \<Rightarrow> Ret s1 | Some old \<Rightarrow> on_heap (close_chan old) s1) (\<lambda>s2.
               Ret (Inr (nodeID, ch), s2\<lparr>h_nodeCommandChans := gput nodeID ch (h_nodeCommandChans s2)\<rparr>))))"

text \<open>One turn of its loop takes a command from the channel, or ends the call when the channel is closed and empty.\<close>

datatype turn = Got hub_msg | StreamClosed | Blocked

definition receive :: "nat \<Rightarrow> 'd HubServer \<Rightarrow> turn \<times> 'd HubServer" where
  "receive ch s =
     (case gget (h_heap s) ch of
        None \<Rightarrow> (Blocked, s)
      | Some c \<Rightarrow>
          (case ch_buf c of
             m # ms \<Rightarrow> (Got m, s\<lparr>h_heap := gput ch (c\<lparr>ch_buf := ms\<rparr>) (h_heap s)\<rparr>)
           | [] \<Rightarrow> (if ch_open c then Blocked else StreamClosed, s)))"

definition nd_ReceiveCommands_end :: "'d hub_env \<Rightarrow> string \<Rightarrow> nat \<Rightarrow> 'd HubServer \<Rightarrow> 'd HubServer" where
  "nd_ReceiveCommands_end env nodeID ch s =
     (if gget (h_nodeCommandChans s) nodeID = Some ch
      then set_status env nodeID ''offline'' (s\<lparr>h_nodeCommandChans := gdel nodeID (h_nodeCommandChans s)\<rparr>)
      else s)"

definition nd_RespondToCommand :: "CommandResponse option \<Rightarrow> 'd HubServer \<Rightarrow> (code option \<times> 'd HubServer) outcome" where
  "nd_RespondToCommand respo s =
     (case respo of
        None \<Rightarrow> Ret (Some C_InvalidArgument, s)
      | Some resp \<Rightarrow>
          (if resp_EncryptedData resp = None then Ret (Some C_InvalidArgument, s)
           else case gget (h_commandResp s) (resp_CommandId resp) of
                  None \<Rightarrow> Ret (None, s)
                | Some ch \<Rightarrow>
                    obind (on_heap (try_send ch (MResponse resp))
                             (s\<lparr>h_commandResp := gdel (resp_CommandId resp) (h_commandResp s)\<rparr>)) (\<lambda>s'. Ret (None, s'))))"

section \<open>Metrics, logs and alerts\<close>

definition forward_to :: "(string, nat) gomap \<Rightarrow> string \<Rightarrow> hub_msg \<Rightarrow> 'd HubServer \<Rightarrow> 'd HubServer outcome" where
  "forward_to streams nodeID msg s =
     (case gget streams nodeID of None \<Rightarrow> Ret s | Some ch \<Rightarrow> on_heap (try_send ch msg) s)"

definition payload_part :: "(EncryptedPayload \<Rightarrow> string) \<Rightarrow> EncryptedEntry \<Rightarrow> string" where
  "payload_part f m = (case ee_Encrypted m of None \<Rightarrow> [] | Some p \<Rightarrow> f p)"

text \<open>The start of a metric or log stream looks the node up; each message is stored and forwarded. The storing is started
  in its own goroutine, which the model runs at once.\<close>

definition push_begin :: "'d hub_env \<Rightarrow> string option \<Rightarrow> 'd HubServer \<Rightarrow> code + string \<times> string" where
  "push_begin env node s =
     (case node of
        None \<Rightarrow> Inl C_Unauthenticated
      | Some nodeID \<Rightarrow>
          (case GetNode (he_engine env) nodeID (h_db s) of Inl _ \<Rightarrow> Inl C_NotFound | Inr n \<Rightarrow> Inr (nodeID, n_RoutingToken n)))"

definition nd_PushMetrics_step ::
  "'d hub_env \<Rightarrow> string \<Rightarrow> string \<Rightarrow> EncryptedEntry \<Rightarrow> 'd HubServer \<Rightarrow> (code option \<times> 'd HubServer) outcome" where
  "nd_PushMetrics_step env nodeID routingToken m s =
     (if ee_Encrypted m = None then Ret (Some C_InvalidArgument, s)
      else
        (let ts = (case ee_Timestamp m of None \<Rightarrow> he_now env | Some t \<Rightarrow> t);
             s1 = snd (on_hub_db (SaveEncryptedMetric (he_engine env)
                    \<lparr>em_ID = 0, em_NodeID = nodeID, em_RoutingToken = routingToken, em_Timestamp = ts,
                     em_EncryptedBlob = payload_part ep_ciphertext m, em_Nonce = payload_part ep_nonce m,
                     em_SenderKeyID = payload_part ep_senderFingerprint m\<rparr>) s)
         in obind (forward_to (h_nodeMetricStreams s1) nodeID (MMetrics (m\<lparr>ee_NodeId := nodeID\<rparr>)) s1) (\<lambda>s2. Ret (None, s2))))"

definition nd_PushLogs_begin :: "'d hub_env \<Rightarrow> string option \<Rightarrow> 'd HubServer \<Rightarrow> (code + string \<times> string \<times> int) outcome" where
  "nd_PushLogs_begin env node s =
     (case push_begin env node s of
        Inl c \<Rightarrow> Ret (Inl c)
      | Inr (nodeID, routingToken) \<Rightarrow>
          (case getTierByRoutingToken env routingToken s of
             None \<Rightarrow> Panics
           | Some cfg \<Rightarrow> Ret (Inr (nodeID, routingToken, lo_MaxLogs (t_Logs cfg)))))"

text \<open>The conversion \<^verbatim>\<open>int(float64(maxLogs) * 0.9)\<close> rounds down.\<close>

definition make_room :: "'d hub_env \<Rightarrow> int \<Rightarrow> string \<Rightarrow> 'd HubServer \<Rightarrow> 'd HubServer" where
  "make_room env maxLogs token s =
     (if maxLogs > 0 then
        (case CountLogs (he_engine env) token (h_db s) of
           Inl _ \<Rightarrow> s
         | Inr n \<Rightarrow> (if n \<ge> maxLogs then snd (on_hub_db (DeleteOldestLogs (he_engine env) token (maxLogs * 9 div 10)) s) else s))
      else s)"

definition nd_PushLogs_step ::
  "'d hub_env \<Rightarrow> int \<Rightarrow> string \<Rightarrow> string \<Rightarrow> EncryptedEntry \<Rightarrow> 'd HubServer \<Rightarrow> (code option \<times> 'd HubServer) outcome" where
  "nd_PushLogs_step env maxLogs nodeID routingToken m s =
     (if ee_Encrypted m = None then Ret (Some C_InvalidArgument, s)
      else
        (let ts = (case ee_Timestamp m of None \<Rightarrow> he_now env | Some t \<Rightarrow> t);
             s1 = snd (on_hub_db (SaveEncryptedLog (he_engine env)
                    \<lparr>el_ID = 0, el_NodeID = nodeID, el_RoutingToken = routingToken, el_Timestamp = ts,
                     el_EncryptedBlob = payload_part ep_ciphertext m, el_Nonce = payload_part ep_nonce m,
                     el_SenderKeyID = payload_part ep_senderFingerprint m\<rparr>) (make_room env maxLogs routingToken s))
         in obind (forward_to (h_nodeLogStreams s1) nodeID (MLog (m\<lparr>ee_NodeId := nodeID\<rparr>)) s1) (\<lambda>s2. Ret (None, s2))))"

definition nd_PushAlert :: "'d hub_env \<Rightarrow> string option \<Rightarrow> Alert option \<Rightarrow> 'd HubServer \<Rightarrow> (code option \<times> 'd HubServer) outcome" where
  "nd_PushAlert env node alerto s =
     (case alerto of
        None \<Rightarrow> Ret (Some C_InvalidArgument, s)
      | Some alert0 \<Rightarrow>
          (if a_Encrypted alert0 = None then Ret (Some C_InvalidArgument, s)
           else case node of
                  None \<Rightarrow> Ret (Some C_Unauthenticated, s)
                | Some nodeID \<Rightarrow>
                    (case GetNode (he_engine env) nodeID (h_db s) of
                       Inl _ \<Rightarrow> Ret (Some C_NotFound, s)
                     | Inr n \<Rightarrow>
                         (let alert = alert0\<lparr>a_NodeId := nodeID\<rparr> in
                          if length (h_pendingAlerts s) \<ge> MaxGlobalPendingAlerts then Ret (Some C_ResourceExhausted, s)
                          else
                            (let s1 = s\<lparr>h_pendingAlerts := gput (a_Id alert)
                                   \<lparr>pa_NodeID = nodeID, pa_RoutingToken = n_RoutingToken n, pa_Alert = alert, pa_CreatedAt = he_now env\<rparr>
                                   (h_pendingAlerts s)\<rparr>
                             in obind (ForwardAlertToClients (n_RoutingToken n) alert s1) (\<lambda>s2. Ret (None, s2)))))))"

section \<open>Signaling\<close>

definition nd_StreamSignaling_begin :: "string option \<Rightarrow> 'd HubServer \<Rightarrow> (code + string \<times> nat) \<times> 'd HubServer" where
  "nd_StreamSignaling_begin node s =
     (case node of
        None \<Rightarrow> (Inl C_Unauthenticated, s)
      | Some nodeID \<Rightarrow>
          (case new_chan 10 s of
             (ch, s1) \<Rightarrow> (Inr (nodeID, ch), s1\<lparr>h_nodeSignalingStreams := gput nodeID ch (h_nodeSignalingStreams s1)\<rparr>)))"

definition nd_StreamSignaling_step :: "string \<Rightarrow> SignalMessage \<Rightarrow> 'd HubServer \<Rightarrow> 'd HubServer outcome" where
  "nd_StreamSignaling_step nodeID msg s =
     (case gget (h_mobileSignalingStreams s) (sm_TargetId msg) of
        None \<Rightarrow> Ret s
      | Some ch \<Rightarrow> on_heap (try_send ch (MSignal (msg\<lparr>sm_SourceId := nodeID\<rparr>))) s)"

definition nd_StreamSignaling_end :: "string \<Rightarrow> nat \<Rightarrow> 'd HubServer \<Rightarrow> 'd HubServer outcome" where
  "nd_StreamSignaling_end nodeID ch s =
     on_heap (close_chan ch) (s\<lparr>h_nodeSignalingStreams := gdel nodeID (h_nodeSignalingStreams s)\<rparr>)"

section \<open>Users\<close>

definition auth_RegisterUser ::
  "'d hub_env \<Rightarrow> jwt_lib \<Rightarrow> TokenManager option \<Rightarrow> string \<Rightarrow> string \<Rightarrow> string \<Rightarrow> 'd HubServer \<Rightarrow>
   ((code + string \<times> string \<times> int \<times> string) \<times> 'd HubServer) outcome" where
  "auth_RegisterUser env jw tmo inviteCode blindIndex0 newBlind s =
     (if inviteCode = [] then Ret (Inl C_InvalidArgument, s)
      else case GetInviteCode (he_engine env) inviteCode (h_db s) of
             Inl _ \<Rightarrow> Ret (Inl C_InvalidArgument, s)
           | Inr invite \<Rightarrow>
               (case on_hub_db (ConsumeInviteCode (he_engine env) inviteCode (he_now env)) s of
                  (Some _, s1) \<Rightarrow> Ret (Inl C_InvalidArgument, s1)
                | (None, s1) \<Rightarrow>
                    (let user = zero_User\<lparr>u_ID := he_uuid env, u_BlindIndex := (if blindIndex0 = [] then newBlind else blindIndex0),
                                  u_Tier := ic_TierID invite, u_InviteCode := inviteCode, u_CreatedAt := he_now env\<rparr>
                     in case on_hub_db (SaveUser (he_engine env) user) s1 of
                          (Some _, s2) \<Rightarrow> Ret (Inl C_Internal, s2)
                        | (None, s2) \<Rightarrow>
                            (case tmo of
                               None \<Rightarrow> Panics
                             | Some tm \<Rightarrow>
                                 (case GenerateMobileToken jw (he_now env) (u_ID user) [] tm of
                                    Inl _ \<Rightarrow> Ret (Inl C_Internal, s2)
                                  | Inr token \<Rightarrow>
                                      (case GetTierOrDefault (h_tierConfig s2) (ic_TierID invite) of
                                         None \<Rightarrow> Panics
                                       | Some cfg \<Rightarrow> Ret (Inr (u_ID user, ic_TierID invite, wrap32 (t_MaxNodes cfg), token), s2)))))))"

definition auth_RegisterDevice :: "'d hub_env \<Rightarrow> string \<Rightarrow> string \<Rightarrow> string \<Rightarrow> 'd HubServer \<Rightarrow> 'd HubServer" where
  "auth_RegisterDevice env userId fcmToken deviceType s =
     snd (on_hub_db (SaveFCMToken (he_engine env)
       \<lparr>fm_Token = fcmToken, fm_FCMTopic = userId, fm_DeviceType = deviceType, fm_UpdatedAt = he_now env\<rparr>) s)"

definition auth_UpdateLicense ::
  "'d hub_env \<Rightarrow> string \<Rightarrow> string \<Rightarrow> 'd HubServer \<Rightarrow> ((code + string \<times> int) \<times> 'd HubServer) outcome" where
  "auth_UpdateLicense env routingToken licenseKey s =
     (if routingToken = [] then Ret (Inl C_InvalidArgument, s)
      else case getTierByLicenseKey licenseKey s of
             (tierID, tierCfg) \<Rightarrow>
               (case GetRoutingTokenInfo (he_engine env) routingToken (h_db s) of
                  Inl _ \<Rightarrow> Ret (Inl C_NotFound, s)
                | Inr info \<Rightarrow>
                    (case on_hub_db (SaveRoutingTokenInfo (he_engine env) (info\<lparr>ri_LicenseKey := licenseKey, ri_Tier := tierID\<rparr>)) s of
                       (Some _, s1) \<Rightarrow> Ret (Inl C_Internal, s1)
                     | (None, s1) \<Rightarrow>
                         (case tierCfg of
                            None \<Rightarrow> Panics
                          | Some cfg \<Rightarrow> Ret (Inr (tierID, wrap32 (if t_MaxNodes cfg = 0 then - 1 else t_MaxNodes cfg)), s1)))))"

section \<open>Properties\<close>

lemma pad_bytes_eq: "length a = length b \<Longrightarrow> pad_bytes n a = pad_bytes n b \<longleftrightarrow> a = b"
  by (auto simp: pad_bytes_def)

lemma wrap32_small: "0 \<le> x \<Longrightarrow> x < 2 ^ 31 \<Longrightarrow> wrap32 x = x"
  by (simp add: wrap32_def signed_take_bit_int_eq_self)

text \<open>The comparison in constant time is equality with a secret that is not empty.\<close>

lemma secret_valid_iff:
  assumes "length stored < 2 ^ 31" and "length provided < 2 ^ 31"
  shows "secret_valid stored provided \<longleftrightarrow> stored = provided \<and> stored \<noteq> []"
proof -
  have "wrap32 (int (length x)) = int (length x)" if "length x < 2 ^ 31" for x :: string
    using that by (intro wrap32_small) simp_all
  then have "secret_valid stored provided \<longleftrightarrow>
    pad_bytes (max 1 (max (length stored) (length provided))) stored = pad_bytes (max 1 (max (length stored) (length provided))) provided \<and>
    length stored = length provided \<and> stored \<noteq> []"
    using assms by (auto simp: secret_valid_def Let_def max_def)
  then show ?thesis using pad_bytes_eq by blast
qed

text \<open>(C31) A registration is watched, and the certificate of an approved one handed out, only to a caller who presents the secret that
  the registration was answered with: every other call is refused and leaves the hub as it was.\<close>

theorem watching_needs_the_secret:
  assumes "length watchSecret < 2 ^ 31" and "\<And>r. GetRegistrationRequest (he_engine env) regCode (h_db s) = Inr r \<Longrightarrow> length (rr_WatchSecret r) < 2 ^ 31"
    and "nd_WatchRegistration env regCode watchSecret s = (res, s')"
  shows "case res of
      Inl _ \<Rightarrow> s' = s
    | Inr (ch, reply) \<Rightarrow>
        (\<exists>r. GetRegistrationRequest (he_engine env) regCode (h_db s) = Inr r \<and> rr_WatchSecret r = watchSecret \<and> watchSecret \<noteq> [] \<and>
             (reply = Waiting ch \<or> (rr_Status r = ''APPROVED'' \<and> reply = Approved (rr_CertPEM r) (rr_CaPEM r))))"
  using assms secret_valid_iff
  by (auto simp: nd_WatchRegistration_def split: sum.splits if_splits prod.splits)

definition demo_env :: "hub_db hub_env" where
  "demo_env =
     \<lparr>he_engine = list_engine, he_x509 = demo_x509\<lparr>x_parse := (\<lambda>_. Some demo_cert)\<rparr>, he_ed25519 = (\<lambda>_. Some (replicate 32 (CHR ''k''))), he_verify = (\<lambda>_ _. True),
      he_encrypt = (\<lambda>p _. Some p), he_addDate = (\<lambda>_ _ t. t), he_now = 0, he_uuid = ''u1'', he_addClientCA = (\<lambda>_. True)\<rparr>"

definition demo_watched :: "hub_db HubServer" where
  "demo_watched =
     NewHubServer demo_env (Some None) None
       (empty_db\<lparr>db_regs := [(''c1'', zero_RegistrationRequest\<lparr>rr_Code := ''c1'', rr_Status := ''PENDING'', rr_WatchSecret := ''s1''\<rparr>)]\<rparr>)"

theorem watching_needs_the_secret_witness:
  "\<exists>ch s'. nd_WatchRegistration demo_env ''c1'' ''s1'' demo_watched = (Inr (ch, Waiting ch), s')"
proof -
  let ?r = "zero_RegistrationRequest\<lparr>rr_Code := ''c1'', rr_Status := ''PENDING'', rr_WatchSecret := ''s1''\<rparr>"
  have g: "GetRegistrationRequest (he_engine demo_env) ''c1'' (h_db demo_watched) = Inr ?r"
    by (simp add: GetRegistrationRequest_def get_row_def demo_env_def list_engine_def list_tab_def demo_watched_def NewHubServer_def
        seedInviteCodes_def GetInviteCode_def empty_db_def)
  obtain res s' where w: "nd_WatchRegistration demo_env ''c1'' ''s1'' demo_watched = (res, s')" by fastforce
  have v: "secret_valid (rr_WatchSecret ?r) ''s1''" by (subst secret_valid_iff) simp_all
  have "\<exists>x. res = Inr x" using w g v by (auto simp: nd_WatchRegistration_def split: prod.splits)
  with watching_needs_the_secret [OF _ _ w] g w show ?thesis by auto
qed

end
