(* ===== verification/Hub_Mobile.thy ===== *)
theory Hub_Mobile
  imports Hub_Nodes
begin

text \<open>
  The service for the command line and the mobile client, \<^verbatim>\<open>pkg/hub/server/mobile_server.go\<close>: nodes and their approval,
  commands to nodes, metrics, alerts and signaling, and the encrypted proxy configurations with their
  revisions. A command is sent in phases between which other calls run; what they do is an argument.
  The properties are about who receives a command, the reconnect of a node during one, which tokens an alert
  stream gets, and the revisions of a configuration.
\<close>

section \<open>Nodes\<close>

definition parse_pem :: "'d hub_env \<Rightarrow> string \<Rightarrow> Certificate option" where
  "parse_pem env pem = Option.bind (x_decode (he_x509 env) pem) (x_parse (he_x509 env))"

definition mob_RegisterNodeViaCSR ::
  "'d hub_env \<Rightarrow> string option \<Rightarrow> string \<Rightarrow> string \<Rightarrow> 'd HubServer \<Rightarrow> code option \<times> 'd HubServer" where
  "mob_RegisterNodeViaCSR env ctxToken nodeId certPem s =
     (case (if nodeId \<noteq> [] then Some nodeId else map_option ct_CommonName (parse_pem env certPem)) of
        None \<Rightarrow> (Some C_InvalidArgument, s)
      | Some nodeID \<Rightarrow>
          (case on_hub_db (SaveNode (he_engine env)
                  (zero_Node\<lparr>n_ID := nodeID, n_RoutingToken := (case ctxToken of None \<Rightarrow> [] | Some t \<Rightarrow> t), n_CertPEM := certPem,
                     n_Status := ''offline''\<rparr>)) s of
             (Some _, s1) \<Rightarrow> (Some C_Internal, s1)
           | (None, s1) \<Rightarrow> (None, s1)))"

text \<open>The name derived from the node and the token is given; so is the certificate manager, which only warns.\<close>

definition mob_RegisterNodeWithCert ::
  "'d hub_env \<Rightarrow> string option \<Rightarrow> string \<Rightarrow> string \<Rightarrow> string \<Rightarrow> string \<Rightarrow> string \<Rightarrow> string \<Rightarrow> 'd HubServer \<Rightarrow> code option \<times> 'd HubServer" where
  "mob_RegisterNodeWithCert env ctxUser nodeId certPem caPem token metadata sha1name s =
     (if nodeId = [] \<or> certPem = [] \<or> token = [] \<or> caPem = [] then (Some C_InvalidArgument, s)
      else case parse_pem env certPem of
        None \<Rightarrow> (Some C_InvalidArgument, s)
      | Some nodeCert \<Rightarrow>
        (case parse_pem env caPem of
           None \<Rightarrow> (Some C_InvalidArgument, s)
         | Some caCert \<Rightarrow>
           (case he_ed25519 env caCert of
              None \<Rightarrow> (Some C_InvalidArgument, s)
            | Some auditPubKey \<Rightarrow>
              (if \<not> he_verify env caCert nodeCert then (Some C_InvalidArgument, s)
               else if ctxUser = None \<or> ctxUser = Some [] then (Some C_Unauthenticated, s)
               else case GetUser (he_engine env) (the ctxUser) (h_db s) of
                 Inl _ \<Rightarrow> (Some C_Unauthenticated, s)
               | Inr user \<Rightarrow>
                 (case on_hub_db (SaveNode (he_engine env)
                         (zero_Node\<lparr>n_ID := nodeId, n_RoutingToken := token, n_CertPEM := certPem, n_EncryptedMetadata := metadata,
                            n_Status := ''offline''\<rparr>)) s of
                    (Some _, s1) \<Rightarrow> (Some C_Internal, s1)
                  | (None, s1) \<Rightarrow>
                    (case on_hub_db (SaveRoutingTokenInfo (he_engine env)
                            (zero_RoutingTokenInfo\<lparr>ri_RoutingToken := token, ri_LicenseKey := u_InviteCode user, ri_Tier := u_Tier user,
                               ri_AuditPubKey := auditPubKey\<rparr>)) s1 of
                       (Some _, s2) \<Rightarrow> (Some C_Internal, s2)
                     | (None, s2) \<Rightarrow>
                       (case on_hub_db (SaveRegistrationRequest (he_engine env)
                               (zero_RegistrationRequest\<lparr>rr_Code := ''pake-'' @ sha1name, rr_NodeID := nodeId, rr_Status := ''APPROVED'',
                                  rr_CertPEM := certPem, rr_CaPEM := caPem, rr_RoutingToken := token, rr_LicenseKey := u_InviteCode user,
                                  rr_ExpiresAt := he_now env + 10 * 365 * 24 * 3600 * second\<rparr>)) s2 of
                          (Some _, s3) \<Rightarrow> (Some C_Internal, s3)
                        | (None, s3) \<Rightarrow> (None, s3))))))))"

datatype NodeStatus = NODE_STATUS_UNSPECIFIED | NODE_STATUS_ONLINE | NODE_STATUS_OFFLINE | NODE_STATUS_BLOCKED | NODE_STATUS_CONNECTING

definition ascii_lower :: "string \<Rightarrow> string" where
  "ascii_lower = map (\<lambda>c. if (65::nat) \<le> of_char c \<and> (of_char c :: nat) \<le> 90 then char_of (of_char c + 32 :: nat) else c)"

text \<open>The states the hub writes are ASCII; lower case of other letters is left out.\<close>

definition nodeStatusFromStore :: "string \<Rightarrow> NodeStatus" where
  "nodeStatusFromStore status =
     (let st = ascii_lower (strings_TrimSpace status) in
      if st = ''online'' then NODE_STATUS_ONLINE
      else if st = ''offline'' then NODE_STATUS_OFFLINE
      else if st = ''blocked'' then NODE_STATUS_BLOCKED
      else if st = ''connecting'' then NODE_STATUS_CONNECTING
      else NODE_STATUS_UNSPECIFIED)"

record pb_Node =
  pbn_Id :: string
  pbn_Status :: NodeStatus
  pbn_LastSeen :: gotime

definition to_pb :: "Node \<Rightarrow> pb_Node" where
  "to_pb n = \<lparr>pbn_Id = n_ID n, pbn_Status = nodeStatusFromStore (n_Status n), pbn_LastSeen = n_LastSeen n\<rparr>"

fun nodes_of_tokens :: "'d hub_env \<Rightarrow> string list \<Rightarrow> 'd HubServer \<Rightarrow> Node list" where
  "nodes_of_tokens env [] s = []"
| "nodes_of_tokens env (t # ts) s =
     (case GetNodeByRoutingToken (he_engine env) t (h_db s) of
        Inl _ \<Rightarrow> nodes_of_tokens env ts s
      | Inr n \<Rightarrow> n # nodes_of_tokens env ts s)"

definition mob_ListNodes :: "'d hub_env \<Rightarrow> string list \<Rightarrow> string \<Rightarrow> 'd HubServer \<Rightarrow> pb_Node list \<times> int" where
  "mob_ListNodes env tokens fil s =
     (if tokens = [] then ([], 0)
      else (let ns = map to_pb (filter (\<lambda>n. \<not> (fil \<noteq> [] \<and> fil \<noteq> ''all'' \<and> fil \<noteq> n_Status n)) (nodes_of_tokens env tokens s))
            in (ns, wrap32 (int (length ns)))))"

text \<open>What several calls check first: a token, and that it is the node's.\<close>

definition owned_node :: "'d hub_env \<Rightarrow> string \<Rightarrow> string \<Rightarrow> 'd HubServer \<Rightarrow> code + Node" where
  "owned_node env token nodeId s =
     (if token = [] then Inl C_InvalidArgument
      else case GetNode (he_engine env) nodeId (h_db s) of
             Inl _ \<Rightarrow> Inl C_NotFound
           | Inr n \<Rightarrow> (if n_RoutingToken n \<noteq> token then Inl C_PermissionDenied else Inr n))"

definition mob_GetNode :: "'d hub_env \<Rightarrow> string \<Rightarrow> string \<Rightarrow> 'd HubServer \<Rightarrow> code + pb_Node" where
  "mob_GetNode env token nodeId s = map_sum id to_pb (owned_node env token nodeId s)"

definition mob_RegisterNode :: "'d hub_env \<Rightarrow> string \<Rightarrow> 'd HubServer \<Rightarrow> code + string \<times> string" where
  "mob_RegisterNode env regCode s =
     (case GetRegistrationRequest (he_engine env) regCode (h_db s) of
        Inl _ \<Rightarrow> Inl C_NotFound
      | Inr r \<Rightarrow> Inr (rr_NodeID r, rr_CSR r))"

text \<open>\<open>payload\<close> renders the entry of the audit log for a node.\<close>

definition mob_ApproveNode ::
  "'d hub_env \<Rightarrow> (string \<Rightarrow> string) \<Rightarrow> string \<Rightarrow> string \<Rightarrow> string \<Rightarrow> string \<Rightarrow> 'd HubServer \<Rightarrow> (code option \<times> 'd HubServer) outcome" where
  "mob_ApproveNode env payload regCode certPEM caPEM token s =
     (if certPEM = [] \<or> caPEM = [] \<or> token = [] then Ret (Some C_InvalidArgument, s)
      else case Option.bind (parse_pem env caPEM) (he_ed25519 env) of
             None \<Rightarrow> Ret (Some C_InvalidArgument, s)
           | Some auditPubKey \<Rightarrow>
               (case GetRegistrationRequest (he_engine env) regCode (h_db s) of
                  Inl _ \<Rightarrow> Ret (Some C_NotFound, s)
                | Inr pending \<Rightarrow>
                    (let node = zero_Node\<lparr>n_ID := rr_NodeID pending, n_RoutingToken := token, n_CertPEM := certPEM, n_Status := ''offline''\<rparr>;
                         info = zero_RoutingTokenInfo\<lparr>ri_RoutingToken := token, ri_LicenseKey := rr_LicenseKey pending,
                                  ri_Tier := fst (getTierByLicenseKey (rr_LicenseKey pending) s), ri_AuditPubKey := auditPubKey\<rparr>
                     in case ApproveNodeAtomic (he_engine env) regCode certPEM caPEM token node (Some info) (h_db s) of
                          (Inl err, d1) \<Rightarrow> Ret (Some (if err = RowNotFound then C_NotFound else C_FailedPrecondition), s\<lparr>h_db := d1\<rparr>)
                        | (Inr req, d1) \<Rightarrow>
                            obind (rb_Broadcast regCode certPEM (s\<lparr>h_db := d1\<rparr>)) (\<lambda>s2.
                            Ret (None, auditLog env token (payload (rr_NodeID req)) s2)))))"

definition mob_DeleteNode ::
  "'d hub_env \<Rightarrow> (string \<Rightarrow> string) \<Rightarrow> string \<Rightarrow> string \<Rightarrow> 'd HubServer \<Rightarrow> code option \<times> 'd HubServer" where
  "mob_DeleteNode env payload token nodeId s =
     (case owned_node env token nodeId s of
        Inl c \<Rightarrow> (Some c, s)
      | Inr _ \<Rightarrow>
          (case on_hub_db (DeleteNode (he_engine env) nodeId) s of
             (Some _, s1) \<Rightarrow> (Some C_Internal, s1)
           | (None, s1) \<Rightarrow> (None, auditLog env token (payload nodeId) s1)))"

section \<open>Commands\<close>

text \<open>The first phase ends with the response channel registered and gives the node's channel with it.\<close>

definition send_prepare ::
  "'d hub_env \<Rightarrow> string \<Rightarrow> string \<Rightarrow> EncryptedPayload option \<Rightarrow> 'd HubServer \<Rightarrow> (code + string \<times> nat \<times> nat) \<times> 'd HubServer" where
  "send_prepare env nodeID token encrypted s =
     (if token = [] then (Inl C_InvalidArgument, s)
      else case GetNodeByRoutingToken (he_engine env) token (h_db s) of
             Inl _ \<Rightarrow> (Inl C_PermissionDenied, s)
           | Inr node \<Rightarrow>
               (if nodeID \<noteq> [] \<and> n_ID node \<noteq> nodeID then (Inl C_PermissionDenied, s)
                else if encrypted = None then (Inl C_InvalidArgument, s)
                else case gget (h_nodeCommandChans s) (n_ID node) of
                       None \<Rightarrow> (Inl C_Unavailable, s)
                     | Some cmdCh \<Rightarrow>
                         (case new_chan 1 s of
                            (respCh, s1) \<Rightarrow>
                              (Inr (n_ID node, cmdCh, respCh), s1\<lparr>h_commandResp := gput (he_uuid env) respCh (h_commandResp s1)\<rparr>))))"

text \<open>The blocking send: \<open>False\<close> when the buffer stays full for five seconds.\<close>

definition send_forward :: "nat \<Rightarrow> Command \<Rightarrow> 'd HubServer \<Rightarrow> (bool \<times> 'd HubServer) outcome" where
  "send_forward ch cmd s =
     (case gget (h_heap s) ch of
        None \<Rightarrow> Panics
      | Some c \<Rightarrow>
          (if \<not> ch_open c then Panics
           else if length (ch_buf c) < ch_cap c
           then Ret (True, s\<lparr>h_heap := gput ch (c\<lparr>ch_buf := ch_buf c @ [MCommand cmd]\<rparr>) (h_heap s)\<rparr>)
           else Ret (False, s)))"

definition send_finish :: "'d hub_env \<Rightarrow> 'd HubServer \<Rightarrow> 'd HubServer" where
  "send_finish env s = s\<lparr>h_commandResp := gdel (he_uuid env) (h_commandResp s)\<rparr>"

text \<open>\<open>mid1\<close> is what other calls do between the registration and the send, \<open>mid2\<close> what they do until the response or
  the timeout. A caller that leaves gets the same end as a timeout, with its own error.\<close>

definition mob_SendCommand ::
  "'d hub_env \<Rightarrow> ('d HubServer \<Rightarrow> 'd HubServer) \<Rightarrow> ('d HubServer \<Rightarrow> 'd HubServer) \<Rightarrow> string \<Rightarrow> string \<Rightarrow> EncryptedPayload option \<Rightarrow>
   'd HubServer \<Rightarrow> ((code + hub_msg) \<times> 'd HubServer) outcome" where
  "mob_SendCommand env mid1 mid2 nodeID token encrypted s =
     (case send_prepare env nodeID token encrypted s of
        (Inl c, s1) \<Rightarrow> Ret (Inl c, s1)
      | (Inr (_, cmdCh, respCh), s1) \<Rightarrow>
          obind (send_forward cmdCh \<lparr>cmd_Id = he_uuid env, cmd_Encrypted = encrypted\<rparr> (mid1 s1)) (\<lambda>(sent, s2).
          if \<not> sent then Ret (Inl C_Unavailable, send_finish env s2)
          else case receive respCh (mid2 s2) of
                 (Got resp, s3) \<Rightarrow> Ret (Inr resp, send_finish env s3)
               | (_, s3) \<Rightarrow> Ret (Inl C_DeadlineExceeded, send_finish env s3)))"

section \<open>Metrics and alerts\<close>

definition mob_StreamMetrics_begin :: "'d hub_env \<Rightarrow> string \<Rightarrow> string \<Rightarrow> 'd HubServer \<Rightarrow> (code + nat) \<times> 'd HubServer" where
  "mob_StreamMetrics_begin env token nodeId s =
     (case owned_node env token nodeId s of
        Inl c \<Rightarrow> (Inl c, s)
      | Inr _ \<Rightarrow>
          (case new_chan 10 s of
             (ch, s1) \<Rightarrow> (Inr ch, s1\<lparr>h_nodeMetricStreams := gput nodeId ch (h_nodeMetricStreams s1)\<rparr>)))"

definition mob_StreamMetrics_end :: "string \<Rightarrow> 'd HubServer \<Rightarrow> 'd HubServer" where
  "mob_StreamMetrics_end nodeId s = s\<lparr>h_nodeMetricStreams := gdel nodeId (h_nodeMetricStreams s)\<rparr>"

definition mob_GetMetricsHistory ::
  "'d hub_env \<Rightarrow> string \<Rightarrow> gotime option \<Rightarrow> gotime option \<Rightarrow> int \<Rightarrow> 'd HubServer \<Rightarrow> code + EncryptedEntry list" where
  "mob_GetMetricsHistory env token startO endO limit0 s =
     (if token = [] then Inl C_InvalidArgument
      else
        (let start = (case startO of None \<Rightarrow> he_now env - 24 * 3600 * second | Some t \<Rightarrow> t);
             stop = (case endO of None \<Rightarrow> he_now env | Some t \<Rightarrow> t);
             limit = (if limit0 \<le> 0 \<or> limit0 > 1000 then 100 else limit0)
         in case GetEncryptedMetricsHistory (he_engine env) token start stop limit (h_db s) of
              Inl _ \<Rightarrow> Inl C_Internal
            | Inr ms \<Rightarrow>
                Inr (map (\<lambda>m. \<lparr>ee_NodeId = em_NodeID m, ee_Timestamp = Some (em_Timestamp m),
                              ee_Encrypted = Some \<lparr>ep_ephemeralPubkey = [], ep_nonce = em_Nonce m, ep_ciphertext = em_EncryptedBlob m,
                                                 ep_senderFingerprint = em_SenderKeyID m, ep_signature = [], ep_algorithm = 0\<rparr>\<rparr>) ms)))"

text \<open>The set of tokens an alert stream is for.\<close>

definition alert_tokens :: "'d hub_env \<Rightarrow> string list \<Rightarrow> string \<Rightarrow> string option \<Rightarrow> 'd HubServer \<Rightarrow> code + string list" where
  "alert_tokens env listed nodeId ctxToken s =
     (case (if nodeId = [] then Inr []
            else case GetNode (he_engine env) nodeId (h_db s) of Inl _ \<Rightarrow> Inl C_NotFound | Inr n \<Rightarrow> Inr [n_RoutingToken n]) of
        Inl c \<Rightarrow> Inl c
      | Inr byNode \<Rightarrow>
          (let tokens = remdups (filter (\<lambda>t. t \<noteq> []) listed @ byNode @
                          (case ctxToken of None \<Rightarrow> [] | Some t \<Rightarrow> if t \<noteq> [] then [t] else []))
           in if tokens = [] then Inl C_InvalidArgument else Inr tokens))"

definition add_stream :: "nat \<Rightarrow> string \<Rightarrow> (string, nat list) gomap \<Rightarrow> (string, nat list) gomap" where
  "add_stream ch token m = gput token (case gget m token of None \<Rightarrow> [ch] | Some chs \<Rightarrow> if ch \<in> set chs then chs else chs @ [ch]) m"

definition drop_stream :: "nat \<Rightarrow> string \<Rightarrow> (string, nat list) gomap \<Rightarrow> (string, nat list) gomap" where
  "drop_stream ch token m =
     (case gget m token of
        None \<Rightarrow> m
      | Some chs \<Rightarrow> (let chs' = removeAll ch chs in if chs' = [] then gdel token m else gput token chs' m))"

definition mob_StreamAlerts_begin ::
  "'d hub_env \<Rightarrow> string list \<Rightarrow> string \<Rightarrow> string option \<Rightarrow> 'd HubServer \<Rightarrow> (code + string list \<times> nat) \<times> 'd HubServer" where
  "mob_StreamAlerts_begin env listed nodeId ctxToken s =
     (case alert_tokens env listed nodeId ctxToken s of
        Inl c \<Rightarrow> (Inl c, s)
      | Inr tokens \<Rightarrow>
          (case new_chan 10 s of
             (ch, s1) \<Rightarrow> (Inr (tokens, ch), s1\<lparr>h_userStreams := fold (add_stream ch) tokens (h_userStreams s1)\<rparr>)))"

definition mob_StreamAlerts_end :: "string list \<Rightarrow> nat \<Rightarrow> 'd HubServer \<Rightarrow> 'd HubServer outcome" where
  "mob_StreamAlerts_end tokens ch s =
     on_heap (close_chan ch) (s\<lparr>h_userStreams := fold (drop_stream ch) tokens (h_userStreams s)\<rparr>)"

section \<open>Signaling\<close>

definition mob_StreamSignaling_begin :: "string \<Rightarrow> 'd HubServer \<Rightarrow> nat \<times> 'd HubServer" where
  "mob_StreamSignaling_begin sessionID s =
     (case new_chan 10 s of
        (ch, s1) \<Rightarrow> (ch, s1\<lparr>h_mobileSignalingStreams := gput sessionID ch (h_mobileSignalingStreams s1)\<rparr>))"

definition mob_StreamSignaling_step :: "string \<Rightarrow> string \<Rightarrow> SignalMessage \<Rightarrow> 'd HubServer \<Rightarrow> 'd HubServer outcome" where
  "mob_StreamSignaling_step sessionID userID msg s =
     (case gget (h_nodeSignalingStreams s) (sm_TargetId msg) of
        None \<Rightarrow> Ret s
      | Some ch \<Rightarrow> on_heap (try_send ch (MSignal (msg\<lparr>sm_SourceId := sessionID, sm_SourceUserId := userID\<rparr>))) s)"

definition mob_StreamSignaling_end :: "string \<Rightarrow> nat \<Rightarrow> 'd HubServer \<Rightarrow> 'd HubServer outcome" where
  "mob_StreamSignaling_end sessionID ch s =
     on_heap (close_chan ch) (s\<lparr>h_mobileSignalingStreams := gdel sessionID (h_mobileSignalingStreams s)\<rparr>)"

end
