(* ===== verification/Hub_Streams.thy ===== *)
theory Hub_Streams
  imports Hub_Mobile
begin

text \<open>
  The streams of the hub together: every call that is open holds a channel, and the hub's maps lead to channels of open calls
  only. \<open>stream_inv\<close> says so for a state and the set of open calls, and the lemmas show, call by call, that
  \<^verbatim>\<open>node_server.go\<close> and \<^verbatim>\<open>mobile_server.go\<close> return and keep it.
\<close>

section \<open>Heap of channels\<close>

definition heap_fresh :: "heap \<Rightarrow> bool" where
  "heap_fresh h \<longleftrightarrow> (\<forall>k. (gget h k \<noteq> None) = (k < length h))"

lemma gget_append_fresh: "heap_fresh h \<Longrightarrow> gget (h @ [(length h, c)]) k = (if k = length h then Some c else gget h k)"
  by (auto simp: heap_fresh_def gget_def map_add_def split: option.split)

lemma heap_fresh_append: "heap_fresh h \<Longrightarrow> heap_fresh (h @ [(length h, c)])"
  using gget_append_fresh [of h c] by (auto simp: heap_fresh_def less_Suc_eq)

lemma heap_fresh_gput: "heap_fresh h \<Longrightarrow> gget h k = Some c \<Longrightarrow> heap_fresh (gput k c' h)"
  by (auto simp: heap_fresh_def length_gput)

text \<open>\<open>sent chs m h h'\<close>: the message may have been added to the buffers of these channels, nothing else changed.\<close>

definition extends :: "hub_msg \<Rightarrow> hub_chan \<Rightarrow> hub_chan \<Rightarrow> bool" where
  "extends m c c' \<longleftrightarrow> ch_open c' = ch_open c \<and> set (ch_buf c') \<subseteq> insert m (set (ch_buf c))"

definition sent :: "nat set \<Rightarrow> hub_msg \<Rightarrow> heap \<Rightarrow> heap \<Rightarrow> bool" where
  "sent chs m h h' \<longleftrightarrow>
     length h' = length h \<and> (\<forall>k. rel_option (extends m) (gget h k) (gget h' k) \<and> (k \<notin> chs \<longrightarrow> gget h' k = gget h k))"

definition is_open :: "heap \<Rightarrow> nat \<Rightarrow> bool" where
  "is_open h k \<longleftrightarrow> (\<exists>c. gget h k = Some c \<and> ch_open c)"

lemma extends_refl [simp]: "extends m c c"
  by (auto simp: extends_def)

lemma extends_trans: "extends m a b \<Longrightarrow> extends m b c \<Longrightarrow> extends m a c"
  by (auto simp: extends_def)

lemma sent_refl [simp]: "sent chs m h h"
  by (simp add: sent_def option.rel_refl)

lemma sent_fresh: "sent chs m h h' \<Longrightarrow> heap_fresh h \<Longrightarrow> heap_fresh h'"
  unfolding sent_def heap_fresh_def by (metis option.rel_sel)

lemma sent_open: "sent chs m h h' \<Longrightarrow> is_open h' k = is_open h k"
proof -
  assume "sent chs m h h'"
  then have "rel_option (extends m) (gget h k) (gget h' k)" by (simp add: sent_def)
  then show ?thesis by (cases "gget h k"; cases "gget h' k") (auto simp: extends_def is_open_def)
qed

lemma sent_mono: "sent A m h h' \<Longrightarrow> A \<subseteq> B \<Longrightarrow> sent B m h h'"
  unfolding sent_def by blast

lemma sent_trans: "sent A m h h' \<Longrightarrow> sent A m h' h'' \<Longrightarrow> sent A m h h''"
  unfolding sent_def using option.rel_transp [unfolded transp_def, of "extends m"] extends_trans by (metis (full_types))

lemma try_send_sent: "is_open h ch \<Longrightarrow> \<exists>h'. try_send ch m h = Ret h' \<and> sent {ch} m h h'"
  by (auto simp: is_open_def try_send_def sent_def length_gput extends_def option.rel_refl)

lemma send_each_sent: "\<forall>ch \<in> set chs. is_open h ch \<Longrightarrow> \<exists>h'. send_each chs m h = Ret h' \<and> sent (set chs) m h h'"
proof (induction chs arbitrary: h)
  case (Cons ch chs)
  from Cons.prems try_send_sent [of h ch m] obtain h1 where h1: "try_send ch m h = Ret h1" "sent {ch} m h h1" by auto
  with Cons.prems sent_open [OF h1(2)] Cons.IH [of h1] obtain h2 where "send_each chs m h1 = Ret h2" "sent (set chs) m h1 h2" by auto
  then show ?case
    using h1 sent_trans [OF sent_mono [OF h1(2)] sent_mono, of "set (ch # chs)" "set chs" h2] by auto
qed simp

text \<open>Closing changes the state of one channel.\<close>

lemma close_chan_open:
  "is_open h ch \<Longrightarrow> \<exists>h'. close_chan ch h = Ret h' \<and> length h' = length h \<and> (\<forall>k. k \<noteq> ch \<longrightarrow> gget h' k = gget h k) \<and>
     (\<exists>c. gget h ch = Some c \<and> gget h' ch = Some (c\<lparr>ch_open := False\<rparr>))"
  by (auto simp: is_open_def close_chan_def length_gput)

section \<open>Open calls\<close>

text \<open>A call that waits on a channel: the key it is registered under and its channel. A command that is being sent also
  knows its target and the channel of the target's stream.\<close>

datatype handler =
  HCommands string nat | HNodeSignal string nat | HMobSignal string nat | HAlerts "string list" nat | HWatch string nat |
  HMetrics string nat | HCall string nat string nat

fun h_chan :: "handler \<Rightarrow> nat" where
  "h_chan (HCommands _ ch) = ch"
| "h_chan (HNodeSignal _ ch) = ch"
| "h_chan (HMobSignal _ ch) = ch"
| "h_chan (HAlerts _ ch) = ch"
| "h_chan (HWatch _ ch) = ch"
| "h_chan (HMetrics _ ch) = ch"
| "h_chan (HCall _ ch _ _) = ch"

text \<open>The messages a call may receive.\<close>

fun fits :: "handler \<Rightarrow> hub_msg \<Rightarrow> bool" where
  "fits (HCommands _ _) m = (case m of MCommand _ \<Rightarrow> True | _ \<Rightarrow> False)"
| "fits (HNodeSignal n _) m = (case m of MSignal sm \<Rightarrow> sm_TargetId sm = n | _ \<Rightarrow> False)"
| "fits (HMobSignal sid _) m = (case m of MSignal sm \<Rightarrow> sm_TargetId sm = sid | _ \<Rightarrow> False)"
| "fits (HAlerts _ _) m = (case m of MAlert _ \<Rightarrow> True | _ \<Rightarrow> False)"
| "fits (HWatch _ _) m = (case m of MCert _ \<Rightarrow> True | _ \<Rightarrow> False)"
| "fits (HMetrics n _) m = (case m of MMetrics e \<Rightarrow> ee_NodeId e = n | _ \<Rightarrow> False)"
| "fits (HCall cid _ _ _) m = (case m of MResponse r \<Rightarrow> resp_CommandId r = cid | _ \<Rightarrow> False)"

fun is_commands :: "handler \<Rightarrow> bool" where
  "is_commands (HCommands _ _) = True"
| "is_commands _ = False"

definition live :: "heap \<Rightarrow> handler \<Rightarrow> bool" where
  "live h x \<longleftrightarrow> (\<exists>c. gget h (h_chan x) = Some c \<and> (\<forall>m \<in> set (ch_buf c). fits x m) \<and> (is_commands x \<or> ch_open c))"

text \<open>The entries of the hub's maps belong to open calls.\<close>

definition registered_ok :: "'d HubServer \<Rightarrow> handler set \<Rightarrow> bool" where
  "registered_ok s L \<longleftrightarrow>
     (\<forall>n ch. gget (h_nodeCommandChans s) n = Some ch \<longrightarrow> HCommands n ch \<in> L \<and> is_open (h_heap s) ch) \<and>
     (\<forall>n ch. gget (h_nodeSignalingStreams s) n = Some ch \<longrightarrow> HNodeSignal n ch \<in> L) \<and>
     (\<forall>n ch. gget (h_mobileSignalingStreams s) n = Some ch \<longrightarrow> HMobSignal n ch \<in> L) \<and>
     (\<forall>n ch. gget (h_nodeMetricStreams s) n = Some ch \<longrightarrow> HMetrics n ch \<in> L) \<and>
     (\<forall>i ch. gget (h_commandResp s) i = Some ch \<longrightarrow> (\<exists>n c. HCall i ch n c \<in> L)) \<and>
     (\<forall>t ch. ch \<in> set (streams_of t s) \<longrightarrow> (\<exists>ts. t \<in> set ts \<and> HAlerts ts ch \<in> L)) \<and>
     (\<forall>c ch. ch \<in> set (subscribers_of c s) \<longrightarrow> HWatch c ch \<in> L) \<and> (\<forall>c. distinct (subscribers_of c s)) \<and>
     (\<forall>t. distinct (streams_of t s)) \<and> h_nodeLogStreams s = []"

definition stream_inv :: "'d HubServer \<Rightarrow> handler set \<Rightarrow> bool" where
  "stream_inv s L \<longleftrightarrow>
     heap_fresh (h_heap s) \<and> inj_on h_chan L \<and> (\<forall>x \<in> L. live (h_heap s) x) \<and>
     (\<forall>i ch n c. HCall i ch n c \<in> L \<longrightarrow> c < length (h_heap s) \<and> (\<forall>x \<in> L. h_chan x = c \<longrightarrow> x = HCommands n c)) \<and>
     registered_ok s L"

section \<open>Steps that keep the invariant\<close>

lemmas registry_defs = registered_ok_def streams_of_def subscribers_of_def

lemma live_open: "live h x \<Longrightarrow> \<not> is_commands x \<Longrightarrow> is_open h (h_chan x)"
  by (auto simp: live_def is_open_def)

lemma live_sent:
  assumes "sent chs m h h'" and "live h x" and "h_chan x \<in> chs \<Longrightarrow> fits x m"
  shows "live h' x"
proof -
  obtain c where c: "gget h (h_chan x) = Some c" "\<forall>m \<in> set (ch_buf c). fits x m" "is_commands x \<or> ch_open c"
    using assms(2) by (auto simp: live_def)
  from assms(1) have "rel_option (extends m) (gget h (h_chan x)) (gget h' (h_chan x))" "h_chan x \<notin> chs \<longrightarrow> gget h' (h_chan x) = gget h (h_chan x)"
    by (simp_all add: sent_def)
  then show ?thesis using c assms(3) by (cases "h_chan x \<in> chs") (auto simp: live_def extends_def option_rel_Some1)
qed

lemma inv_sent:
  assumes "stream_inv s L" and "sent chs m (h_heap s) h'" and "\<And>x. x \<in> L \<Longrightarrow> h_chan x \<in> chs \<Longrightarrow> fits x m"
  shows "stream_inv (s\<lparr>h_heap := h'\<rparr>) L"
proof -
  have "length h' = length (h_heap s)" using assms(2) by (simp add: sent_def)
  moreover have "\<forall>x \<in> L. live h' x" using assms live_sent [OF assms(2)] by (auto simp: stream_inv_def)
  moreover have "registered_ok (s\<lparr>h_heap := h'\<rparr>) L"
    using assms(1) sent_open [OF assms(2)] by (simp add: stream_inv_def registry_defs)
  ultimately show ?thesis using assms(1) sent_fresh [OF assms(2)] by (simp add: stream_inv_def)
qed

lemma new_chan_inv:
  assumes "stream_inv s L" and "new_chan cap s = (ch, s')"
  shows "stream_inv s' L \<and> ch \<notin> h_chan ` L \<and> gget (h_heap s') ch = Some \<lparr>ch_buf = [], ch_cap = cap, ch_open = True\<rparr> \<and>
    (\<forall>i c n t. HCall i c n t \<in> L \<longrightarrow> t \<noteq> ch) \<and> ch = length (h_heap s) \<and> length (h_heap s') = Suc (length (h_heap s)) \<and>
    s' = s\<lparr>h_heap := h_heap s'\<rparr>"
proof -
  let ?c = "\<lparr>ch_buf = [], ch_cap = cap, ch_open = True\<rparr>"
  have ch: "ch = length (h_heap s)" "s' = s\<lparr>h_heap := h_heap s @ [(ch, ?c)]\<rparr>"
    using assms(2) by (auto simp: new_chan_def Let_def)
  have f: "heap_fresh (h_heap s)" using assms(1) by (simp add: stream_inv_def)
  have g: "gget (h_heap s') k = (if k = ch then Some ?c else gget (h_heap s) k)" for k
    using gget_append_fresh [OF f] ch by simp
  have n: "gget (h_heap s) ch = None" using f ch(1) by (auto simp: heap_fresh_def)
  have fr: "ch \<notin> h_chan ` L" using assms(1) n by (auto simp: stream_inv_def live_def)
  have t: "t < ch" if "HCall i c n t \<in> L" for i c n t using that assms(1) ch(1) by (auto simp: stream_inv_def)
  have "live (h_heap s') x" if "x \<in> L" for x
    using that assms(1) g n by (auto simp: stream_inv_def live_def)
  moreover have "registered_ok s' L"
    using assms(1) g n unfolding ch(2) by (auto simp: stream_inv_def registry_defs is_open_def)
  moreover have "heap_fresh (h_heap s')" and len: "length (h_heap s') = Suc ch" using heap_fresh_append [OF f] ch by simp_all
  moreover have "\<forall>i c n t. HCall i c n t \<in> L \<longrightarrow> t < Suc ch \<and> (\<forall>x \<in> L. h_chan x = t \<longrightarrow> x = HCommands n t)"
    using assms(1) t by (simp add: stream_inv_def less_SucI)
  ultimately have "stream_inv s' L" using assms(1) by (simp add: stream_inv_def)
  moreover have "\<forall>i c n t. HCall i c n t \<in> L \<longrightarrow> t \<noteq> ch" using t by blast
  ultimately show ?thesis using fr g len ch by simp
qed

lemma registered_mono: "registered_ok s L \<Longrightarrow> L \<subseteq> L' \<Longrightarrow> registered_ok s L'"
  unfolding registered_ok_def by (intro conjI; elim conjE) (assumption | meson subsetD)+

lemma inv_insert:
  assumes "stream_inv s L" and "live (h_heap s) x" and "h_chan x \<notin> h_chan ` L" and "\<And>i c n t. HCall i c n t \<in> L \<Longrightarrow> t \<noteq> h_chan x"
    and "\<And>i c n t. x = HCall i c n t \<Longrightarrow> t < length (h_heap s) \<and> t \<noteq> c \<and> (\<forall>y \<in> L. h_chan y = t \<longrightarrow> y = HCommands n t)"
  shows "stream_inv s (insert x L)"
proof -
  have "registered_ok s (insert x L)" using assms(1) registered_mono [of s L "insert x L"] by (auto simp: stream_inv_def)
  then show ?thesis using assms(1-3,5) by (auto simp: stream_inv_def dest: assms(4))
qed

lemma inv_remove: "stream_inv s L \<Longrightarrow> registered_ok s (L - {x}) \<Longrightarrow> stream_inv s (L - {x})"
  by (auto simp: stream_inv_def intro: inj_on_diff)

lemma inv_registered: "stream_inv s L \<Longrightarrow> registered_ok s' L \<Longrightarrow> h_heap s' = h_heap s \<Longrightarrow> stream_inv s' L"
  by (simp add: stream_inv_def)

lemma inv_closed:
  assumes "stream_inv s L" and "is_open (h_heap s) ch" and "\<And>x. x \<in> L \<Longrightarrow> h_chan x = ch \<Longrightarrow> is_commands x"
    and "\<And>n. gget (h_nodeCommandChans s) n \<noteq> Some ch"
  shows "\<exists>s'. on_heap (close_chan ch) s = Ret s' \<and> stream_inv s' L \<and> s' = s\<lparr>h_heap := h_heap s'\<rparr>"
proof -
  obtain h' c where h': "close_chan ch (h_heap s) = Ret h'" "length h' = length (h_heap s)" "\<forall>k. k \<noteq> ch \<longrightarrow> gget h' k = gget (h_heap s) k"
    "gget (h_heap s) ch = Some c" "gget h' ch = Some (c\<lparr>ch_open := False\<rparr>)"
    using close_chan_open [OF assms(2)] by blast
  have "heap_fresh h'" using assms(1) h' unfolding stream_inv_def heap_fresh_def by (metis option.distinct(1))
  moreover have "live h' x" if "x \<in> L" for x
    using that assms(1,3) h' by (cases "h_chan x = ch") (auto simp: stream_inv_def live_def)
  moreover have "registered_ok (s\<lparr>h_heap := h'\<rparr>) L"
  proof -
    have "is_open h' k" if "gget (h_nodeCommandChans s) n = Some k" for n k
      using that assms(1) assms(4) [of n] h'(3) by (auto simp: stream_inv_def registered_ok_def is_open_def)
    then show ?thesis using assms(1) by (simp add: stream_inv_def registry_defs)
  qed
  ultimately have "stream_inv (s\<lparr>h_heap := h'\<rparr>) L" using assms(1) h'(2) by (simp add: stream_inv_def)
  then show ?thesis using h'(1) by (auto simp: on_heap_def)
qed

lemma stream_inv_db [simp]: "stream_inv (s\<lparr>h_db := d\<rparr>) L = stream_inv s L"
  by (simp add: stream_inv_def registry_defs)

lemma stream_inv_pending [simp]: "stream_inv (s\<lparr>h_pendingAlerts := p\<rparr>) L = stream_inv s L"
  by (simp add: stream_inv_def registry_defs)

lemma set_status_eq: "\<exists>d. set_status env n st s = s\<lparr>h_db := d\<rparr>"
  by (auto simp: set_status_def on_hub_db_def split: prod.split)

lemma on_hub_db_eq: "\<exists>d. snd (on_hub_db f s) = s\<lparr>h_db := d\<rparr>"
  by (auto simp: on_hub_db_def split: prod.split)

lemma inv_D:
  assumes "stream_inv s L"
  shows "inj_on h_chan L" "\<And>x. x \<in> L \<Longrightarrow> live (h_heap s) x" "registered_ok s L"
  using assms by (auto simp: stream_inv_def)

lemma registered_D:
  assumes "registered_ok s L"
  shows "gget (h_nodeCommandChans s) n = Some ch \<Longrightarrow> HCommands n ch \<in> L"
    "gget (h_nodeCommandChans s) n = Some ch \<Longrightarrow> is_open (h_heap s) ch"
    "gget (h_nodeSignalingStreams s) n = Some ch \<Longrightarrow> HNodeSignal n ch \<in> L"
    "gget (h_mobileSignalingStreams s) n = Some ch \<Longrightarrow> HMobSignal n ch \<in> L"
    "gget (h_nodeMetricStreams s) n = Some ch \<Longrightarrow> HMetrics n ch \<in> L"
    "gget (h_commandResp s) n = Some ch \<Longrightarrow> \<exists>t c. HCall n ch t c \<in> L"
    "ch \<in> set (streams_of n s) \<Longrightarrow> \<exists>ts. n \<in> set ts \<and> HAlerts ts ch \<in> L"
    "ch \<in> set (subscribers_of n s) \<Longrightarrow> HWatch n ch \<in> L"
  using assms unfolding registered_ok_def by blast+

lemma inj_handler: "stream_inv s L \<Longrightarrow> x \<in> L \<Longrightarrow> y \<in> L \<Longrightarrow> h_chan x = h_chan y \<Longrightarrow> x = y"
  using inv_D(1) by (meson inj_onD)

text \<open>A message to one open call, and to several.\<close>

lemma send_one:
  assumes "stream_inv s L" and "x \<in> L" and "\<not> is_commands x \<or> is_open (h_heap s) (h_chan x)" and "fits x m" and "ch = h_chan x"
  shows "\<exists>s'. on_heap (try_send ch m) s = Ret s' \<and> stream_inv s' L \<and> s' = s\<lparr>h_heap := h_heap s'\<rparr>"
proof -
  have "is_open (h_heap s) ch" using assms live_open [OF inv_D(2) [OF assms(1,2)]] by auto
  then obtain h' where h': "try_send ch m (h_heap s) = Ret h'" "sent {ch} m (h_heap s) h'" using try_send_sent by blast
  have "stream_inv (s\<lparr>h_heap := h'\<rparr>) L"
    by (rule inv_sent [OF assms(1) h'(2)]) (use assms(4,5) inj_handler [OF assms(1) _ assms(2)] in auto)
  then show ?thesis using h'(1) by (auto simp: on_heap_def)
qed

lemma send_many:
  assumes "stream_inv s L" and "\<And>ch. ch \<in> set chs \<Longrightarrow> \<exists>x \<in> L. h_chan x = ch \<and> \<not> is_commands x \<and> fits x m"
  shows "\<exists>s'. on_heap (send_each chs m) s = Ret s' \<and> stream_inv s' L \<and> s' = s\<lparr>h_heap := h_heap s'\<rparr>"
proof -
  have "\<forall>ch \<in> set chs. is_open (h_heap s) ch" using assms live_open inv_D(2) by metis
  then obtain h' where h': "send_each chs m (h_heap s) = Ret h'" "sent (set chs) m (h_heap s) h'" using send_each_sent by blast
  have "stream_inv (s\<lparr>h_heap := h'\<rparr>) L"
    by (rule inv_sent [OF assms(1) h'(2)]) (use assms inj_handler [OF assms(1)] in metis)
  then show ?thesis using h'(1) by (auto simp: on_heap_def)
qed

section \<open>Calls of nodes\<close>

lemma commands_begin_inv:
  assumes "stream_inv s L"
  shows "\<exists>ch s'. nd_ReceiveCommands_begin env (Some n) s = Ret (Inr (n, ch), s') \<and> stream_inv s' (insert (HCommands n ch) L)"
proof -
  obtain d where d: "set_status env n ''online'' s = s\<lparr>h_db := d\<rparr>" using set_status_eq [of env n "''online''" s] ..
  obtain ch s1 where n: "new_chan 10 (s\<lparr>h_db := d\<rparr>) = (ch, s1)" by fastforce
  have i: "stream_inv s1 L" "ch \<notin> h_chan ` L" "gget (h_heap s1) ch = Some \<lparr>ch_buf = [], ch_cap = 10, ch_open = True\<rparr>"
    "\<forall>i c n t. HCall i c n t \<in> L \<longrightarrow> t \<noteq> ch"
    using new_chan_inv [of "s\<lparr>h_db := d\<rparr>" L] assms n by auto
  let ?s2 = "s1\<lparr>h_nodeCommandChans := gput n ch (h_nodeCommandChans s1)\<rparr>" and ?L = "insert (HCommands n ch) L"
  have "stream_inv s1 ?L" by (rule inv_insert [OF i(1)]) (use i in \<open>auto simp: live_def\<close>)
  moreover have "registered_ok ?s2 ?L"
    using inv_D(3) [OF calculation] i(3) by (auto simp: registry_defs is_open_def)
  ultimately have s2: "stream_inv ?s2 ?L" by (rule inv_registered) simp
  show ?thesis
  proof (cases "gget (h_nodeCommandChans s1) n")
    case None
    then show ?thesis using d n s2 by (auto simp: nd_ReceiveCommands_begin_def)
  next
    case (Some old)
    have old: "HCommands n old \<in> L" "is_open (h_heap s1) old" using registered_D(1,2) [OF inv_D(3) [OF i(1)] Some] by auto
    then have ne: "old \<noteq> ch" using i(2) by force
    have "\<exists>s3. on_heap (close_chan old) ?s2 = Ret s3 \<and> stream_inv s3 ?L \<and> s3 = ?s2\<lparr>h_heap := h_heap s3\<rparr>"
    proof (rule inv_closed [OF s2])
      fix x assume "x \<in> ?L" "h_chan x = old"
      then have "x = HCommands n old" using old(1) ne inj_handler [OF i(1), of x "HCommands n old"] by fastforce
      then show "is_commands x" by simp
    next
      fix n' show "gget (h_nodeCommandChans ?s2) n' \<noteq> Some old"
        using ne old(1) registered_D(1) [OF inv_D(3) [OF i(1)], of n' old] inj_handler [OF i(1), of "HCommands n' old" "HCommands n old"]
        by auto
    qed (use old(2) in simp)
    then obtain h3 where "close_chan old (h_heap s1) = Ret h3" "stream_inv (?s2\<lparr>h_heap := h3\<rparr>) ?L"
      by (auto simp: on_heap_def)
    moreover from this(2) have "stream_inv (s1\<lparr>h_heap := h3, h_nodeCommandChans := gput n ch (h_nodeCommandChans s1)\<rparr>) ?L"
      by (rule back_subst [of "\<lambda>s. stream_inv s ?L"]) simp
    ultimately show ?thesis using d n Some by (auto simp: nd_ReceiveCommands_begin_def on_heap_def)
  qed
qed

lemma commands_end_inv:
  assumes "stream_inv s L" and "HCommands n ch \<in> L"
  shows "stream_inv (nd_ReceiveCommands_end env n ch s) (L - {HCommands n ch})"
proof (cases "gget (h_nodeCommandChans s) n = Some ch")
  case True
  let ?s1 = "s\<lparr>h_nodeCommandChans := gdel n (h_nodeCommandChans s)\<rparr>"
  obtain d where d: "set_status env n ''offline'' ?s1 = ?s1\<lparr>h_db := d\<rparr>" using set_status_eq [of env n "''offline''" ?s1] ..
  have "registered_ok ?s1 (L - {HCommands n ch})" using inv_D(3) [OF assms(1)] by (auto simp: registry_defs)
  then have "registered_ok ?s1 L" using registered_mono by blast
  then have "stream_inv ?s1 L" by (rule inv_registered [OF assms(1)]) simp
  then have "stream_inv ?s1 (L - {HCommands n ch})" using \<open>registered_ok ?s1 (L - _)\<close> by (rule inv_remove)
  then show ?thesis using True d by (simp add: nd_ReceiveCommands_end_def)
next
  case False
  then have "registered_ok s (L - {HCommands n ch})" using inv_D(3) [OF assms(1)] by (auto simp: registry_defs)
  then show ?thesis using False inv_remove [OF assms(1)] by (simp add: nd_ReceiveCommands_end_def)
qed

lemma receive_inv:
  assumes "stream_inv s L" and "x \<in> L" and "receive (h_chan x) s = (t, s')"
  shows "stream_inv s' L \<and> (\<forall>m. t = Got m \<longrightarrow> fits x m)"
proof -
  obtain c where c: "gget (h_heap s) (h_chan x) = Some c" "\<forall>m \<in> set (ch_buf c). fits x m"
    using inv_D(2) [OF assms(1,2)] by (auto simp: live_def)
  show ?thesis
  proof (cases "ch_buf c")
    case Nil
    then show ?thesis using assms c by (auto simp: receive_def split: if_splits)
  next
    case (Cons m ms)
    let ?h = "gput (h_chan x) (c\<lparr>ch_buf := ms\<rparr>) (h_heap s)"
    have "sent {h_chan x} m (h_heap s) ?h"
      using c(1) Cons by (auto simp: sent_def length_gput extends_def option.rel_refl)
    then have "stream_inv (s\<lparr>h_heap := ?h\<rparr>) L"
      by (rule inv_sent [OF assms(1)]) (use c(2) Cons inj_handler [OF assms(1) _ assms(2)] in auto)
    then show ?thesis using assms(3) c Cons by (auto simp: receive_def)
  qed
qed

lemma respond_inv:
  assumes "stream_inv s L"
  shows "\<exists>r s'. nd_RespondToCommand ro s = Ret (r, s') \<and> stream_inv s' L"
proof (cases "\<exists>r ch. ro = Some r \<and> resp_EncryptedData r \<noteq> None \<and> gget (h_commandResp s) (resp_CommandId r) = Some ch")
  case True
  then obtain r ch where r: "ro = Some r" "resp_EncryptedData r \<noteq> None" "gget (h_commandResp s) (resp_CommandId r) = Some ch" by blast
  let ?s1 = "s\<lparr>h_commandResp := gdel (resp_CommandId r) (h_commandResp s)\<rparr>"
  obtain n c where x: "HCall (resp_CommandId r) ch n c \<in> L" using registered_D(6) [OF inv_D(3) [OF assms] r(3)] by blast
  have "registered_ok ?s1 L" using inv_D(3) [OF assms] by (auto simp: registry_defs)
  then have "stream_inv ?s1 L" by (rule inv_registered [OF assms]) simp
  from send_one [OF this x, of "MResponse r" ch] show ?thesis using r by (auto simp: nd_RespondToCommand_def)
qed (use assms in \<open>auto simp: nd_RespondToCommand_def split: option.split\<close>)

lemma forward_metrics_inv:
  assumes "stream_inv s L" and "ee_NodeId e = n"
  shows "\<exists>s'. forward_to (h_nodeMetricStreams s) n (MMetrics e) s = Ret s' \<and> stream_inv s' L"
proof (cases "gget (h_nodeMetricStreams s) n")
  case (Some ch)
  from send_one [OF assms(1) registered_D(5) [OF inv_D(3) [OF assms(1)] Some], of "MMetrics e" ch] assms(2) Some show ?thesis
    by (auto simp: forward_to_def)
qed (use assms in \<open>simp add: forward_to_def\<close>)

lemma push_metrics_inv:
  assumes "stream_inv s L"
  shows "\<exists>r s'. nd_PushMetrics_step env n token m s = Ret (r, s') \<and> stream_inv s' L"
proof (cases "ee_Encrypted m = None")
  case False
  let ?f = "SaveEncryptedMetric (he_engine env) \<lparr>em_ID = 0, em_NodeID = n, em_RoutingToken = token,
    em_Timestamp = (case ee_Timestamp m of None \<Rightarrow> he_now env | Some t \<Rightarrow> t),
    em_EncryptedBlob = payload_part ep_ciphertext m, em_Nonce = payload_part ep_nonce m, em_SenderKeyID = payload_part ep_senderFingerprint m\<rparr>"
  have "stream_inv (snd (on_hub_db ?f s)) L" using on_hub_db_eq [of ?f s] assms by auto
  from forward_metrics_inv [OF this, of "m\<lparr>ee_NodeId := n\<rparr>" n] False show ?thesis
    by (auto simp: nd_PushMetrics_step_def Let_def)
qed (use assms in \<open>simp add: nd_PushMetrics_step_def\<close>)

lemma make_room_eq: "\<exists>d. make_room env k token s = s\<lparr>h_db := d\<rparr>"
proof (cases "make_room env k token s = s")
  case True
  then show ?thesis by (intro exI [of _ "h_db s"]) simp
next
  case False
  then show ?thesis using on_hub_db_eq [of "DeleteOldestLogs (he_engine env) token (k * 9 div 10)" s]
    by (auto simp: make_room_def split: if_splits sum.splits)
qed

lemma push_logs_inv:
  assumes "stream_inv s L"
  shows "\<exists>r s'. nd_PushLogs_step env k n token m s = Ret (r, s') \<and> stream_inv s' L"
proof (cases "ee_Encrypted m = None")
  case False
  let ?f = "SaveEncryptedLog (he_engine env) \<lparr>el_ID = 0, el_NodeID = n, el_RoutingToken = token,
    el_Timestamp = (case ee_Timestamp m of None \<Rightarrow> he_now env | Some t \<Rightarrow> t),
    el_EncryptedBlob = payload_part ep_ciphertext m, el_Nonce = payload_part ep_nonce m, el_SenderKeyID = payload_part ep_senderFingerprint m\<rparr>"
  let ?s1 = "make_room env k token s"
  have "stream_inv ?s1 L" using make_room_eq [of env k token s] assms by auto
  then have "stream_inv (snd (on_hub_db ?f ?s1)) L" using on_hub_db_eq [of ?f ?s1] by auto
  moreover from this have "h_nodeLogStreams (snd (on_hub_db ?f ?s1)) = []" using inv_D(3) by (auto simp: registered_ok_def)
  ultimately show ?thesis using False by (auto simp: nd_PushLogs_step_def Let_def forward_to_def)
qed (use assms in \<open>simp add: nd_PushLogs_step_def\<close>)

lemma forward_alert_inv:
  assumes "stream_inv s L"
  shows "\<exists>s'. ForwardAlertToClients token a s = Ret s' \<and> stream_inv s' L"
proof -
  have "\<exists>x \<in> L. h_chan x = ch \<and> \<not> is_commands x \<and> fits x (MAlert a)" if ch: "ch \<in> set (streams_of token s)" for ch
    using registered_D(7) [OF inv_D(3) [OF assms] ch] by force
  from send_many [OF assms, of "streams_of token s" "MAlert a", OF this] assms show ?thesis by (auto simp: ForwardAlertToClients_def)
qed

lemma push_alert_inv:
  assumes "stream_inv s L"
  shows "\<exists>r s'. nd_PushAlert env node ao s = Ret (r, s') \<and> stream_inv s' L"
proof -
  have f: "\<exists>s'. ForwardAlertToClients t a (s\<lparr>h_pendingAlerts := p\<rparr>) = Ret s' \<and> stream_inv s' L" for t a p
    by (rule forward_alert_inv) (simp add: assms)
  show ?thesis
    unfolding nd_PushAlert_def Let_def using assms f
    by (simp split: option.split sum.split)
qed

section \<open>Calls that hold a stream until they end\<close>

text \<open>The start of such a call: a new channel, and its entry in a map.\<close>

lemma begin_inv:
  assumes "stream_inv s L" and "new_chan cap s = (ch, s1)" and "h_chan x = ch" and "\<And>i c n t. x \<noteq> HCall i c n t"
    and "h_heap s2 = h_heap s1" and "registered_ok s1 (insert x L) \<Longrightarrow> registered_ok s2 (insert x L)"
  shows "stream_inv s2 (insert x L)"
proof -
  have i: "stream_inv s1 L" "ch \<notin> h_chan ` L" "gget (h_heap s1) ch = Some \<lparr>ch_buf = [], ch_cap = cap, ch_open = True\<rparr>"
    "\<forall>i c n t. HCall i c n t \<in> L \<longrightarrow> t \<noteq> ch"
    using new_chan_inv [OF assms(1,2)] by blast+
  have "stream_inv s1 (insert x L)" by (rule inv_insert [OF i(1)]) (use i assms(3,4) in \<open>auto simp: live_def\<close>)
  then show ?thesis using assms(5,6) inv_D(3) inv_registered by blast
qed

text \<open>The end: the entries that lead to its channel go, and the channel is closed.\<close>

lemma end_inv:
  assumes "stream_inv s L" and "x \<in> L" and "\<not> is_commands x" and "h_heap s1 = h_heap s" and "h_nodeCommandChans s1 = h_nodeCommandChans s"
    and "registered_ok s1 (L - {x})" and "ch = h_chan x"
  shows "\<exists>s'. on_heap (close_chan ch) s1 = Ret s' \<and> stream_inv s' (L - {x})"
proof -
  have "stream_inv s1 L" using assms(1,4,6) registered_mono [of s1 "L - {x}" L] inv_registered by blast
  then have i: "stream_inv s1 (L - {x})" using assms(6) by (rule inv_remove)
  have o: "is_open (h_heap s1) ch" using assms(2-4,7) live_open inv_D(2) [OF assms(1)] by metis
  have "\<exists>s'. on_heap (close_chan ch) s1 = Ret s' \<and> stream_inv s' (L - {x}) \<and> s' = s1\<lparr>h_heap := h_heap s'\<rparr>"
  proof (rule inv_closed [OF i o])
    fix y assume "y \<in> L - {x}" "h_chan y = ch"
    then show "is_commands y" using inj_handler [OF assms(1), of y x] assms(2,7) by auto
  next
    fix n show "gget (h_nodeCommandChans s1) n \<noteq> Some ch"
      using registered_D(1) [OF inv_D(3) [OF assms(1)], of n ch] inj_handler [OF assms(1), of "HCommands n ch" x] assms(2,3,5,7)
      by (metis h_chan.simps(1) is_commands.simps(1))
  qed
  then show ?thesis by blast
qed

lemma node_signal_begin_inv:
  assumes "stream_inv s L" and "nd_StreamSignaling_begin node s = (r, s')"
  shows "case r of Inl _ \<Rightarrow> s' = s | Inr (n, ch) \<Rightarrow> stream_inv s' (insert (HNodeSignal n ch) L)"
proof (cases node)
  case (Some n)
  obtain ch s1 where n: "new_chan 10 s = (ch, s1)" by fastforce
  have "stream_inv (s1\<lparr>h_nodeSignalingStreams := gput n ch (h_nodeSignalingStreams s1)\<rparr>) (insert (HNodeSignal n ch) L)"
    by (rule begin_inv [OF assms(1) n]) (auto simp: registry_defs)
  then show ?thesis using assms(2) Some n by (auto simp: nd_StreamSignaling_begin_def)
qed (use assms in \<open>auto simp: nd_StreamSignaling_begin_def\<close>)

lemma node_signal_end_inv:
  assumes "stream_inv s L" and "HNodeSignal n ch \<in> L"
  shows "\<exists>s'. nd_StreamSignaling_end n ch s = Ret s' \<and> stream_inv s' (L - {HNodeSignal n ch})"
  unfolding nd_StreamSignaling_end_def
  by (rule end_inv [OF assms]) (use inv_D(3) [OF assms(1)] in \<open>auto simp: registry_defs\<close>)

lemma node_signal_step_inv:
  assumes "stream_inv s L"
  shows "\<exists>s'. nd_StreamSignaling_step n msg s = Ret s' \<and> stream_inv s' L"
proof (cases "gget (h_mobileSignalingStreams s) (sm_TargetId msg)")
  case (Some ch)
  from send_one [OF assms registered_D(4) [OF inv_D(3) [OF assms] Some], of "MSignal (msg\<lparr>sm_SourceId := n\<rparr>)" ch] Some show ?thesis
    by (auto simp: nd_StreamSignaling_step_def)
qed (use assms in \<open>simp add: nd_StreamSignaling_step_def\<close>)

lemma mob_signal_begin_inv:
  assumes "stream_inv s L" and "mob_StreamSignaling_begin sid s = (ch, s')"
  shows "stream_inv s' (insert (HMobSignal sid ch) L)"
proof -
  obtain c s1 where n: "new_chan 10 s = (c, s1)" by fastforce
  have "stream_inv (s1\<lparr>h_mobileSignalingStreams := gput sid c (h_mobileSignalingStreams s1)\<rparr>) (insert (HMobSignal sid c) L)"
    by (rule begin_inv [OF assms(1) n]) (auto simp: registry_defs)
  then show ?thesis using assms(2) n by (auto simp: mob_StreamSignaling_begin_def)
qed

lemma mob_signal_end_inv:
  assumes "stream_inv s L" and "HMobSignal sid ch \<in> L"
  shows "\<exists>s'. mob_StreamSignaling_end sid ch s = Ret s' \<and> stream_inv s' (L - {HMobSignal sid ch})"
  unfolding mob_StreamSignaling_end_def
  by (rule end_inv [OF assms]) (use inv_D(3) [OF assms(1)] in \<open>auto simp: registry_defs\<close>)

lemma mob_signal_step_inv:
  assumes "stream_inv s L"
  shows "\<exists>s'. mob_StreamSignaling_step sid u msg s = Ret s' \<and> stream_inv s' L"
proof (cases "gget (h_nodeSignalingStreams s) (sm_TargetId msg)")
  case (Some ch)
  from send_one [OF assms registered_D(3) [OF inv_D(3) [OF assms] Some], of "MSignal (msg\<lparr>sm_SourceId := sid, sm_SourceUserId := u\<rparr>)" ch] Some
  show ?thesis by (auto simp: mob_StreamSignaling_step_def)
qed (use assms in \<open>simp add: mob_StreamSignaling_step_def\<close>)

lemma metrics_begin_inv:
  assumes "stream_inv s L" and "mob_StreamMetrics_begin env token n s = (r, s')"
  shows "case r of Inl _ \<Rightarrow> s' = s | Inr ch \<Rightarrow> stream_inv s' (insert (HMetrics n ch) L)"
proof (cases "owned_node env token n s")
  case (Inr nd)
  obtain c s1 where n: "new_chan 10 s = (c, s1)" by fastforce
  have "stream_inv (s1\<lparr>h_nodeMetricStreams := gput n c (h_nodeMetricStreams s1)\<rparr>) (insert (HMetrics n c) L)"
    by (rule begin_inv [OF assms(1) n]) (auto simp: registry_defs)
  then show ?thesis using assms(2) Inr n by (auto simp: mob_StreamMetrics_begin_def)
qed (use assms in \<open>auto simp: mob_StreamMetrics_begin_def\<close>)

lemma metrics_end_inv:
  assumes "stream_inv s L" and "HMetrics n ch \<in> L"
  shows "stream_inv (mob_StreamMetrics_end n s) (L - {HMetrics n ch})"
proof -
  have r: "registered_ok (mob_StreamMetrics_end n s) (L - {HMetrics n ch})"
    using inv_D(3) [OF assms(1)] by (auto simp: registry_defs mob_StreamMetrics_end_def)
  have "stream_inv (mob_StreamMetrics_end n s) L"
    by (rule inv_registered [OF assms(1) registered_mono [OF r]]) (auto simp: mob_StreamMetrics_end_def)
  then show ?thesis using r by (rule inv_remove)
qed

section \<open>Alert streams, registrations and commands\<close>

definition at_key :: "(string, nat list) gomap \<Rightarrow> string \<Rightarrow> nat list" where
  "at_key m t = (case gget m t of None \<Rightarrow> [] | Some chs \<Rightarrow> chs)"

lemma at_key_gput [simp]: "at_key (gput k v m) t = (if t = k then v else at_key m t)"
  by (simp add: at_key_def)

lemma at_key_gdel [simp]: "at_key (gdel k m) t = (if t = k then [] else at_key m t)"
  by (simp add: at_key_def)

lemma add_stream_at: "set (at_key (add_stream ch token m) t) = set (at_key m t) \<union> (if t = token then {ch} else {})"
  by (cases "gget m token") (auto simp: add_stream_def at_key_def)

lemma add_streams_at: "set (at_key (fold (add_stream ch) ts m) t) = set (at_key m t) \<union> (if t \<in> set ts then {ch} else {})"
  by (induction ts arbitrary: m) (auto simp: add_stream_at)

lemma drop_stream_at: "set (at_key (drop_stream ch token m) t) = set (at_key m t) - (if t = token then {ch} else {})"
proof (cases "gget m token")
  case (Some chs)
  have "set chs \<subseteq> {ch}" if "removeAll ch chs = []" using arg_cong [OF that, of set] by simp
  then show ?thesis using Some by (auto simp: drop_stream_def Let_def at_key_def)
qed (simp add: drop_stream_def at_key_def)

lemma drop_streams_at: "set (at_key (fold (drop_stream ch) ts m) t) = set (at_key m t) - (if t \<in> set ts then {ch} else {})"
  by (induction ts arbitrary: m) (auto simp: drop_stream_at)

lemma add_streams_distinct: "\<forall>t. distinct (at_key m t) \<Longrightarrow> distinct (at_key (fold (add_stream ch) ts m) t)"
proof (induction ts arbitrary: m)
  case (Cons x ts)
  have "\<forall>t. distinct (at_key (add_stream ch x m) t)"
    using spec [OF Cons.prems, of x] Cons.prems by (cases "gget m x") (auto simp: add_stream_def at_key_def)
  then show ?case using Cons.IH by simp
qed simp

lemma drop_streams_distinct: "\<forall>t. distinct (at_key m t) \<Longrightarrow> distinct (at_key (fold (drop_stream ch) ts m) t)"
proof (induction ts arbitrary: m)
  case (Cons x ts)
  have "\<forall>t. distinct (at_key (drop_stream ch x m) t)"
    using spec [OF Cons.prems, of x] Cons.prems by (cases "gget m x") (auto simp: drop_stream_def at_key_def Let_def distinct_removeAll)
  then show ?case using Cons.IH by simp
qed simp

lemma streams_of_at: "streams_of t s = at_key (h_userStreams s) t" "subscribers_of t s = at_key (h_broadcaster s) t"
  by (simp_all add: streams_of_def subscribers_of_def at_key_def)

lemma alerts_begin_inv:
  assumes "stream_inv s L" and "mob_StreamAlerts_begin env listed n ctx s = (r, s')"
  shows "case r of Inl _ \<Rightarrow> s' = s | Inr (ts, ch) \<Rightarrow> stream_inv s' (insert (HAlerts ts ch) L)"
proof (cases "alert_tokens env listed n ctx s")
  case (Inr ts)
  obtain c s1 where n: "new_chan 10 s = (c, s1)" by fastforce
  have "stream_inv (s1\<lparr>h_userStreams := fold (add_stream c) ts (h_userStreams s1)\<rparr>) (insert (HAlerts ts c) L)"
    by (rule begin_inv [OF assms(1) n])
      (auto simp: registered_ok_def streams_of_at add_streams_at add_streams_distinct split: if_splits)
  then show ?thesis using assms(2) Inr n by (auto simp: mob_StreamAlerts_begin_def)
qed (use assms in \<open>auto simp: mob_StreamAlerts_begin_def\<close>)

lemma alerts_end_inv:
  assumes "stream_inv s L" and "HAlerts ts ch \<in> L"
  shows "\<exists>s'. mob_StreamAlerts_end ts ch s = Ret s' \<and> stream_inv s' (L - {HAlerts ts ch})"
  unfolding mob_StreamAlerts_end_def
proof (rule end_inv [OF assms])
  have same: "ts' = ts" if "HAlerts ts' ch \<in> L" for ts' using inj_handler [OF assms(1) that assms(2)] by simp
  show "registered_ok (s\<lparr>h_userStreams := fold (drop_stream ch) ts (h_userStreams s)\<rparr>) (L - {HAlerts ts ch})"
    using inv_D(3) [OF assms(1)] same
    by (simp add: registered_ok_def streams_of_at drop_streams_at drop_streams_distinct) (metis Diff_iff singletonI)
qed simp_all

lemma watch_begin_inv:
  assumes "stream_inv s L" and "nd_WatchRegistration env code secret s = (r, s')"
  shows "case r of Inl _ \<Rightarrow> s' = s | Inr (ch, _) \<Rightarrow> stream_inv s' (insert (HWatch code ch) L)"
proof (cases r)
  case (Inl c)
  then show ?thesis using assms(2) by (auto simp: nd_WatchRegistration_def split: sum.splits if_splits prod.splits)
next
  case (Inr w)
  obtain c s1 where n: "new_chan 1 s = (c, s1)" by fastforce
  have "c \<notin> set (subscribers_of code s1)"
  proof
    assume "c \<in> set (subscribers_of code s1)"
    then have "HWatch code c \<in> L" using registered_D(8) inv_D(3) new_chan_inv [OF assms(1) n] by blast
    then show False using new_chan_inv [OF assms(1) n] by force
  qed
  then have "stream_inv (s1\<lparr>h_broadcaster := gput code (subscribers_of code s1 @ [c]) (h_broadcaster s1)\<rparr>) (insert (HWatch code c) L)"
    by (intro begin_inv [OF assms(1) n]) (auto simp: registered_ok_def streams_of_at)
  then show ?thesis using assms(2) Inr n
    by (auto simp: nd_WatchRegistration_def rb_Subscribe_def split: sum.splits if_splits)
qed

lemma unsubscribe_inv:
  assumes "stream_inv s L" and "HWatch code ch \<in> L"
  shows "\<exists>s'. rb_Unsubscribe code ch s = Ret s' \<and> stream_inv s' (L - {HWatch code ch})"
proof (cases "ch \<in> set (subscribers_of code s)")
  case True
  let ?s1 = "s\<lparr>h_broadcaster := gput code (remove1 ch (subscribers_of code s)) (h_broadcaster s)\<rparr>"
  have d: "distinct (subscribers_of code s)" using inv_D(3) [OF assms(1)] by (simp add: registered_ok_def)
  have "\<exists>s2. on_heap (close_chan ch) ?s1 = Ret s2 \<and> stream_inv s2 (L - {HWatch code ch})"
    by (rule end_inv [OF assms]) (use inv_D(3) [OF assms(1)] d in \<open>auto simp: registered_ok_def streams_of_at\<close>)
  then obtain s2 where s2: "on_heap (close_chan ch) ?s1 = Ret s2" "stream_inv s2 (L - {HWatch code ch})" by blast
  have "stream_inv (s2\<lparr>h_broadcaster := gdel code (h_broadcaster s2)\<rparr>) (L - {HWatch code ch})"
    by (rule inv_registered [OF s2(2)]) (use inv_D(3) [OF s2(2)] in \<open>auto simp: registered_ok_def streams_of_at\<close>)
  then show ?thesis using True s2 by (auto simp: rb_Unsubscribe_def Let_def)
next
  case False
  have i: "stream_inv s (L - {HWatch code ch})"
    by (rule inv_remove [OF assms(1)]) (use inv_D(3) [OF assms(1)] False in \<open>auto simp: registered_ok_def\<close>)
  have "stream_inv (s\<lparr>h_broadcaster := gdel code (h_broadcaster s)\<rparr>) (L - {HWatch code ch})"
    by (rule inv_registered [OF i]) (use inv_D(3) [OF i] in \<open>auto simp: registered_ok_def streams_of_at\<close>)
  then show ?thesis using False i by (auto simp: rb_Unsubscribe_def Let_def)
qed

lemma broadcast_inv:
  assumes "stream_inv s L"
  shows "\<exists>s'. rb_Broadcast code cert s = Ret s' \<and> stream_inv s' L"
proof -
  have "\<exists>x \<in> L. h_chan x = ch \<and> \<not> is_commands x \<and> fits x (MCert cert)" if ch: "ch \<in> set (subscribers_of code s)" for ch
    using registered_D(8) [OF inv_D(3) [OF assms] ch] by force
  from send_many [OF assms, of "subscribers_of code s" "MCert cert", OF this] show ?thesis by (auto simp: rb_Broadcast_def)
qed

lemma auditLog_eq: "\<exists>d. auditLog env t p s = s\<lparr>h_db := d\<rparr>"
proof (cases "auditLog env t p s = s")
  case True
  then show ?thesis by (intro exI [of _ "h_db s"]) simp
next
  case False
  then show ?thesis by (auto simp: auditLog_def on_hub_db_def split: if_splits sum.splits option.splits prod.splits)
qed

lemma approve_inv:
  assumes "stream_inv s L"
  shows "\<exists>r s'. mob_ApproveNode env payload code cert ca token s = Ret (r, s') \<and> stream_inv s' L"
proof -
  have b: "\<exists>s'. rb_Broadcast code cert (s\<lparr>h_db := d\<rparr>) = Ret s' \<and> stream_inv (auditLog env token p s') L" for d p
  proof -
    obtain s' where "rb_Broadcast code cert (s\<lparr>h_db := d\<rparr>) = Ret s'" "stream_inv s' L"
      using broadcast_inv [of "s\<lparr>h_db := d\<rparr>" L code cert] assms by auto
    then show ?thesis using auditLog_eq [of env token p s'] by auto
  qed
  show ?thesis
    unfolding mob_ApproveNode_def Let_def using assms
    by (simp split: option.split sum.split prod.split) (intro allI impI, metis b)
qed

lemma notify_inv:
  assumes "stream_inv s L"
  shows "\<exists>r s'. NotifyByRoutingToken env fb token data s = Ret (r, s') \<and> stream_inv s' L"
proof -
  let ?a = "\<lparr>a_Id = he_uuid env, a_NodeId = [], a_Severity = ''INFO'', a_TimestampUnix = time_Unix (he_now env), a_Acknowledged = False,
    a_Encrypted = None, a_Metadata = data\<rparr>"
  have "\<exists>s'. ForwardAlertToClients token ?a s = Ret s' \<and> stream_inv s' L" by (rule forward_alert_inv [OF assms])
  then show ?thesis using assms
    by (auto simp: NotifyByRoutingToken_def ForwardAlertToClients_def split: option.split sum.split if_splits)
qed

lemma send_prepare_Inr:
  assumes "send_prepare env nodeID token enc s = (Inr (n, cmdCh, respCh), s')"
  shows "\<exists>node s1. GetNodeByRoutingToken (he_engine env) token (h_db s) = Inr node \<and> token \<noteq> [] \<and> n = n_ID node \<and>
    (nodeID = [] \<or> nodeID = n) \<and> enc \<noteq> None \<and> gget (h_nodeCommandChans s) n = Some cmdCh \<and> new_chan 1 s = (respCh, s1) \<and>
    s' = s1\<lparr>h_commandResp := gput (he_uuid env) respCh (h_commandResp s1)\<rparr>"
  using assms by (auto simp: send_prepare_def split: if_splits sum.splits option.splits prod.splits)

lemma send_prepare_Inl: "send_prepare env nodeID token enc s = (Inl c, s') \<Longrightarrow> s' = s"
  by (auto simp: send_prepare_def split: if_splits sum.splits option.splits prod.splits)

lemma send_prepare_inv:
  assumes "stream_inv s L" and "send_prepare env nodeID token enc s = (Inr (n, cmdCh, respCh), s')"
  shows "stream_inv s' (insert (HCall (he_uuid env) respCh n cmdCh) L)"
proof -
  obtain s1 where s1: "gget (h_nodeCommandChans s) n = Some cmdCh" "new_chan 1 s = (respCh, s1)"
    "s' = s1\<lparr>h_commandResp := gput (he_uuid env) respCh (h_commandResp s1)\<rparr>" using send_prepare_Inr [OF assms(2)] by blast
  let ?x = "HCall (he_uuid env) respCh n cmdCh"
  have i: "stream_inv s1 L" "respCh \<notin> h_chan ` L" "gget (h_heap s1) respCh = Some \<lparr>ch_buf = [], ch_cap = 1, ch_open = True\<rparr>"
    "\<forall>i c n t. HCall i c n t \<in> L \<longrightarrow> t \<noteq> respCh" "respCh = length (h_heap s)" "length (h_heap s1) = Suc (length (h_heap s))"
    using new_chan_inv [OF assms(1) s1(2)] by blast+
  have x: "HCommands n cmdCh \<in> L" "is_open (h_heap s) cmdCh" using registered_D(1,2) [OF inv_D(3) [OF assms(1)] s1(1)] by auto
  have "cmdCh < length (h_heap s)" using x(2) assms(1) unfolding stream_inv_def heap_fresh_def is_open_def by auto
  moreover have "\<forall>y \<in> L. h_chan y = cmdCh \<longrightarrow> y = HCommands n cmdCh" using inj_handler [OF assms(1) _ x(1)] by simp
  ultimately have "stream_inv s1 (insert ?x L)" using i by (intro inv_insert [OF i(1)]) (auto simp: live_def)
  moreover have "registered_ok s' (insert ?x L)"
    using inv_D(3) [OF i(1)] unfolding s1(3) by (auto simp: registry_defs)
  ultimately show ?thesis by (rule inv_registered) (simp add: s1(3))
qed

lemma send_forward_sent:
  assumes "send_forward ch cmd s = Ret (b, s')"
  shows "sent {ch} (MCommand cmd) (h_heap s) (h_heap s') \<and> s' = s\<lparr>h_heap := h_heap s'\<rparr>"
  using assms
  by (auto simp: send_forward_def sent_def length_gput extends_def option.rel_refl split: option.splits if_splits)

lemma send_forward_inv:
  assumes "stream_inv s L" and "HCall i rc n ch \<in> L" and "send_forward ch cmd s = Ret (b, s')"
  shows "stream_inv s' L"
proof -
  have "fits x (MCommand cmd)" if "x \<in> L" "h_chan x \<in> {ch}" for x
  proof -
    have "x = HCommands n ch" using that assms(1,2) unfolding stream_inv_def by blast
    then show ?thesis by simp
  qed
  then have "stream_inv (s\<lparr>h_heap := h_heap s'\<rparr>) L"
    using send_forward_sent [OF assms(3)] by (intro inv_sent [OF assms(1)]) auto
  then show ?thesis using send_forward_sent [OF assms(3)] by simp
qed

lemma send_finish_inv:
  assumes "stream_inv s L" and "HCall (he_uuid env) rc n ch \<in> L"
  shows "stream_inv (send_finish env s) (L - {HCall (he_uuid env) rc n ch})"
proof -
  have r: "registered_ok (send_finish env s) (L - {HCall (he_uuid env) rc n ch})"
    using inv_D(3) [OF assms(1)] by (auto simp: registry_defs send_finish_def)
  have "stream_inv (send_finish env s) L"
    by (rule inv_registered [OF assms(1) registered_mono [OF r]]) (auto simp: send_finish_def)
  then show ?thesis using r by (rule inv_remove)
qed

end
