(* ===== verification/Hub_Runs.thy ===== *)
theory Hub_Runs
  imports Hub_Streams
begin

text \<open>
  The runs of the hub: all interleavings of the calls of \<^verbatim>\<open>node_server.go\<close> and \<^verbatim>\<open>mobile_server.go\<close> that start, take a
  message, end, send or broadcast. The properties are that no step but one panics, that a call receives only messages
  of its own kind that were meant for it, that a command reaches the node of the presented token only, and three defects: the
  hub panics when a node reconnects during a command, strangers receive the alerts of a node, and a node
  that reconnects loses its signaling stream.
\<close>

section \<open>Runs of the hub\<close>

text \<open>Everything but the channels and the maps that lead to them.\<close>

definition same_streams :: "'d HubServer \<Rightarrow> 'd HubServer \<Rightarrow> bool" where
  "same_streams s s' \<longleftrightarrow>
     s' = s\<lparr>h_db := h_db s', h_tierConfig := h_tierConfig s', h_pairingRateLimit := h_pairingRateLimit s',
           h_globalPairingCount := h_globalPairingCount s', h_globalPairingReset := h_globalPairingReset s',
           h_pendingAlerts := h_pendingAlerts s'\<rparr>"

text \<open>What a call does when it ends.\<close>

fun end_of :: "'d hub_env \<Rightarrow> handler \<Rightarrow> 'd HubServer \<Rightarrow> 'd HubServer outcome" where
  "end_of env (HCommands n ch) s = Ret (nd_ReceiveCommands_end env n ch s)"
| "end_of env (HNodeSignal n ch) s = nd_StreamSignaling_end n ch s"
| "end_of env (HMobSignal sid ch) s = mob_StreamSignaling_end sid ch s"
| "end_of env (HAlerts ts ch) s = mob_StreamAlerts_end ts ch s"
| "end_of env (HWatch code ch) s = rb_Unsubscribe code ch s"
| "end_of env (HMetrics n ch) s = Ret (mob_StreamMetrics_end n s)"
| "end_of env (HCall cid ch n t) s = Ret (send_finish (env\<lparr>he_uuid := cid\<rparr>) s)"

inductive hub_reach :: "'d HubServer \<Rightarrow> handler set \<Rightarrow> bool" where
  start: "hub_reach (NewHubServer env file tc d) {}"
| other: "hub_reach s L \<Longrightarrow> same_streams s s' \<Longrightarrow> hub_reach s' L"
| commands: "hub_reach s L \<Longrightarrow> nd_ReceiveCommands_begin env (Some n) s = Ret (Inr (n, ch), s') \<Longrightarrow> hub_reach s' (insert (HCommands n ch) L)"
| node_signal: "hub_reach s L \<Longrightarrow> nd_StreamSignaling_begin (Some n) s = (Inr (n, ch), s') \<Longrightarrow> hub_reach s' (insert (HNodeSignal n ch) L)"
| mob_signal: "hub_reach s L \<Longrightarrow> mob_StreamSignaling_begin sid s = (ch, s') \<Longrightarrow> hub_reach s' (insert (HMobSignal sid ch) L)"
| alerts: "hub_reach s L \<Longrightarrow> mob_StreamAlerts_begin env l n c s = (Inr (ts, ch), s') \<Longrightarrow> hub_reach s' (insert (HAlerts ts ch) L)"
| metrics: "hub_reach s L \<Longrightarrow> mob_StreamMetrics_begin env t n s = (Inr ch, s') \<Longrightarrow> hub_reach s' (insert (HMetrics n ch) L)"
| watch: "hub_reach s L \<Longrightarrow> nd_WatchRegistration env code sec s = (Inr (ch, r), s') \<Longrightarrow> hub_reach s' (insert (HWatch code ch) L)"
| prepare: "hub_reach s L \<Longrightarrow> send_prepare env nid t enc s = (Inr (n, cch, rch), s') \<Longrightarrow>
    hub_reach s' (insert (HCall (he_uuid env) rch n cch) L)"
| forward: "hub_reach s L \<Longrightarrow> HCall cid rch n cch \<in> L \<Longrightarrow> send_forward cch cmd s = Ret (b, s') \<Longrightarrow> hub_reach s' L"
| take: "hub_reach s L \<Longrightarrow> x \<in> L \<Longrightarrow> receive (h_chan x) s = (t, s') \<Longrightarrow> hub_reach s' L"
| finish: "hub_reach s L \<Longrightarrow> x \<in> L \<Longrightarrow> end_of env x s = Ret s' \<Longrightarrow> hub_reach s' (L - {x})"
| respond: "hub_reach s L \<Longrightarrow> nd_RespondToCommand ro s = Ret (r, s') \<Longrightarrow> hub_reach s' L"
| push_metrics: "hub_reach s L \<Longrightarrow> nd_PushMetrics_step env n t e s = Ret (r, s') \<Longrightarrow> hub_reach s' L"
| push_logs: "hub_reach s L \<Longrightarrow> nd_PushLogs_step env k n t e s = Ret (r, s') \<Longrightarrow> hub_reach s' L"
| push_alert: "hub_reach s L \<Longrightarrow> nd_PushAlert env no ao s = Ret (r, s') \<Longrightarrow> hub_reach s' L"
| from_node: "hub_reach s L \<Longrightarrow> nd_StreamSignaling_step n msg s = Ret s' \<Longrightarrow> hub_reach s' L"
| from_mobile: "hub_reach s L \<Longrightarrow> mob_StreamSignaling_step sid u msg s = Ret s' \<Longrightarrow> hub_reach s' L"
| approve: "hub_reach s L \<Longrightarrow> mob_ApproveNode env pl code cert ca t s = Ret (r, s') \<Longrightarrow> hub_reach s' L"
| notify: "hub_reach s L \<Longrightarrow> NotifyByRoutingToken env fb t dat s = Ret (r, s') \<Longrightarrow> hub_reach s' L"

lemma end_of_inv:
  assumes "stream_inv s L" and "x \<in> L"
  shows "\<exists>s'. end_of env x s = Ret s' \<and> stream_inv s' (L - {x})"
  using assms commands_end_inv node_signal_end_inv mob_signal_end_inv alerts_end_inv unsubscribe_inv metrics_end_inv
    send_finish_inv [of s L "env\<lparr>he_uuid := _\<rparr>"]
  by (cases x) simp_all

lemma same_streams_inv: "same_streams s s' \<Longrightarrow> stream_inv s L \<Longrightarrow> stream_inv s' L"
  unfolding same_streams_def by (erule ssubst) (simp add: stream_inv_def registry_defs)

lemma seed_inv: "stream_inv s L \<Longrightarrow> stream_inv (seedInviteCodes env file s) L"
proof -
  have one: "\<exists>d. seed_code env c s = s\<lparr>h_db := d\<rparr>" for c s
    using on_hub_db_eq [of _ s] by (auto simp: seed_code_def split: prod.split)
  have "stream_inv s L \<Longrightarrow> stream_inv (fold (seed_code env) cs s) L" for cs
  proof (induction cs arbitrary: s)
    case (Cons c cs)
    from one [of c s] Cons show ?case by auto
  qed simp
  then show "stream_inv s L \<Longrightarrow> stream_inv (seedInviteCodes env file s) L"
    using one [of "(''NITELLA'', 100, ''free'')" s] by (auto simp: seedInviteCodes_def split: sum.split option.split)
qed

lemma NewHubServer_inv: "stream_inv (NewHubServer env file tc d) {}"
  unfolding NewHubServer_def by (rule seed_inv) (simp add: stream_inv_def registry_defs heap_fresh_def)

lemma hub_reach_inv: "hub_reach s L \<Longrightarrow> stream_inv s L"
proof (induction rule: hub_reach.induct)
  case start
  show ?case by (rule NewHubServer_inv)
next
  case (other s L s')
  then show ?case using same_streams_inv by blast
next
  case (commands s L env n ch s')
  then show ?case using commands_begin_inv [of s L env n] by auto
next
  case (node_signal s L n ch s')
  then show ?case using node_signal_begin_inv [of s L "Some n"] by fastforce
next
  case (mob_signal s L sid ch s')
  then show ?case using mob_signal_begin_inv by blast
next
  case (alerts s L env l n c ts ch s')
  then show ?case using alerts_begin_inv [of s L env l n c] by fastforce
next
  case (metrics s L env t n ch s')
  then show ?case using metrics_begin_inv [of s L env t n] by fastforce
next
  case (watch s L env code sec ch r s')
  then show ?case using watch_begin_inv [of s L env code sec] by fastforce
next
  case (prepare s L env nid t enc n cch rch s')
  then show ?case using send_prepare_inv by blast
next
  case (forward s L cid rch n cch cmd b s')
  then show ?case using send_forward_inv by blast
next
  case (take s L x t s')
  then show ?case using receive_inv by blast
next
  case (finish s L x env s')
  then show ?case using end_of_inv [of s L x env] by auto
next
  case (respond s L ro r s')
  then show ?case using respond_inv [of s L ro] by auto
next
  case (push_metrics s L env n t e r s')
  then show ?case using push_metrics_inv [of s L env n t e] by auto
next
  case (push_logs s L env k n t e r s')
  then show ?case using push_logs_inv [of s L env k n t e] by auto
next
  case (push_alert s L env no ao r s')
  then show ?case using push_alert_inv [of s L env no ao] by auto
next
  case (from_node s L n msg s')
  then show ?case using node_signal_step_inv [of s L n msg] by auto
next
  case (from_mobile s L sid u msg s')
  then show ?case using mob_signal_step_inv [of s L sid u msg] by auto
next
  case (approve s L env pl code cert ca t r s')
  then show ?case using approve_inv [of s L env pl code cert ca t] by auto
next
  case (notify s L env fb t dat r s')
  then show ?case using notify_inv [of s L env fb t dat] by auto
qed

section \<open>Properties\<close>


text \<open>(C18) The messages are typed by the call that receives them: a command stream gets commands only, a caller that waits for the
  response to its command gets responses to that very command only, a signaling stream only signals addressed to it, a
  metrics stream only metrics of its node, an alert stream alerts and a waiting registration certificates.\<close>

theorem streams_receive_their_messages:
  assumes "hub_reach s L" and "x \<in> L" and "receive (h_chan x) s = (Got m, s')"
  shows "fits x m"
  using receive_inv [OF hub_reach_inv [OF assms(1)] assms(2,3)] by simp


lemma closed_panics: "gget (h_heap s) ch = Some c \<Longrightarrow> \<not> ch_open c \<Longrightarrow> send_forward ch cmd s = Panics"
  by (simp add: send_forward_def)

text \<open>(C37) The exception: when the node opens a new command stream after the hub has looked its channel up and before the command is
  sent, the channel has been closed and the hub panics.\<close>

theorem reconnect_panics_command:
  assumes "hub_reach s L" and "send_prepare env nodeID token enc s = (Inr (n, cmdCh, respCh), s1)"
    and "nd_ReceiveCommands_begin env' (Some n) s1 = Ret (r, s2)"
  shows "mob_SendCommand env (\<lambda>_. s2) mid nodeID token enc s = Panics"
proof -
  obtain s0 where s0: "gget (h_nodeCommandChans s) n = Some cmdCh" "new_chan 1 s = (respCh, s0)"
    "s1 = s0\<lparr>h_commandResp := gput (he_uuid env) respCh (h_commandResp s0)\<rparr>" using send_prepare_Inr [OF assms(2)] by blast
  have "h_nodeCommandChans s1 = h_nodeCommandChans s" using s0(2,3) by (auto simp: new_chan_def Let_def)
  then have old: "gget (h_nodeCommandChans s1) n = Some cmdCh" using s0(1) by simp
  have i: "stream_inv s1 (insert (HCall (he_uuid env) respCh n cmdCh) L)"
    using hub_reach_inv [OF assms(1)] assms(2) by (rule send_prepare_inv)
  obtain d where d: "set_status env' n ''online'' s1 = s1\<lparr>h_db := d\<rparr>" using set_status_eq [of env' n "''online''" s1] ..
  obtain c s3 where n: "new_chan 10 (s1\<lparr>h_db := d\<rparr>) = (c, s3)" by fastforce
  have s3: "stream_inv s3 (insert (HCall (he_uuid env) respCh n cmdCh) L)"
    using new_chan_inv [of "s1\<lparr>h_db := d\<rparr>"] i n by auto
  have m: "gget (h_nodeCommandChans s3) n = Some cmdCh" using n old by (auto simp: new_chan_def Let_def)
  have "is_open (h_heap s3) cmdCh" by (rule registered_D(2) [OF inv_D(3) [OF s3] m])
  then obtain h' c' where h': "close_chan cmdCh (h_heap s3) = Ret h'" "gget h' cmdCh = Some (c'\<lparr>ch_open := False\<rparr>)"
    using close_chan_open by blast
  then have "h_heap s2 = h'" using assms(3) d n m by (auto simp: nd_ReceiveCommands_begin_def on_heap_def)
  then have "send_forward cmdCh cmd s2 = Panics" for cmd using h'(2) by (auto intro: closed_panics)
  then show ?thesis using assms(2) by (simp add: mob_SendCommand_def)
qed

lemma streams_open:
  assumes "stream_inv s L" and "ch \<in> set (streams_of t s)"
  shows "is_open (h_heap s) ch"
proof -
  obtain ts where "HAlerts ts ch \<in> L" using registered_D(7) [OF inv_D(3) [OF assms(1)] assms(2)] by blast
  from live_open [OF inv_D(2) [OF assms(1) this]] show ?thesis by simp
qed

lemma send_each_delivers:
  assumes "\<forall>k \<in> set chs. is_open h k" and "gget h ch = Some c" and "length (ch_buf c) < ch_cap c" and "ch \<in> set chs" and "distinct chs"
  shows "\<exists>h' c'. send_each chs m h = Ret h' \<and> gget h' ch = Some c' \<and> m \<in> set (ch_buf c')"
  using assms
proof (induction chs arbitrary: h)
  case (Cons k chs)
  obtain h1 where h1: "try_send k m h = Ret h1" "sent {k} m h h1" using try_send_sent [of h k m] Cons.prems(1) by auto
  have open1: "\<forall>k \<in> set chs. is_open h1 k" using Cons.prems(1) sent_open [OF h1(2)] by simp
  show ?case
  proof (cases "k = ch")
    case True
    have g: "gget h1 ch = Some (c\<lparr>ch_buf := ch_buf c @ [m]\<rparr>)"
      using h1(1) True Cons.prems(1-3) by (auto simp: try_send_def is_open_def split: if_splits)
    obtain h2 where h2: "send_each chs m h1 = Ret h2" "sent (set chs) m h1 h2" using send_each_sent [OF open1] by blast
    have "gget h2 ch = gget h1 ch" using h2(2) True Cons.prems(5) by (auto simp: sent_def)
    then show ?thesis using h1(1) h2(1) g by auto
  next
    case False
    have "gget h1 ch = gget h ch" using h1(2) False by (simp add: sent_def)
    then show ?thesis using Cons.IH [OF open1] Cons.prems(2-5) False h1(1) by auto
  qed
qed simp

text \<open>An alert stream is opened for the token of any node the caller names: no token of the owner is asked for. The next alert of that
  node, with its encrypted payload, goes to the stranger's channel.\<close>

theorem alerts_reach_strangers:
  assumes "hub_reach s L" and "GetNode (he_engine env) nid (h_db s) = Inr node" and "nid \<noteq> []"
    and "mob_StreamAlerts_begin env [] nid None s = (r, s1)"
    and "a_Encrypted a \<noteq> None" and "length (h_pendingAlerts s) < MaxGlobalPendingAlerts"
  shows "\<exists>ch s2 c. r = Inr ([n_RoutingToken node], ch) \<and> nd_PushAlert env (Some nid) (Some a) s1 = Ret (None, s2) \<and>
    gget (h_heap s2) ch = Some c \<and> MAlert (a\<lparr>a_NodeId := nid\<rparr>) \<in> set (ch_buf c)"
proof -
  let ?t = "n_RoutingToken node" and ?m = "MAlert (a\<lparr>a_NodeId := nid\<rparr>)"
  have i: "stream_inv s L" using assms(1) by (rule hub_reach_inv)
  obtain ch s0 where n: "new_chan 10 s = (ch, s0)" by fastforce
  have tok: "alert_tokens env [] nid None s = Inr [?t]" using assms(2,3) by (simp add: alert_tokens_def)
  have s1: "s1 = s0\<lparr>h_userStreams := add_stream ch ?t (h_userStreams s0)\<rparr>" "r = Inr ([?t], ch)"
    using assms(4) tok n by (auto simp: mob_StreamAlerts_begin_def)
  have i1: "stream_inv s1 (insert (HAlerts [?t] ch) L)" using alerts_begin_inv [OF i assms(4)] s1(2) by simp
  let ?chs = "streams_of ?t s1"
  have o: "\<forall>k \<in> set ?chs. is_open (h_heap s1) k"
    using streams_open [OF i1] by simp
  have ch: "ch \<in> set ?chs" by (simp add: s1(1) streams_of_at add_stream_at)
  have d: "distinct ?chs" using inv_D(3) [OF i1] by (simp add: registered_ok_def)
  have "gget (h_heap s0) ch = Some \<lparr>ch_buf = [], ch_cap = 10, ch_open = True\<rparr>" using new_chan_inv [OF i n] by blast
  then have g: "gget (h_heap s1) ch = Some \<lparr>ch_buf = [], ch_cap = 10, ch_open = True\<rparr>" using s1(1) by simp
  obtain h' c' where h': "send_each ?chs ?m (h_heap s1) = Ret h'" "gget h' ch = Some c'" "?m \<in> set (ch_buf c')"
    using send_each_delivers [OF o g _ ch d, of ?m] by auto
  have db: "h_db s1 = h_db s" "h_pendingAlerts s1 = h_pendingAlerts s" using n s1(1) by (auto simp: new_chan_def Let_def)
  have "streams_of ?t (s1\<lparr>h_pendingAlerts := p\<rparr>) = ?chs" for p by (simp add: streams_of_def)
  then have "nd_PushAlert env (Some nid) (Some a) s1 =
    Ret (None, s1\<lparr>h_pendingAlerts := gput (a_Id a) \<lparr>pa_NodeID = nid, pa_RoutingToken = ?t, pa_Alert = a\<lparr>a_NodeId := nid\<rparr>, pa_CreatedAt = he_now env\<rparr>
      (h_pendingAlerts s), h_heap := h'\<rparr>)"
    using assms(2,5,6) db h'(1) ch
    by (auto simp: nd_PushAlert_def Let_def ForwardAlertToClients_def on_heap_def)
  then show ?thesis using h' s1(2) by auto
qed

text \<open>When a node opens a second signaling stream and the first one ends after that, the entry of the second is removed: it stays
  open, and no signal of a mobile client reaches the node any more.\<close>

theorem signaling_lost_after_reconnect:
  assumes "nd_StreamSignaling_begin (Some n) s = (Inr (n, ch1), s1)" and "nd_StreamSignaling_begin (Some n) s1 = (Inr (n, ch2), s2)"
    and "hub_reach s L"
  shows "\<exists>s3. nd_StreamSignaling_end n ch1 s2 = Ret s3 \<and> is_open (h_heap s3) ch2 \<and>
    hub_reach s3 (insert (HNodeSignal n ch2) (L - {HNodeSignal n ch1})) \<and>
    (\<forall>sid u msg. sm_TargetId msg = n \<longrightarrow> mob_StreamSignaling_step sid u msg s3 = Ret s3)"
proof -
  have r: "hub_reach s2 (insert (HNodeSignal n ch2) (insert (HNodeSignal n ch1) L))"
    using hub_reach.node_signal [OF hub_reach.node_signal [OF assms(3,1)] assms(2)] .
  note i = hub_reach_inv [OF r]
  have i1: "stream_inv s1 (insert (HNodeSignal n ch1) L)" using hub_reach_inv [OF hub_reach.node_signal [OF assms(3,1)]] .
  have ne: "ch1 \<noteq> ch2"
    using new_chan_inv [OF i1] assms(2) by (auto simp: nd_StreamSignaling_begin_def split: prod.splits)
  have "is_open (h_heap s2) ch1" using live_open [OF inv_D(2) [OF i]] by fastforce
  then obtain h' where h': "close_chan ch1 (h_heap s2) = Ret h'" "\<forall>k. k \<noteq> ch1 \<longrightarrow> gget h' k = gget (h_heap s2) k"
    using close_chan_open by blast
  let ?s3 = "s2\<lparr>h_nodeSignalingStreams := gdel n (h_nodeSignalingStreams s2), h_heap := h'\<rparr>"
  have e: "nd_StreamSignaling_end n ch1 s2 = Ret ?s3" using h'(1) by (simp add: nd_StreamSignaling_end_def on_heap_def)
  have "is_open (h_heap s2) ch2" using live_open [OF inv_D(2) [OF i]] by fastforce
  then have o: "is_open (h_heap ?s3) ch2" using h'(2) ne by (simp add: is_open_def)
  have "insert (HNodeSignal n ch2) (insert (HNodeSignal n ch1) L) - {HNodeSignal n ch1} = insert (HNodeSignal n ch2) (L - {HNodeSignal n ch1})"
    using ne by auto
  then have "hub_reach ?s3 (insert (HNodeSignal n ch2) (L - {HNodeSignal n ch1}))"
    using hub_reach.finish [OF r, of "HNodeSignal n ch1"] e by simp
  then show ?thesis using e o by (auto simp: mob_StreamSignaling_step_def)
qed

section \<open>A run\<close>

definition demo_payload :: EncryptedPayload where
  "demo_payload = \<lparr>ep_ephemeralPubkey = [], ep_nonce = [], ep_ciphertext = ''x'', ep_senderFingerprint = [], ep_signature = [], ep_algorithm = 0\<rparr>"

definition demo_nodes :: hub_db where
  "demo_nodes = empty_db\<lparr>db_nodes := [(''n1'', zero_Node\<lparr>n_ID := ''n1'', n_RoutingToken := ''t1''\<rparr>)]\<rparr>"

definition demo_hub :: "hub_db HubServer" where
  "demo_hub = (NewHubServer demo_env (Some None) None demo_nodes)"

text \<open>Node \<open>n1\<close> opens a command stream.\<close>

definition demo_online :: "hub_db HubServer" where
  "demo_online =
     demo_hub\<lparr>h_db := demo_nodes\<lparr>db_nodes := [(''n1'', zero_Node\<lparr>n_ID := ''n1'', n_RoutingToken := ''t1'', n_Status := ''online''\<rparr>)]\<rparr>,
       h_nodeCommandChans := [(''n1'', 0)], h_heap := [(0, \<lparr>ch_buf = [], ch_cap = 10, ch_open = True\<rparr>)]\<rparr>"

lemma demo_hub_eq:
  "demo_hub =
     \<lparr>h_db = demo_nodes, h_tierConfig = tier_DefaultConfig, h_pairingRateLimit = [], h_globalPairingCount = 0, h_globalPairingReset = 0,
      h_userStreams = [], h_commandResp = [], h_nodeCommandChans = [], h_nodeMetricStreams = [], h_nodeLogStreams = [],
      h_nodeSignalingStreams = [], h_mobileSignalingStreams = [], h_pendingAlerts = [], h_broadcaster = [], h_heap = []\<rparr>"
  by (simp add: demo_hub_def NewHubServer_def seedInviteCodes_def GetInviteCode_def get_row_def demo_env_def list_engine_def list_tab_def
      demo_nodes_def empty_db_def)

lemma demo_goes_online: "nd_ReceiveCommands_begin demo_env (Some ''n1'') demo_hub = Ret (Inr (''n1'', 0), demo_online)"
  by (simp add: nd_ReceiveCommands_begin_def set_status_def on_hub_db_def UpdateNodeStatus_def update_db_def demo_env_def list_engine_def
      demo_hub_eq demo_online_def demo_nodes_def new_chan_def zero_Node_def)

lemma demo_online_reach: "hub_reach demo_online {HCommands ''n1'' 0}"
  using hub_reach.commands [OF hub_reach.start [of demo_env "Some None" None demo_nodes, folded demo_hub_def] demo_goes_online] by simp


definition demo_cmd :: Command where
  "demo_cmd = \<lparr>cmd_Id = ''u1'', cmd_Encrypted = Some demo_payload\<rparr>"

definition demo_prepared :: "hub_db HubServer" where
  "demo_prepared =
     demo_online\<lparr>h_commandResp := [(''u1'', 1)],
       h_heap := [(0, \<lparr>ch_buf = [], ch_cap = 10, ch_open = True\<rparr>), (1, \<lparr>ch_buf = [], ch_cap = 1, ch_open = True\<rparr>)]\<rparr>"

definition demo_forwarded :: "hub_db HubServer" where
  "demo_forwarded =
     demo_prepared\<lparr>h_heap := [(0, \<lparr>ch_buf = [MCommand demo_cmd], ch_cap = 10, ch_open = True\<rparr>), (1, \<lparr>ch_buf = [], ch_cap = 1, ch_open = True\<rparr>)]\<rparr>"

lemma demo_prepares: "send_prepare demo_env [] ''t1'' (Some demo_payload) demo_online = (Inr (''n1'', 0, 1), demo_prepared)"
  by (simp add: send_prepare_def GetNodeByRoutingToken_def demo_env_def list_engine_def demo_online_def demo_hub_eq demo_prepared_def
      new_chan_def zero_Node_def)

lemma demo_forwards: "send_forward 0 demo_cmd demo_prepared = Ret (True, demo_forwarded)"
  by (simp add: send_forward_def demo_prepared_def demo_forwarded_def)

lemma demo_forwarded_reach: "hub_reach demo_forwarded {HCall ''u1'' 1 ''n1'' 0, HCommands ''n1'' 0}"
  using hub_reach.forward [OF hub_reach.prepare [OF demo_online_reach demo_prepares], of "he_uuid demo_env" 1 "''n1''" 0]
    demo_forwards by (simp add: demo_env_def)

theorem streams_receive_their_messages_witness:
  "hub_reach demo_forwarded {HCall ''u1'' 1 ''n1'' 0, HCommands ''n1'' 0} \<and>
   (\<exists>s'. receive 0 demo_forwarded = (Got (MCommand demo_cmd), s')) \<and> fits (HCommands ''n1'' 0) (MCommand demo_cmd)"
proof -
  have "\<exists>s'. receive (h_chan (HCommands ''n1'' 0)) demo_forwarded = (Got (MCommand demo_cmd), s')"
    by (simp add: receive_def demo_forwarded_def)
  with streams_receive_their_messages [OF demo_forwarded_reach, of "HCommands ''n1'' 0"] demo_forwarded_reach show ?thesis by auto
qed


theorem reconnect_panics_command_witness:
  "\<exists>r s2. nd_ReceiveCommands_begin demo_env (Some ''n1'') demo_prepared = Ret (r, s2) \<and>
     mob_SendCommand demo_env (\<lambda>_. s2) id [] ''t1'' (Some demo_payload) demo_online = Panics"
proof -
  have "hub_reach demo_prepared {HCall ''u1'' 1 ''n1'' 0, HCommands ''n1'' 0}"
    using hub_reach.prepare [OF demo_online_reach demo_prepares] by (simp add: demo_env_def)
  from commands_begin_inv [OF hub_reach_inv [OF this], of demo_env "''n1''"]
  obtain r s2 where "nd_ReceiveCommands_begin demo_env (Some ''n1'') demo_prepared = Ret (r, s2)" by blast
  with reconnect_panics_command [OF demo_online_reach demo_prepares this] show ?thesis by blast
qed

definition demo_alert :: Alert where
  "demo_alert =
     \<lparr>a_Id = ''a1'', a_NodeId = [], a_Severity = [], a_TimestampUnix = 0, a_Acknowledged = False, a_Encrypted = Some demo_payload, a_Metadata = []\<rparr>"

theorem alerts_reach_strangers_witness:
  "\<exists>ch s1 s2 c. mob_StreamAlerts_begin demo_env [] ''n1'' None demo_hub = (Inr ([''t1''], ch), s1) \<and>
     nd_PushAlert demo_env (Some ''n1'') (Some demo_alert) s1 = Ret (None, s2) \<and> gget (h_heap s2) ch = Some c \<and>
     MAlert (demo_alert\<lparr>a_NodeId := ''n1''\<rparr>) \<in> set (ch_buf c)"
proof -
  let ?n = "zero_Node\<lparr>n_ID := ''n1'', n_RoutingToken := ''t1''\<rparr>"
  have r: "hub_reach demo_hub {}" using hub_reach.start [of demo_env "Some None" None demo_nodes] by (simp add: demo_hub_def)
  have g: "GetNode (he_engine demo_env) ''n1'' (h_db demo_hub) = Inr ?n"
    by (simp add: GetNode_def get_row_def demo_env_def list_engine_def list_tab_def demo_hub_eq demo_nodes_def)
  obtain x s1 where b: "mob_StreamAlerts_begin demo_env [] ''n1'' None demo_hub = (x, s1)" by fastforce
  from alerts_reach_strangers [OF r g _ b, of demo_alert] b show ?thesis
    by (auto simp: demo_alert_def demo_hub_eq MaxGlobalPendingAlerts_def zero_Node_def)
qed

theorem signaling_lost_after_reconnect_witness:
  "\<exists>ch1 s1 ch2 s2 s3. nd_StreamSignaling_begin (Some ''n1'') demo_hub = (Inr (''n1'', ch1), s1) \<and>
     nd_StreamSignaling_begin (Some ''n1'') s1 = (Inr (''n1'', ch2), s2) \<and> nd_StreamSignaling_end ''n1'' ch1 s2 = Ret s3 \<and>
     is_open (h_heap s3) ch2"
proof -
  have r: "hub_reach demo_hub {}" using hub_reach.start [of demo_env "Some None" None demo_nodes] by (simp add: demo_hub_def)
  have b: "\<exists>ch s'. nd_StreamSignaling_begin (Some ''n1'') s = (Inr (''n1'', ch), s')" for s :: "hub_db HubServer"
    by (auto simp: nd_StreamSignaling_begin_def split: prod.split)
  from b [of demo_hub] obtain ch1 s1 where 1: "nd_StreamSignaling_begin (Some ''n1'') demo_hub = (Inr (''n1'', ch1), s1)" by blast
  from b [of s1] obtain ch2 s2 where 2: "nd_StreamSignaling_begin (Some ''n1'') s1 = (Inr (''n1'', ch2), s2)" by blast
  from signaling_lost_after_reconnect [OF 1 2 r] 1 2 show ?thesis by blast
qed

end
