(* ===== verification/Hub_Configs.thy ===== *)
theory Hub_Configs
  imports Hub_Runs
begin

text \<open>
  The encrypted proxy configurations the hub keeps for its users, the second half of
  \<^verbatim>\<open>pkg/hub/server/mobile_server.go\<close>, and the administration of stored logs, \<^verbatim>\<open>pkg/hub/server/admin_server.go\<close>.
  The hub sees identifiers, revision numbers and sizes only. The properties are about ownership and the numbering
  and pruning of revisions, and that the storage limit of a tier is never reached.
\<close>

section \<open>Configurations\<close>

text \<open>Integer division that rounds towards zero.\<close>

definition go_quot :: "int \<Rightarrow> int \<Rightarrow> int" where
  "go_quot a b = sgn a * sgn b * (\<bar>a\<bar> div \<bar>b\<bar>)"

definition getTierConfigByRoutingToken :: "'d hub_env \<Rightarrow> string \<Rightarrow> 'd HubServer \<Rightarrow> TierConfig option" where
  "getTierConfigByRoutingToken env routingToken s =
     (case GetRoutingTokenInfo (he_engine env) routingToken (h_db s) of
        Inl _ \<Rightarrow> GetTierOrDefault (h_tierConfig s) ''free''
      | Inr info \<Rightarrow>
          (if ri_Tier info = [] then GetTierOrDefault (h_tierConfig s) ''free'' else GetTierOrDefault (h_tierConfig s) (ri_Tier info)))"

datatype create_reply = Created | NotAvailable | LimitReached int int | AlreadyThere

definition mob_CreateProxyConfig ::
  "'d hub_env \<Rightarrow> string \<Rightarrow> string \<Rightarrow> 'd HubServer \<Rightarrow> ((code + create_reply) \<times> 'd HubServer) outcome" where
  "mob_CreateProxyConfig env token proxyID s =
     (if token = [] \<or> proxyID = [] then Ret (Inl C_InvalidArgument, s)
      else case getTierConfigByRoutingToken env token s of
             None \<Rightarrow> Panics
           | Some cfg \<Rightarrow>
               (let limits = t_ProxyManagement cfg in
                if \<not> pmc_Enabled limits then Ret (Inr NotAvailable, s)
                else
                  (let room = (if pmc_MaxProxies limits > 0
                               then map_sum id Some (CountProxyConfigsByRoutingToken (he_engine env) token (h_db s)) else Inr None)
                   in case room of
                        Inl _ \<Rightarrow> Ret (Inl C_Internal, s)
                      | Inr count \<Rightarrow>
                          (if (case count of None \<Rightarrow> False | Some n \<Rightarrow> n \<ge> pmc_MaxProxies limits)
                           then Ret (Inr (LimitReached (the count) (pmc_MaxProxies limits)), s)
                           else case on_hub_db (CreateProxyConfig (he_engine env)
                                       \<lparr>pc_ProxyID = proxyID, pc_RoutingToken = token, pc_CreatedAt = 0, pc_UpdatedAt = 0, pc_Deleted = False\<rparr>) s of
                                  (Some err, s1) \<Rightarrow> Ret (if err = DuplicateRow then Inr AlreadyThere else Inl C_Internal, s1)
                                | (None, s1) \<Rightarrow> Ret (Inr Created, s1)))))"

record ProxyConfigInfo =
  pi_ProxyId :: string
  pi_RevisionCount :: int
  pi_LatestRevision :: int
  pi_CreatedAt :: gotime
  pi_UpdatedAt :: gotime
  pi_TotalSizeBytes :: int

definition or_else :: "'a \<Rightarrow> store_error + 'a \<Rightarrow> 'a" where
  "or_else x r = (case r of Inl _ \<Rightarrow> x | Inr y \<Rightarrow> y)"

definition config_info :: "'d hub_env \<Rightarrow> 'd HubServer \<Rightarrow> ProxyConfig \<Rightarrow> ProxyConfigInfo" where
  "config_info env s p =
     \<lparr>pi_ProxyId = pc_ProxyID p, pi_RevisionCount = or_else 0 (CountProxyRevisions (he_engine env) (pc_ProxyID p) (h_db s)),
      pi_LatestRevision = (case GetLatestProxyRevision (he_engine env) (pc_ProxyID p) (h_db s) of Inl _ \<Rightarrow> 0 | Inr r \<Rightarrow> pv_RevisionNum r),
      pi_CreatedAt = pc_CreatedAt p, pi_UpdatedAt = pc_UpdatedAt p,
      pi_TotalSizeBytes =
        fold (\<lambda>r n. wrap32 (n + pv_SizeBytes r)) (or_else [] (ListProxyRevisions (he_engine env) (pc_ProxyID p) (h_db s))) 0\<rparr>"

definition mob_ListProxyConfigs :: "'d hub_env \<Rightarrow> string \<Rightarrow> 'd HubServer \<Rightarrow> code + ProxyConfigInfo list" where
  "mob_ListProxyConfigs env token s =
     (if token = [] then Inl C_InvalidArgument
      else case ListProxyConfigsByRoutingToken (he_engine env) token (h_db s) of
             Inl _ \<Rightarrow> Inl C_Internal
           | Inr ps \<Rightarrow> Inr (map (config_info env s) (filter (\<lambda>p. \<not> pc_Deleted p) ps)))"

text \<open>What every call on one configuration checks first.\<close>

definition owned_config :: "'d hub_env \<Rightarrow> string \<Rightarrow> string \<Rightarrow> 'd HubServer \<Rightarrow> code + ProxyConfig" where
  "owned_config env token proxyID s =
     (if token = [] \<or> proxyID = [] then Inl C_InvalidArgument
      else case GetProxyConfig (he_engine env) proxyID (h_db s) of
             Inl _ \<Rightarrow> Inl C_NotFound
           | Inr cfg \<Rightarrow> (if pc_RoutingToken cfg \<noteq> token then Inl C_PermissionDenied else Inr cfg))"

definition mob_DeleteProxyConfig :: "'d hub_env \<Rightarrow> string \<Rightarrow> string \<Rightarrow> 'd HubServer \<Rightarrow> code option \<times> 'd HubServer" where
  "mob_DeleteProxyConfig env token proxyID s =
     (case owned_config env token proxyID s of
        Inl c \<Rightarrow> (Some c, s)
      | Inr _ \<Rightarrow>
          (case on_hub_db (DeleteProxyConfig (he_engine env) proxyID) s of
             (Some _, s1) \<Rightarrow> (Some C_Internal, s1)
           | (None, s1) \<Rightarrow> (None, s1)))"

record PushReply =
  pr_Success :: bool
  pr_RevisionNum :: int
  pr_RevisionsKept :: int
  pr_RevisionsLimit :: int
  pr_StorageUsedKb :: int
  pr_StorageLimitKb :: int

definition storage_exceeded :: "'d hub_env \<Rightarrow> string \<Rightarrow> int \<Rightarrow> int \<Rightarrow> 'd HubServer \<Rightarrow> bool" where
  "storage_exceeded env token maxKB sizeBytes s \<longleftrightarrow>
     maxKB > 0 \<and>
     wrap64 (or_else 0 (GetTotalProxyStorageByRoutingToken (he_engine env) token (h_db s)) + sizeBytes) > wrap64 (maxKB * 1024)"

definition used_kb :: "'d hub_env \<Rightarrow> string \<Rightarrow> 'd HubServer \<Rightarrow> int" where
  "used_kb env token s = wrap32 (go_quot (or_else 0 (GetTotalProxyStorageByRoutingToken (he_engine env) token (h_db s))) 1024)"

definition mob_PushRevision ::
  "'d hub_env \<Rightarrow> string \<Rightarrow> string \<Rightarrow> string \<Rightarrow> int \<Rightarrow> 'd HubServer \<Rightarrow> ((code + PushReply) \<times> 'd HubServer) outcome" where
  "mob_PushRevision env token proxyID blob sizeBytes s =
     (case owned_config env token proxyID s of
        Inl c \<Rightarrow> Ret (Inl c, s)
      | Inr _ \<Rightarrow>
          (case getTierConfigByRoutingToken env token s of
             None \<Rightarrow> Panics
           | Some cfg \<Rightarrow>
               (let limits = t_ProxyManagement cfg in
                if storage_exceeded env token (pmc_MaxStorageKB limits) sizeBytes s
                then Ret (Inr \<lparr>pr_Success = False, pr_RevisionNum = 0, pr_RevisionsKept = 0, pr_RevisionsLimit = 0,
                            pr_StorageUsedKb = used_kb env token s, pr_StorageLimitKb = wrap32 (pmc_MaxStorageKB limits)\<rparr>, s)
                else
                  (let nextRevNum = (case GetLatestProxyRevision (he_engine env) proxyID (h_db s) of
                                       Inl _ \<Rightarrow> 1 | Inr r \<Rightarrow> wrap64 (pv_RevisionNum r + 1));
                       revisionsLimit = pmc_MaxRevisionsPerProxy limits
                   in case on_hub_db (CreateProxyRevision (he_engine env)
                              \<lparr>pv_ID = 0, pv_ProxyID = proxyID, pv_RevisionNum = nextRevNum, pv_EncryptedBlob = blob, pv_SizeBytes = sizeBytes,
                               pv_CreatedAt = 0\<rparr>) s of
                        (Some _, s1) \<Rightarrow> Ret (Inl C_Internal, s1)
                      | (None, s1) \<Rightarrow>
                          (let s2 = (if revisionsLimit > 0
                                     then s1\<lparr>h_db := snd (snd (DeleteOldestProxyRevisions (he_engine env) proxyID revisionsLimit (h_db s1)))\<rparr>
                                     else s1);
                               kept = (if revisionsLimit > 0 then revisionsLimit
                                       else or_else 0 (CountProxyRevisions (he_engine env) proxyID (h_db s1)))
                           in Ret (Inr \<lparr>pr_Success = True, pr_RevisionNum = nextRevNum, pr_RevisionsKept = wrap32 kept,
                                     pr_RevisionsLimit = wrap32 revisionsLimit, pr_StorageUsedKb = used_kb env token s2,
                                     pr_StorageLimitKb = wrap32 (pmc_MaxStorageKB limits)\<rparr>, s2))))))"

definition mob_GetRevision :: "'d hub_env \<Rightarrow> string \<Rightarrow> string \<Rightarrow> int \<Rightarrow> 'd HubServer \<Rightarrow> code + ProxyRevision" where
  "mob_GetRevision env token proxyID revNum s =
     (case owned_config env token proxyID s of
        Inl c \<Rightarrow> Inl c
      | Inr _ \<Rightarrow>
          (case (if revNum = 0 then GetLatestProxyRevision (he_engine env) proxyID (h_db s)
                 else GetProxyRevision (he_engine env) proxyID revNum (h_db s)) of
             Inl _ \<Rightarrow> Inl C_NotFound
           | Inr r \<Rightarrow> Inr r))"

definition mob_ListRevisions :: "'d hub_env \<Rightarrow> string \<Rightarrow> string \<Rightarrow> 'd HubServer \<Rightarrow> code + (int \<times> int \<times> gotime) list" where
  "mob_ListRevisions env token proxyID s =
     (case owned_config env token proxyID s of
        Inl c \<Rightarrow> Inl c
      | Inr _ \<Rightarrow>
          (case ListProxyRevisions (he_engine env) proxyID (h_db s) of
             Inl _ \<Rightarrow> Inl C_Internal
           | Inr rs \<Rightarrow> Inr (map (\<lambda>r. (pv_RevisionNum r, pv_SizeBytes r, pv_CreatedAt r)) rs)))"

definition mob_FlushRevisions :: "'d hub_env \<Rightarrow> string \<Rightarrow> string \<Rightarrow> int \<Rightarrow> 'd HubServer \<Rightarrow> (code + int \<times> int) \<times> 'd HubServer" where
  "mob_FlushRevisions env token proxyID keep0 s =
     (case owned_config env token proxyID s of
        Inl c \<Rightarrow> (Inl c, s)
      | Inr _ \<Rightarrow>
          (case DeleteOldestProxyRevisions (he_engine env) proxyID (if keep0 < 1 then 1 else keep0) (h_db s) of
             (_, Some _, d) \<Rightarrow> (Inl C_Internal, s\<lparr>h_db := d\<rparr>)
           | (deleted, None, d) \<Rightarrow>
               (Inr (wrap32 deleted, wrap32 (or_else 0 (CountProxyRevisions (he_engine env) proxyID d))), s\<lparr>h_db := d\<rparr>)))"

section \<open>Administration\<close>

definition adm_GetSystemStats :: "'d hub_env \<Rightarrow> 'd HubServer \<Rightarrow> int \<times> int \<times> int" where
  "adm_GetSystemStats env s =
     (case CountNodes (he_engine env) (h_db s) of
        (tot, online, err) \<Rightarrow>
          (wrap32 (or_else 0 (CountUsers (he_engine env) (h_db s))),
           wrap32 (if err = None then tot else 0), wrap32 (if err = None then online else 0)))"

definition map_total :: "(string, int) gomap \<Rightarrow> int" where
  "map_total m = sum_list (map snd m)"

record AdminLogEntry =
  ae_Id :: int
  ae_NodeId :: string
  ae_RoutingToken :: string
  ae_Timestamp :: gotime
  ae_EncryptedSizeBytes :: int
  ae_SenderKeyId :: string

text \<open>The page token is read as a decimal number; \<open>offset\<close> is what was read, 0 without one.\<close>

definition adm_ListLogs ::
  "'d hub_env \<Rightarrow> string \<Rightarrow> string \<Rightarrow> int \<Rightarrow> int \<Rightarrow> gotime option \<Rightarrow> gotime option \<Rightarrow> 'd HubServer \<Rightarrow>
   code + AdminLogEntry list \<times> int option \<times> int" where
  "adm_ListLogs env token nodeId pageSize0 offset startO endO s =
     (if token = [] then Inl C_InvalidArgument
      else
        (let pageSize = (if pageSize0 \<le> 0 then 100 else if pageSize0 > 1000 then 1000 else pageSize0)
         in case GetEncryptedLogsByNode (he_engine env) token nodeId (case startO of None \<Rightarrow> 0 | Some t \<Rightarrow> t)
                   (case endO of None \<Rightarrow> 0 | Some t \<Rightarrow> t) (pageSize + 1) offset (h_db s) of
              Inl _ \<Rightarrow> Inl C_Internal
            | Inr ls \<Rightarrow>
                Inr (map (\<lambda>l. \<lparr>ae_Id = el_ID l, ae_NodeId = el_NodeID l, ae_RoutingToken = el_RoutingToken l, ae_Timestamp = el_Timestamp l,
                               ae_EncryptedSizeBytes = wrap32 (int (length (el_EncryptedBlob l))), ae_SenderKeyId = el_SenderKeyID l\<rparr>)
                       (take (nat pageSize) ls),
                     if int (length ls) > pageSize then Some (offset + pageSize) else None,
                     wrap32 (or_else 0 (CountLogs (he_engine env) token (h_db s))))))"

definition adm_DeleteLogs ::
  "'d hub_env \<Rightarrow> string \<Rightarrow> bool \<Rightarrow> string \<Rightarrow> gotime option \<Rightarrow> 'd HubServer \<Rightarrow> (code + int \<times> int) \<times> 'd HubServer" where
  "adm_DeleteLogs env token deleteAll nodeId before s =
     (if token = [] then (Inl C_InvalidArgument, s)
      else
        (let e = he_engine env;
             sizeBefore = gint0 (or_else [] (GetLogStorageByRoutingToken e (h_db s))) token;
             res = (if deleteAll then Some (DeleteLogsByRoutingToken e token (h_db s))
                    else if nodeId \<noteq> [] then Some (DeleteLogsByNodeID e token nodeId (h_db s))
                    else map_option (\<lambda>t. DeleteLogsBefore e token t (h_db s)) before)
         in case res of
              None \<Rightarrow> (Inl C_InvalidArgument, s)
            | Some (Inl _, d) \<Rightarrow> (Inl C_Internal, s\<lparr>h_db := d\<rparr>)
            | Some (Inr deleted, d) \<Rightarrow>
                (Inr (deleted, wrap64 (sizeBefore - gint0 (or_else [] (GetLogStorageByRoutingToken e d)) token)), s\<lparr>h_db := d\<rparr>)))"

text \<open>\<open>before\<close> is the time the given number of days ago, by calendar.\<close>

definition would_delete :: "'d hub_env \<Rightarrow> gotime \<Rightarrow> 'd HubServer \<Rightarrow> (string, int) gomap" where
  "would_delete env before s =
     filter (\<lambda>(t, n). n > 0)
       (map (\<lambda>(t, _). (t, int (length (or_else [] (GetEncryptedLogsByNode (he_engine env) t [] 0 before 0 0 (h_db s))))))
          (or_else [] (GetLogsStatsByRoutingToken (he_engine env) (h_db s))))"

definition adm_CleanupOldLogs ::
  "'d hub_env \<Rightarrow> int \<Rightarrow> bool \<Rightarrow> gotime \<Rightarrow> 'd HubServer \<Rightarrow> (code + int \<times> int \<times> (string, int) gomap) \<times> 'd HubServer" where
  "adm_CleanupOldLogs env olderThanDays dryRun before s =
     (if olderThanDays \<le> 0 then (Inl C_InvalidArgument, s)
      else
        (let e = he_engine env;
             statsBefore = or_else [] (GetLogsStatsByRoutingToken e (h_db s));
             totalBefore = map_total (or_else [] (GetLogStorageByRoutingToken e (h_db s)))
         in if dryRun then (Inr (map_total (would_delete env before s), 0, would_delete env before s), s)
            else case on_hub_db (DeleteOldLogs e before) s of
                   (Some _, s1) \<Rightarrow> (Inl C_Internal, s1)
                 | (None, s1) \<Rightarrow>
                     (let statsAfter = or_else [] (GetLogsStatsByRoutingToken e (h_db s1));
                          byToken = map (\<lambda>(t, n). (t, n - gint0 statsAfter t)) (filter (\<lambda>(t, n). n > gint0 statsAfter t) statsBefore)
                      in (Inr (map_total byToken, totalBefore - map_total (or_else [] (GetLogStorageByRoutingToken e (h_db s1))), byToken), s1))))"

section \<open>Properties\<close>

text \<open>Only the routing token a configuration was created with opens it: with any other token every call on it is refused, shows
  nothing of it and changes nothing.\<close>

theorem configs_need_their_token:
  assumes "GetProxyConfig (he_engine env) proxyID (h_db s) = Inr cfg" and "pc_RoutingToken cfg \<noteq> token"
  shows "\<exists>c. mob_GetRevision env token proxyID n s = Inl c \<and> mob_ListRevisions env token proxyID s = Inl c \<and>
    mob_PushRevision env token proxyID blob sz s = Ret (Inl c, s) \<and> mob_FlushRevisions env token proxyID keep s = (Inl c, s) \<and>
    mob_DeleteProxyConfig env token proxyID s = (Some c, s)"
proof -
  have "\<exists>c. owned_config env token proxyID s = Inl c" using assms by (simp add: owned_config_def)
  then show ?thesis
    by (auto simp: mob_GetRevision_def mob_ListRevisions_def mob_PushRevision_def mob_FlushRevisions_def mob_DeleteProxyConfig_def)
qed

text \<open>What the store relies on: deleting by key removes the rows with that key and no other.\<close>

definition deletes_by_key :: "'d engine \<Rightarrow> bool" where
  "deletes_by_key e \<longleftrightarrow>
     (\<forall>p d i d'. en_deleteRev e i d = Some d' \<longrightarrow> en_revs e p d' = map_option (filter (\<lambda>r. pv_ID r \<noteq> i)) (en_revs e p d))"

lemma delete_revs_keeps:
  assumes "deletes_by_key e" and "en_revs e p d = Some (ks @ rs)" and "distinct (map pv_ID (ks @ rs))"
    and "delete_revs e rs n d = (m, None, d')"
  shows "en_revs e p d' = Some ks \<and> m = n + int (length rs)"
  using assms(2-)
proof (induction rs arbitrary: n d)
  case (Cons r rs)
  obtain d1 where d1: "en_deleteRev e (pv_ID r) d = Some d1" "delete_revs e rs (n + 1) d1 = (m, None, d')"
    using Cons.prems(3) by (auto split: option.splits)
  have "filter (\<lambda>x. pv_ID x \<noteq> pv_ID r) ks = ks" "filter (\<lambda>x. pv_ID x \<noteq> pv_ID r) rs = rs"
    unfolding filter_id_conv using Cons.prems(2) by (fastforce simp: image_iff)+
  then have "filter (\<lambda>x. pv_ID x \<noteq> pv_ID r) (ks @ r # rs) = ks @ rs" by simp
  then have "en_revs e p d1 = Some (ks @ rs)" using assms(1) d1(1) Cons.prems(1) unfolding deletes_by_key_def by fastforce
  from Cons.IH [OF this _ d1(2)] Cons.prems(2) show ?case by simp
qed auto

lemma DeleteOldest_keeps:
  assumes "deletes_by_key e" and "en_revs e p d = Some rs" and "distinct (map pv_ID rs)" and "DeleteOldestProxyRevisions e p keep d = (m, None, d')" and "keep > 0"
  shows "en_revs e p d' = Some (take (nat keep) rs) \<and> m = int (length rs - nat keep)"
proof (cases "int (length rs) \<le> keep")
  case True
  then show ?thesis using assms by (simp add: DeleteOldestProxyRevisions_def)
next
  case False
  have "delete_revs e (drop (nat keep) rs) 0 d = (m, None, d')" using False assms by (simp add: DeleteOldestProxyRevisions_def)
  from delete_revs_keeps [OF assms(1) _ _ this, of p "take (nat keep) rs"] assms(2,3) show ?thesis by simp
qed

text \<open>Flushing keeps the newest revisions: exactly as many as asked for, at least one, in their order, and the reply counts the
  ones that went. Nothing is lost that is newer than something kept.\<close>

theorem flush_keeps_the_newest:
  assumes "deletes_by_key (he_engine env)" and "en_revs (he_engine env) proxyID (h_db s) = Some rs" and "distinct (map pv_ID rs)"
    and "mob_FlushRevisions env token proxyID keep s = (Inr (deleted, remaining), s')"
  shows "en_revs (he_engine env) proxyID (h_db s') = Some (take (nat (max 1 keep)) rs) \<and>
    deleted = wrap32 (int (length rs - nat (max 1 keep)))"
proof -
  obtain m d' where m: "DeleteOldestProxyRevisions (he_engine env) proxyID (max 1 keep) (h_db s) = (m, None, d')" "h_db s' = d'" "deleted = wrap32 m"
    using assms(4) by (auto simp: mob_FlushRevisions_def max_def split: sum.splits prod.splits option.splits if_splits)
  from DeleteOldest_keeps [OF assms(1-3) m(1)] m(2,3) show ?thesis by simp
qed

text \<open>The storage limit of a tier is not enforced: as long as the engine answers the sum it is asked for, a new revision is
  judged by its own declared size only, however much the tenant has stored already, and a revision whose declared size is
  within the limit is never refused for it.\<close>

theorem storage_limit_not_enforced:
  assumes "\<And>p. en_sumSizes (he_engine env) p (h_db s) \<noteq> None" and "sz \<le> maxKB * 1024" and "0 \<le> sz" and "maxKB < 2 ^ 40"
  shows "\<not> storage_exceeded env token maxKB sz s"
proof -
  have "proxy_storage (he_engine env) (h_db s) = (\<lambda>_. 0)"
  proof
    fix p show "proxy_storage (he_engine env) (h_db s) p = 0" using assms(1) [of "pc_ProxyID p"] by (auto simp: proxy_storage_def)
  qed
  then have z: "or_else 0 (GetTotalProxyStorageByRoutingToken (he_engine env) token (h_db s)) = 0"
    by (auto simp: or_else_def GetTotalProxyStorageByRoutingToken_def comp_def split: option.split)
  have w: "wrap64 x = x" if "0 \<le> x" "x < 2 ^ 50" for x using that by (simp add: wrap64_def signed_take_bit_int_eq_self)
  have "0 \<le> maxKB" using assms(2,3) by simp
  then show ?thesis using assms(2-4) z w [of sz] w [of "maxKB * 1024"] by (simp add: storage_exceeded_def)
qed

section \<open>Examples\<close>

definition demo_configs :: "hub_db HubServer" where
  "demo_configs =
     demo_hub\<lparr>h_db := demo_nodes\<lparr>db_proxies := [\<lparr>pc_ProxyID = ''p1'', pc_RoutingToken = ''t1'', pc_CreatedAt = 0, pc_UpdatedAt = 0, pc_Deleted = False\<rparr>],
       db_revs := [\<lparr>pv_ID = 2, pv_ProxyID = ''p1'', pv_RevisionNum = 2, pv_EncryptedBlob = ''b'', pv_SizeBytes = 1, pv_CreatedAt = 0\<rparr>,
                   \<lparr>pv_ID = 1, pv_ProxyID = ''p1'', pv_RevisionNum = 1, pv_EncryptedBlob = ''a'', pv_SizeBytes = 1, pv_CreatedAt = 0\<rparr>]\<rparr>\<rparr>"

lemma list_engine_deletes_by_key: "deletes_by_key list_engine"
  by (auto simp: deletes_by_key_def list_engine_def filter_sort [symmetric] conj_commute)

lemmas demo_configs_simps =
  demo_configs_def demo_hub_eq demo_nodes_def demo_env_def list_engine_def GetProxyConfig_def

theorem configs_need_their_token_witness:
  "\<exists>c. mob_GetRevision demo_env ''t2'' ''p1'' 0 demo_configs = Inl c \<and> mob_DeleteProxyConfig demo_env ''t2'' ''p1'' demo_configs = (Some c, demo_configs)"
proof -
  have "\<exists>cfg. GetProxyConfig (he_engine demo_env) ''p1'' (h_db demo_configs) = Inr cfg \<and> pc_RoutingToken cfg \<noteq> ''t2''"
    by (simp add: demo_configs_simps)
  with configs_need_their_token [of demo_env "''p1''" demo_configs _ "''t2''"] show ?thesis by blast
qed

theorem flush_keeps_the_newest_witness:
  "\<exists>n k s'. mob_FlushRevisions demo_env ''t1'' ''p1'' 0 demo_configs = (Inr (n, k), s') \<and>
     map_option (map pv_RevisionNum) (en_revs list_engine ''p1'' (h_db s')) = Some [2] \<and> n = 1"
proof -
  let ?rs = "db_revs (h_db demo_configs)"
  have e: "he_engine demo_env = list_engine" by (simp add: demo_env_def)
  have r: "en_revs (he_engine demo_env) ''p1'' (h_db demo_configs) = Some ?rs"
    by (simp add: demo_configs_simps)
  have d: "distinct (map pv_ID ?rs)" by (simp add: demo_configs_simps)
  obtain n k s' where f: "mob_FlushRevisions demo_env ''t1'' ''p1'' 0 demo_configs = (Inr (n, k), s')"
    by (simp add: mob_FlushRevisions_def owned_config_def demo_configs_simps DeleteOldestProxyRevisions_def)
  have k: "deletes_by_key (he_engine demo_env)" by (simp add: e list_engine_deletes_by_key)
  have "take (nat (max 1 0)) ?rs = [hd ?rs]" "pv_RevisionNum (hd ?rs) = 2" "length ?rs = 2" by (simp_all add: demo_configs_simps)
  with flush_keeps_the_newest [OF k r d f] f e show ?thesis by (auto simp: wrap32_small)
qed

theorem storage_limit_not_enforced_witness: "\<not> storage_exceeded demo_env ''t1'' 1 1024 demo_configs"
  by (rule storage_limit_not_enforced) (simp_all add: demo_configs_simps)

end
