(* ===== verification/Hub_Pairing.thy ===== *)
theory Hub_Pairing
  imports Hub_Runs
begin

text \<open>
  Pairing, \<^verbatim>\<open>pkg/hub/server/pairing_server.go\<close>: the relay of PAKE messages between a command line client and a node under a
  session code, its cleanup, and the submission of a signed certificate. A session is an object of
  its own: streams keep a reference to it (its number) after the map of codes has dropped it. The relay
  of a stream is split into joining, each message, and leaving. The properties are that no send or
  close of a session's channels panics in any interleaving, what a relayed message can reach, and two defects: a late
  end of a stream removes a newer session, and anyone replaces the record of any node.
\<close>

section \<open>Sessions\<close>

record PakeMessage =
  pm_SessionCode :: string
  pm_Role :: string
  pm_Type :: int
  pm_Data :: string

record pake_chan =
  pk_buf :: "PakeMessage list"
  pk_open :: bool

record pakeSession =
  ps_code :: string
  ps_cliChan :: pake_chan
  ps_nodeChan :: pake_chan
  ps_created :: gotime
  ps_cliJoined :: bool
  ps_nodeJoined :: bool
  ps_cliUserID :: string
  ps_cliPeerAddr :: string
  ps_nodePeerAddr :: string
  ps_closed :: bool

record PairingServer =
  pg_sessions :: "(string, nat) gomap"
  pg_objs :: "pakeSession list"

definition new_pakeSession :: "string \<Rightarrow> gotime \<Rightarrow> pakeSession" where
  "new_pakeSession sessionCode now =
     \<lparr>ps_code = sessionCode, ps_cliChan = \<lparr>pk_buf = [], pk_open = True\<rparr>, ps_nodeChan = \<lparr>pk_buf = [], pk_open = True\<rparr>,
      ps_created = now, ps_cliJoined = False, ps_nodeJoined = False, ps_cliUserID = [], ps_cliPeerAddr = [],
      ps_nodePeerAddr = [], ps_closed = False\<rparr>"

definition NewPairingServer :: PairingServer where
  "NewPairingServer = \<lparr>pg_sessions = [], pg_objs = []\<rparr>"

definition pake_close :: "pake_chan \<Rightarrow> pake_chan outcome" where
  "pake_close c = (if pk_open c then Ret (c\<lparr>pk_open := False\<rparr>) else Panics)"

definition close_session :: "pakeSession \<Rightarrow> pakeSession outcome" where
  "close_session sess =
     (if ps_closed sess then Ret sess
      else obind (pake_close (ps_cliChan sess)) (\<lambda>c.
           obind (pake_close (ps_nodeChan sess)) (\<lambda>n.
           Ret (sess\<lparr>ps_closed := True, ps_cliChan := c, ps_nodeChan := n\<rparr>))))"

text \<open>A send in a \<^verbatim>\<open>select\<close> with a default.\<close>

definition pake_send :: "pake_chan \<Rightarrow> PakeMessage \<Rightarrow> (bool \<times> pake_chan) outcome" where
  "pake_send c msg =
     (if \<not> pk_open c then Panics
      else if length (pk_buf c) < 10 then Ret (True, c\<lparr>pk_buf := pk_buf c @ [msg]\<rparr>)
      else Ret (False, c))"

text \<open>\<open>cli\<close> tells the role of the sender: the client sends on the node's channel, the node on the client's.\<close>

definition safeSend :: "bool \<Rightarrow> PakeMessage \<Rightarrow> pakeSession \<Rightarrow> (bool \<times> pakeSession) outcome" where
  "safeSend cli msg sess =
     (if ps_closed sess then Ret (False, sess)
      else if cli then obind (pake_send (ps_nodeChan sess) msg) (\<lambda>(ok, c). Ret (ok, sess\<lparr>ps_nodeChan := c\<rparr>))
      else obind (pake_send (ps_cliChan sess) msg) (\<lambda>(ok, c). Ret (ok, sess\<lparr>ps_cliChan := c\<rparr>)))"

definition on_session :: "nat \<Rightarrow> (pakeSession \<Rightarrow> ('a \<times> pakeSession) outcome) \<Rightarrow> PairingServer \<Rightarrow> ('a \<times> PairingServer) outcome" where
  "on_session i f s =
     (if i < length (pg_objs s)
      then obind (f (pg_objs s ! i)) (\<lambda>(a, sess). Ret (a, s\<lparr>pg_objs := (pg_objs s)[i := sess]\<rparr>))
      else Panics)"

text \<open>The cleanup loop walks the map and removes the sessions older than five minutes.\<close>

fun pake_cleanup_each :: "gotime \<Rightarrow> (string \<times> nat) list \<Rightarrow> PairingServer \<Rightarrow> PairingServer outcome" where
  "pake_cleanup_each now [] s = Ret s"
| "pake_cleanup_each now ((sessionCode, i) # rest) s =
     (if i < length (pg_objs s) \<and> time_sub now (ps_created (pg_objs s ! i)) > 300 * second
      then obind (on_session i (\<lambda>sess. obind (close_session sess) (\<lambda>sess'. Ret ((), sess'))) s) (\<lambda>(_, s1).
           pake_cleanup_each now rest (s1\<lparr>pg_sessions := gdel sessionCode (pg_sessions s1)\<rparr>))
      else pake_cleanup_each now rest s)"

definition pairing_cleanup :: "gotime \<Rightarrow> PairingServer \<Rightarrow> PairingServer outcome" where
  "pairing_cleanup now s = pake_cleanup_each now (pg_sessions s) s"

section \<open>A stream\<close>

definition pake_get :: "string \<Rightarrow> gotime \<Rightarrow> PairingServer \<Rightarrow> nat \<times> PairingServer" where
  "pake_get sessionCode now s =
     (case gget (pg_sessions s) sessionCode of
        Some i \<Rightarrow> (i, s)
      | None \<Rightarrow>
          (length (pg_objs s),
           s\<lparr>pg_sessions := gput sessionCode (length (pg_objs s)) (pg_sessions s),
             pg_objs := pg_objs s @ [new_pakeSession sessionCode now]\<rparr>))"

definition pake_mark :: "bool \<Rightarrow> string \<Rightarrow> string \<Rightarrow> pakeSession \<Rightarrow> pakeSession option" where
  "pake_mark cli userID peerAddr sess =
     (if cli then
        (if ps_cliJoined sess then None
         else Some (sess\<lparr>ps_cliJoined := True, ps_cliUserID := (if userID \<noteq> [] then userID else ps_cliUserID sess),
                      ps_cliPeerAddr := (if peerAddr \<noteq> [] then peerAddr else ps_cliPeerAddr sess)\<rparr>))
      else
        (if ps_nodeJoined sess then None
         else Some (sess\<lparr>ps_nodeJoined := True, ps_nodePeerAddr := (if peerAddr \<noteq> [] then peerAddr else ps_nodePeerAddr sess)\<rparr>)))"

text \<open>The first message decides the role and the session; joining ends with that message sent to the other side.\<close>

definition PakeExchange_join ::
  "string \<Rightarrow> string \<Rightarrow> PakeMessage \<Rightarrow> gotime \<Rightarrow> PairingServer \<Rightarrow> ((code + nat \<times> bool) \<times> PairingServer) outcome" where
  "PakeExchange_join userID peerAddr msg now s =
     (if pm_SessionCode msg = [] \<or> length (pm_SessionCode msg) > 128 \<or> (pm_Role msg \<noteq> ''cli'' \<and> pm_Role msg \<noteq> ''node'')
      then Ret (Inl C_InvalidArgument, s)
      else case pake_get (pm_SessionCode msg) now s of
             (i, s1) \<Rightarrow>
               (let cli = (pm_Role msg = ''cli'') in
                if \<not> i < length (pg_objs s1) then Panics
                else case pake_mark cli userID peerAddr (pg_objs s1 ! i) of
                       None \<Rightarrow> Ret (Inl C_AlreadyExists, s1)
                     | Some sess \<Rightarrow>
                         obind (on_session i (safeSend cli msg) (s1\<lparr>pg_objs := (pg_objs s1)[i := sess]\<rparr>)) (\<lambda>(_, s2).
                         Ret (Inr (i, cli), s2))))"

text \<open>A message of the stream; \<open>False\<close> ends the stream.\<close>

definition PakeExchange_msg :: "nat \<times> bool \<Rightarrow> PakeMessage \<Rightarrow> PairingServer \<Rightarrow> (bool \<times> PairingServer) outcome" where
  "PakeExchange_msg st msg s = on_session (fst st) (safeSend (snd st) msg) s"

text \<open>What the stream takes from its own side's channel: a message, nothing yet, or that the channel is closed.\<close>

datatype relay = Relayed PakeMessage | PeerSilent | SessionClosed

definition take_msg :: "pake_chan \<Rightarrow> relay \<times> pake_chan" where
  "take_msg c =
     (case pk_buf c of m # ms \<Rightarrow> (Relayed m, c\<lparr>pk_buf := ms\<rparr>) | [] \<Rightarrow> (if pk_open c then PeerSilent else SessionClosed, c))"

definition PakeExchange_relay :: "nat \<times> bool \<Rightarrow> PairingServer \<Rightarrow> (relay \<times> PairingServer) outcome" where
  "PakeExchange_relay st s =
     on_session (fst st) (\<lambda>sess.
       if snd st then (case take_msg (ps_cliChan sess) of (r, c) \<Rightarrow> Ret (r, sess\<lparr>ps_cliChan := c\<rparr>))
       else (case take_msg (ps_nodeChan sess) of (r, c) \<Rightarrow> Ret (r, sess\<lparr>ps_nodeChan := c\<rparr>))) s"

text \<open>The end of a stream: the session goes when both sides have left.\<close>

definition PakeExchange_leave :: "string \<Rightarrow> nat \<times> bool \<Rightarrow> PairingServer \<Rightarrow> PairingServer outcome" where
  "PakeExchange_leave sessionCode st s =
     obind (on_session (fst st) (\<lambda>sess.
       let sess1 = (if snd st then sess\<lparr>ps_cliJoined := False\<rparr> else sess\<lparr>ps_nodeJoined := False\<rparr>) in
       if \<not> ps_cliJoined sess1 \<and> \<not> ps_nodeJoined sess1
       then obind (close_session sess1) (\<lambda>sess2. Ret (True, sess2))
       else Ret (False, sess1)) s) (\<lambda>(gone, s1).
     Ret (if gone then s1\<lparr>pg_sessions := gdel sessionCode (pg_sessions s1)\<rparr> else s1))"

section \<open>The user of a stream\<close>

text \<open>\<open>ctxUser\<close> is the authenticated user; \<open>md\<close> the metadata of the call, by key.\<close>

definition extractPairingUserID ::
  "jwt_lib \<Rightarrow> gotime \<Rightarrow> TokenManager option \<Rightarrow> string option \<Rightarrow> (string, string list) gomap option \<Rightarrow> string" where
  "extractPairingUserID jw now tmo ctxUser mdo =
     (case (case ctxUser of None \<Rightarrow> [] | Some u \<Rightarrow> strings_TrimSpace u) of
        c # cs \<Rightarrow> c # cs
      | [] \<Rightarrow>
          (case mdo of
             None \<Rightarrow> []
           | Some md \<Rightarrow>
               (let ids = (case gget md ''user_id'' of None \<Rightarrow> [] | Some l \<Rightarrow> l);
                    authz = (case gget md ''authorization'' of None \<Rightarrow> [] | Some l \<Rightarrow> l)
                in if ids \<noteq> [] \<and> strings_TrimSpace (hd ids) \<noteq> [] then strings_TrimSpace (hd ids)
                   else case tmo of
                          None \<Rightarrow> []
                        | Some tm \<Rightarrow>
                            (if authz = [] then []
                             else
                               (let t0 = strings_TrimSpace (hd authz);
                                    token = (if strings_HasPrefix (ascii_lower t0) ''bearer '' then strings_TrimSpace (drop 7 t0) else t0)
                                in if token = [] then []
                                   else case ValidateToken jw now token tm of
                                          Inl _ \<Rightarrow> []
                                        | Inr claims \<Rightarrow> strings_TrimSpace (cl_UserID claims))))))"

section \<open>A signed certificate\<close>

definition SubmitSignedCert ::
  "'d hub_env \<Rightarrow> string option \<Rightarrow> string \<Rightarrow> string \<Rightarrow> string \<Rightarrow> string \<Rightarrow> 'd HubServer \<Rightarrow> code option \<times> 'd HubServer" where
  "SubmitSignedCert env ctxToken nodeId certPem caPem token s =
     (if certPem = [] then (Some C_InvalidArgument, s)
      else case parse_pem env certPem of
             None \<Rightarrow> (Some C_InvalidArgument, s)
           | Some cert \<Rightarrow>
               (if caPem \<noteq> [] \<and> (case parse_pem env caPem of None \<Rightarrow> True | Some ca \<Rightarrow> \<not> he_verify env ca cert)
                then (Some C_InvalidArgument, s)
                else
                  (let node = zero_Node\<lparr>n_ID := (if nodeId = [] then ct_CommonName cert else nodeId),
                         n_RoutingToken := (if token = [] then (case ctxToken of None \<Rightarrow> [] | Some t \<Rightarrow> t) else token),
                         n_CertPEM := certPem, n_Status := ''offline''\<rparr>
                   in case on_hub_db (SaveNode (he_engine env) node) s of
                        (Some _, s1) \<Rightarrow> (Some C_Internal, s1)
                      | (None, s1) \<Rightarrow> (None, s1))))"

section \<open>No interleaving panics\<close>

text \<open>The flag of a session agrees with its channels.\<close>

definition sess_ok :: "pakeSession \<Rightarrow> bool" where
  "sess_ok sess \<longleftrightarrow> pk_open (ps_cliChan sess) = (\<not> ps_closed sess) \<and> pk_open (ps_nodeChan sess) = (\<not> ps_closed sess)"

definition pairing_ok :: "PairingServer \<Rightarrow> bool" where
  "pairing_ok s \<longleftrightarrow> (\<forall>sess \<in> set (pg_objs s). sess_ok sess) \<and> (\<forall>c i. gget (pg_sessions s) c = Some i \<longrightarrow> i < length (pg_objs s))"

lemma sess_ok_new [simp]: "sess_ok (new_pakeSession c now)"
  by (simp add: sess_ok_def new_pakeSession_def)

lemma sess_ok_mark: "pake_mark cli u p sess = Some sess' \<Longrightarrow> sess_ok sess \<Longrightarrow> sess_ok sess'"
  by (auto simp: pake_mark_def sess_ok_def split: if_splits)

lemma close_session_ok: "sess_ok sess \<Longrightarrow> \<exists>sess'. close_session sess = Ret sess' \<and> sess_ok sess'"
  by (auto simp: close_session_def pake_close_def sess_ok_def)

lemma safeSend_ok: "sess_ok sess \<Longrightarrow> \<exists>b sess'. safeSend cli msg sess = Ret (b, sess') \<and> sess_ok sess'"
  by (auto simp: safeSend_def pake_send_def sess_ok_def)

text \<open>An operation on the object of a session that keeps its agreement changes this object only.\<close>

lemma on_session_ok:
  assumes "pairing_ok s" and "i < length (pg_objs s)" and "\<And>sess. sess_ok sess \<Longrightarrow> \<exists>a sess'. f sess = Ret (a, sess') \<and> sess_ok sess'"
  shows "\<exists>a sess'. f (pg_objs s ! i) = Ret (a, sess') \<and> sess_ok sess' \<and>
    on_session i f s = Ret (a, s\<lparr>pg_objs := (pg_objs s)[i := sess']\<rparr>)"
proof -
  from assms(1,2) have "sess_ok (pg_objs s ! i)" by (simp add: pairing_ok_def)
  from assms(3) [OF this] obtain a sess' where "f (pg_objs s ! i) = Ret (a, sess')" "sess_ok sess'" by blast
  with assms(1,2) show ?thesis by (auto simp: on_session_def)
qed

lemma pairing_ok_drop [simp]: "pairing_ok s \<Longrightarrow> pairing_ok (s\<lparr>pg_sessions := gdel c (pg_sessions s)\<rparr>)"
  by (auto simp: pairing_ok_def gget_gdel split: if_splits)

lemma pake_get_ok:
  assumes "pairing_ok s" "pake_get c now s = (i, s')"
  shows "pairing_ok s' \<and> i < length (pg_objs s') \<and> gget (pg_sessions s') c = Some i"
  using assms by (auto simp: pake_get_def pairing_ok_def gget_gput less_Suc_eq split: option.splits if_splits)

text \<open>The streams that have joined and not left, each with its session code, the object and its role.\<close>

type_synonym pake_stream = "string \<times> nat \<times> bool"

definition joined :: "bool \<Rightarrow> pakeSession \<Rightarrow> bool" where
  "joined cli sess = (if cli then ps_cliJoined sess else ps_nodeJoined sess)"

inductive pake_reach :: "PairingServer \<Rightarrow> pake_stream list \<Rightarrow> bool" where
  start: "pake_reach NewPairingServer []"
| refused: "pake_reach s L \<Longrightarrow> PakeExchange_join u p msg now s = Ret (Inl c, s') \<Longrightarrow> pake_reach s' L"
| join: "pake_reach s L \<Longrightarrow> PakeExchange_join u p msg now s = Ret (Inr st, s') \<Longrightarrow> pake_reach s' ((pm_SessionCode msg, st) # L)"
| msg: "pake_reach s L \<Longrightarrow> (c, st) \<in> set L \<Longrightarrow> PakeExchange_msg st m s = Ret (b, s') \<Longrightarrow> pake_reach s' L"
| relay: "pake_reach s L \<Longrightarrow> (c, st) \<in> set L \<Longrightarrow> PakeExchange_relay st s = Ret (r, s') \<Longrightarrow> pake_reach s' L"
| leave: "pake_reach s L \<Longrightarrow> (c, st) \<in> set L \<Longrightarrow> PakeExchange_leave c st s = Ret s' \<Longrightarrow> pake_reach s' (remove1 (c, st) L)"
| cleanup: "pake_reach s L \<Longrightarrow> pairing_cleanup now s = Ret s' \<Longrightarrow> pake_reach s' L"

definition pake_inv :: "PairingServer \<Rightarrow> pake_stream list \<Rightarrow> bool" where
  "pake_inv s L \<longleftrightarrow>
     pairing_ok s \<and> distinct (map snd L) \<and>
     (\<forall>c i r. (c, i, r) \<in> set L \<longrightarrow> i < length (pg_objs s) \<and> joined r (pg_objs s ! i) \<and> ps_code (pg_objs s ! i) = c) \<and>
     (\<forall>c i. gget (pg_sessions s) c = Some i \<longrightarrow> ps_code (pg_objs s ! i) = c)"

lemma pake_inv_update:
  assumes "pake_inv s L" and "i < length (pg_objs s)" and "sess_ok sess" and "ps_code sess = ps_code (pg_objs s ! i)"
    and "\<And>r. joined r (pg_objs s ! i) \<Longrightarrow> joined r sess"
  shows "pake_inv (s\<lparr>pg_objs := (pg_objs s)[i := sess]\<rparr>) L"
  using assms
  by (auto simp: pake_inv_def pairing_ok_def nth_list_update dest!: subsetD [OF set_update_subset_insert])

lemma pake_inv_drop: "pake_inv s L \<Longrightarrow> pake_inv (s\<lparr>pg_sessions := gdel c (pg_sessions s)\<rparr>) L"
  by (auto simp: pake_inv_def gget_gdel split: if_splits)

lemma pake_inv_stream: "pake_inv s L \<Longrightarrow> (c, i, r) \<in> set L \<Longrightarrow> i < length (pg_objs s)"
  by (auto simp: pake_inv_def)

lemma pake_inv_ok: "pake_inv s L \<Longrightarrow> pairing_ok s"
  by (simp add: pake_inv_def)

text \<open>What keeps the code and the roles of a session.\<close>

definition keeps :: "pakeSession \<Rightarrow> pakeSession \<Rightarrow> bool" where
  "keeps a b \<longleftrightarrow> sess_ok b \<and> ps_code b = ps_code a \<and> (\<forall>r. joined r b = joined r a)"

lemma close_session_keeps: "sess_ok a \<Longrightarrow> \<exists>b. close_session a = Ret b \<and> keeps a b"
  by (auto simp: close_session_def pake_close_def sess_ok_def keeps_def joined_def)

lemma safeSend_keeps: "sess_ok a \<Longrightarrow> \<exists>x b. safeSend cli m a = Ret (x, b) \<and> keeps a b"
  by (auto simp: safeSend_def pake_send_def sess_ok_def keeps_def joined_def)

lemma on_session_keeps:
  assumes "pake_inv s L" and "i < length (pg_objs s)" and f: "\<And>a. sess_ok a \<Longrightarrow> \<exists>x b. f a = Ret (x, b) \<and> keeps a b"
  shows "\<exists>x s'. on_session i f s = Ret (x, s') \<and> pake_inv s' L \<and> length (pg_objs s') = length (pg_objs s) \<and>
    pg_sessions s' = pg_sessions s"
proof -
  have ok: "sess_ok (pg_objs s ! i)" using assms(1,2) by (simp add: pake_inv_def pairing_ok_def)
  from f [OF ok] obtain x b where "f (pg_objs s ! i) = Ret (x, b)" "keeps (pg_objs s ! i) b" by blast
  then show ?thesis using assms(2) pake_inv_update [OF assms(1,2), of b]
    by (auto simp: on_session_def keeps_def)
qed

lemma take_msg_open: "take_msg c = (r, c') \<Longrightarrow> pk_open c' = pk_open c"
  by (auto simp: take_msg_def split: list.splits)

lemma relay_keeps:
  assumes "pake_inv s L" and "(c, st) \<in> set L"
  shows "\<exists>x s'. PakeExchange_relay st s = Ret (x, s') \<and> pake_inv s' L"
proof -
  have "\<exists>x s'. PakeExchange_relay st s = Ret (x, s') \<and> pake_inv s' L \<and> length (pg_objs s') = length (pg_objs s) \<and>
    pg_sessions s' = pg_sessions s"
    unfolding PakeExchange_relay_def
    by (rule on_session_keeps [OF assms(1)])
      (use assms pake_inv_stream in \<open>cases st; auto simp: keeps_def sess_ok_def joined_def split: prod.split dest: take_msg_open\<close>)+
  then show ?thesis by blast
qed

lemma msg_keeps:
  assumes "pake_inv s L" and "(c, st) \<in> set L"
  shows "\<exists>x s'. PakeExchange_msg st m s = Ret (x, s') \<and> pake_inv s' L"
proof -
  obtain i r where st: "st = (i, r)" by (cases st)
  have "i < length (pg_objs s)" using assms st pake_inv_stream by blast
  from on_session_keeps [OF assms(1) this safeSend_keeps] show ?thesis
    unfolding PakeExchange_msg_def st by fastforce
qed

lemma cleanup_keeps: "pake_inv s L \<Longrightarrow> \<exists>s'. pake_cleanup_each now xs s = Ret s' \<and> pake_inv s' L"
proof (induction now xs s rule: pake_cleanup_each.induct)
  case (2 now c i rest s)
  show ?case
  proof (cases "i < length (pg_objs s) \<and> time_sub now (ps_created (pg_objs s ! i)) > 300 * second")
    case True
    have "\<exists>x s'. on_session i (\<lambda>sess. obind (close_session sess) (\<lambda>sess'. Ret ((), sess'))) s = Ret (x, s') \<and> pake_inv s' L \<and>
      length (pg_objs s') = length (pg_objs s) \<and> pg_sessions s' = pg_sessions s"
      by (rule on_session_keeps [OF 2(3)]) (use True close_session_keeps in fastforce)+
    then obtain s1 where s1: "on_session i (\<lambda>sess. obind (close_session sess) (\<lambda>sess'. Ret ((), sess'))) s = Ret ((), s1)" "pake_inv s1 L"
      by auto
    from 2(1) [OF True pake_inv_drop [OF s1(2), of c]] s1(1) True show ?thesis by simp
  qed (use 2 in auto)
qed simp

lemma pake_get_inv:
  assumes "pake_inv s L" and g: "pake_get c now s = (i, s')"
  shows "pake_inv s' L"
proof (cases "gget (pg_sessions s) c")
  case None
  have "pairing_ok s'" using pake_get_ok [OF pake_inv_ok [OF assms(1)] g] by simp
  moreover have "j < length (pg_objs s)" if "gget (pg_sessions s) c' = Some j" for c' j
    using that assms(1) by (simp add: pake_inv_def pairing_ok_def)
  ultimately show ?thesis
    using None assms by (auto simp: pake_get_def pake_inv_def gget_gput nth_append less_Suc_eq new_pakeSession_def split: if_splits)
qed (use assms in \<open>auto simp: pake_get_def\<close>)

lemma join_keeps:
  assumes "pake_inv s L"
  shows "\<exists>r s'. PakeExchange_join u p msg now s = Ret (r, s') \<and>
    (case r of Inl _ \<Rightarrow> pake_inv s' L | Inr st \<Rightarrow> pake_inv s' ((pm_SessionCode msg, st) # L))"
proof (cases "pm_SessionCode msg = [] \<or> length (pm_SessionCode msg) > 128 \<or> (pm_Role msg \<noteq> ''cli'' \<and> pm_Role msg \<noteq> ''node'')")
  case valid: False
  let ?c = "pm_SessionCode msg" and ?r = "pm_Role msg = ''cli''"
  obtain i s1 where g: "pake_get ?c now s = (i, s1)" by (cases "pake_get ?c now s")
  have g': "i < length (pg_objs s1)" "gget (pg_sessions s1) ?c = Some i" "pairing_ok s1"
    using pake_get_ok [OF pake_inv_ok [OF assms] g] by auto
  have inv1: "pake_inv s1 L" using pake_get_inv [OF assms g] .
  then have code: "ps_code (pg_objs s1 ! i) = ?c" using g'(2) by (simp add: pake_inv_def)
  show ?thesis
  proof (cases "pake_mark ?r u p (pg_objs s1 ! i)")
    case None
    then show ?thesis using valid g g' inv1 by (auto simp: PakeExchange_join_def Let_def)
  next
    case (Some sess)
    have ok: "sess_ok (pg_objs s1 ! i)" using g'(1,3) by (simp add: pairing_ok_def)
    let ?s2 = "s1\<lparr>pg_objs := (pg_objs s1)[i := sess]\<rparr>"
    have m: "sess_ok sess" "ps_code sess = ?c" "joined ?r sess" "\<not> joined ?r (pg_objs s1 ! i)"
      "\<And>r. joined r (pg_objs s1 ! i) \<Longrightarrow> joined r sess"
      using Some sess_ok_mark [OF Some ok] code by (auto simp: pake_mark_def joined_def split: if_splits)
    have "pake_inv ?s2 L" using pake_inv_update [OF inv1 g'(1), of sess] m code by simp
    moreover have "(i, ?r) \<notin> set (map snd L)" using inv1 m(4) by (auto simp: pake_inv_def)
    ultimately have "pake_inv ?s2 ((?c, i, ?r) # L)"
      using g'(1) m(2,3) by (auto simp: pake_inv_def)
    from on_session_keeps [OF this _ safeSend_keeps [of _ ?r msg], of i] g'(1)
    obtain x s3 where "on_session i (safeSend ?r msg) ?s2 = Ret (x, s3)" "pake_inv s3 ((?c, i, ?r) # L)" by auto
    then show ?thesis using valid g g'(1) Some by (auto simp: PakeExchange_join_def Let_def)
  qed
qed (use assms in \<open>auto simp: PakeExchange_join_def\<close>)

lemma leave_update:
  assumes "pake_inv s L" and "(c, i, r) \<in> set L" and "sess_ok sess" and "ps_code sess = c"
    and "\<And>r'. r' \<noteq> r \<Longrightarrow> joined r' sess = joined r' (pg_objs s ! i)"
  shows "pake_inv (s\<lparr>pg_objs := (pg_objs s)[i := sess]\<rparr>) (remove1 (c, i, r) L)"
proof -
  have d: "distinct (map snd L)" "distinct L" using assms(1) by (auto simp: pake_inv_def distinct_map)
  have i: "i < length (pg_objs s)" "ps_code (pg_objs s ! i) = c" using assms(1,2) by (auto simp: pake_inv_def)
  have other: "r' \<noteq> r" if "(c', i, r') \<in> set (remove1 (c, i, r) L)" for c' r'
  proof -
    have "(c', i, r') \<in> set L" "(c', r') \<noteq> (c, r)" using that d(2) by auto
    moreover have "c' = c" using calculation(1) i(2) assms(1) unfolding pake_inv_def by metis
    ultimately show ?thesis by simp
  qed
  have new: "j < length (pg_objs s) \<and> joined r' ((pg_objs s)[i := sess] ! j) \<and> ps_code ((pg_objs s)[i := sess] ! j) = c'"
    if m: "(c', j, r') \<in> set (remove1 (c, i, r) L)" for c' j r'
  proof -
    have "(c', j, r') \<in> set L" using m notin_set_remove1 by metis
    then have "j < length (pg_objs s)" "joined r' (pg_objs s ! j)" "ps_code (pg_objs s ! j) = c'"
      using assms(1) unfolding pake_inv_def by metis+
    then show ?thesis using other [of c' r'] m i assms(4,5) by (cases "j = i") auto
  qed
  have "pairing_ok (s\<lparr>pg_objs := (pg_objs s)[i := sess]\<rparr>)"
    using assms(1,3) by (auto simp: pake_inv_def pairing_ok_def dest!: subsetD [OF set_update_subset_insert])
  moreover have "ps_code ((pg_objs s)[i := sess] ! j) = c'" if "gget (pg_sessions s) c' = Some j" for c' j
  proof -
    have "ps_code (pg_objs s ! j) = c'" using that assms(1) by (simp add: pake_inv_def)
    then show ?thesis using i assms(4) by (cases "j = i") auto
  qed
  moreover have "distinct (map snd (remove1 (c, i, r) L))"
    using d by (auto simp: distinct_map intro: inj_on_diff)
  ultimately show ?thesis using new unfolding pake_inv_def by simp
qed

lemma leave_keeps:
  assumes "pake_inv s L" and "(c, st) \<in> set L"
  shows "\<exists>s'. PakeExchange_leave c st s = Ret s' \<and> pake_inv s' (remove1 (c, st) L)"
proof -
  obtain i r where st: "st = (i, r)" by (cases st)
  let ?a = "pg_objs s ! i"
  let ?b = "if r then ?a\<lparr>ps_cliJoined := False\<rparr> else ?a\<lparr>ps_nodeJoined := False\<rparr>"
  have i: "i < length (pg_objs s)" "ps_code ?a = c" "sess_ok ?a"
    using assms st by (auto simp: pake_inv_def pairing_ok_def)
  then have b: "sess_ok ?b" "ps_code ?b = c" "\<And>r'. r' \<noteq> r \<Longrightarrow> joined r' ?b = joined r' ?a"
    by (auto simp: sess_ok_def joined_def)
  obtain b' where b': "close_session ?b = Ret b'" "keeps ?b b'" using close_session_keeps [OF b(1)] by blast
  show ?thesis
  proof (cases "\<not> ps_cliJoined ?b \<and> \<not> ps_nodeJoined ?b")
    case True
    have "pake_inv (s\<lparr>pg_objs := (pg_objs s)[i := b']\<rparr>) (remove1 (c, i, r) L)"
      by (rule leave_update [OF assms(1)]) (use assms(2) st b b'(2) in \<open>auto simp: keeps_def\<close>)
    from pake_inv_drop [OF this, of c] show ?thesis
      using True i(1) b'(1) st by (simp add: PakeExchange_leave_def on_session_def Let_def)
  next
    case False
    have "pake_inv (s\<lparr>pg_objs := (pg_objs s)[i := ?b]\<rparr>) (remove1 (c, i, r) L)"
      by (rule leave_update [OF assms(1)]) (use assms(2) st b in auto)
    then show ?thesis using False i(1) st by (cases r) (auto simp: PakeExchange_leave_def on_session_def Let_def)
  qed
qed

lemma pake_reach_inv: "pake_reach s L \<Longrightarrow> pake_inv s L"
proof (induction rule: pake_reach.induct)
  case start
  show ?case by (simp add: pake_inv_def pairing_ok_def NewPairingServer_def)
next
  case (refused s L u p msg now c s')
  then show ?case using join_keeps [of s L u p msg now] by auto
next
  case (join s L u p msg now st s')
  then show ?case using join_keeps [of s L u p msg now] by auto
next
  case (msg s L c st m b s')
  then show ?case using msg_keeps [of s L c st m] by auto
next
  case (relay s L c st r s')
  then show ?case using relay_keeps [of s L c st] by auto
next
  case (leave s L c st s')
  then show ?case using leave_keeps [of s L c st] by auto
next
  case (cleanup s L now s')
  then show ?case using cleanup_keeps [of s L now "pg_sessions s"] by (auto simp: pairing_cleanup_def)
qed

text \<open>(C17) In every interleaving of streams that join, send, relay and leave with the cleanup, none of these operations panics:
  no channel of a session is closed twice or sent on after it was closed, although streams keep using
  sessions that the cleanup has already dropped.\<close>

theorem pairing_never_panics:
  assumes "pake_reach s L"
  shows "(\<exists>r. PakeExchange_join u p msg now s = Ret r) \<and> (\<exists>s'. pairing_cleanup now s = Ret s') \<and>
    (\<forall>(c, st) \<in> set L. (\<exists>r. PakeExchange_msg st m s = Ret r) \<and> (\<exists>r. PakeExchange_relay st s = Ret r) \<and>
                       (\<exists>s'. PakeExchange_leave c st s = Ret s'))"
proof -
  have inv: "pake_inv s L" using assms by (rule pake_reach_inv)
  have "\<exists>s'. pairing_cleanup now s = Ret s'" using cleanup_keeps [OF inv] unfolding pairing_cleanup_def by blast
  moreover have "\<exists>r. PakeExchange_join u p msg now s = Ret r" using join_keeps [OF inv] by blast
  ultimately show ?thesis using msg_keeps [OF inv] relay_keeps [OF inv] leave_keeps [OF inv] by fast
qed

definition pake_hello :: PakeMessage where
  "pake_hello = \<lparr>pm_SessionCode = ''ab'', pm_Role = ''cli'', pm_Type = 0, pm_Data = []\<rparr>"

definition after_hello :: PairingServer where
  "after_hello =
     \<lparr>pg_sessions = [(''ab'', 0)],
      pg_objs = [(new_pakeSession ''ab'' 0)\<lparr>ps_cliJoined := True, ps_nodeChan := \<lparr>pk_buf = [pake_hello], pk_open = True\<rparr>\<rparr>]\<rparr>"

lemma hello_joins: "PakeExchange_join [] [] pake_hello 0 NewPairingServer = Ret (Inr (0, True), after_hello)"
  by (simp add: PakeExchange_join_def pake_hello_def pake_get_def NewPairingServer_def new_pakeSession_def pake_mark_def
      on_session_def safeSend_def pake_send_def after_hello_def gput_def)

lemma after_hello_reach: "pake_reach after_hello [(''ab'', 0, True)]"
  using pake_reach.join [OF pake_reach.start hello_joins] by (simp add: pake_hello_def)

theorem pairing_never_panics_witness:
  "pake_reach after_hello [(''ab'', 0, True)] \<and> (\<exists>s'. PakeExchange_leave ''ab'' (0, True) after_hello = Ret s')"
  using pairing_never_panics [OF after_hello_reach] after_hello_reach by simp

text \<open>(C24) A session connects one client with one node: no two streams that are connected at the same time have the same role in the
  same session, and every stream is in a session of the code it asked for.\<close>

theorem pairing_is_exclusive:
  assumes "pake_reach s L"
  shows "distinct (map snd L) \<and> (\<forall>(c, i, r) \<in> set L. i < length (pg_objs s) \<and> ps_code (pg_objs s ! i) = c)"
  using pake_reach_inv [OF assms] by (auto simp: pake_inv_def)

theorem pairing_is_exclusive_witness:
  "pake_reach after_hello [(''ab'', 0, True)] \<and> ps_code (pg_objs after_hello ! 0) = ''ab''"
  using pairing_is_exclusive [OF after_hello_reach] after_hello_reach by simp

text \<open>The end of a stream removes whatever session its code has now. When its own session was dropped as expired and another
  one was started under the same code, the other one disappears from the map while its client is still
  connected, so that a node that comes with the code joins a third session and never meets that client.\<close>

theorem late_end_removes_newer_session:
  assumes "i < length (pg_objs s)" and "pg_objs s ! i = old" and "ps_closed old" and "ps_cliJoined old" and "\<not> ps_nodeJoined old"
    and "gget (pg_sessions s) c = Some j" and "j < length (pg_objs s)" and "j \<noteq> i" and "ps_cliJoined (pg_objs s ! j)"
    and "pm_SessionCode msg = c" and "pm_Role msg = ''node''" and "c \<noteq> []" and "length c \<le> 128"
  shows "\<exists>s1 s2. PakeExchange_leave c (i, True) s = Ret s1 \<and> gget (pg_sessions s1) c = None \<and> ps_cliJoined (pg_objs s1 ! j) \<and>
    PakeExchange_join u p msg now s1 = Ret (Inr (length (pg_objs s), False), s2) \<and> pg_objs s2 ! j = pg_objs s ! j"
proof -
  let ?s1 = "s\<lparr>pg_objs := (pg_objs s)[i := old\<lparr>ps_cliJoined := False\<rparr>], pg_sessions := gdel c (pg_sessions s)\<rparr>"
  have l: "PakeExchange_leave c (i, True) s = Ret ?s1"
    using assms(1-5) by (simp add: PakeExchange_leave_def on_session_def close_session_def)
  have g: "gget (pg_sessions ?s1) c = None" by (simp add: gget_gdel)
  have "\<exists>s2. PakeExchange_join u p msg now ?s1 = Ret (Inr (length (pg_objs s), False), s2) \<and> pg_objs s2 ! j = pg_objs s ! j"
    (is "\<exists>s2. ?P s2") using assms(7,8,10-13) g
    by (simp add: PakeExchange_join_def pake_get_def pake_mark_def new_pakeSession_def on_session_def safeSend_def pake_send_def
        nth_append nth_list_update)
  then obtain s2 where "?P s2" ..
  then show ?thesis using l g assms(7-9) by (intro exI [of _ ?s1] exI [of _ s2]) (simp add: nth_list_update)
qed

text \<open>Two clients under one code, the second after the first was dropped as expired: both steps are reachable.\<close>

definition node_hello :: PakeMessage where
  "node_hello = pake_hello\<lparr>pm_Role := ''node''\<rparr>"

definition after_expiry :: PairingServer where
  "after_expiry =
     \<lparr>pg_sessions = [(''ab'', 1)],
      pg_objs = [(new_pakeSession ''ab'' 0)\<lparr>ps_cliJoined := True, ps_closed := True, ps_cliChan := \<lparr>pk_buf = [], pk_open = False\<rparr>,
                    ps_nodeChan := \<lparr>pk_buf = [pake_hello], pk_open = False\<rparr>\<rparr>,
                 (new_pakeSession ''ab'' (301 * second))\<lparr>ps_cliJoined := True, ps_nodeChan := \<lparr>pk_buf = [pake_hello], pk_open = True\<rparr>\<rparr>]\<rparr>"

lemma hello_expires:
  "\<exists>s. pairing_cleanup (301 * second) after_hello = Ret s \<and>
       PakeExchange_join [] [] pake_hello (301 * second) s = Ret (Inr (1, True), after_expiry)"
  by (simp add: pairing_cleanup_def after_hello_def new_pakeSession_def on_session_def close_session_def pake_close_def time_sub_def
      second_def PakeExchange_join_def pake_get_def pake_hello_def pake_mark_def safeSend_def pake_send_def after_expiry_def gput_def
      gdel_def minDuration_def maxDuration_def)

lemma after_expiry_reach: "pake_reach after_expiry [(''ab'', 1, True), (''ab'', 0, True)]"
proof -
  obtain s where "pairing_cleanup (301 * second) after_hello = Ret s"
    "PakeExchange_join [] [] pake_hello (301 * second) s = Ret (Inr (1, True), after_expiry)" using hello_expires by blast
  from pake_reach.join [OF pake_reach.cleanup [OF after_hello_reach this(1)] this(2)] show ?thesis by (simp add: pake_hello_def)
qed

lemma after_expiry_objs [simp]:
  "length (pg_objs after_expiry) = 2" "gget (pg_sessions after_expiry) ''ab'' = Some 1" "ps_closed (pg_objs after_expiry ! 0)"
  "ps_cliJoined (pg_objs after_expiry ! 0)" "\<not> ps_nodeJoined (pg_objs after_expiry ! 0)" "ps_cliJoined (pg_objs after_expiry ! Suc 0)"
  by (simp_all add: after_expiry_def new_pakeSession_def)

theorem late_end_removes_newer_session_witness:
  "pake_reach after_expiry [(''ab'', 1, True), (''ab'', 0, True)] \<and>
   (\<exists>s1 s2. PakeExchange_leave ''ab'' (0, True) after_expiry = Ret s1 \<and> gget (pg_sessions s1) ''ab'' = None \<and>
      ps_cliJoined (pg_objs s1 ! 1) \<and>
      PakeExchange_join [] [] node_hello 0 s1 = Ret (Inr (2, False), s2) \<and> pg_objs s2 ! 1 = pg_objs after_expiry ! 1)"
  using after_expiry_reach
    late_end_removes_newer_session [of 0 after_expiry "pg_objs after_expiry ! 0" "''ab''" 1 node_hello "[]" "[]" 0]
  by (simp add: node_hello_def pake_hello_def)

section \<open>Certificates without identity\<close>

text \<open>What the store relies on: the routing token of a node that was saved is read back.\<close>

definition token_saved :: "'d engine \<Rightarrow> bool" where
  "token_saved e \<longleftrightarrow>
     (\<forall>nd d d'. SaveNode e nd d = (None, d') \<longrightarrow> n_RoutingToken nd \<noteq> [] \<longrightarrow>
        (\<exists>n. GetNode e (n_ID nd) d' = Inr n \<and> n_RoutingToken n = n_RoutingToken nd))"

text \<open>(C38) The call that submits a signed certificate needs no identity, and no authority is asked for. Whoever sends any
  certificate with the id of a node and a token of their own takes the node over: from then on the node answers to
  their token and no longer to the one of its owner.\<close>

theorem submitted_certificate_takes_node_over:
  assumes "token_saved (he_engine env)" and "parse_pem env certPem = Some cert" and "certPem \<noteq> []" and "nid \<noteq> []" and "token \<noteq> []"
    and "owned_node env owner nid s = Inr n" and "owner \<noteq> token"
    and "SubmitSignedCert env None nid certPem [] token s = (None, s')"
  shows "AuthInterceptor x jw e certMgr tmo now
           \<lparr>ci_method = ''/nitella.hub.PairingService/SubmitSignedCert'', ci_transport = tr, ci_authorization = None\<rparr> d = (Inr Public, d) \<and>
         (\<exists>n'. owned_node env token nid s' = Inr n') \<and> owned_node env owner nid s' = Inl C_PermissionDenied"
proof -
  let ?nd = "zero_Node\<lparr>n_ID := nid, n_RoutingToken := token, n_CertPEM := certPem, n_Status := ''offline''\<rparr>"
  have sv: "SaveNode (he_engine env) ?nd (h_db s) = (None, h_db s')"
    using assms(2-5,8) by (auto simp: SubmitSignedCert_def on_hub_db_def split: prod.splits option.splits)
  have "\<exists>n. GetNode (he_engine env) (n_ID ?nd) (h_db s') = Inr n \<and> n_RoutingToken n = n_RoutingToken ?nd"
    by (rule assms(1) [unfolded token_saved_def, rule_format, OF sv]) (simp add: assms(5))
  then obtain m where "GetNode (he_engine env) nid (h_db s') = Inr m" "n_RoutingToken m = token" by auto
  moreover have "owner \<noteq> []" using assms(6) by (auto simp: owned_node_def split: if_splits)
  ultimately show ?thesis using assms(5,7)
    by (simp add: owned_node_def AuthInterceptor_def public_method_def strings_HasPrefix_def)
qed

lemma list_engine_token_saved: "token_saved list_engine"
  by (auto simp: token_saved_def SaveNode_def GetNode_def save_row_def get_row_def list_engine_def list_tab_def split: if_splits bool.splits)

theorem submitted_certificate_takes_node_over_witness:
  "\<exists>s'. SubmitSignedCert demo_env None ''n1'' ''Pc1'' [] ''evil'' demo_hub = (None, s') \<and>
     (\<exists>n'. owned_node demo_env ''evil'' ''n1'' s' = Inr n') \<and> owned_node demo_env ''t1'' ''n1'' s' = Inl C_PermissionDenied"
proof -
  have p: "parse_pem demo_env ''Pc1'' = Some demo_cert" by (simp add: parse_pem_def demo_env_def demo_x509_def)
  obtain s' where s': "SubmitSignedCert demo_env None ''n1'' ''Pc1'' [] ''evil'' demo_hub = (None, s')"
    using p by (simp add: SubmitSignedCert_def demo_env_def on_hub_db_def SaveNode_def save_row_def list_engine_def list_tab_def zero_Node_def
        demo_hub_eq demo_nodes_def)
  have o: "\<exists>n. owned_node demo_env ''t1'' ''n1'' demo_hub = Inr n"
    by (simp add: owned_node_def GetNode_def get_row_def demo_env_def list_engine_def list_tab_def demo_hub_eq demo_nodes_def zero_Node_def)
  have e: "token_saved (he_engine demo_env)" by (simp add: demo_env_def list_engine_token_saved)
  from o obtain n where n: "owned_node demo_env ''t1'' ''n1'' demo_hub = Inr n" ..
  from conjunct2 [OF submitted_certificate_takes_node_over [OF e p _ _ _ n _ s']] s' show ?thesis by simp
qed

end
