(* ===== verification/Crypto_Envelope.thy ===== *)
theory Crypto_Envelope
  imports Nitella_Prelude
begin

text \<open>
  \<^verbatim>\<open>pkg/crypto\<close>: the envelope that protects messages between a node and its owner (\<^verbatim>\<open>envelope.go\<close>,
  \<^verbatim>\<open>signing.go\<close>), the file format of a private key under a passphrase (\<^verbatim>\<open>cert.go\<close>, \<^verbatim>\<open>kdf.go\<close>), the comparison in
  constant time (\<^verbatim>\<open>utils.go\<close>) and the visual fingerprint (\<^verbatim>\<open>fingerprint.go\<close>).
  \<^item> The arithmetic that turns an Ed25519 key into an X25519 key is written in the source and modelled exactly.
  \<^item> X25519, HKDF, AES-GCM, Ed25519, Argon2, SHA, PEM and PKCS#8 are the fields of \<open>crypto_lib\<close>; what the
    envelope relies on is \<open>crypto_laws\<close>. Random bytes are arguments.
  \<^item> Wiping buffers has no effect on the results and is left out.
\<close>

unbundle bit_operations_syntax

section \<open>Primitives\<close>

datatype crypto_error =
  BadKeySize | InvalidPoint | SmallOrderPoint | AgreementFailed | BadNonceSize | OpenFailed | NoPayload | NotSigned | BadSignature
| TooShort | NoPem | PassphraseRequired | BadPkcs8 | NotEd25519 | NotEncrypted | UnknownProfile

record crypto_lib =
  cl_X25519 :: "string \<Rightarrow> string \<Rightarrow> string option"
  cl_hkdf :: "string \<Rightarrow> string \<Rightarrow> string"
  cl_seal :: "string \<Rightarrow> string \<Rightarrow> string \<Rightarrow> string \<Rightarrow> string"
  cl_open :: "string \<Rightarrow> string \<Rightarrow> string \<Rightarrow> string \<Rightarrow> string option"
  cl_sign :: "string \<Rightarrow> string \<Rightarrow> string"
  cl_verify :: "string \<Rightarrow> string \<Rightarrow> string \<Rightarrow> bool"
  cl_sha512 :: "string \<Rightarrow> string"
  cl_argon2 :: "string \<Rightarrow> string \<Rightarrow> 32 word \<Rightarrow> 32 word \<Rightarrow> 8 word \<Rightarrow> string"
  cl_pemEncode :: "string \<Rightarrow> string \<Rightarrow> string"
  cl_pemDecode :: "string \<Rightarrow> (string \<times> string) option"
  cl_marshalPKCS8 :: "string \<Rightarrow> string option"
  cl_parsePKCS8 :: "string \<Rightarrow> (crypto_error + string)"

section \<open>Numbers and bytes\<close>

definition le_int :: "string \<Rightarrow> int" where
  "le_int bs = foldr (\<lambda>c v. of_char c + 256 * v) bs 0"

fun le_bytes :: "nat \<Rightarrow> int \<Rightarrow> string" where
  "le_bytes 0 v = []"
| "le_bytes (Suc n) v = char_of (v mod 256) # le_bytes n (v div 256)"

definition copy32 :: "string \<Rightarrow> string" where
  "copy32 b = take 32 b @ replicate (32 - length b) (CHR 0x00)"

definition mask_byte :: "nat \<Rightarrow> (nat \<Rightarrow> nat) \<Rightarrow> string \<Rightarrow> string" where
  "mask_byte i f b = b[i := char_of (f (of_char (b ! i)))]"

text \<open>\<^verbatim>\<open>big.Int.ModInverse\<close>: no inverse when the greatest common divisor is not one.\<close>

function egcd :: "int \<Rightarrow> int \<Rightarrow> int \<times> int \<times> int" where
  "egcd a b = (if b = 0 then (a, 1, 0) else (case egcd b (a mod b) of (d, x, y) \<Rightarrow> (d, y, x - (a div b) * y)))"
  by pat_completeness auto
termination
  by (relation "measure (\<lambda>(a, b). nat \<bar>b\<bar>)") (auto simp: abs_mod_less)

declare egcd.simps [simp del]

definition ModInverse :: "int \<Rightarrow> int \<Rightarrow> int option" where
  "ModInverse g n = (case egcd g n of (d, x, _) \<Rightarrow> if d = 1 then Some (x mod n) else None)"

section \<open>From Ed25519 to X25519\<close>

definition curve_p :: int where
  "curve_p = 0x7fffffffffffffffffffffffffffffffffffffffffffffffffffffffffffffed"

definition smallOrderPoints :: "string list" where
  "smallOrderPoints =
     [replicate 32 (CHR 0x00),
      CHR 0x01 # replicate 31 (CHR 0x00),
      CHR 0xEC # replicate 30 (CHR 0xFF) @ [CHR 0x7F],
      [CHR 0xE0, CHR 0xEB, CHR 0x7A, CHR 0x7C, CHR 0x3B, CHR 0x41, CHR 0xB8, CHR 0xAE, CHR 0x16, CHR 0x56, CHR 0xE3, CHR 0xFA, CHR 0xF1, CHR 0x9F, CHR 0xC4, CHR 0x6A,
       CHR 0xDA, CHR 0x09, CHR 0x8D, CHR 0xEB, CHR 0x9C, CHR 0x32, CHR 0xB1, CHR 0xFD, CHR 0x86, CHR 0x62, CHR 0x05, CHR 0x16, CHR 0x5F, CHR 0x49, CHR 0xB8, CHR 0x00],
      [CHR 0x5F, CHR 0x9C, CHR 0x95, CHR 0xBC, CHR 0xA3, CHR 0x50, CHR 0x8C, CHR 0x24, CHR 0xB1, CHR 0xD0, CHR 0xB1, CHR 0x55, CHR 0x9C, CHR 0x83, CHR 0xEF, CHR 0x5B,
       CHR 0x04, CHR 0x44, CHR 0x5C, CHR 0xC4, CHR 0x58, CHR 0x1C, CHR 0x8E, CHR 0x86, CHR 0xD8, CHR 0x22, CHR 0x4E, CHR 0xDD, CHR 0xD0, CHR 0x9F, CHR 0x11, CHR 0x57],
      CHR 0xED # replicate 30 (CHR 0xFF) @ [CHR 0x7F],
      CHR 0xEE # replicate 30 (CHR 0xFF) @ [CHR 0x7F]]"

definition isSmallOrderPoint :: "string \<Rightarrow> bool" where
  "isSmallOrderPoint point \<longleftrightarrow> list_ex (\<lambda>sop. length point = length sop \<and> point = sop) smallOrderPoints"

text \<open>The coordinate \<open>y\<close> of a key: its 32 bytes without the highest bit.\<close>

definition ed_y :: "string \<Rightarrow> int" where
  "ed_y pk = le_int (mask_byte 31 (\<lambda>v. v AND 0x7f) (copy32 pk))"

definition Ed25519PublicKeyToCurve25519 :: "string \<Rightarrow> crypto_error + string" where
  "Ed25519PublicKeyToCurve25519 pk =
     (let y = ed_y pk;
          denom = (1 - y) mod curve_p
      in case ModInverse denom curve_p of
           None \<Rightarrow> Inl InvalidPoint
         | Some denomInv \<Rightarrow>
             (let num = (1 + y) mod curve_p;
                  u = (num * denomInv) mod curve_p;
                  ret = le_bytes 32 u
              in if isSmallOrderPoint ret then Inl SmallOrderPoint else Inr ret))"

definition Ed25519PrivateKeyToCurve25519 :: "crypto_lib \<Rightarrow> string \<Rightarrow> string" where
  "Ed25519PrivateKeyToCurve25519 lib priv =
     take 32 (mask_byte 31 (\<lambda>v. v OR 64) (mask_byte 31 (\<lambda>v. v AND 127) (mask_byte 0 (\<lambda>v. v AND 248) (cl_sha512 lib (take 32 priv)))))"

section \<open>The envelope\<close>

record envelope =
  ev_EphemeralPubKey :: string
  ev_Nonce :: string
  ev_Ciphertext :: string
  ev_SenderFingerprint :: string
  ev_Signature :: string

definition ev_Marshal :: "envelope \<Rightarrow> string" where
  "ev_Marshal p = ev_EphemeralPubKey p @ ev_Nonce p @ ev_Ciphertext p"

definition UnmarshalEncryptedPayload :: "string \<Rightarrow> crypto_error + envelope" where
  "UnmarshalEncryptedPayload data =
     (if length data < 32 + 12 then Inl TooShort
      else Inr \<lparr>ev_EphemeralPubKey = take 32 data, ev_Nonce = take 12 (drop 32 data), ev_Ciphertext = drop (32 + 12) data,
                ev_SenderFingerprint = [], ev_Signature = []\<rparr>)"

definition basepoint :: string where
  "basepoint = CHR 0x09 # replicate 31 (CHR 0x00)"

definition deriveKey :: "crypto_lib \<Rightarrow> string \<Rightarrow> string \<Rightarrow> string \<Rightarrow> string" where
  "deriveKey lib sharedSecret ephemeralPubKey recipientPubKey =
     cl_hkdf lib sharedSecret (''nitella-x25519-aes256-gcm'' @ ephemeralPubKey @ recipientPubKey)"

definition Encrypt :: "crypto_lib \<Rightarrow> string \<Rightarrow> string \<Rightarrow> string \<Rightarrow> string \<Rightarrow> crypto_error + envelope" where
  "Encrypt lib ephemeralPrivKey nonce plaintext recipientPubKey =
     (if length recipientPubKey \<noteq> 32 then Inl BadKeySize
      else case Ed25519PublicKeyToCurve25519 recipientPubKey of
             Inl e \<Rightarrow> Inl e
           | Inr peerPubKey \<Rightarrow>
               (case cl_X25519 lib ephemeralPrivKey basepoint of
                  None \<Rightarrow> Inl AgreementFailed
                | Some ephemeralPubKey \<Rightarrow>
                    (case cl_X25519 lib ephemeralPrivKey peerPubKey of
                       None \<Rightarrow> Inl AgreementFailed
                     | Some sharedSecret \<Rightarrow>
                         Inr \<lparr>ev_EphemeralPubKey = ephemeralPubKey, ev_Nonce = nonce,
                              ev_Ciphertext = cl_seal lib (deriveKey lib sharedSecret ephemeralPubKey peerPubKey) nonce plaintext ephemeralPubKey,
                              ev_SenderFingerprint = [], ev_Signature = []\<rparr>)))"

definition ed_Public :: "string \<Rightarrow> string" where
  "ed_Public priv = drop 32 priv"

definition Decrypt :: "crypto_lib \<Rightarrow> envelope option \<Rightarrow> string \<Rightarrow> crypto_error + string" where
  "Decrypt lib payload recipientPrivKey =
     (case payload of
        None \<Rightarrow> Inl NoPayload
      | Some p \<Rightarrow>
          (if length recipientPrivKey \<noteq> 64 then Inl BadKeySize
           else case cl_X25519 lib (Ed25519PrivateKeyToCurve25519 lib recipientPrivKey) (ev_EphemeralPubKey p) of
                  None \<Rightarrow> Inl AgreementFailed
                | Some sharedSecret \<Rightarrow>
                    (let myKey = (case Ed25519PublicKeyToCurve25519 (ed_Public recipientPrivKey) of Inl _ \<Rightarrow> [] | Inr k \<Rightarrow> k);
                         aesKey = deriveKey lib sharedSecret (ev_EphemeralPubKey p) myKey
                     in if length (ev_Nonce p) \<noteq> 12 then Inl BadNonceSize
                        else case cl_open lib aesKey (ev_Nonce p) (ev_Ciphertext p) (ev_EphemeralPubKey p) of
                               None \<Rightarrow> Inl OpenFailed
                             | Some plaintext \<Rightarrow> Inr plaintext)))"

definition Sign :: "crypto_lib \<Rightarrow> string \<Rightarrow> string \<Rightarrow> crypto_error + string" where
  "Sign lib dat privKey = (if length privKey \<noteq> 64 then Inl BadKeySize else Inr (cl_sign lib privKey dat))"

definition Verify :: "crypto_lib \<Rightarrow> string \<Rightarrow> string \<Rightarrow> string \<Rightarrow> crypto_error option" where
  "Verify lib dat signature pubKey =
     (if length pubKey \<noteq> 32 then Some BadKeySize
      else if \<not> cl_verify lib pubKey dat signature then Some BadSignature
      else None)"

definition EncryptWithSignature ::
  "crypto_lib \<Rightarrow> string \<Rightarrow> string \<Rightarrow> string \<Rightarrow> string \<Rightarrow> string \<Rightarrow> string \<Rightarrow> crypto_error + envelope" where
  "EncryptWithSignature lib ephemeralPrivKey nonce plaintext recipientPubKey senderPrivKey senderCertFingerprint =
     (case Encrypt lib ephemeralPrivKey nonce plaintext recipientPubKey of
        Inl e \<Rightarrow> Inl e
      | Inr p \<Rightarrow>
          (case Sign lib (ev_EphemeralPubKey p @ ev_Nonce p @ ev_Ciphertext p) senderPrivKey of
             Inl e \<Rightarrow> Inl e
           | Inr sig \<Rightarrow> Inr (p\<lparr>ev_SenderFingerprint := senderCertFingerprint, ev_Signature := sig\<rparr>)))"

definition VerifySignature :: "crypto_lib \<Rightarrow> envelope option \<Rightarrow> string \<Rightarrow> crypto_error option" where
  "VerifySignature lib payload senderPubKey =
     (case payload of
        None \<Rightarrow> Some NoPayload
      | Some p \<Rightarrow>
          (if ev_Signature p = [] then Some NotSigned
           else Verify lib (ev_EphemeralPubKey p @ ev_Nonce p @ ev_Ciphertext p) (ev_Signature p) senderPubKey))"

section \<open>Private keys under a passphrase\<close>

record KDFParams =
  kp_Time :: "32 word"
  kp_Memory :: "32 word"
  kp_Threads :: "8 word"

definition KDFDefault :: KDFParams where
  "KDFDefault = \<lparr>kp_Time = 2, kp_Memory = 64 * 1024, kp_Threads = 4\<rparr>"

definition KDFServer :: KDFParams where
  "KDFServer = \<lparr>kp_Time = 1, kp_Memory = 32 * 1024, kp_Threads = 2\<rparr>"

definition KDFSecure :: KDFParams where
  "KDFSecure = \<lparr>kp_Time = 3, kp_Memory = 128 * 1024, kp_Threads = 4\<rparr>"

definition KDFProfiles :: "(string, KDFParams) gomap" where
  "KDFProfiles = [(''default'', KDFDefault), (''server'', KDFServer), (''secure'', KDFSecure)]"

definition GetKDFProfile :: "string \<Rightarrow> crypto_error + KDFParams" where
  "GetKDFProfile name = (case gget KDFProfiles name of Some p \<Rightarrow> Inr p | None \<Rightarrow> Inl UnknownProfile)"

definition ProfileName :: "KDFParams \<Rightarrow> string" where
  "ProfileName p = (case find (\<lambda>(name, profile). p = profile) KDFProfiles of Some (name, _) \<Rightarrow> name | None \<Rightarrow> ''custom'')"

definition put_uint32 :: "32 word \<Rightarrow> string" where
  "put_uint32 v = map (\<lambda>k. char_of (unat (drop_bit k v))) [24, 16, 8, 0]"

definition get_uint32 :: "string \<Rightarrow> 32 word" where
  "get_uint32 b =
     push_bit 24 (of_char (b ! 0)) OR push_bit 16 (of_char (b ! 1)) OR push_bit 8 (of_char (b ! 2)) OR of_char (b ! 3)"

definition kdf_Encode :: "KDFParams \<Rightarrow> string" where
  "kdf_Encode p = put_uint32 (kp_Time p) @ put_uint32 (kp_Memory p) @ [char_of (unat (kp_Threads p))]"

definition DecodeKDFParams :: "string \<Rightarrow> crypto_error + KDFParams" where
  "DecodeKDFParams dat =
     (if length dat < 9 then Inl TooShort
      else Inr \<lparr>kp_Time = get_uint32 (take 4 dat), kp_Memory = get_uint32 (take 4 (drop 4 dat)), kp_Threads = of_char (dat ! 8)\<rparr>)"

definition EncryptedKeyV2 :: char where
  "EncryptedKeyV2 = CHR 0x02"

definition EncodePrivateKeyToPEM :: "crypto_lib \<Rightarrow> string \<Rightarrow> string" where
  "EncodePrivateKeyToPEM lib priv =
     (case cl_marshalPKCS8 lib priv of None \<Rightarrow> [] | Some b \<Rightarrow> cl_pemEncode lib ''PRIVATE KEY'' b)"

definition DecodePrivateKeyFromPEM :: "crypto_lib \<Rightarrow> string \<Rightarrow> crypto_error + string" where
  "DecodePrivateKeyFromPEM lib keyPEM =
     (case cl_pemDecode lib keyPEM of None \<Rightarrow> Inl NoPem | Some (_, b) \<Rightarrow> cl_parsePKCS8 lib b)"

definition EncryptPrivateKeyToPEMWithParams ::
  "crypto_lib \<Rightarrow> string \<Rightarrow> string \<Rightarrow> string \<Rightarrow> string \<Rightarrow> KDFParams \<Rightarrow> crypto_error + string" where
  "EncryptPrivateKeyToPEMWithParams lib salt nonce priv passphrase kdf =
     (if passphrase = [] then Inr (EncodePrivateKeyToPEM lib priv)
      else case cl_marshalPKCS8 lib priv of
             None \<Rightarrow> Inl BadPkcs8
           | Some pkcs8Bytes \<Rightarrow>
               (let key = cl_argon2 lib passphrase salt (kp_Time kdf) (kp_Memory kdf) (kp_Threads kdf)
                in Inr (cl_pemEncode lib ''ENCRYPTED PRIVATE KEY''
                     ([EncryptedKeyV2] @ kdf_Encode kdf @ salt @ nonce @ cl_seal lib key nonce pkcs8Bytes []))))"

definition EncryptPrivateKeyToPEM :: "crypto_lib \<Rightarrow> string \<Rightarrow> string \<Rightarrow> string \<Rightarrow> string \<Rightarrow> crypto_error + string" where
  "EncryptPrivateKeyToPEM lib salt nonce priv passphrase =
     EncryptPrivateKeyToPEMWithParams lib salt nonce priv passphrase KDFDefault"

text \<open>The parts of an encrypted key: its parameters, salt, nonce and ciphertext.\<close>

definition key_parts :: "string \<Rightarrow> crypto_error + KDFParams \<times> string \<times> string \<times> string" where
  "key_parts dat =
     (if dat ! 0 = EncryptedKeyV2 \<and> 38 \<le> length dat then
        (case DecodeKDFParams (take 9 (drop 1 dat)) of
           Inl e \<Rightarrow> Inl e
         | Inr kdf \<Rightarrow> Inr (kdf, take 16 (drop 10 dat), take 12 (drop 26 dat), drop 38 dat))
      else Inr (KDFDefault, take 16 dat, take 12 (drop 16 dat), drop 28 dat))"

definition DecryptPrivateKeyFromPEM :: "crypto_lib \<Rightarrow> string \<Rightarrow> string \<Rightarrow> crypto_error + string" where
  "DecryptPrivateKeyFromPEM lib keyPEM passphrase =
     (case cl_pemDecode lib keyPEM of
        None \<Rightarrow> Inl NoPem
      | Some (ty, dat) \<Rightarrow>
          (if ty = ''ENCRYPTED PRIVATE KEY'' then
             (if passphrase = [] then Inl PassphraseRequired
              else if length dat < 28 then Inl TooShort
              else case key_parts dat of
                     Inl e \<Rightarrow> Inl e
                   | Inr (kdf, salt, nonce, ciphertext) \<Rightarrow>
                       (case cl_open lib (cl_argon2 lib passphrase salt (kp_Time kdf) (kp_Memory kdf) (kp_Threads kdf)) nonce ciphertext [] of
                          None \<Rightarrow> Inl OpenFailed
                        | Some pkcs8Bytes \<Rightarrow> cl_parsePKCS8 lib pkcs8Bytes))
           else DecodePrivateKeyFromPEM lib keyPEM))"

definition GetEncryptedKeyKDFParams :: "crypto_lib \<Rightarrow> string \<Rightarrow> crypto_error + KDFParams" where
  "GetEncryptedKeyKDFParams lib keyPEM =
     (case cl_pemDecode lib keyPEM of
        None \<Rightarrow> Inl NoPem
      | Some (ty, dat) \<Rightarrow>
          (if ty \<noteq> ''ENCRYPTED PRIVATE KEY'' then Inl NotEncrypted
           else if length dat < 10 then Inl TooShort
           else if dat ! 0 = EncryptedKeyV2 then DecodeKDFParams (take 9 (drop 1 dat))
           else Inr KDFDefault))"

section \<open>Comparison and fingerprint\<close>

definition SecureCompare :: "string \<Rightarrow> string \<Rightarrow> bool" where
  "SecureCompare a b \<longleftrightarrow>
     length a = length b \<and> foldl (\<lambda>result (x, y). result OR (of_char x XOR of_char y)) (0 :: 8 word) (zip a b) = 0"

text \<open>The indices of the four emojis in the table of 64; \<open>None\<close> stands for the question marks.\<close>

definition HashToEmojis :: "string \<Rightarrow> nat list option" where
  "HashToEmojis hash = (if length hash < 4 then None else Some (map (\<lambda>i. of_char (hash ! i) mod 64) [0..<4]))"

section \<open>Facts about numbers and bytes\<close>

lemma egcd_bezout: "egcd a b = (d, x, y) \<Longrightarrow> x * a + y * b = d"
proof (induction a b arbitrary: d x y rule: egcd.induct)
  case (1 a b)
  show ?case
  proof (cases "b = 0")
    case True
    then show ?thesis using "1.prems" by (simp add: egcd.simps)
  next
    case False
    obtain d' x' y' where r: "egcd b (a mod b) = (d', x', y')" by (cases "egcd b (a mod b)")
    then have e: "d = d'" "x = y'" "y = x' - a div b * y'"
      using "1.prems" False by (auto simp: egcd.simps [of a b])
    have "x' * b + y' * (a mod b) = d'" using "1.IH" [OF False r] .
    then show ?thesis by (simp add: e minus_div_mult_eq_mod [symmetric] algebra_simps)
  qed
qed

lemma ModInverse_correct: "ModInverse g n = Some i \<Longrightarrow> (g * i) mod n = 1 mod n"
proof -
  assume "ModInverse g n = Some i"
  then obtain x y where r: "egcd g n = (1, x, y)" and i: "i = x mod n"
    by (auto simp: ModInverse_def split: prod.splits if_splits)
  have "x * g = 1 - y * n" using egcd_bezout [OF r] by simp
  then have "(g * i) mod n = (1 - y * n) mod n" by (simp add: i mod_mult_right_eq mult.commute)
  then show ?thesis by (simp add: mod_diff_eq [symmetric])
qed

lemma le_int_Nil [simp]: "le_int [] = 0"
  by (simp add: le_int_def)

lemma le_int_Cons [simp]: "le_int (c # bs) = of_char c + 256 * le_int bs"
  by (simp add: le_int_def)

lemma length_le_bytes [simp]: "length (le_bytes n v) = n"
  by (induction n arbitrary: v) auto

lemma le_int_le_bytes: "0 \<le> v \<Longrightarrow> v < 256 ^ n \<Longrightarrow> le_int (le_bytes n v) = v"
proof (induction n arbitrary: v)
  case (Suc n)
  have "v div 256 * 256 + v mod 256 = v" and "0 \<le> v mod 256" by simp_all
  then have "v div 256 < 256 ^ n" using Suc.prems(2) by simp
  then show ?case using Suc by (simp add: pos_imp_zdiv_nonneg_iff)
qed simp

lemma of_char_bounds: "0 \<le> (of_char c :: int)" "(of_char c :: int) < 256"
proof -
  have "(of_char c :: int) = of_char c mod 256" by simp
  then show "0 \<le> (of_char c :: int)" "(of_char c :: int) < 256"
    using pos_mod_bound [of 256 "of_char c :: int"] pos_mod_sign [of 256 "of_char c :: int"] by simp_all
qed

lemma le_int_bounds: "0 \<le> le_int bs \<and> le_int bs < 256 ^ length bs"
proof (induction bs)
  case (Cons c bs)
  have "of_char c + 256 * le_int bs < 256 * (le_int bs + 1)" using of_char_bounds [of c] by simp
  also have "\<dots> \<le> 256 * 256 ^ length bs" using Cons.IH by simp
  finally show ?case using Cons.IH of_char_bounds [of c] by simp
qed simp

lemma bit_of_byte:
  "bit (of_char (char_of (n :: nat)) :: 'a::len word) k \<longleftrightarrow> k < LENGTH('a) \<and> k < 8 \<and> bit n k"
proof -
  have "(of_char (char_of n) :: 'a word) = of_nat (take_bit 8 n)"
    using of_nat_of_char [of "char_of n", where ?'a = "'a word"] by (simp add: take_bit_eq_mod)
  then show ?thesis by (simp add: bit_of_nat_iff bit_take_bit_iff)
qed

lemma length_put_uint32 [simp]: "length (put_uint32 v) = 4"
  by (simp add: put_uint32_def)

lemma get_put_uint32: "get_uint32 (put_uint32 v) = v"
proof (rule bit_word_eqI)
  fix n :: nat
  assume "n < LENGTH(32)"
  then consider "n < 8" | "8 \<le> n" "n < 16" | "16 \<le> n" "n < 24" | "24 \<le> n" "n < 32" by fastforce
  then show "bit (get_uint32 (put_uint32 v)) n = bit v n"
    by cases (auto simp: get_uint32_def put_uint32_def bit_or_iff bit_push_bit_iff bit_of_byte bit_unsigned_iff bit_drop_bit_eq)
qed

lemma byte_word8: "(of_char (char_of (unat w)) :: 8 word) = w"
  by (rule bit_word_eqI) (simp add: bit_of_byte bit_unsigned_iff)

lemma le_int_append: "le_int (xs @ ys) = le_int xs + 256 ^ length xs * le_int ys"
  by (induction xs) (simp_all add: algebra_simps)

section \<open>The key conversions\<close>

lemma smallOrder_values:
  assumes "length b = 32" and "le_int b \<in> {0, 1, curve_p - 1}"
  shows "isSmallOrderPoint b"
proof -
  have inj: "xs = ys" if "length xs = length ys" "le_int xs = le_int ys" for xs ys
    using that
  proof (induction xs ys rule: list_induct2)
    case (Cons x xs y ys)
    have "(of_char x + 256 * le_int xs) mod 256 = (of_char y + 256 * le_int ys) mod 256" using Cons.prems by simp
    then have "(of_char x :: int) = of_char y" by simp
    then show ?case using Cons by simp
  qed simp
  have v: "map le_int (take 3 smallOrderPoints) = [0, 1, curve_p - 1]"
    by (simp add: smallOrderPoints_def curve_p_def numeral_eq_Suc)
  have l: "\<forall>q \<in> set smallOrderPoints. length q = 32" by (simp add: smallOrderPoints_def)
  from v assms(2) have "le_int b \<in> le_int ` set (take 3 smallOrderPoints)" by (simp flip: list.set_map)
  then obtain q where q: "q \<in> set smallOrderPoints" "le_int b = le_int q" by (auto dest: in_set_takeD)
  then have "b = q" using inj assms(1) l by simp
  then show ?thesis using q(1) l by (auto simp: isSmallOrderPoint_def list_ex_iff)
qed


lemma nat_and_le: "(x AND n :: nat) \<le> n"
  using AND_upper2 [of "int n" "int x"] by (simp flip: of_nat_and_eq)

lemma and_248: "(x AND 248) mod 8 = (0 :: nat)"
  using take_bit_and [of 3 x 248] by (simp add: take_bit_eq_mod)

lemma clamp_high: "64 \<le> ((x AND 127) OR 64 :: nat) \<and> ((x AND 127) OR 64) < 128"
proof -
  define v where "v = take_bit 7 x"
  have m: "x AND 127 = v" by (simp add: v_def take_bit_eq_mask mask_eq_exp_minus_1)
  have "take_bit 7 (v OR 64) = v OR 64" by (simp add: v_def take_bit_or)
  then have lt: "v OR 64 < 2 ^ 7" by (metis take_bit_nat_less_exp)
  have "drop_bit 6 (v OR 64) = drop_bit 6 v OR 1" by (simp add: drop_bit_or)
  moreover have "drop_bit 6 v OR 1 \<noteq> 0" by (metis or_eq_0_iff zero_neq_one)
  ultimately have "(v OR 64) div 2 ^ 6 \<noteq> 0" by (simp only: drop_bit_eq_div not_False_eq_True)
  then show ?thesis using lt by (simp add: m)
qed

text \<open>The private scalar is clamped: a multiple of eight between \<open>2 ^ 254\<close> and \<open>2 ^ 255\<close>, whatever the hash.\<close>

theorem scalar_is_clamped:
  assumes "length (cl_sha512 lib (take 32 priv)) = 64"
  shows "length (Ed25519PrivateKeyToCurve25519 lib priv) = 32 \<and> le_int (Ed25519PrivateKeyToCurve25519 lib priv) mod 8 = 0 \<and>
    2 ^ 254 \<le> le_int (Ed25519PrivateKeyToCurve25519 lib priv) \<and> le_int (Ed25519PrivateKeyToCurve25519 lib priv) < 2 ^ 255"
proof -
  obtain x t where t: "cl_sha512 lib (take 32 priv) = x # t" "length t = 63"
    using assms by (cases "cl_sha512 lib (take 32 priv)") auto
  define mid where "mid = take 30 t"
  have "t = mid @ t ! 30 # drop 31 t" using id_take_nth_drop [of 30 t] t(2) by (simp add: mid_def)
  then obtain z r where h: "cl_sha512 lib (take 32 priv) = x # mid @ z # r" using t(1) by metis
  have lm: "length mid = 30" by (simp add: mid_def t(2))
  define c0 where "c0 = (char_of (of_char x AND 248 :: nat) :: char)"
  define c31 where "c31 = (char_of ((of_char z AND 127) OR 64 :: nat) :: char)"
  have "(of_char z AND 127 :: nat) \<le> 127" by (rule nat_and_le)
  then have "of_char (char_of (of_char z AND 127 :: nat)) = (of_char z AND 127 :: nat)" by simp
  then have k: "Ed25519PrivateKeyToCurve25519 lib priv = c0 # mid @ [c31]"
    using lm by (simp add: Ed25519PrivateKeyToCurve25519_def h mask_byte_def nth_append list_update_append c0_def c31_def)
  have "(of_char x AND 248 :: nat) \<le> 248" by (rule nat_and_le)
  then have c0: "(of_char c0 :: nat) = of_char x AND 248" by (simp add: c0_def)
  have c31: "(of_char c31 :: nat) = (of_char z AND 127) OR 64" using clamp_high [of "of_char z"] by (simp add: c31_def)
  have "(of_char c0 :: nat) mod 8 = 0" by (simp add: c0 and_248)
  then have d: "8 dvd (of_char c0 :: int)" using zmod_int [of "of_char c0" 8] of_nat_of_char [of c0, where ?'a = int] by (simp add: dvd_eq_mod_eq_0)
  have "int 64 \<le> int (of_char c31)" "int (of_char c31) \<le> int 127" using clamp_high [of "of_char z"] unfolding c31 zle_int by arith+
  then have c: "64 \<le> (of_char c31 :: int)" "(of_char c31 :: int) \<le> 127" using of_nat_of_char [of c31, where ?'a = int] by simp_all
  have v: "le_int (Ed25519PrivateKeyToCurve25519 lib priv) = of_char c0 + 256 * (le_int mid + 256 ^ 30 * of_char c31)"
    by (simp add: k lm le_int_append)
  have "8 dvd (256 :: int)" by simp
  then have "8 dvd le_int (Ed25519PrivateKeyToCurve25519 lib priv)" unfolding v using d by (intro dvd_add dvd_mult2)
  moreover have "2 ^ 254 \<le> le_int (Ed25519PrivateKeyToCurve25519 lib priv) \<and> le_int (Ed25519PrivateKeyToCurve25519 lib priv) < 2 ^ 255"
    unfolding v using c le_int_bounds [of mid] of_char_bounds [of c0] by (simp add: lm)
  ultimately show ?thesis by (simp add: k lm dvd_eq_mod_eq_0)
qed

section \<open>The envelope\<close>

text \<open>What the envelope relies on: what was sealed is opened under the same key, nonce and additional data; a signature verifies under
  the public half of the key it was made with and is not empty; X25519 takes points of 32 bytes only and both parties agree on
  the same secret.\<close>

definition crypto_laws :: "crypto_lib \<Rightarrow> bool" where
  "crypto_laws lib \<longleftrightarrow>
     (\<forall>k n m a. cl_open lib k n (cl_seal lib k n m a) a = Some m) \<and>
     (\<forall>priv m. length priv = 64 \<longrightarrow> cl_verify lib (ed_Public priv) m (cl_sign lib priv m) \<and> cl_sign lib priv m \<noteq> []) \<and>
     (\<forall>k p s. cl_X25519 lib k p = Some s \<longrightarrow> length p = 32) \<and>
     (\<forall>a b A B. cl_X25519 lib a basepoint = Some A \<longrightarrow> cl_X25519 lib b basepoint = Some B \<longrightarrow> cl_X25519 lib a B = cl_X25519 lib b A)"

text \<open>A key whose two halves belong together: the converted public half is the public key of the converted private half.\<close>

definition key_ok :: "crypto_lib \<Rightarrow> string \<Rightarrow> bool" where
  "key_ok lib priv \<longleftrightarrow>
     length priv = 64 \<and>
     (case Ed25519PublicKeyToCurve25519 (ed_Public priv) of
        Inl _ \<Rightarrow> True
      | Inr u \<Rightarrow> cl_X25519 lib (Ed25519PrivateKeyToCurve25519 lib priv) basepoint = Some u)"

lemma laws_point_length: "crypto_laws lib \<Longrightarrow> cl_X25519 lib k p = Some s \<Longrightarrow> length p = 32"
  unfolding crypto_laws_def by blast

lemma Encrypt_Inr:
  assumes "Encrypt lib e nonce m pub = Inr p"
  obtains u E s where "Ed25519PublicKeyToCurve25519 pub = Inr u" "cl_X25519 lib e basepoint = Some E" "cl_X25519 lib e u = Some s"
    "p = \<lparr>ev_EphemeralPubKey = E, ev_Nonce = nonce, ev_Ciphertext = cl_seal lib (deriveKey lib s E u) nonce m E,
          ev_SenderFingerprint = [], ev_Signature = []\<rparr>"
  using assms by (auto simp: Encrypt_def split: if_splits sum.splits option.splits)

lemma EncryptWithSignature_Inr:
  assumes "EncryptWithSignature lib e nonce m pub priv fp = Inr p"
  obtains q where "Encrypt lib e nonce m pub = Inr q" "length priv = 64"
    "p = q\<lparr>ev_SenderFingerprint := fp, ev_Signature := cl_sign lib priv (ev_EphemeralPubKey q @ ev_Nonce q @ ev_Ciphertext q)\<rparr>"
  using assms by (auto simp: EncryptWithSignature_def Sign_def split: if_splits sum.splits)

text \<open>(C11) What is encrypted for a key and signed verifies under the public key of the sender, and the owner of the key reads exactly
  what was sent.\<close>

theorem envelope_roundtrip:
  assumes "crypto_laws lib" and "key_ok lib rpriv" and "length nonce = 12"
    and "EncryptWithSignature lib e nonce m (ed_Public rpriv) spriv fp = Inr p"
  shows "VerifySignature lib (Some p) (ed_Public spriv) = None \<and> Decrypt lib (Some p) rpriv = Inr m \<and> ev_SenderFingerprint p = fp"
proof -
  obtain q where q: "Encrypt lib e nonce m (ed_Public rpriv) = Inr q" and ls: "length spriv = 64"
    and p: "p = q\<lparr>ev_SenderFingerprint := fp, ev_Signature := cl_sign lib spriv (ev_EphemeralPubKey q @ ev_Nonce q @ ev_Ciphertext q)\<rparr>"
    by (rule EncryptWithSignature_Inr [OF assms(4)])
  obtain u E s where u: "Ed25519PublicKeyToCurve25519 (ed_Public rpriv) = Inr u" and E: "cl_X25519 lib e basepoint = Some E"
    and s: "cl_X25519 lib e u = Some s"
    and qd: "q = \<lparr>ev_EphemeralPubKey = E, ev_Nonce = nonce, ev_Ciphertext = cl_seal lib (deriveKey lib s E u) nonce m E,
          ev_SenderFingerprint = [], ev_Signature = []\<rparr>"
    by (rule Encrypt_Inr [OF q])
  have d: "cl_X25519 lib (Ed25519PrivateKeyToCurve25519 lib rpriv) basepoint = Some u" and lr: "length rpriv = 64"
    using assms(2) u by (simp_all add: key_ok_def)
  have "cl_X25519 lib (Ed25519PrivateKeyToCurve25519 lib rpriv) E = Some s"
    using assms(1) E d s unfolding crypto_laws_def by metis
  then show ?thesis
    using assms(1,3) lr ls u by (simp add: p qd Decrypt_def VerifySignature_def Verify_def crypto_laws_def ed_Public_def)
qed

lemma signature_fixes_parts:
  assumes "crypto_laws lib" and "Decrypt lib (Some p) k = Inr m" and "Decrypt lib (Some q) k' = Inr m'"
    and "ev_Marshal p = ev_Marshal q"
  shows "ev_EphemeralPubKey p = ev_EphemeralPubKey q" and "ev_Nonce p = ev_Nonce q" and "ev_Ciphertext p = ev_Ciphertext q"
proof -
  have l: "length (ev_EphemeralPubKey r) = 32 \<and> length (ev_Nonce r) = 12" if "Decrypt lib (Some r) j = Inr w" for r j w
    using that laws_point_length [OF assms(1)] by (auto simp: Decrypt_def Let_def split: if_splits option.splits sum.splits)
  show "ev_EphemeralPubKey p = ev_EphemeralPubKey q" and "ev_Nonce p = ev_Nonce q" and "ev_Ciphertext p = ev_Ciphertext q"
    using l [OF assms(2)] l [OF assms(3)] assms(4) by (simp_all add: ev_Marshal_def)
qed

lemma Decrypt_parts:
  "ev_EphemeralPubKey p = ev_EphemeralPubKey q \<Longrightarrow> ev_Nonce p = ev_Nonce q \<Longrightarrow> ev_Ciphertext p = ev_Ciphertext q \<Longrightarrow>
   Decrypt lib (Some p) k = Decrypt lib (Some q) k"
  by (simp add: Decrypt_def Let_def split: option.split)

text \<open>The signed bytes are the three parts one after the other, without their lengths. They still fix the parts of every envelope
  that can be opened: bytes cannot be moved from one part to the next under the same signature.\<close>

theorem signature_fixes_envelope:
  assumes "crypto_laws lib" and "Decrypt lib (Some p) k = Inr m" and "Decrypt lib (Some q) k' = Inr m'"
    and "ev_Marshal p = ev_Marshal q"
  shows "ev_EphemeralPubKey p = ev_EphemeralPubKey q \<and> ev_Nonce p = ev_Nonce q \<and> ev_Ciphertext p = ev_Ciphertext q"
  using signature_fixes_parts [OF assms] by simp

text \<open>The packed form of an envelope is read back; the fingerprint and the signature are not part of it.\<close>

theorem packed_roundtrip:
  assumes "length (ev_EphemeralPubKey p) = 32" and "length (ev_Nonce p) = 12"
  shows "UnmarshalEncryptedPayload (ev_Marshal p) = Inr (p\<lparr>ev_SenderFingerprint := [], ev_Signature := []\<rparr>)"
  using assms by (simp add: UnmarshalEncryptedPayload_def ev_Marshal_def)

section \<open>Private keys under a passphrase\<close>

lemma DecodeKDFParams_Encode: "DecodeKDFParams (kdf_Encode p) = Inr p"
  using get_put_uint32 byte_word8
  by (simp add: DecodeKDFParams_def kdf_Encode_def nth_append length_put_uint32)

text \<open>What the file format relies on.\<close>

definition file_laws :: "crypto_lib \<Rightarrow> bool" where
  "file_laws lib \<longleftrightarrow>
     (\<forall>ty b. cl_pemDecode lib (cl_pemEncode lib ty b) = Some (ty, b)) \<and>
     (\<forall>priv b. cl_marshalPKCS8 lib priv = Some b \<longrightarrow> cl_parsePKCS8 lib b = Inr priv) \<and>
     (\<forall>k n m a. cl_open lib k n (cl_seal lib k n m a) a = Some m)"

lemma length_kdf_Encode [simp]: "length (kdf_Encode p) = 9"
  by (simp add: kdf_Encode_def)

lemma key_parts_V2:
  assumes "length salt = 16" and "length nonce = 12"
  shows "key_parts (EncryptedKeyV2 # kdf_Encode kdf @ salt @ nonce @ ct) = Inr (kdf, salt, nonce, ct)"
  using assms by (simp add: key_parts_def DecodeKDFParams_Encode)

text \<open>A key that was written under a passphrase, with any parameters, is read back with the same passphrase, and its
  parameters can be shown without it.\<close>

theorem key_file_roundtrip:
  assumes "file_laws lib" and "passphrase \<noteq> []" and "length salt = 16" and "length nonce = 12"
    and "EncryptPrivateKeyToPEMWithParams lib salt nonce priv passphrase kdf = Inr pem"
  shows "DecryptPrivateKeyFromPEM lib pem passphrase = Inr priv \<and> GetEncryptedKeyKDFParams lib pem = Inr kdf"
proof -
  obtain b where b: "cl_marshalPKCS8 lib priv = Some b"
    and pem: "pem = cl_pemEncode lib ''ENCRYPTED PRIVATE KEY''
      (EncryptedKeyV2 # kdf_Encode kdf @ salt @ nonce @
       cl_seal lib (cl_argon2 lib passphrase salt (kp_Time kdf) (kp_Memory kdf) (kp_Threads kdf)) nonce b [])"
    using assms(2,5) by (auto simp: EncryptPrivateKeyToPEMWithParams_def Let_def split: option.splits)
  have d: "cl_pemDecode lib pem = Some (''ENCRYPTED PRIVATE KEY'', EncryptedKeyV2 # kdf_Encode kdf @ salt @ nonce @
       cl_seal lib (cl_argon2 lib passphrase salt (kp_Time kdf) (kp_Memory kdf) (kp_Threads kdf)) nonce b [])"
    using assms(1) by (simp add: file_laws_def pem)
  show ?thesis
    using assms b by (simp add: DecryptPrivateKeyFromPEM_def GetEncryptedKeyKDFParams_def d key_parts_V2 DecodeKDFParams_Encode file_laws_def)
qed

text \<open>The version is told from the first byte, which in the old format is the first byte of a random salt. An old file whose salt
  starts with two is taken for a new one: the key is opened with parameters, salt, nonce and ciphertext that are shifted
  by ten bytes.\<close>

theorem legacy_key_misread:
  assumes "cl_pemDecode lib pem = Some (''ENCRYPTED PRIVATE KEY'', salt @ nonce @ ct)" and "passphrase \<noteq> []"
    and "length salt = 16" and "length nonce = 12" and "10 \<le> length ct" and "hd salt = CHR 0x02"
  shows "\<exists>kdf. DecodeKDFParams (take 9 (tl salt)) = Inr kdf \<and>
    DecryptPrivateKeyFromPEM lib pem passphrase =
      (case cl_open lib (cl_argon2 lib passphrase (drop 10 salt @ take 10 nonce) (kp_Time kdf) (kp_Memory kdf) (kp_Threads kdf))
              (drop 10 nonce @ take 10 ct) (drop 10 ct) [] of
         None \<Rightarrow> Inl OpenFailed
       | Some b \<Rightarrow> cl_parsePKCS8 lib b)"
proof -
  obtain x t where s: "salt = x # t" "length t = 15" using assms(3) by (cases salt) auto
  obtain kdf where k: "DecodeKDFParams (take 9 t) = Inr kdf" using s(2) by (simp add: DecodeKDFParams_def)
  have "key_parts (salt @ nonce @ ct) = Inr (kdf, drop 10 salt @ take 10 nonce, drop 10 nonce @ take 10 ct, drop 10 ct)"
    using assms(3-6) s k by (simp add: key_parts_def EncryptedKeyV2_def)
  then show ?thesis using assms(1-5) s k by (simp add: DecryptPrivateKeyFromPEM_def)
qed

section \<open>Comparison in constant time\<close>

lemma of_char_word8_inj: "(of_char x :: 8 word) = of_char y \<Longrightarrow> x = y"
proof -
  assume "(of_char x :: 8 word) = of_char y"
  then have "(of_nat (of_char x) :: 8 word) = of_nat (of_char y)"
    by (simp only: of_nat_of_char)
  then have "(of_char x :: nat) mod 256 = of_char y mod 256" by (simp add: word_of_nat_eq_iff take_bit_eq_mod)
  then show ?thesis by simp
qed

lemma xor_zero_iff: "(a XOR b :: 8 word) = 0 \<longleftrightarrow> a = b"
proof
  assume z: "a XOR b = 0"
  have "a = (a XOR b) XOR b" by (simp add: xor.assoc)
  then show "a = b" using z by simp
qed simp

lemma compare_loop:
  "length a = length b \<Longrightarrow>
   foldl (\<lambda>r (x, y). r OR (of_char x XOR of_char y)) (w :: 8 word) (zip a b) = 0 \<longleftrightarrow> w = 0 \<and> a = b"
proof (induction a b arbitrary: w rule: list_induct2)
  case (Cons x xs y ys)
  have "(of_char x :: 8 word) = of_char y \<longleftrightarrow> x = y" by (auto dest: of_char_word8_inj)
  then show ?case using Cons by (auto simp: or_eq_0_iff xor_zero_iff)
qed simp

theorem SecureCompare_equality: "SecureCompare a b \<longleftrightarrow> a = b"
  using compare_loop [of a b 0] by (auto simp: SecureCompare_def)

section \<open>A concrete instance\<close>

definition demo_point :: string where
  "demo_point = le_bytes 32 (curve_p - 3)"

definition demo_crypto :: crypto_lib where
  "demo_crypto =
     \<lparr>cl_X25519 = \<lambda>k p. if length p = 32 then Some demo_point else None,
      cl_hkdf = \<lambda>s i. i,
      cl_seal = \<lambda>k n m a. k @ m,
      cl_open = \<lambda>k n c a. if take (length k) c = k then Some (drop (length k) c) else None,
      cl_sign = \<lambda>priv m. CHR ''s'' # drop 32 priv @ m,
      cl_verify = \<lambda>pub m s. s = CHR ''s'' # pub @ m,
      cl_sha512 = \<lambda>_. replicate 64 (CHR 0x00),
      cl_argon2 = \<lambda>p s t m th. p @ s,
      cl_pemEncode = \<lambda>ty b. replicate (length ty) (CHR 0x01) @ CHR 0x00 # ty @ b,
      cl_pemDecode = \<lambda>s. let n = length (takeWhile (\<lambda>c. c = CHR 0x01) s); r = drop (Suc n) s in Some (take n r, drop n r),
      cl_marshalPKCS8 = Some,
      cl_parsePKCS8 = Inr\<rparr>"

definition demo_key :: string where
  "demo_key = replicate 32 (CHR 0x00) @ CHR 0x02 # replicate 31 (CHR 0x00)"

lemma demo_conversion: "Ed25519PublicKeyToCurve25519 (ed_Public demo_key) = Inr demo_point"
  by code_simp

lemma demo_laws: "crypto_laws demo_crypto"
  by (simp add: crypto_laws_def demo_crypto_def ed_Public_def demo_point_def)

lemma demo_takeWhile: "takeWhile (\<lambda>c. c = CHR 0x01) (replicate n (CHR 0x01) @ CHR 0x00 # r) = replicate n (CHR 0x01)"
  by (induction n) auto

lemma demo_file_laws: "file_laws demo_crypto"
  by (simp add: file_laws_def demo_crypto_def Let_def demo_takeWhile)

lemma demo_key_ok: "key_ok demo_crypto demo_key"
  using demo_conversion by (simp add: key_ok_def demo_crypto_def basepoint_def) (simp add: demo_key_def)

definition demo_message :: "string \<Rightarrow> envelope" where
  "demo_message m =
     (let ct = deriveKey demo_crypto [] demo_point demo_point @ m; nonce = replicate 12 (CHR 0x00)
      in \<lparr>ev_EphemeralPubKey = demo_point, ev_Nonce = nonce, ev_Ciphertext = ct, ev_SenderFingerprint = ''me'',
          ev_Signature = CHR ''s'' # ed_Public demo_key @ demo_point @ nonce @ ct\<rparr>)"

lemma demo_lengths: "length (ed_Public demo_key) = 32" "length demo_key = 64" "length basepoint = 32" "length demo_point = 32"
  by (simp_all add: demo_key_def ed_Public_def basepoint_def demo_point_def)

lemma demo_encrypt:
  "EncryptWithSignature demo_crypto [] (replicate 12 (CHR 0x00)) m (ed_Public demo_key) demo_key ''me'' = Inr (demo_message m)"
  using demo_conversion demo_lengths
  by (simp add: EncryptWithSignature_def Encrypt_def Sign_def demo_crypto_def demo_message_def Let_def deriveKey_def flip: ed_Public_def)

lemma demo_decrypt: "Decrypt demo_crypto (Some (demo_message m)) demo_key = Inr m"
  using demo_conversion demo_lengths
  by (simp add: Decrypt_def demo_crypto_def demo_message_def Let_def deriveKey_def)


theorem scalar_is_clamped_witness:
  "length (cl_sha512 demo_crypto (take 32 demo_key)) = 64 \<and> le_int (Ed25519PrivateKeyToCurve25519 demo_crypto demo_key) mod 8 = 0"
  using scalar_is_clamped [of demo_crypto demo_key] by (simp add: demo_crypto_def)

theorem envelope_roundtrip_witness:
  "EncryptWithSignature demo_crypto [] (replicate 12 (CHR 0x00)) ''hello'' (ed_Public demo_key) demo_key ''me'' = Inr (demo_message ''hello'') \<and>
   Decrypt demo_crypto (Some (demo_message ''hello'')) demo_key = Inr ''hello''"
  using envelope_roundtrip [OF demo_laws demo_key_ok _ demo_encrypt, of "''hello''"] demo_encrypt by simp

theorem signature_fixes_envelope_witness:
  "Decrypt demo_crypto (Some (demo_message ''hello'')) demo_key = Inr ''hello'' \<and>
   ev_Nonce (demo_message ''hello'') = ev_Nonce (demo_message ''hello'')"
  using signature_fixes_envelope [OF demo_laws demo_decrypt [of "''hello''"] demo_decrypt [of "''hello''"]] demo_decrypt by simp

theorem packed_roundtrip_witness:
  "UnmarshalEncryptedPayload (ev_Marshal (demo_message ''hello'')) =
     Inr ((demo_message ''hello'')\<lparr>ev_SenderFingerprint := [], ev_Signature := []\<rparr>)"
  by (rule packed_roundtrip) (simp_all add: demo_message_def demo_lengths Let_def)

lemma demo_fields:
  "cl_open demo_crypto k n c a = (if take (length k) c = k then Some (drop (length k) c) else None)"
  "cl_argon2 demo_crypto p salt t m th = p @ salt" "cl_seal demo_crypto k n p a = k @ p"
  by (simp_all add: demo_crypto_def)

theorem legacy_key_misread_witness:
  "DecryptPrivateKeyFromPEM demo_crypto
     (cl_pemEncode demo_crypto ''ENCRYPTED PRIVATE KEY''
        (replicate 16 (CHR 0x02) @ replicate 12 (CHR 0x00) @
         cl_seal demo_crypto (cl_argon2 demo_crypto ''secret'' (replicate 16 (CHR 0x02)) 2 65536 4) (replicate 12 (CHR 0x00)) demo_key []))
     ''secret'' = Inl OpenFailed"
proof -
  define ct where "ct = ''secret'' @ replicate 16 (CHR 0x02) @ demo_key"
  define pem where "pem = cl_pemEncode demo_crypto ''ENCRYPTED PRIVATE KEY'' (replicate 16 (CHR 0x02) @ replicate 12 (CHR 0x00) @ ct)"
  have d: "cl_pemDecode demo_crypto pem = Some (''ENCRYPTED PRIVATE KEY'', replicate 16 (CHR 0x02) @ replicate 12 (CHR 0x00) @ ct)"
    using demo_file_laws by (simp add: file_laws_def pem_def)
  have "DecryptPrivateKeyFromPEM demo_crypto pem ''secret'' = Inl OpenFailed"
    using legacy_key_misread [OF d, of "''secret''"] by (auto simp: demo_fields ct_def numeral_eq_Suc)
  then show ?thesis by (simp add: pem_def ct_def demo_fields)
qed

theorem key_file_roundtrip_witness:
  "\<exists>pem. EncryptPrivateKeyToPEMWithParams demo_crypto (replicate 16 (CHR 0x02)) (replicate 12 (CHR 0x00)) demo_key ''secret'' KDFSecure = Inr pem \<and>
         DecryptPrivateKeyFromPEM demo_crypto pem ''secret'' = Inr demo_key"
  using key_file_roundtrip [OF demo_file_laws, of "''secret''" "replicate 16 (CHR 0x02)" "replicate 12 (CHR 0x00)" demo_key KDFSecure]
  by (simp add: EncryptPrivateKeyToPEMWithParams_def demo_crypto_def Let_def)

end
