(* ===== verification/Node_Storage.thy ===== *)
theory Node_Storage
  imports Crypto_Envelope
begin

text \<open>
  \<^verbatim>\<open>pkg/hubclient/storage.go\<close> and \<^verbatim>\<open>keyprotect.go\<close>: the files a node and a command line client keep.
  \<^item> The directory is a map from file names, relative to the base directory, to contents; a directory that cannot be
    written is the flag \<open>st_writable\<close>. Node ids are plain file names. Permissions and torn writes are not
    modelled.
  \<^item> JSON and base64 are the fields of \<open>file_lib\<close>. The salt, the nonce and new keys are in \<open>store_env\<close>, as are the answers
    of the prompt and the environment variable with the passphrase.
  \<^item> AES-GCM panics on a nonce of the wrong length, so that reading a key is an \<open>outcome\<close>.
\<close>

section \<open>Keys at rest\<close>

record EncryptedKey =
  ek_Salt :: string
  ek_Nonce :: string
  ek_Ciphertext :: string
  ek_Version :: int

record file_lib =
  fl_crypto :: crypto_lib
  fl_b64 :: "string \<Rightarrow> string"
  fl_unb64 :: "string \<Rightarrow> string option"
  fl_json :: "EncryptedKey \<Rightarrow> string"
  fl_unjson :: "string \<Rightarrow> EncryptedKey option"

datatype file_error =
  PassphraseEmpty | BadBase64 | WrongPassphrase | NoPassphrase | NoSuchFile | NotWritable | BadJSON | AlreadyEncrypted | NotEncryptedKey
| BadPEM | MarshalFailed | BadViewerKey

definition EncryptKey :: "file_lib \<Rightarrow> string \<Rightarrow> string \<Rightarrow> string \<Rightarrow> string \<Rightarrow> file_error + EncryptedKey" where
  "EncryptKey lib salt nonce plainKey passphrase =
     (if passphrase = [] then Inl PassphraseEmpty
      else let derivedKey = cl_argon2 (fl_crypto lib) passphrase salt 3 (64 * 1024) 4
           in Inr \<lparr>ek_Salt = fl_b64 lib salt, ek_Nonce = fl_b64 lib nonce,
                   ek_Ciphertext = fl_b64 lib (cl_seal (fl_crypto lib) derivedKey nonce plainKey []), ek_Version = 1\<rparr>)"

definition DecryptKey :: "file_lib \<Rightarrow> EncryptedKey \<Rightarrow> string \<Rightarrow> (file_error + string) outcome" where
  "DecryptKey lib enc passphrase =
     (if passphrase = [] then Ret (Inl PassphraseEmpty)
      else case (fl_unb64 lib (ek_Salt enc), fl_unb64 lib (ek_Nonce enc), fl_unb64 lib (ek_Ciphertext enc)) of
             (Some salt, Some nonce, Some ciphertext) \<Rightarrow>
               (if length nonce \<noteq> 12 then Panics
                else case cl_open (fl_crypto lib) (cl_argon2 (fl_crypto lib) passphrase salt 3 (64 * 1024) 4) nonce ciphertext [] of
                       None \<Rightarrow> Ret (Inl WrongPassphrase)
                     | Some plaintext \<Rightarrow> Ret (Inr plaintext))
           | _ \<Rightarrow> Ret (Inl BadBase64))"

section \<open>The directory\<close>

record storage =
  st_files :: "(string, string) gomap"
  st_writable :: bool
  st_UsePassphrase :: bool
  st_Passphrase :: string

record store_env =
  se_lib :: file_lib
  se_PassphraseFunc :: "string option option"
  se_envPass :: string
  se_salt :: string
  se_nonce :: string
  se_uuid :: string
  se_newKey :: string

definition NewStorage :: "(string, string) gomap \<Rightarrow> bool \<Rightarrow> storage" where
  "NewStorage files writable = \<lparr>st_files = files, st_writable = writable, st_UsePassphrase = False, st_Passphrase = []\<rparr>"

definition SetPassphrase :: "string \<Rightarrow> storage \<Rightarrow> storage" where
  "SetPassphrase passphrase s = s\<lparr>st_UsePassphrase := True, st_Passphrase := passphrase\<rparr>"

definition getPassphrase :: "store_env \<Rightarrow> storage \<Rightarrow> string option" where
  "getPassphrase env s =
     (if st_Passphrase s \<noteq> [] then Some (st_Passphrase s)
      else case se_PassphraseFunc env of
             Some answer \<Rightarrow> answer
           | None \<Rightarrow> (if se_envPass env \<noteq> [] then Some (se_envPass env) else None))"

definition write_file :: "string \<Rightarrow> string \<Rightarrow> storage \<Rightarrow> file_error option \<times> storage" where
  "write_file name dat s = (if st_writable s then (None, s\<lparr>st_files := gput name dat (st_files s)\<rparr>) else (Some NotWritable, s))"

definition remove_file :: "string \<Rightarrow> storage \<Rightarrow> storage" where
  "remove_file name s = (if st_writable s then s\<lparr>st_files := gdel name (st_files s)\<rparr> else s)"

definition IsEncryptedKeyFile :: "store_env \<Rightarrow> string \<Rightarrow> storage \<Rightarrow> bool" where
  "IsEncryptedKeyFile env name s \<longleftrightarrow>
     (case gget (st_files s) name of
        None \<Rightarrow> False
      | Some dat \<Rightarrow> (case fl_unjson (se_lib env) dat of None \<Rightarrow> False | Some enc \<Rightarrow> ek_Version enc > 0))"

definition LoadEncryptedKey :: "store_env \<Rightarrow> string \<Rightarrow> storage \<Rightarrow> file_error + EncryptedKey" where
  "LoadEncryptedKey env name s =
     (case gget (st_files s) name of
        None \<Rightarrow> Inl NoSuchFile
      | Some dat \<Rightarrow> (case fl_unjson (se_lib env) dat of None \<Rightarrow> Inl BadJSON | Some enc \<Rightarrow> Inr enc))"

definition SaveEncryptedKey :: "store_env \<Rightarrow> string \<Rightarrow> EncryptedKey \<Rightarrow> storage \<Rightarrow> file_error option \<times> storage" where
  "SaveEncryptedKey env name enc s = write_file name (fl_json (se_lib env) enc) s"

text \<open>Reading an encrypted file with the passphrase at hand.\<close>

definition load_decrypted :: "store_env \<Rightarrow> string \<Rightarrow> storage \<Rightarrow> (file_error + string) outcome" where
  "load_decrypted env name s =
     (case LoadEncryptedKey env name s of
        Inl e \<Rightarrow> Ret (Inl e)
      | Inr enc \<Rightarrow>
          (case getPassphrase env s of
             None \<Rightarrow> Ret (Inl NoPassphrase)
           | Some passphrase \<Rightarrow> DecryptKey (se_lib env) enc passphrase))"

section \<open>The identity of a node\<close>

record Identity =
  id_NodeID :: string
  id_PrivateKey :: "string option"
  id_CertPEM :: string
  id_ViewerPubKey :: "string option"

definition parse_key :: "store_env \<Rightarrow> string \<Rightarrow> string option" where
  "parse_key env keyBytes =
     (if length keyBytes = 64 then Some keyBytes
      else case cl_parsePKCS8 (fl_crypto (se_lib env)) keyBytes of Inr k \<Rightarrow> Some k | Inl _ \<Rightarrow> None)"

definition load_key :: "store_env \<Rightarrow> storage \<Rightarrow> (file_error + string option) outcome" where
  "load_key env s =
     (case gget (st_files s) ''node.key'' of
        None \<Rightarrow> Ret (Inr None)
      | Some keyData \<Rightarrow>
          (if IsEncryptedKeyFile env ''node.key'' s then
             obind (load_decrypted env ''node.key'' s)
               (\<lambda>r. Ret (case r of Inl e \<Rightarrow> Inl e | Inr keyBytes \<Rightarrow> Inr (parse_key env keyBytes)))
           else Ret (Inr (case cl_pemDecode (fl_crypto (se_lib env)) keyData of None \<Rightarrow> None | Some (_, b) \<Rightarrow> parse_key env b))))"

definition file_or_empty :: "string \<Rightarrow> storage \<Rightarrow> string" where
  "file_or_empty name s = (case gget (st_files s) name of None \<Rightarrow> [] | Some b \<Rightarrow> b)"

definition LoadIdentity :: "store_env \<Rightarrow> storage \<Rightarrow> (file_error + Identity) outcome" where
  "LoadIdentity env s =
     obind (load_key env s) (\<lambda>r. Ret (case r of
        Inl e \<Rightarrow> Inl e
      | Inr key \<Rightarrow>
          Inr \<lparr>id_NodeID = file_or_empty ''node_id'' s, id_PrivateKey = key, id_CertPEM = file_or_empty ''node.crt'' s,
               id_ViewerPubKey = (case gget (st_files s) ''viewer.pub'' of
                                    None \<Rightarrow> None
                                  | Some b \<Rightarrow> if length b = 32 then Some b else None)\<rparr>))"

text \<open>A sequence of writes that stops at the first error.\<close>

definition then_write :: "file_error option \<times> storage \<Rightarrow> (storage \<Rightarrow> file_error option \<times> storage) \<Rightarrow> file_error option \<times> storage" where
  "then_write r f = (case r of (Some e, s) \<Rightarrow> (Some e, s) | (None, s) \<Rightarrow> f s)"

definition save_key :: "store_env \<Rightarrow> string \<Rightarrow> storage \<Rightarrow> file_error option \<times> storage" where
  "save_key env key s =
     (case cl_marshalPKCS8 (fl_crypto (se_lib env)) key of
        None \<Rightarrow> (Some MarshalFailed, s)
      | Some pkcs8 \<Rightarrow>
          (if st_UsePassphrase s then
             (case getPassphrase env s of
                None \<Rightarrow> (Some NoPassphrase, s)
              | Some passphrase \<Rightarrow>
                  (case EncryptKey (se_lib env) (se_salt env) (se_nonce env) pkcs8 passphrase of
                     Inl e \<Rightarrow> (Some e, s)
                   | Inr enc \<Rightarrow> SaveEncryptedKey env ''node.key'' enc s))
           else write_file ''node.key'' (cl_pemEncode (fl_crypto (se_lib env)) ''PRIVATE KEY'' pkcs8) s))"

definition SaveIdentity :: "store_env \<Rightarrow> Identity \<Rightarrow> storage \<Rightarrow> file_error option \<times> storage" where
  "SaveIdentity env idn s =
     (if \<not> st_writable s then (Some NotWritable, s)
      else then_write (then_write (then_write
             (if id_NodeID idn \<noteq> [] then write_file ''node_id'' (id_NodeID idn) s else (None, s))
             (\<lambda>s. case id_PrivateKey idn of None \<Rightarrow> (None, s) | Some key \<Rightarrow> save_key env key s))
             (\<lambda>s. if id_CertPEM idn \<noteq> [] then write_file ''node.crt'' (id_CertPEM idn) s else (None, remove_file ''node.crt'' s)))
             (\<lambda>s. case id_ViewerPubKey idn of
                     None \<Rightarrow> (None, s)
                   | Some b \<Rightarrow> if b = [] then (None, s) else write_file ''viewer.pub'' b s))"

definition GenerateNewIdentity :: "store_env \<Rightarrow> storage \<Rightarrow> (file_error + Identity) \<times> storage" where
  "GenerateNewIdentity env s =
     (let idn = \<lparr>id_NodeID = se_uuid env, id_PrivateKey = Some (se_newKey env), id_CertPEM = [], id_ViewerPubKey = None\<rparr>
      in case SaveIdentity env idn s of
           (Some e, s') \<Rightarrow> (Inl e, s')
         | (None, s') \<Rightarrow> (Inr idn, remove_file ''node.crt'' s'))"

definition SaveCertificate :: "string \<Rightarrow> storage \<Rightarrow> file_error option \<times> storage" where
  "SaveCertificate certPEM s = write_file ''node.crt'' certPEM s"

definition SaveCACertificate :: "string \<Rightarrow> storage \<Rightarrow> file_error option \<times> storage" where
  "SaveCACertificate caPEM s = write_file ''ca.crt'' caPEM s"

definition SaveViewerPublicKey :: "string \<Rightarrow> storage \<Rightarrow> file_error option \<times> storage" where
  "SaveViewerPublicKey pubKey s = write_file ''viewer.pub'' pubKey s"

definition LoadViewerPublicKey :: "storage \<Rightarrow> file_error + string" where
  "LoadViewerPublicKey s =
     (case gget (st_files s) ''viewer.pub'' of
        None \<Rightarrow> Inl NoSuchFile
      | Some b \<Rightarrow> if length b \<noteq> 32 then Inl BadViewerKey else Inr b)"

definition HasIdentity :: "storage \<Rightarrow> bool" where
  "HasIdentity s \<longleftrightarrow> gget (st_files s) ''node_id'' \<noteq> None \<and> gget (st_files s) ''node.key'' \<noteq> None"

section \<open>Protecting an existing key\<close>

definition EncryptExistingKey :: "store_env \<Rightarrow> string \<Rightarrow> storage \<Rightarrow> file_error option \<times> storage" where
  "EncryptExistingKey env passphrase s =
     (if IsEncryptedKeyFile env ''node.key'' s then (Some AlreadyEncrypted, s)
      else case gget (st_files s) ''node.key'' of
             None \<Rightarrow> (Some NoSuchFile, s)
           | Some keyPEM \<Rightarrow>
               (case cl_pemDecode (fl_crypto (se_lib env)) keyPEM of
                  None \<Rightarrow> (Some BadPEM, s)
                | Some (_, b) \<Rightarrow>
                    (case EncryptKey (se_lib env) (se_salt env) (se_nonce env) b passphrase of
                       Inl e \<Rightarrow> (Some e, s)
                     | Inr enc \<Rightarrow>
                         then_write (SaveEncryptedKey env ''node.key'' enc s) (\<lambda>s. (None, SetPassphrase passphrase s)))))"

text \<open>Decrypting a key to a plain file, and changing its passphrase: both read it with the passphrase that is given.\<close>

definition open_key :: "store_env \<Rightarrow> string \<Rightarrow> storage \<Rightarrow> (file_error + string) outcome" where
  "open_key env passphrase s =
     (if \<not> IsEncryptedKeyFile env ''node.key'' s then Ret (Inl NotEncryptedKey)
      else case LoadEncryptedKey env ''node.key'' s of
             Inl e \<Rightarrow> Ret (Inl e)
           | Inr enc \<Rightarrow> DecryptKey (se_lib env) enc passphrase)"

definition DecryptExistingKey :: "store_env \<Rightarrow> string \<Rightarrow> storage \<Rightarrow> (file_error option \<times> storage) outcome" where
  "DecryptExistingKey env passphrase s =
     obind (open_key env passphrase s) (\<lambda>r. Ret (case r of
        Inl e \<Rightarrow> (Some e, s)
      | Inr keyBytes \<Rightarrow>
          then_write (write_file ''node.key'' (cl_pemEncode (fl_crypto (se_lib env)) ''PRIVATE KEY'' keyBytes) s)
            (\<lambda>s. (None, s\<lparr>st_UsePassphrase := False, st_Passphrase := []\<rparr>))))"

definition ChangePassphrase :: "store_env \<Rightarrow> string \<Rightarrow> string \<Rightarrow> storage \<Rightarrow> (file_error option \<times> storage) outcome" where
  "ChangePassphrase env oldPassphrase newPassphrase s =
     obind (open_key env oldPassphrase s) (\<lambda>r. Ret (case r of
        Inl e \<Rightarrow> (Some e, s)
      | Inr keyBytes \<Rightarrow>
          (case EncryptKey (se_lib env) (se_salt env) (se_nonce env) keyBytes newPassphrase of
             Inl e \<Rightarrow> (Some e, s)
           | Inr enc \<Rightarrow>
               then_write (SaveEncryptedKey env ''node.key'' enc s) (\<lambda>s. (None, s\<lparr>st_Passphrase := newPassphrase\<rparr>)))))"

section \<open>The secret and the tokens of a user\<close>

definition SaveUserSecret :: "store_env \<Rightarrow> string \<Rightarrow> storage \<Rightarrow> file_error option \<times> storage" where
  "SaveUserSecret env secret s =
     (if \<not> st_writable s then (Some NotWritable, s)
      else if st_UsePassphrase s then
        (case getPassphrase env s of
           None \<Rightarrow> (Some NoPassphrase, s)
         | Some passphrase \<Rightarrow>
             (case EncryptKey (se_lib env) (se_salt env) (se_nonce env) secret passphrase of
                Inl e \<Rightarrow> (Some e, s)
              | Inr enc \<Rightarrow> SaveEncryptedKey env ''user_secret'' enc s))
      else write_file ''user_secret'' secret s)"

definition LoadUserSecret :: "store_env \<Rightarrow> storage \<Rightarrow> (file_error + string) outcome" where
  "LoadUserSecret env s =
     (if IsEncryptedKeyFile env ''user_secret'' s then load_decrypted env ''user_secret'' s
      else Ret (case gget (st_files s) ''user_secret'' of None \<Rightarrow> Inl NoSuchFile | Some b \<Rightarrow> Inr b))"

definition EncryptExistingUserSecret :: "store_env \<Rightarrow> string \<Rightarrow> storage \<Rightarrow> file_error option \<times> storage" where
  "EncryptExistingUserSecret env passphrase s =
     (if IsEncryptedKeyFile env ''user_secret'' s then (Some AlreadyEncrypted, s)
      else case gget (st_files s) ''user_secret'' of
             None \<Rightarrow> (Some NoSuchFile, s)
           | Some secret \<Rightarrow>
               (case EncryptKey (se_lib env) (se_salt env) (se_nonce env) secret passphrase of
                  Inl e \<Rightarrow> (Some e, s)
                | Inr enc \<Rightarrow> SaveEncryptedKey env ''user_secret'' enc s))"

definition token_file :: "string \<Rightarrow> string" where
  "token_file nodeID = ''routing_tokens/'' @ nodeID"

definition SaveRoutingToken :: "string \<Rightarrow> string \<Rightarrow> storage \<Rightarrow> file_error option \<times> storage" where
  "SaveRoutingToken nodeID routingToken s = write_file (token_file nodeID) routingToken s"

definition LoadRoutingToken :: "string \<Rightarrow> storage \<Rightarrow> file_error + string" where
  "LoadRoutingToken nodeID s = (case gget (st_files s) (token_file nodeID) of None \<Rightarrow> Inl NoSuchFile | Some b \<Rightarrow> Inr b)"

definition LoadAllRoutingTokens :: "storage \<Rightarrow> (string, string) gomap" where
  "LoadAllRoutingTokens s =
     map (\<lambda>(n, b). (drop (length ''routing_tokens/'') n, b))
       (filter (\<lambda>(n, b). take (length ''routing_tokens/'') n = ''routing_tokens/'') (st_files s))"

definition DeleteRoutingToken :: "string \<Rightarrow> storage \<Rightarrow> file_error option \<times> storage" where
  "DeleteRoutingToken nodeID s =
     (if gget (st_files s) (token_file nodeID) = None then (Some NoSuchFile, s)
      else if \<not> st_writable s then (Some NotWritable, s)
      else (None, remove_file (token_file nodeID) s))"

section \<open>Round trips\<close>

text \<open>What the files rely on: the codecs are read back, a PEM file is not JSON, and a PKCS#8 key does not have the 64 bytes of a
  raw key.\<close>

definition store_laws :: "file_lib \<Rightarrow> bool" where
  "store_laws lib \<longleftrightarrow>
     file_laws (fl_crypto lib) \<and> (\<forall>b. fl_unb64 lib (fl_b64 lib b) = Some b) \<and> (\<forall>k. fl_unjson lib (fl_json lib k) = Some k) \<and>
     (\<forall>ty b. fl_unjson lib (cl_pemEncode (fl_crypto lib) ty b) = None) \<and>
     (\<forall>k b. cl_marshalPKCS8 (fl_crypto lib) k = Some b \<longrightarrow> length b \<noteq> 64)"

lemma store_laws_file: "store_laws lib \<Longrightarrow> file_laws (fl_crypto lib)"
  and store_laws_b64: "store_laws lib \<Longrightarrow> fl_unb64 lib (fl_b64 lib b) = Some b"
  and store_laws_json: "store_laws lib \<Longrightarrow> fl_unjson lib (fl_json lib k) = Some k"
  and store_laws_pem: "store_laws lib \<Longrightarrow> fl_unjson lib (cl_pemEncode (fl_crypto lib) ty b) = None"
  and store_laws_pkcs8: "store_laws lib \<Longrightarrow> cl_marshalPKCS8 (fl_crypto lib) k' = Some b \<Longrightarrow> length b \<noteq> 64"
  by (auto simp: store_laws_def)

lemmas store_codecs = store_laws_b64 store_laws_json store_laws_pem

lemma file_laws_open: "file_laws lib \<Longrightarrow> cl_open lib k n (cl_seal lib k n m a) a = Some m"
  and file_laws_pem: "file_laws lib \<Longrightarrow> cl_pemDecode lib (cl_pemEncode lib ty b) = Some (ty, b)"
  and file_laws_pkcs8: "file_laws lib \<Longrightarrow> cl_marshalPKCS8 lib priv = Some b \<Longrightarrow> cl_parsePKCS8 lib b = Inr priv"
  by (auto simp: file_laws_def)

lemma DecryptKey_EncryptKey:
  assumes "store_laws lib" and "length nonce = 12" and "EncryptKey lib salt nonce m p = Inr enc"
  shows "DecryptKey lib enc p = Ret (Inr m) \<and> ek_Version enc = 1"
  using assms by (auto simp: EncryptKey_def DecryptKey_def Let_def store_codecs file_laws_open store_laws_file split: if_splits)

lemma parse_key_marshal:
  assumes "store_laws (se_lib env)" and "cl_marshalPKCS8 (fl_crypto (se_lib env)) k = Some b"
  shows "parse_key env b = Some k"
  using store_laws_pkcs8 [OF assms] file_laws_pkcs8 [OF store_laws_file [OF assms(1)] assms(2)] by (simp add: parse_key_def)

text \<open>A file under a passphrase is recognised and opened.\<close>

lemma saved_key_opens:
  assumes "store_laws (se_lib env)" and "length (se_nonce env) = 12"
    and "EncryptKey (se_lib env) (se_salt env) (se_nonce env) m p = Inr enc"
    and "gget (st_files s) name = Some (fl_json (se_lib env) enc)"
  shows "IsEncryptedKeyFile env name s" and "LoadEncryptedKey env name s = Inr enc"
    and "DecryptKey (se_lib env) enc p = Ret (Inr m)"
  using assms(1,4) DecryptKey_EncryptKey [OF assms(1-3)] by (simp_all add: IsEncryptedKeyFile_def LoadEncryptedKey_def store_codecs)

lemma save_key_loads:
  assumes "store_laws (se_lib env)" and "length (se_nonce env) = 12" and "save_key env k s = (None, s1)"
    and "gget (st_files s2) ''node.key'' = gget (st_files s1) ''node.key''" and "getPassphrase env s2 = getPassphrase env s"
  shows "load_key env s2 = Ret (Inr (Some k))"
proof -
  obtain b where b: "cl_marshalPKCS8 (fl_crypto (se_lib env)) k = Some b"
    using assms(3) by (auto simp: save_key_def split: option.splits)
  note pk = parse_key_marshal [OF assms(1) b]
  show ?thesis
  proof (cases "st_UsePassphrase s")
    case True
    then obtain p enc where p: "getPassphrase env s = Some p"
      and e: "EncryptKey (se_lib env) (se_salt env) (se_nonce env) b p = Inr enc" and f: "SaveEncryptedKey env ''node.key'' enc s = (None, s1)"
      using assms(3) b by (auto simp: save_key_def split: option.splits sum.splits)
    have g: "gget (st_files s2) ''node.key'' = Some (fl_json (se_lib env) enc)"
      using f assms(4) by (auto simp: SaveEncryptedKey_def write_file_def split: if_splits)
    show ?thesis using saved_key_opens [OF assms(1,2) e g] p assms(5) pk g by (simp add: load_key_def load_decrypted_def)
  next
    case False
    then have g: "gget (st_files s2) ''node.key'' = Some (cl_pemEncode (fl_crypto (se_lib env)) ''PRIVATE KEY'' b)"
      using assms(3,4) b by (auto simp: save_key_def write_file_def split: if_splits)
    then have "\<not> IsEncryptedKeyFile env ''node.key'' s2" by (simp add: IsEncryptedKeyFile_def store_codecs assms(1))
    then show ?thesis using g pk file_laws_pem [OF store_laws_file [OF assms(1)]] by (simp add: load_key_def)
  qed
qed

lemma save_key_files:
  assumes "save_key env k s = (None, s1)"
  shows "st_Passphrase s1 = st_Passphrase s \<and> st_UsePassphrase s1 = st_UsePassphrase s \<and> st_writable s1 = st_writable s \<and>
    (\<forall>n. n \<noteq> ''node.key'' \<longrightarrow> gget (st_files s1) n = gget (st_files s) n)"
  using assms by (auto simp: save_key_def SaveEncryptedKey_def write_file_def split: option.splits if_splits sum.splits)

lemma identity_loads:
  assumes "store_laws (se_lib env)" and "length (se_nonce env) = 12" and "SaveIdentity env idn s = (None, s')"
    and "id_NodeID idn \<noteq> []" and "id_PrivateKey idn = Some k" and "id_ViewerPubKey idn = Some v" and "length v = 32"
  shows "LoadIdentity env s' = Ret (Inr idn)"
proof -
  have w: "st_writable s" using assms(3) by (auto simp: SaveIdentity_def split: if_splits)
  define s0 where "s0 = s\<lparr>st_files := gput ''node_id'' (id_NodeID idn) (st_files s)\<rparr>"
  have w0: "st_writable s0" and g0: "getPassphrase env s0 = getPassphrase env s" by (simp_all add: s0_def w getPassphrase_def)
  obtain s1 where s1: "save_key env k s0 = (None, s1)"
    using assms(3-5) w by (cases "save_key env k s0") (auto simp: SaveIdentity_def then_write_def write_file_def s0_def [symmetric] split: option.splits)
  note f = save_key_files [OF s1]
  have "v \<noteq> []" using assms(7) by auto
  then have s': "s' = s1\<lparr>st_files := gput ''viewer.pub'' v
      (if id_CertPEM idn \<noteq> [] then gput ''node.crt'' (id_CertPEM idn) (st_files s1) else gdel ''node.crt'' (st_files s1))\<rparr>"
    using assms(3-6) w f s1 w0 by (auto simp: SaveIdentity_def then_write_def write_file_def remove_file_def s0_def [symmetric])
  have "load_key env s' = Ret (Inr (Some k))"
    by (rule save_key_loads [OF assms(1,2) s1]) (use f in \<open>simp_all add: s' getPassphrase_def\<close>)
  then show ?thesis
    using f assms(5-7) by (cases idn) (auto simp: LoadIdentity_def s' file_or_empty_def s0_def)
qed


text \<open>A new passphrase opens the same key; a wrong old one changes nothing.\<close>

theorem passphrase_changes:
  assumes "store_laws (se_lib env)" and "length (se_nonce env) = 12" and "ChangePassphrase env old new s = Ret (err, s')"
    and "open_key env old s = Ret r"
  shows "case r of
      Inl e \<Rightarrow> err = Some e \<and> s' = s
    | Inr m \<Rightarrow> err = None \<longrightarrow> open_key env new s' = Ret (Inr m) \<and> load_decrypted env ''node.key'' s' = Ret (Inr m)"
proof (cases r)
  case (Inl e)
  then show ?thesis using assms(3,4) by (simp add: ChangePassphrase_def)
next
  case (Inr m)
  show ?thesis
  proof (cases err)
    case None
    with assms(3,4) Inr obtain enc s1 where e: "EncryptKey (se_lib env) (se_salt env) (se_nonce env) m new = Inr enc"
      and s1: "SaveEncryptedKey env ''node.key'' enc s = (None, s1)" and s': "s' = s1\<lparr>st_Passphrase := new\<rparr>"
      by (auto simp: ChangePassphrase_def then_write_def split: sum.splits option.splits prod.splits)
    have g: "gget (st_files s') ''node.key'' = Some (fl_json (se_lib env) enc)"
      using s1 by (auto simp: s' SaveEncryptedKey_def write_file_def split: if_splits)
    have "new \<noteq> []" using e by (auto simp: EncryptKey_def split: if_splits)
    then have "getPassphrase env s' = Some new" by (simp add: s' getPassphrase_def)
    then show ?thesis using saved_key_opens [OF assms(1,2) e g] Inr by (simp add: open_key_def load_decrypted_def)
  qed (simp add: Inr)
qed

text \<open>A token is found under its own node only, and the list of all tokens has exactly the ones that were saved.\<close>

lemma token_file_inj [simp]: "token_file a = token_file b \<longleftrightarrow> a = b"
  by (simp add: token_file_def)

lemma gget_map_key:
  assumes "\<And>k k'. P k \<Longrightarrow> P k' \<Longrightarrow> f k = f k' \<Longrightarrow> k = k'" and "P n"
  shows "gget (map (\<lambda>(k, v). (f k, v)) (filter (\<lambda>(k, v). P k) m)) (f n) = gget m n"
  using assms by (induction m) auto

lemma LoadAllRoutingTokens_get: "gget (LoadAllRoutingTokens s) n = gget (st_files s) (token_file n)"
proof -
  define P where "P = (\<lambda>k :: string. take (length ''routing_tokens/'') k = ''routing_tokens/'')"
  define f where "f = (\<lambda>k :: string. drop (length ''routing_tokens/'') k)"
  have "k = k'" if "P k" "P k'" "f k = f k'" for k k'
    using that append_take_drop_id unfolding P_def f_def by metis
  then have "gget (map (\<lambda>(k, v). (f k, v)) (filter (\<lambda>(k, v). P k) (st_files s))) (f (token_file n)) = gget (st_files s) (token_file n)"
    by (rule gget_map_key) (auto simp: P_def token_file_def)
  moreover have "f (token_file n) = n" by (simp add: f_def token_file_def)
  ultimately show ?thesis by (simp add: LoadAllRoutingTokens_def P_def f_def)
qed

theorem routing_tokens_kept:
  assumes "SaveRoutingToken nodeID token s = (None, s')"
  shows "LoadRoutingToken nodeID s' = Inr token \<and> (\<forall>n. n \<noteq> nodeID \<longrightarrow> LoadRoutingToken n s' = LoadRoutingToken n s) \<and>
    gget (LoadAllRoutingTokens s') nodeID = Some token \<and>
    (\<forall>n. n \<noteq> nodeID \<longrightarrow> gget (LoadAllRoutingTokens s') n = gget (LoadAllRoutingTokens s) n) \<and>
    DeleteRoutingToken nodeID s' = (None, remove_file (token_file nodeID) s')"
  using assms by (auto simp: SaveRoutingToken_def LoadRoutingToken_def write_file_def LoadAllRoutingTokens_get DeleteRoutingToken_def
      split: if_splits)

section \<open>A concrete instance\<close>

definition upto_comma :: "string \<Rightarrow> nat \<times> string" where
  "upto_comma j = (length (takeWhile (\<lambda>c. c \<noteq> CHR '','') j), tl (dropWhile (\<lambda>c. c \<noteq> CHR '','') j))"

definition demo_unjson :: "string \<Rightarrow> EncryptedKey option" where
  "demo_unjson j =
     (if j = [] \<or> hd j \<noteq> CHR ''{'' then None
      else case upto_comma (tl j) of (a, j1) \<Rightarrow> case upto_comma j1 of (b, j2) \<Rightarrow> case upto_comma j2 of (p, j3) \<Rightarrow>
           case upto_comma j3 of (m, j4) \<Rightarrow>
             Some \<lparr>ek_Salt = take a j4, ek_Nonce = take b (drop a j4), ek_Ciphertext = drop b (drop a j4), ek_Version = int p - int m\<rparr>)"

definition demo_json_text :: "EncryptedKey \<Rightarrow> string" where
  "demo_json_text k =
     CHR ''{'' # replicate (length (ek_Salt k)) (CHR ''s'') @ CHR '','' # replicate (length (ek_Nonce k)) (CHR ''n'') @ CHR '','' #
     replicate (nat (ek_Version k)) (CHR ''p'') @ CHR '','' # replicate (nat (- ek_Version k)) (CHR ''m'') @ CHR '','' #
     ek_Salt k @ ek_Nonce k @ ek_Ciphertext k"

definition demo_files :: file_lib where
  "demo_files =
     \<lparr>fl_crypto = demo_crypto\<lparr>cl_marshalPKCS8 := \<lambda>k. if length k = 64 then Some (CHR ''k'' # k) else None, cl_parsePKCS8 := \<lambda>b. Inr (tl b)\<rparr>,
      fl_b64 = \<lambda>b. b, fl_unb64 = Some, fl_json = demo_json_text, fl_unjson = demo_unjson\<rparr>"

lemma upto_comma_unary: "x \<noteq> CHR '','' \<Longrightarrow> upto_comma (replicate n x @ CHR '','' # r) = (n, r)"
  by (induction n) (auto simp: upto_comma_def)

lemma demo_unjson_text: "demo_unjson (demo_json_text k) = Some k"
  by (simp add: demo_unjson_def demo_json_text_def upto_comma_unary)

lemma demo_store_laws: "store_laws demo_files"
proof -
  have "file_laws (fl_crypto demo_files)"
    by (simp add: demo_files_def file_laws_def demo_crypto_def Let_def demo_takeWhile)
  moreover have "fl_unjson demo_files (cl_pemEncode (fl_crypto demo_files) ty b) = None" for ty b
    by (cases ty) (simp_all add: demo_files_def demo_crypto_def demo_unjson_def)
  ultimately show ?thesis by (simp add: store_laws_def) (simp add: demo_files_def demo_unjson_text)
qed

definition demo_store_env :: store_env where
  "demo_store_env =
     \<lparr>se_lib = demo_files, se_PassphraseFunc = None, se_envPass = [], se_salt = ''salt'', se_nonce = ''twelve bytes'',
      se_uuid = ''fresh'', se_newKey = replicate 64 (CHR ''n'')\<rparr>"

definition demo_identity :: Identity where
  "demo_identity =
     \<lparr>id_NodeID = ''node-1'', id_PrivateKey = Some demo_key, id_CertPEM = ''cert'', id_ViewerPubKey = Some (replicate 32 (CHR ''v''))\<rparr>"

definition demo_directory :: storage where
  "demo_directory = snd (SaveIdentity demo_store_env demo_identity (SetPassphrase ''pw'' (NewStorage [] True)))"

lemma demo_saved:
  "SaveIdentity demo_store_env demo_identity (SetPassphrase ''pw'' (NewStorage [] True)) = (None, demo_directory)"
  by (simp add: demo_directory_def prod_eq_iff)
     (simp add: SaveIdentity_def demo_identity_def SetPassphrase_def NewStorage_def then_write_def write_file_def save_key_def demo_store_env_def
       demo_files_def demo_lengths getPassphrase_def EncryptKey_def Let_def SaveEncryptedKey_def)


theorem routing_tokens_kept_witness:
  "LoadRoutingToken ''n1'' (snd (SaveRoutingToken ''n1'' ''t1'' (NewStorage [] True))) = Inr ''t1''"
  using routing_tokens_kept [of "''n1''" "''t1''" "NewStorage [] True"] by (simp add: SaveRoutingToken_def write_file_def NewStorage_def)

end
