(* ===== verification/Node_Client.thy ===== *)
theory Node_Client
  imports Node_Storage Hub_Server
begin

text \<open>
  \<^verbatim>\<open>pkg/hubclient/client.go\<close>: the side of a node that talks to the hub. A command arrives encrypted; it is verified, opened,
  checked for its age and for a replay, and only then given to the command handler, whose answer is encrypted for the owner.
  \<^item> The messages inside the envelope are read by the fields of \<open>wire_lib\<close> (protocol buffers).
  \<^item> \<open>'w\<close> is the state of the node that the command handler works on.
  \<^item> Every command is handled by a goroutine of its own. What it shares with the others is the cache of request ids, which
    it reads and writes in one step (\<open>LoadOrStore\<close>); the handler is split there.
  \<^item> Times are seconds since 1970 as \<^verbatim>\<open>time.Now().Unix()\<close> gives them.
  \<^item> The connection itself, its TLS configuration and the loops around the calls are reduced to what they decide.
\<close>

section \<open>State\<close>

record SecureCommandPayload =
  scp_RequestId :: string
  scp_Timestamp :: int
  scp_Data :: string

record CommandResult =
  cr_Status :: string
  cr_ErrorMessage :: string
  cr_ResponsePayload :: string

record Metrics =
  mt_NodeId :: string
  mt_Timestamp :: gotime
  mt_Active :: int
  mt_Total :: int
  mt_BytesIn :: int
  mt_BytesOut :: int

record wire_lib =
  wl_secure :: "string \<Rightarrow> SecureCommandPayload option"
  wl_inner :: "string \<Rightarrow> (int \<times> string) option"
  wl_result :: "CommandResult \<Rightarrow> string option"
  wl_metrics :: "Metrics \<Rightarrow> string option"

text \<open>The connections of the client to the hub, by the state of the connection and by the certificate it was opened with; \<open>None\<close> is the
  certificate that is made up when there is no other.\<close>

datatype conn_state = Idle | Connecting | Ready | TransientFailure | Shutdown

record node_client =
  nc_hubAddr :: string
  nc_nodeID :: string
  nc_caPubKey :: "string option"
  nc_verifyCommands :: bool
  nc_viewerPubKey :: "string option"
  nc_privateKey :: "string option"
  nc_alertCh :: "Alert list"
  nc_stopClosed :: bool
  nc_running :: bool
  nc_conn :: "(conn_state \<times> string option) option"
  nc_statsStreamingUntil :: gotime
  nc_useP2P :: bool
  nc_cmdIDCache :: "(string, int) gomap"
  nc_cleanupStarted :: bool
  nc_hubCertPin :: string
  nc_qrRegistration :: bool
  nc_storage :: storage

definition CommandIDCacheExpirySeconds :: int where
  "CommandIDCacheExpirySeconds = 300"

definition NewClient :: "string \<Rightarrow> bool \<Rightarrow> storage \<Rightarrow> node_client" where
  "NewClient hubAddr qrMode st =
     \<lparr>nc_hubAddr = hubAddr, nc_nodeID = [], nc_caPubKey = None, nc_verifyCommands = True, nc_viewerPubKey = None, nc_privateKey = None,
      nc_alertCh = [], nc_stopClosed = False, nc_running = False, nc_conn = None, nc_statsStreamingUntil = 0, nc_useP2P = False,
      nc_cmdIDCache = [], nc_cleanupStarted = False, nc_hubCertPin = [], nc_qrRegistration = qrMode, nc_storage = st\<rparr>"

text \<open>A CA certificate as \<open>ca\<close> reads it: its Ed25519 key, or the error.\<close>

definition SetCACert :: "(string \<Rightarrow> string option) \<Rightarrow> string \<Rightarrow> node_client \<Rightarrow> bool \<times> node_client" where
  "SetCACert ca certPEM c = (case ca certPEM of None \<Rightarrow> (False, c) | Some k \<Rightarrow> (True, c\<lparr>nc_caPubKey := Some k\<rparr>))"

definition SetViewerPublicKey :: "string \<Rightarrow> node_client \<Rightarrow> node_client" where
  "SetViewerPublicKey pubKey c = c\<lparr>nc_viewerPubKey := Some pubKey\<rparr>"

definition EnableStatsStreaming :: "gotime \<Rightarrow> duration \<Rightarrow> node_client \<Rightarrow> node_client" where
  "EnableStatsStreaming now dur c = c\<lparr>nc_statsStreamingUntil := now + dur\<rparr>"

definition client_Stop :: "node_client \<Rightarrow> node_client outcome" where
  "client_Stop c =
     (if nc_running c then
        (if nc_stopClosed c then Panics else Ret (c\<lparr>nc_stopClosed := True, nc_running := False, nc_conn := None\<rparr>))
      else Ret c)"

section \<open>Commands\<close>

definition to_envelope :: "EncryptedPayload \<Rightarrow> envelope" where
  "to_envelope e =
     \<lparr>ev_EphemeralPubKey = ep_ephemeralPubkey e, ev_Nonce = ep_nonce e, ev_Ciphertext = ep_ciphertext e,
      ev_SenderFingerprint = ep_senderFingerprint e, ev_Signature = ep_signature e\<rparr>"

definition from_envelope :: "envelope \<Rightarrow> EncryptedPayload" where
  "from_envelope v =
     \<lparr>ep_ephemeralPubkey = ev_EphemeralPubKey v, ep_nonce = ev_Nonce v, ep_ciphertext = ev_Ciphertext v,
      ep_senderFingerprint = ev_SenderFingerprint v, ep_signature = ev_Signature v, ep_algorithm = 0\<rparr>"

datatype rejected =
  NotEncryptedCommand | NoFingerprint | NoPrivateKey | NoCAKey | SignatureFailed crypto_error | DecryptFailed crypto_error | BadSecurePayload
| TimestampOutOfRange | RequestReplayed | BadInnerPayload | NoViewerKey

text \<open>Up to the check of the timestamp, which is the last one that needs nothing shared.\<close>

definition check_command :: "crypto_lib \<Rightarrow> wire_lib \<Rightarrow> int \<Rightarrow> Command \<Rightarrow> node_client \<Rightarrow> rejected + SecureCommandPayload" where
  "check_command lib wl now cmd c =
     (case cmd_Encrypted cmd of
        None \<Rightarrow> Inl NotEncryptedCommand
      | Some encrypted \<Rightarrow>
          (if ep_senderFingerprint encrypted = [] then Inl NoFingerprint
           else case nc_privateKey c of
                  None \<Rightarrow> Inl NoPrivateKey
                | Some privateKey \<Rightarrow>
                    (let payload = to_envelope encrypted in
                     case (if nc_verifyCommands c
                           then (case nc_caPubKey c of
                                   None \<Rightarrow> Some NoCAKey
                                 | Some caPubKey \<Rightarrow> map_option SignatureFailed (VerifySignature lib (Some payload) caPubKey))
                           else None) of
                       Some e \<Rightarrow> Inl e
                     | None \<Rightarrow>
                         (case Decrypt lib (Some payload) privateKey of
                            Inl e \<Rightarrow> Inl (DecryptFailed e)
                          | Inr decryptedBytes \<Rightarrow>
                              (case wl_secure wl decryptedBytes of
                                 None \<Rightarrow> Inl BadSecurePayload
                               | Some securePayload \<Rightarrow>
                                   (if scp_Timestamp securePayload < now - 60 \<or> scp_Timestamp securePayload > now + 60
                                    then Inl TimestampOutOfRange
                                    else Inr securePayload))))))"

definition LoadOrStore :: "string \<Rightarrow> int \<Rightarrow> node_client \<Rightarrow> bool \<times> node_client" where
  "LoadOrStore requestId now c =
     (if gget (nc_cmdIDCache c) requestId \<noteq> None then (True, c)
      else (False, c\<lparr>nc_cmdIDCache := gput requestId now (nc_cmdIDCache c)\<rparr>))"

definition encryptCommandResult ::
  "crypto_lib \<Rightarrow> wire_lib \<Rightarrow> string \<times> string \<Rightarrow> string \<Rightarrow> string \<Rightarrow> string \<Rightarrow> string \<Rightarrow> node_client \<Rightarrow> CommandResponse" where
  "encryptCommandResult lib wl rnd cmdID status errMsg payload c =
     (let empty = \<lparr>resp_CommandId = cmdID, resp_EncryptedData = None\<rparr> in
      case wl_result wl \<lparr>cr_Status = status, cr_ErrorMessage = errMsg, cr_ResponsePayload = payload\<rparr> of
        None \<Rightarrow> empty
      | Some resultBytes \<Rightarrow>
          (case (nc_viewerPubKey c, nc_privateKey c) of
             (Some viewer, Some priv) \<Rightarrow>
               (case EncryptWithSignature lib (fst rnd) (snd rnd) resultBytes viewer priv (nc_nodeID c) of
                  Inl _ \<Rightarrow> empty
                | Inr enc \<Rightarrow> \<lparr>resp_CommandId = cmdID, resp_EncryptedData = Some (from_envelope enc)\<rparr>)
           | _ \<Rightarrow> empty))"

text \<open>The rest: the request id, the command itself and the answer. \<open>handler\<close> is absent when none was set.\<close>

type_synonym 'w command_handler = "int \<Rightarrow> string \<Rightarrow> 'w \<Rightarrow> ((string \<times> string \<times> string) \<times> 'w) outcome"

definition run_command ::
  "crypto_lib \<Rightarrow> wire_lib \<Rightarrow> string \<times> string \<Rightarrow> 'w command_handler option \<Rightarrow> int \<Rightarrow> string \<Rightarrow> SecureCommandPayload \<Rightarrow>
   node_client \<Rightarrow> 'w \<Rightarrow> ((rejected + CommandResponse) \<times> node_client \<times> 'w) outcome" where
  "run_command lib wl rnd handler now cmdID sp c w =
     (case LoadOrStore (scp_RequestId sp) now (c\<lparr>nc_cleanupStarted := True\<rparr>) of
        (True, c1) \<Rightarrow> Ret (Inl RequestReplayed, c1, w)
      | (False, c1) \<Rightarrow>
          (case wl_inner wl (scp_Data sp) of
             None \<Rightarrow> Ret (Inl BadInnerPayload, c1, w)
           | Some (ty, payload) \<Rightarrow>
               (if nc_viewerPubKey c1 = None then Ret (Inl NoViewerKey, c1, w)
                else case handler of
                       None \<Rightarrow> Ret (Inr (encryptCommandResult lib wl rnd cmdID ''ERROR'' ''No handler'' [] c1), c1, w)
                     | Some h \<Rightarrow>
                         obind (h ty payload w) (\<lambda>((status, errMsg, dat), w1).
                           Ret (Inr (encryptCommandResult lib wl rnd cmdID status errMsg dat c1), c1, w1)))))"

definition handleCommand ::
  "crypto_lib \<Rightarrow> wire_lib \<Rightarrow> string \<times> string \<Rightarrow> 'w command_handler option \<Rightarrow> int \<Rightarrow> Command \<Rightarrow>
   node_client \<Rightarrow> 'w \<Rightarrow> ((rejected + CommandResponse) \<times> node_client \<times> 'w) outcome" where
  "handleCommand lib wl rnd handler now cmd c w =
     (case check_command lib wl now cmd c of
        Inl e \<Rightarrow> Ret (Inl e, c, w)
      | Inr sp \<Rightarrow> run_command lib wl rnd handler now (cmd_Id cmd) sp c w)"

text \<open>The body of the cleanup loop at a tick.\<close>

definition replayCacheCleanup :: "int \<Rightarrow> node_client \<Rightarrow> node_client" where
  "replayCacheCleanup now c =
     c\<lparr>nc_cmdIDCache := gkeep (\<lambda>_ ts. \<not> now - ts > CommandIDCacheExpirySeconds) (nc_cmdIDCache c)\<rparr>"

section \<open>Alerts and metrics\<close>

datatype alert_error = AlertNil | AlertKeysMissing | AlertEncryptFailed | AlertChannelFull

text \<open>\<open>p2p\<close> tells how many peers took the alert, when a manager with connected sessions exists and the details can be read.\<close>

definition SendAlert ::
  "crypto_lib \<Rightarrow> string \<times> string \<Rightarrow> nat option \<Rightarrow> Alert option \<Rightarrow> string \<Rightarrow> node_client \<Rightarrow> alert_error option \<times> node_client" where
  "SendAlert lib rnd p2p alert info c =
     (case alert of
        None \<Rightarrow> (Some AlertNil, c)
      | Some a \<Rightarrow>
          (if nc_useP2P c \<and> (case p2p of None \<Rightarrow> False | Some n \<Rightarrow> n > 0) then (None, c)
           else
             (case (case a_Encrypted a of
                      Some _ \<Rightarrow> Inr a
                    | None \<Rightarrow>
                        (case (nc_viewerPubKey c, nc_privateKey c) of
                           (Some viewer, Some priv) \<Rightarrow>
                             (case EncryptWithSignature lib (fst rnd) (snd rnd) info viewer priv (nc_nodeID c) of
                                Inl _ \<Rightarrow> Inl AlertEncryptFailed
                              | Inr enc \<Rightarrow> Inr (a\<lparr>a_Encrypted := Some (from_envelope enc)\<rparr>))
                         | _ \<Rightarrow> Inl AlertKeysMissing)) of
                Inl e \<Rightarrow> (Some e, c)
              | Inr a1 \<Rightarrow>
                  (if length (nc_alertCh c) < 100 then (None, c\<lparr>nc_alertCh := nc_alertCh c @ [a1]\<rparr>) else (Some AlertChannelFull, c)))))"

text \<open>One turn of the loop that pushes alerts: the alert it sends.\<close>

definition pushAlerts_step :: "node_client \<Rightarrow> (Alert \<times> node_client) option" where
  "pushAlerts_step c =
     (case nc_alertCh c of
        [] \<Rightarrow> None
      | a # rest \<Rightarrow>
          Some (if a_NodeId a = [] then a\<lparr>a_NodeId := nc_nodeID c\<rparr> else a, c\<lparr>nc_alertCh := rest\<rparr>))"

definition gatherEncryptedMetrics ::
  "crypto_lib \<Rightarrow> wire_lib \<Rightarrow> string \<times> string \<Rightarrow> gotime \<Rightarrow> (int \<times> int \<times> int \<times> int) option \<Rightarrow> node_client \<Rightarrow> EncryptedPayload option" where
  "gatherEncryptedMetrics lib wl rnd now provider c =
     (case (case provider of None \<Rightarrow> (0, 0, 0, 0) | Some m \<Rightarrow> m) of
        (active, totalConns, bytesIn, bytesOut) \<Rightarrow>
          (case (nc_viewerPubKey c, nc_privateKey c) of
             (Some viewer, Some priv) \<Rightarrow>
               (case wl_metrics wl \<lparr>mt_NodeId = nc_nodeID c, mt_Timestamp = now, mt_Active = active, mt_Total = totalConns,
                                    mt_BytesIn = bytesIn, mt_BytesOut = bytesOut\<rparr> of
                  None \<Rightarrow> None
                | Some dat \<Rightarrow>
                    (case EncryptWithSignature lib (fst rnd) (snd rnd) dat viewer priv (nc_nodeID c) of
                       Inl _ \<Rightarrow> None
                     | Inr enc \<Rightarrow> Some (from_envelope enc)))
           | _ \<Rightarrow> None))"

text \<open>What a tick of the metrics loop sends: nothing unless streaming was asked for.\<close>

definition pushMetrics_step ::
  "crypto_lib \<Rightarrow> wire_lib \<Rightarrow> string \<times> string \<Rightarrow> gotime \<Rightarrow> (int \<times> int \<times> int \<times> int) option \<Rightarrow> node_client \<Rightarrow> (string \<times> EncryptedPayload) option" where
  "pushMetrics_step lib wl rnd now provider c =
     (if now < nc_statsStreamingUntil c
      then map_option (Pair (nc_nodeID c)) (gatherEncryptedMetrics lib wl rnd now provider c)
      else None)"

section \<open>Identity, registration and connection\<close>

definition EnsureIdentity ::
  "store_env \<Rightarrow> (string \<Rightarrow> string option) \<Rightarrow> node_client \<Rightarrow> (file_error option \<times> node_client) outcome" where
  "EnsureIdentity env ca c =
     obind (LoadIdentity env (nc_storage c)) (\<lambda>r.
       let loaded = (case r of
               Inl _ \<Rightarrow> None
             | Inr idn \<Rightarrow> if id_PrivateKey idn = None then None else Some idn);
           (res, st) = (case loaded of Some idn \<Rightarrow> (Inr idn, nc_storage c) | None \<Rightarrow> GenerateNewIdentity env (nc_storage c))
       in Ret (case res of
            Inl e \<Rightarrow> (Some e, c\<lparr>nc_storage := st\<rparr>)
          | Inr idn \<Rightarrow>
              (let c1 = c\<lparr>nc_storage := st, nc_nodeID := id_NodeID idn, nc_privateKey := id_PrivateKey idn\<rparr>;
                   caPEM = file_or_empty ''ca.crt'' st
               in (None, if caPEM \<noteq> [] then snd (SetCACert ca caPEM c1) else c1))))"

text \<open>The answer to a registration, with the certificate of the node and the one of its owner. The node that shows a QR code
  polls for the same two certificates; \<open>RegStopped\<close> ends the polling.\<close>

datatype reg_reply = RegFails | RegRejected | RegStopped | RegApproved string string

definition doRegistration ::
  "(string \<Rightarrow> string option) \<Rightarrow> reg_reply \<Rightarrow> node_client \<Rightarrow> bool \<times> node_client" where
  "doRegistration ca reply c =
     (case reply of
        RegApproved certPem caPem \<Rightarrow>
          (case SaveCertificate certPem (nc_storage c) of
             (Some _, st) \<Rightarrow> (False, c\<lparr>nc_storage := st\<rparr>)
           | (None, st) \<Rightarrow>
               (let c1 = c\<lparr>nc_storage := st\<rparr>;
                    c2 = (if caPem \<noteq> [] then (snd (SetCACert ca caPem c1))\<lparr>nc_storage := snd (SaveCACertificate caPem st)\<rparr> else c1)
                in (True, if nc_qrRegistration c2 then c2\<lparr>nc_qrRegistration := False\<rparr> else c2)))
      | _ \<Rightarrow> (False, c))"

datatype connected = Disconnected | Registering | Streaming "string option"

definition usable :: "conn_state \<Rightarrow> bool" where
  "usable st \<longleftrightarrow> st \<in> {Idle, Connecting, Ready}"

text \<open>The certificate the connection is opened with: the stored one, or a made up one.\<close>

definition client_cert :: "(string \<Rightarrow> bool) \<Rightarrow> file_error + Identity \<Rightarrow> string option" where
  "client_cert certs r =
     (case r of
        Inl _ \<Rightarrow> None
      | Inr idn \<Rightarrow> if id_CertPEM idn \<noteq> [] \<and> id_PrivateKey idn \<noteq> None \<and> certs (id_CertPEM idn) then Some (id_CertPEM idn) else None)"

definition open_conn ::
  "store_env \<Rightarrow> (string \<Rightarrow> bool) \<Rightarrow> node_client \<Rightarrow> (bool \<times> node_client) outcome" where
  "open_conn env certs c =
     obind (LoadIdentity env (nc_storage c)) (\<lambda>r.
       Ret (case nc_conn c of
              Some (st, cert) \<Rightarrow>
                (if usable st then (True, c)
                 else if nc_hubAddr c = [] then (False, c\<lparr>nc_conn := None\<rparr>)
                 else (True, c\<lparr>nc_conn := Some (Idle, client_cert certs r)\<rparr>))
            | None \<Rightarrow>
                (if nc_hubAddr c = [] then (False, c)
                 else (True, c\<lparr>nc_conn := Some (Idle, client_cert certs r)\<rparr>))))"

text \<open>\<open>replies\<close> are the answers to the registrations of this connection; after the last one the node waits.\<close>

fun connect ::
  "store_env \<Rightarrow> (string \<Rightarrow> string option) \<Rightarrow> (string \<Rightarrow> bool) \<Rightarrow> reg_reply list \<Rightarrow> node_client \<Rightarrow> (connected \<times> node_client) outcome" where
  "connect env ca certs replies c =
     obind (EnsureIdentity env ca c) (\<lambda>(err, c1).
       if err \<noteq> None then Ret (Disconnected, c1)
       else obind (open_conn env certs c1) (\<lambda>(ok, c2).
         if \<not> ok then Ret (Disconnected, c2)
         else obind (LoadIdentity env (nc_storage c2)) (\<lambda>r.
           case r of
             Inl _ \<Rightarrow> Panics
           | Inr idn \<Rightarrow>
               (if id_CertPEM idn \<noteq> [] then Ret (Streaming (case nc_conn c2 of None \<Rightarrow> None | Some (_, cert) \<Rightarrow> cert), c2)
                else case replies of
                       [] \<Rightarrow> Ret (Registering, c2)
                     | reply # rest \<Rightarrow>
                         (case doRegistration ca reply c2 of
                            (False, c3) \<Rightarrow> Ret (Disconnected, c3\<lparr>nc_conn := None\<rparr>)
                          | (True, c3) \<Rightarrow> connect env ca certs rest (c3\<lparr>nc_conn := map_option (\<lambda>(_, cert). (Ready, cert)) (nc_conn c3)\<rparr>))))))"

declare connect.simps [simp del]

section \<open>Only commands of the owner are executed\<close>

lemma check_command_Inr:
  assumes "check_command lib wl now cmd c = Inr sp"
  obtains e priv m where "cmd_Encrypted cmd = Some e" "nc_privateKey c = Some priv" "Decrypt lib (Some (to_envelope e)) priv = Inr m"
    "wl_secure wl m = Some sp" "now - 60 \<le> scp_Timestamp sp" "scp_Timestamp sp \<le> now + 60"
    "nc_verifyCommands c \<longrightarrow> (\<exists>ca. nc_caPubKey c = Some ca \<and> VerifySignature lib (Some (to_envelope e)) ca = None)"
  using assms by (auto simp: check_command_def Let_def split: option.splits if_splits sum.splits)

lemma run_command_Inr:
  assumes "run_command lib wl rnd handler now cmdID sp c w = Ret (Inr resp, c', w')"
  shows "gget (nc_cmdIDCache c) (scp_RequestId sp) = None"
    and "nc_cmdIDCache c' = gput (scp_RequestId sp) now (nc_cmdIDCache c)"
    and "\<exists>ty payload. wl_inner wl (scp_Data sp) = Some (ty, payload) \<and>
           (case handler of None \<Rightarrow> w' = w | Some h \<Rightarrow> \<exists>out. h ty payload w = Ret (out, w'))"
  using assms by (auto simp: run_command_def LoadOrStore_def split: prod.splits option.splits if_splits bool.splits)


section \<open>No command is executed twice\<close>

text \<open>A run of the client: \<open>Handle a b\<close> is a command whose goroutine read the clock at \<open>a\<close> and reached the cache at \<open>b\<close>,
  \<open>Tick n\<close> the cleanup at \<open>n\<close>. The result lists the commands that were executed.\<close>

datatype client_event = Handle int int Command | Tick int

fun event_time :: "client_event \<Rightarrow> int" where
  "event_time (Handle a b cmd) = b"
| "event_time (Tick n) = n"

fun client_run ::
  "crypto_lib \<Rightarrow> wire_lib \<Rightarrow> string \<times> string \<Rightarrow> 'w command_handler option \<Rightarrow> client_event list \<Rightarrow> node_client \<Rightarrow> 'w \<Rightarrow>
   (SecureCommandPayload list \<times> node_client \<times> 'w) outcome" where
  "client_run lib wl rnd h [] c w = Ret ([], c, w)"
| "client_run lib wl rnd h (Tick n # es) c w = client_run lib wl rnd h es (replayCacheCleanup n c) w"
| "client_run lib wl rnd h (Handle a b cmd # es) c w =
     (case check_command lib wl a cmd c of
        Inl _ \<Rightarrow> client_run lib wl rnd h es c w
      | Inr sp \<Rightarrow>
          obind (run_command lib wl rnd h a (cmd_Id cmd) sp c w) (\<lambda>(r, c1, w1).
          obind (client_run lib wl rnd h es c1 w1) (\<lambda>(xs, c2, w2).
            Ret (case r of Inl _ \<Rightarrow> xs | Inr _ \<Rightarrow> sp # xs, c2, w2))))"

text \<open>No goroutine stalls for more than three minutes.\<close>

fun prompt :: "client_event \<Rightarrow> bool" where
  "prompt (Handle a b cmd) \<longleftrightarrow> a \<le> b \<and> b \<le> a + 180"
| "prompt (Tick n) \<longleftrightarrow> True"

text \<open>A request is spent when its id is in the cache, stored within a minute of its timestamp, or when it is too old for
  everything that is still to come.\<close>

definition spent :: "string \<Rightarrow> int \<Rightarrow> client_event list \<Rightarrow> node_client \<Rightarrow> bool" where
  "spent rid ts es c \<longleftrightarrow>
     (\<exists>a. gget (nc_cmdIDCache c) rid = Some a \<and> \<bar>ts - a\<bar> \<le> 60) \<or> (\<forall>a b cmd. Handle a b cmd \<in> set es \<longrightarrow> ts + 60 < a)"

lemma run_command_cache:
  assumes "run_command lib wl rnd h now cmdID sp c w = Ret (r, c', w')"
  shows "nc_cmdIDCache c' = (if gget (nc_cmdIDCache c) (scp_RequestId sp) = None then gput (scp_RequestId sp) now (nc_cmdIDCache c) else nc_cmdIDCache c)"
    and "gget (nc_cmdIDCache c) (scp_RequestId sp) \<noteq> None \<Longrightarrow> r = Inl RequestReplayed"
  using assms by (auto simp: run_command_def LoadOrStore_def split: prod.splits option.splits if_splits bool.splits)

lemma spent_later: "spent rid ts (e # es) c \<Longrightarrow> spent rid ts es c"
  by (auto simp: spent_def)

lemma spent_tick:
  assumes "spent rid ts (Tick n # es) c" and "gwf (nc_cmdIDCache c)" and "\<forall>e \<in> set es. n \<le> event_time e \<and> prompt e"
  shows "spent rid ts es (replayCacheCleanup n c)"
proof (cases "\<exists>a. gget (nc_cmdIDCache c) rid = Some a \<and> \<bar>ts - a\<bar> \<le> 60")
  case True
  then obtain a where a: "gget (nc_cmdIDCache c) rid = Some a" "\<bar>ts - a\<bar> \<le> 60" by blast
  show ?thesis
  proof (cases "n - a > 300")
    case True
    have "ts + 60 < a'" if "Handle a' b cmd \<in> set es" for a' b cmd
      using assms(3) that True a(2) by fastforce
    then show ?thesis by (auto simp: spent_def)
  next
    case False
    then show ?thesis using a assms(2) by (auto simp: spent_def replayCacheCleanup_def CommandIDCacheExpirySeconds_def)
  qed
next
  case False
  then have "\<forall>a b cmd. Handle a b cmd \<in> set es \<longrightarrow> ts + 60 < a" using assms(1) unfolding spent_def by (meson list.set_intros(2))
  then show ?thesis unfolding spent_def by blast
qed

lemma spent_handle:
  assumes "spent rid ts (Handle a b cmd # es) c" and "check_command lib wl a cmd c = Inr sp"
    and "run_command lib wl rnd h a cmdID sp c w = Ret (r, c', w')"
  shows "spent rid ts es c'" and "\<not> isl r \<Longrightarrow> (scp_RequestId sp, scp_Timestamp sp) \<noteq> (rid, ts)"
proof -
  have ts: "a - 60 \<le> scp_Timestamp sp" "scp_Timestamp sp \<le> a + 60" using check_command_Inr [OF assms(2)] by auto
  show "spent rid ts es c'" using assms(1) run_command_cache(1) [OF assms(3)] by (auto simp: spent_def)
  show "(scp_RequestId sp, scp_Timestamp sp) \<noteq> (rid, ts)" if "\<not> isl r"
  proof
    assume eq: "(scp_RequestId sp, scp_Timestamp sp) = (rid, ts)"
    have "gget (nc_cmdIDCache c) (scp_RequestId sp) = None" using that run_command_cache(2) [OF assms(3)] by fastforce
    then have "gget (nc_cmdIDCache c) rid = None" using eq by simp
    then have "ts + 60 < a" using assms(1) unfolding spent_def by (metis list.set_intros(1) option.distinct(1))
    then show False using eq ts by simp
  qed
qed

lemma gwf_run_command: "run_command lib wl rnd h now cmdID sp c w = Ret (r, c', w') \<Longrightarrow> gwf (nc_cmdIDCache c) \<Longrightarrow> gwf (nc_cmdIDCache c')"
  using run_command_cache(1) by fastforce

lemma spent_never_again:
  assumes "client_run lib wl rnd h es c w = Ret (xs, c', w')" and "spent rid ts es c" and "gwf (nc_cmdIDCache c)"
    and "sorted (map event_time es)" and "\<forall>e \<in> set es. prompt e"
  shows "(rid, ts) \<notin> (\<lambda>sp. (scp_RequestId sp, scp_Timestamp sp)) ` set xs"
  using assms
proof (induction lib wl rnd h es c w arbitrary: xs c' w' rule: client_run.induct)
  case (2 lib wl rnd h n es c w)
  have "spent rid ts es (replayCacheCleanup n c)" using 2 by (intro spent_tick) auto
  then show ?case using 2 by (auto simp: replayCacheCleanup_def)
next
  case (3 lib wl rnd h a b cmd es c w)
  show ?case
  proof (cases "check_command lib wl a cmd c")
    case (Inl e)
    then show ?thesis using 3(1) [OF Inl] 3(3-7) spent_later [OF 3(4)] by simp
  next
    case (Inr sp)
    with 3(3) obtain r c1 w1 ys where r: "run_command lib wl rnd h a (cmd_Id cmd) sp c w = Ret (r, c1, w1)"
      and ys: "client_run lib wl rnd h es c1 w1 = Ret (ys, c', w')" and xs: "xs = (case r of Inl _ \<Rightarrow> ys | Inr _ \<Rightarrow> sp # ys)"
      by (auto simp: split: prod.splits)
    have "(rid, ts) \<notin> (\<lambda>sp. (scp_RequestId sp, scp_Timestamp sp)) ` set ys"
      using 3(2) [OF Inr ys] spent_handle(1) [OF 3(4) Inr r] gwf_run_command [OF r 3(5)] 3(6,7) by auto
    then show ?thesis using spent_handle(2) [OF 3(4) Inr r] xs by (cases r) auto
  qed
qed simp


section \<open>What is sent is encrypted\<close>

definition alerts_ok :: "node_client \<Rightarrow> bool" where
  "alerts_ok c \<longleftrightarrow> length (nc_alertCh c) \<le> 100 \<and> (\<forall>a \<in> set (nc_alertCh c). a_Encrypted a \<noteq> None)"


section \<open>Identity and connection\<close>

text \<open>(C39) A key that cannot be read, because its passphrase is wrong or missing, is not an error: the node makes a new identity and
  writes it over the old one. The old key and its certificate are gone.\<close>

theorem unreadable_key_is_replaced:
  assumes "LoadIdentity env (nc_storage c) = Ret (Inl e)" and "st_writable (nc_storage c)" and "\<not> st_UsePassphrase (nc_storage c)"
    and "cl_marshalPKCS8 (fl_crypto (se_lib env)) (se_newKey env) = Some b" and "se_uuid env \<noteq> []"
  shows "\<exists>c'. EnsureIdentity env ca c = Ret (None, c') \<and> nc_nodeID c' = se_uuid env \<and>
    gget (st_files (nc_storage c')) ''node.key'' = Some (cl_pemEncode (fl_crypto (se_lib env)) ''PRIVATE KEY'' b) \<and>
    gget (st_files (nc_storage c')) ''node_id'' = Some (se_uuid env) \<and> gget (st_files (nc_storage c')) ''node.crt'' = None"
proof -
  define st where "st = remove_file ''node.crt'' (nc_storage c\<lparr>st_files := gdel ''node.crt'' (gput ''node.key''
    (cl_pemEncode (fl_crypto (se_lib env)) ''PRIVATE KEY'' b) (gput ''node_id'' (se_uuid env) (st_files (nc_storage c))))\<rparr>)"
  define idn where "idn = \<lparr>id_NodeID = se_uuid env, id_PrivateKey = Some (se_newKey env), id_CertPEM = [], id_ViewerPubKey = None\<rparr>"
  have "GenerateNewIdentity env (nc_storage c) = (Inr idn, st)"
    using assms(2-5)
    by (simp add: GenerateNewIdentity_def SaveIdentity_def then_write_def write_file_def save_key_def st_def idn_def remove_file_def)
  then have "EnsureIdentity env ca c = Ret (None,
      let c1 = c\<lparr>nc_storage := st, nc_nodeID := id_NodeID idn, nc_privateKey := id_PrivateKey idn\<rparr>; caPEM = file_or_empty ''ca.crt'' st
      in if caPEM \<noteq> [] then snd (SetCACert ca caPEM c1) else c1)"
    by (simp add: EnsureIdentity_def assms(1) Let_def)
  moreover have "nc_storage (snd (SetCACert ca p d)) = nc_storage d \<and> nc_nodeID (snd (SetCACert ca p d)) = nc_nodeID d" for p d
    by (simp add: SetCACert_def split: option.split)
  ultimately show ?thesis using assms(2) by (simp add: Let_def st_def remove_file_def idn_def)
qed

text \<open>After its registration a node is to connect again with its new certificate. The connection it registered on is still open and
  is used again: the stream of commands runs under the certificate that was made up for the registration.\<close>

lemma load_key_other:
  assumes "n \<noteq> ''node.key''"
  shows "load_key env (st\<lparr>st_files := gput n b (st_files st)\<rparr>) = load_key env st"
proof -
  define st' where "st' = st\<lparr>st_files := gput n b (st_files st)\<rparr>"
  have "getPassphrase env st' = getPassphrase env st" "LoadEncryptedKey env ''node.key'' st' = LoadEncryptedKey env ''node.key'' st"
    using assms by (simp_all add: LoadEncryptedKey_def getPassphrase_def st'_def)
  then have "load_decrypted env ''node.key'' st' = load_decrypted env ''node.key'' st"
    by (simp add: load_decrypted_def split: sum.split)
  moreover have "IsEncryptedKeyFile env ''node.key'' st' = IsEncryptedKeyFile env ''node.key'' st"
    using assms by (simp add: IsEncryptedKeyFile_def st'_def)
  moreover have "gget (st_files st') ''node.key'' = gget (st_files st) ''node.key''" using assms by (simp add: st'_def)
  ultimately show ?thesis by (simp add: load_key_def flip: st'_def split: option.split)
qed

lemma registered_identity:
  assumes "LoadIdentity env st = Ret (Inr idn)"
  shows "LoadIdentity env (st\<lparr>st_files := gput ''node.crt'' cert (st_files st)\<rparr>) = Ret (Inr (idn\<lparr>id_CertPEM := cert\<rparr>))"
    and "LoadIdentity env (st\<lparr>st_files := gput ''ca.crt'' cert (st_files st)\<rparr>) = Ret (Inr idn)"
proof -
  obtain key where k: "load_key env st = Ret (Inr key)" and idn: "idn =
      \<lparr>id_NodeID = file_or_empty ''node_id'' st, id_PrivateKey = key, id_CertPEM = file_or_empty ''node.crt'' st,
       id_ViewerPubKey = (case gget (st_files st) ''viewer.pub'' of None \<Rightarrow> None | Some b \<Rightarrow> if length b = 32 then Some b else None)\<rparr>"
  proof (cases "load_key env st")
    case (Ret r)
    then show ?thesis using assms that by (cases r) (auto simp: LoadIdentity_def)
  qed (use assms in \<open>simp_all add: LoadIdentity_def\<close>)
  show "LoadIdentity env (st\<lparr>st_files := gput ''node.crt'' cert (st_files st)\<rparr>) = Ret (Inr (idn\<lparr>id_CertPEM := cert\<rparr>))"
    and "LoadIdentity env (st\<lparr>st_files := gput ''ca.crt'' cert (st_files st)\<rparr>) = Ret (Inr idn)"
    by (simp_all add: LoadIdentity_def load_key_other k idn file_or_empty_def)
qed

theorem registration_keeps_made_up_certificate:
  assumes "nc_conn c = None" and "nc_hubAddr c \<noteq> []" and "LoadIdentity env (nc_storage c) = Ret (Inr idn)"
    and "id_PrivateKey idn \<noteq> None" and "id_CertPEM idn = []" and "st_writable (nc_storage c)" and "certPem \<noteq> []"
  shows "\<exists>c'. connect env ca certs (RegApproved certPem caPem # rest) c = Ret (Streaming None, c') \<and>
    gget (st_files (nc_storage c')) ''node.crt'' = Some certPem"
proof -
  have ens: "\<exists>c1. EnsureIdentity env ca c = Ret (None, c1) \<and> nc_storage c1 = nc_storage c \<and> nc_conn c1 = nc_conn c \<and> nc_hubAddr c1 = nc_hubAddr c"
    if "LoadIdentity env (nc_storage c) = Ret (Inr i)" "id_PrivateKey i \<noteq> None" for c i
    using that by (auto simp: EnsureIdentity_def Let_def SetCACert_def split: option.splits)
  obtain c1 where c1: "EnsureIdentity env ca c = Ret (None, c1)" "nc_storage c1 = nc_storage c" "nc_conn c1 = None" "nc_hubAddr c1 \<noteq> []"
    using ens [OF assms(3,4)] assms(1,2) by metis
  define c2 where "c2 = c1\<lparr>nc_conn := Some (Idle, None)\<rparr>"
  have o: "open_conn env certs c1 = Ret (True, c2)"
    using c1 assms(3,5) by (simp add: open_conn_def client_cert_def c2_def)
  obtain c3 where c3: "doRegistration ca (RegApproved certPem caPem) c2 = (True, c3)" "nc_conn c3 = Some (Idle, None)"
    "LoadIdentity env (nc_storage c3) = Ret (Inr (idn\<lparr>id_CertPEM := certPem\<rparr>))"
    "gget (st_files (nc_storage c3)) ''node.crt'' = Some certPem"
    using registered_identity [OF assms(3)] registered_identity [OF registered_identity(1) [OF assms(3)]] assms(6) c1(2)
    by (auto simp: doRegistration_def SaveCertificate_def SaveCACertificate_def write_file_def c2_def Let_def SetCACert_def split: option.splits)
  define c4 where "c4 = c3\<lparr>nc_conn := Some (Ready, None)\<rparr>"
  have "connect env ca certs (RegApproved certPem caPem # rest) c = connect env ca certs rest c4"
    using c1 o assms(3,5) c3 by (simp add: connect.simps [of env ca certs "_ # _"] c2_def c4_def)
  moreover obtain c5 where c5: "EnsureIdentity env ca c4 = Ret (None, c5)" "nc_storage c5 = nc_storage c4" "nc_conn c5 = Some (Ready, None)"
    using ens [of c4 "idn\<lparr>id_CertPEM := certPem\<rparr>"] c3(3) assms(4) by (auto simp: c4_def)
  moreover have "open_conn env certs c5 = Ret (True, c5)" using c5 c3(3) by (simp add: open_conn_def usable_def c4_def)
  ultimately show ?thesis using c3(3,4) assms(7) by (simp add: connect.simps [of env ca certs rest] c4_def)
qed

section \<open>A concrete instance\<close>

definition demo_wire :: wire_lib where
  "demo_wire =
     \<lparr>wl_secure = \<lambda>m. Some \<lparr>scp_RequestId = take 1 m, scp_Timestamp = 100, scp_Data = drop 1 m\<rparr>, wl_inner = \<lambda>d. Some (1, d),
      wl_result = \<lambda>r. Some (cr_Status r), wl_metrics = \<lambda>m. Some []\<rparr>"

definition demo_client :: node_client where
  "demo_client =
     (NewClient ''hub:443'' False (NewStorage [] True))\<lparr>nc_nodeID := ''node-1'', nc_caPubKey := Some (ed_Public demo_key),
       nc_viewerPubKey := Some (ed_Public demo_key), nc_privateKey := Some demo_key\<rparr>"

definition demo_command :: Command where
  "demo_command = \<lparr>cmd_Id = ''c1'', cmd_Encrypted = Some (from_envelope (demo_message ''aGO''))\<rparr>"

definition demo_sp :: SecureCommandPayload where
  "demo_sp = \<lparr>scp_RequestId = ''a'', scp_Timestamp = 100, scp_Data = ''GO''\<rparr>"

definition count_handler :: "nat command_handler" where
  "count_handler ty payload w = Ret ((''OK'', [], payload), Suc w)"

lemma to_from_envelope [simp]: "to_envelope (from_envelope v) = v"
  by (cases v) (simp add: to_envelope_def from_envelope_def)

lemma demo_verify: "VerifySignature demo_crypto (Some (demo_message m)) (ed_Public demo_key) = None"
  using demo_lengths by (simp add: VerifySignature_def Verify_def demo_message_def Let_def demo_crypto_def)

lemma demo_check_any:
  assumes "nc_privateKey c = Some demo_key" and "nc_caPubKey c = Some (ed_Public demo_key)" and "40 \<le> now" and "now \<le> 160"
  shows "check_command demo_crypto demo_wire now demo_command c = Inr demo_sp"
proof -
  have "ep_senderFingerprint (from_envelope (demo_message m)) \<noteq> []" for m
    by (simp add: from_envelope_def demo_message_def Let_def)
  moreover have "wl_secure demo_wire ''aGO'' = Some demo_sp" by (simp add: demo_wire_def demo_sp_def)
  moreover have "scp_Timestamp demo_sp = 100" by (simp add: demo_sp_def)
  ultimately show ?thesis
    using assms by (simp add: check_command_def demo_command_def demo_verify demo_decrypt Let_def)
qed

lemma demo_check: "40 \<le> now \<Longrightarrow> now \<le> 160 \<Longrightarrow> check_command demo_crypto demo_wire now demo_command demo_client = Inr demo_sp"
  by (rule demo_check_any) (simp_all add: demo_client_def NewClient_def)

lemma demo_executed:
  "\<exists>resp c'. handleCommand demo_crypto demo_wire rnd (Some count_handler) 100 demo_command demo_client 0 = Ret (Inr resp, c', 1)"
proof -
  have "handleCommand demo_crypto demo_wire rnd (Some count_handler) 100 demo_command demo_client 0 =
    run_command demo_crypto demo_wire rnd (Some count_handler) 100 (cmd_Id demo_command) demo_sp demo_client 0"
    by (simp add: handleCommand_def demo_check)
  moreover have "wl_inner demo_wire (scp_Data demo_sp) = Some (1, ''GO'')" by (simp add: demo_wire_def demo_sp_def)
  ultimately show ?thesis
    by (simp add: run_command_def LoadOrStore_def demo_client_def NewClient_def count_handler_def)
qed




text \<open>A directory whose key is under a passphrase, read without one.\<close>

definition locked_client :: node_client where
  "locked_client = NewClient ''hub:443'' False (demo_directory\<lparr>st_UsePassphrase := False, st_Passphrase := []\<rparr>)"

theorem unreadable_key_is_replaced_witness:
  "\<exists>c'. EnsureIdentity demo_store_env (\<lambda>_. None) locked_client = Ret (None, c') \<and> nc_nodeID c' = ''fresh'' \<and>
     gget (st_files (nc_storage c')) ''node.crt'' = None"
proof -
  have "LoadIdentity demo_store_env (nc_storage locked_client) = Ret (Inl NoPassphrase)"
    by (simp add: locked_client_def NewClient_def demo_directory_def SaveIdentity_def demo_identity_def SetPassphrase_def NewStorage_def
        then_write_def write_file_def save_key_def demo_store_env_def demo_files_def demo_lengths getPassphrase_def EncryptKey_def Let_def
        SaveEncryptedKey_def LoadIdentity_def load_key_def IsEncryptedKeyFile_def demo_unjson_text load_decrypted_def LoadEncryptedKey_def)
  moreover have "st_writable (nc_storage locked_client)" "\<not> st_UsePassphrase (nc_storage locked_client)"
    by (simp_all add: locked_client_def NewClient_def demo_directory_def SaveIdentity_def demo_identity_def SetPassphrase_def NewStorage_def
        then_write_def write_file_def save_key_def demo_store_env_def demo_files_def demo_lengths getPassphrase_def EncryptKey_def Let_def
        SaveEncryptedKey_def)
  ultimately show ?thesis
    using unreadable_key_is_replaced [of demo_store_env locked_client NoPassphrase "CHR ''k'' # se_newKey demo_store_env"]
    by (auto simp: demo_store_env_def demo_files_def)
qed

theorem registration_keeps_made_up_certificate_witness:
  "\<exists>c'. connect demo_store_env (\<lambda>_. None) (\<lambda>_. True) [RegApproved ''cert'' []]
     (NewClient ''hub:443'' False (demo_directory\<lparr>st_files := gput ''node.crt'' [] (st_files demo_directory)\<rparr>)) = Ret (Streaming None, c')"
proof -
  have "LoadIdentity demo_store_env demo_directory = Ret (Inr demo_identity)"
    using identity_loads [OF _ _ demo_saved] demo_store_laws by (simp add: demo_store_env_def demo_identity_def)
  note l = registered_identity(1) [OF this, of "[]"]
  have "st_writable demo_directory"
    by (simp add: demo_directory_def SaveIdentity_def demo_identity_def SetPassphrase_def NewStorage_def
        then_write_def write_file_def save_key_def demo_store_env_def demo_files_def demo_lengths getPassphrase_def EncryptKey_def Let_def
        SaveEncryptedKey_def)
  then show ?thesis
    using registration_keeps_made_up_certificate [of
        "NewClient ''hub:443'' False (demo_directory\<lparr>st_files := gput ''node.crt'' [] (st_files demo_directory)\<rparr>)" demo_store_env
        "demo_identity\<lparr>id_CertPEM := []\<rparr>" "''cert''" "\<lambda>_. None" "\<lambda>_. True" "[]" "[]"] l
    by (auto simp: NewClient_def demo_identity_def)
qed

end
