(* ===== verification/Node_Commands.thy ===== *)
theory Node_Commands
  imports Node_Client Proxy_Lifecycle
begin

text \<open>
  \<^verbatim>\<open>cmd/nitellad/hub.go\<close>: what the daemon does with a command of its owner, on top of the proxy manager.
  \<^item> The requests are read by the fields of \<open>command_wire\<close> (protocol buffers, YAML); a reply is a value of \<open>node_reply\<close>,
    which the same record writes out.
  \<^item> The configurations applied from the hub are the map \<open>dn_applied\<close>, written to a file after every change.
  \<^item> The manager always has a store of global rules, so that the fallback of the quick actions is not reached. The calls of
    the GeoIP service are the argument \<open>cw_geo\<close>.
  \<^item> Fresh ids of several proxies are \<open>ce_ids\<close>, by entry point.
\<close>

section \<open>State\<close>

record AppliedProxy =
  ap_ProxyID :: string
  ap_RevisionNum :: int
  ap_AppliedAt :: gotime
  ap_Status :: string
  ap_ListenerIDs :: "string list"

record ('c, 'd) daemon =
  dn_pm :: "('c, 'd) ProxyManager"
  dn_applied :: "(string, AppliedProxy) gomap"
  dn_appliedFile :: "(string, AppliedProxy) gomap option"
  dn_writable :: bool

definition saveAppliedProxies :: "('c, 'd) daemon \<Rightarrow> ('c, 'd) daemon" where
  "saveAppliedProxies d = (if dn_writable d then d\<lparr>dn_appliedFile := Some (dn_applied d)\<rparr> else d)"

definition loadAppliedProxies :: "('c, 'd) daemon \<Rightarrow> ('c, 'd) daemon" where
  "loadAppliedProxies d =
     (case dn_appliedFile d of
        None \<Rightarrow> d
      | Some f \<Rightarrow> d\<lparr>dn_applied := fold (\<lambda>(k, v). gput k v) f (dn_applied d)\<rparr>)"

section \<open>Requests and replies\<close>

record yaml_service =
  ys_Address :: string
  ys_Servers :: "(string \<times> string) list option"

record yaml_router =
  yr_EntryPoints :: "string list"
  yr_Service :: string

record YAMLConfig =
  yc_EntryPoints :: "(string, EntryPoint) gomap"
  yc_Routers :: "(string, yaml_router) gomap"
  yc_Services :: "(string, yaml_service) gomap"

record ApplyProxyRequest =
  apr_ProxyId :: string
  apr_RevisionNum :: int
  apr_ConfigYaml :: string

record ResolveApprovalRequest =
  rq_ReqId :: string
  rq_Allow :: bool
  rq_RetentionMode :: ApprovalRetentionMode
  rq_DurationSeconds :: int
  rq_Reason :: string

record StatsSummary =
  ss_TotalConnections :: int
  ss_ActiveConnections :: int
  ss_BytesIn :: int
  ss_BytesOut :: int
  ss_ProxyCount :: int

datatype cmd_error =
  BadRequest | ManagerFailed manager_error | ConnIdRequired | ProxyIdRequired | NoApprovalManager | NoPendingApproval | BadYAML
| NoListener manager_error | EmptyAddress | BadCIDR | BadIP | UnknownCommand | GeoFailed

datatype node_reply =
    RNone
  | RStats StatsSummary
  | RProxies "ProxyStatus list"
  | RRules "Rule list"
  | RRule Rule
  | RConnections "ConnectionMetadata list"
  | RSuccess
  | RFailure string
  | RManager "manager_error option"
  | RCreated "manager_error + string"
  | RStatus ProxyStatus
  | RApplied "AppliedProxy list"
  | RCount int
  | RGlobalRules "GlobalRule list"
  | RApprovals "ApprovalEntry list"
  | RClosed int
  | RGeo string

record command_wire =
  cw_id :: "string \<Rightarrow> string option"
  cw_addRule :: "string \<Rightarrow> (string \<times> Rule option) option"
  cw_pair :: "string \<Rightarrow> (string \<times> string) option"
  cw_apply :: "string \<Rightarrow> ApplyProxyRequest option"
  cw_create :: "string \<Rightarrow> CreateProxyRequest option"
  cw_update :: "string \<Rightarrow> UpdateProxyRequest option"
  cw_resolve :: "string \<Rightarrow> ResolveApprovalRequest option"
  cw_rules :: "string \<Rightarrow> Rule list option"
  cw_address :: "string \<Rightarrow> (string \<times> int) option"
  cw_cancel :: "string \<Rightarrow> (string \<times> bool) option"
  cw_yaml :: "string \<Rightarrow> YAMLConfig option"
  cw_geo :: "int \<Rightarrow> string \<Rightarrow> string option"
  cw_reply :: "node_reply \<Rightarrow> string"
  cw_error :: "cmd_error \<Rightarrow> string"

record ('c, 'd) command_env =
  ce_node :: "('c, 'd) node_env"
  ce_wire :: command_wire
  ce_ids :: "string \<Rightarrow> string"
  ce_mem :: counter_mem

section \<open>Queries\<close>

definition sum64 :: "('a \<Rightarrow> int) \<Rightarrow> 'a list \<Rightarrow> int" where
  "sum64 f xs = fold (\<lambda>x acc. wrap64 (acc + f x)) xs 0"

definition getStatus :: "('c, 'd) node_env \<Rightarrow> ('c, 'd) ProxyManager \<Rightarrow> node_reply" where
  "getStatus env pm =
     (let statuses = pm_GetAllStatuses env pm
      in RStats \<lparr>ss_TotalConnections = sum64 st_TotalConnections statuses, ss_ActiveConnections = 0,
                 ss_BytesIn = sum64 st_BytesIn statuses, ss_BytesOut = sum64 st_BytesOut statuses, ss_ProxyCount = 0\<rparr>)"

definition getMetrics :: "('c, 'd) node_env \<Rightarrow> ('c, 'd) ProxyManager \<Rightarrow> node_reply" where
  "getMetrics env pm =
     (let statuses = pm_GetAllStatuses env pm
      in RStats \<lparr>ss_TotalConnections = sum64 st_TotalConnections statuses, ss_ActiveConnections = sum64 st_ActiveConnections statuses,
                 ss_BytesIn = sum64 st_BytesIn statuses, ss_BytesOut = sum64 st_BytesOut statuses,
                 ss_ProxyCount = wrap32 (int (length statuses))\<rparr>)"

text \<open>The four counters the client sends as metrics.\<close>

definition metrics_provider :: "('c, 'd) node_env \<Rightarrow> ('c, 'd) ProxyManager \<Rightarrow> int \<times> int \<times> int \<times> int" where
  "metrics_provider env pm =
     (let statuses = pm_GetAllStatuses env pm
      in (sum64 st_ActiveConnections statuses, sum64 st_TotalConnections statuses, sum64 st_BytesIn statuses, sum64 st_BytesOut statuses))"

text \<open>The port of a connection is cut to 32 bits.\<close>

definition getConnections :: "('c, 'd) command_env \<Rightarrow> string \<Rightarrow> ('c, 'd) ProxyManager \<Rightarrow> cmd_error + node_reply" where
  "getConnections env params pm =
     (case cw_id (ce_wire env) params of
        None \<Rightarrow> Inl BadRequest
      | Some proxyId \<Rightarrow>
          Inr (RConnections (map (\<lambda>c. c\<lparr>cm_SourcePort := wrap32 (cm_SourcePort c), cm_StartTime := 0\<rparr>)
            (pm_GetActiveConnections (ce_node env) proxyId pm))))"

definition listRules :: "('c, 'd) command_env \<Rightarrow> string \<Rightarrow> ('c, 'd) ProxyManager \<Rightarrow> cmd_error + node_reply" where
  "listRules env params pm =
     (case cw_id (ce_wire env) params of
        None \<Rightarrow> Inl BadRequest
      | Some proxyId \<Rightarrow>
          (case pm_GetRules (ce_node env) proxyId pm of Inl e \<Rightarrow> Inl (ManagerFailed e) | Inr rs \<Rightarrow> Inr (RRules rs)))"

definition getAppliedProxies :: "('c, 'd) daemon \<Rightarrow> node_reply" where
  "getAppliedProxies d = RApplied (map snd (dn_applied d))"

section \<open>Rules and connections\<close>

definition on_pm :: "('a \<Rightarrow> cmd_error + node_reply) \<Rightarrow> 'a \<times> ('c, 'd) ProxyManager \<Rightarrow> ('c, 'd) daemon \<Rightarrow> (cmd_error + node_reply) \<times> ('c, 'd) daemon" where
  "on_pm f r d = (f (fst r), d\<lparr>dn_pm := snd r\<rparr>)"

text \<open>A request without a rule is not checked: the manager dereferences it once it has found the proxy.\<close>

definition addRule :: "('c, 'd) command_env \<Rightarrow> string \<Rightarrow> ('c, 'd) daemon \<Rightarrow> ((cmd_error + node_reply) \<times> ('c, 'd) daemon) outcome" where
  "addRule env params d =
     (case cw_addRule (ce_wire env) params of
        None \<Rightarrow> Ret (Inl BadRequest, d)
      | Some (proxyId, Some rule) \<Rightarrow>
          Ret (on_pm (\<lambda>r. case r of Inl e \<Rightarrow> Inl (ManagerFailed e) | Inr x \<Rightarrow> Inr (RRule x)) (pm_AddRule (ce_node env) proxyId rule (dn_pm d)) d)
      | Some (proxyId, None) \<Rightarrow>
          (if gget (pm_proxies (dn_pm d)) proxyId = None then Ret (Inl (ManagerFailed ProxyNotFound), d) else Panics))"

definition manager_done :: "node_reply \<Rightarrow> manager_error option \<Rightarrow> cmd_error + node_reply" where
  "manager_done ok err = (case err of None \<Rightarrow> Inr ok | Some e \<Rightarrow> Inl (ManagerFailed e))"

definition removeRule :: "('c, 'd) command_env \<Rightarrow> string \<Rightarrow> ('c, 'd) daemon \<Rightarrow> (cmd_error + node_reply) \<times> ('c, 'd) daemon" where
  "removeRule env params d =
     (case cw_pair (ce_wire env) params of
        None \<Rightarrow> (Inl BadRequest, d)
      | Some (proxyId, ruleId) \<Rightarrow> on_pm (manager_done RNone) (pm_RemoveRule (ce_node env) proxyId ruleId (dn_pm d)) d)"

definition closeConnection :: "('c, 'd) command_env \<Rightarrow> string \<Rightarrow> ('c, 'd) daemon \<Rightarrow> (cmd_error + node_reply) \<times> ('c, 'd) daemon" where
  "closeConnection env params d =
     (case cw_pair (ce_wire env) params of
        None \<Rightarrow> (Inl BadRequest, d)
      | Some (proxyId, connId) \<Rightarrow>
          (if connId = [] then (Inl ConnIdRequired, d)
           else on_pm (manager_done RSuccess) (pm_CloseConnection (ce_node env) proxyId connId (dn_pm d)) d))"

definition closeAllConnections :: "('c, 'd) command_env \<Rightarrow> string \<Rightarrow> ('c, 'd) daemon \<Rightarrow> (cmd_error + node_reply) \<times> ('c, 'd) daemon" where
  "closeAllConnections env params d =
     (case cw_id (ce_wire env) params of
        None \<Rightarrow> (Inl BadRequest, d)
      | Some proxyId \<Rightarrow> on_pm (manager_done RSuccess) (pm_CloseAllConnections (ce_node env) proxyId (dn_pm d)) d)"

section \<open>Configurations applied from the hub\<close>

definition applied_entry :: "string \<Rightarrow> int \<Rightarrow> gotime \<Rightarrow> string list \<Rightarrow> AppliedProxy" where
  "applied_entry proxyID revNum now ids =
     \<lparr>ap_ProxyID = proxyID, ap_RevisionNum = revNum, ap_AppliedAt = now, ap_Status = ''active'', ap_ListenerIDs = ids\<rparr>"

definition applyProxy :: "('c, 'd) command_env \<Rightarrow> string \<Rightarrow> ('c, 'd) daemon \<Rightarrow> ((cmd_error + node_reply) \<times> ('c, 'd) daemon) outcome" where
  "applyProxy env params d =
     (case cw_create (ce_wire env) params of
        None \<Rightarrow> Ret (Inl BadRequest, d)
      | Some req \<Rightarrow>
          obind (CreateProxy (ce_node env) req (dn_pm d)) (\<lambda>(r, pm').
            let d1 = d\<lparr>dn_pm := pm'\<rparr> in
            case r of
              Inl e \<Rightarrow> Ret (Inl (ManagerFailed e), d1)
            | Inr pid \<Rightarrow>
                Ret (Inr (RStatus (zero_status\<lparr>st_ProxyId := pid, st_Running := True, st_ListenAddr := cr_ListenAddr req,
                       st_DefaultBackend := cr_DefaultBackend req, st_DefaultAction := cr_DefaultAction req, st_DefaultMock := cr_DefaultMock req,
                       st_FallbackAction := cr_FallbackAction req, st_FallbackMock := cr_FallbackMock req\<rparr>)),
                     saveAppliedProxies (d1\<lparr>dn_applied := gput pid (applied_entry pid 0 (ne_now (ce_node env)) [pid]) (dn_applied d1)\<rparr>))))"

text \<open>Removing listeners; errors of the manager are logged only.\<close>

fun remove_listeners :: "('c, 'd) node_env \<Rightarrow> string list \<Rightarrow> ('c, 'd) ProxyManager \<Rightarrow> ('c, 'd) ProxyManager outcome" where
  "remove_listeners env [] pm = Ret pm"
| "remove_listeners env (i # is) pm = obind (RemoveProxy env i pm) (remove_listeners env is)"

definition unapplyProxy :: "('c, 'd) command_env \<Rightarrow> string \<Rightarrow> ('c, 'd) daemon \<Rightarrow> ((cmd_error + node_reply) \<times> ('c, 'd) daemon) outcome" where
  "unapplyProxy env params d =
     (case cw_id (ce_wire env) params of
        None \<Rightarrow> Ret (Inl BadRequest, d)
      | Some proxyId \<Rightarrow>
          (if proxyId = [] then Ret (Inl ProxyIdRequired, d)
           else case gget (dn_applied d) proxyId of
                  None \<Rightarrow> Ret (Inr (RFailure ''proxy not applied''), d)
                | Some applied \<Rightarrow>
                    obind (remove_listeners (ce_node env) (ap_ListenerIDs applied) (dn_pm d)) (\<lambda>pm'.
                      Ret (Inr RSuccess, saveAppliedProxies (d\<lparr>dn_pm := pm', dn_applied := gdel proxyId (dn_applied d)\<rparr>)))))"

definition handleProxyUpdate :: "('c, 'd) command_env \<Rightarrow> string \<Rightarrow> ('c, 'd) daemon \<Rightarrow> (cmd_error + node_reply) \<times> ('c, 'd) daemon" where
  "handleProxyUpdate env params d =
     (case cw_update (ce_wire env) params of
        None \<Rightarrow> (Inl BadRequest, d)
      | Some req \<Rightarrow>
          (if up_ProxyId req = [] then (Inl ProxyIdRequired, d)
           else if gget (dn_applied d) (up_ProxyId req) = None then (Inr (RFailure ''proxy not applied on this node''), d)
           else (Inr RSuccess, d)))"

text \<open>The backend of an entry point: the first router that names it and whose service exists.\<close>

definition service_backend :: "yaml_service \<Rightarrow> string" where
  "service_backend svc =
     (case ys_Servers svc of
        Some ((address, url) # _) \<Rightarrow> if address \<noteq> [] then address else url
      | _ \<Rightarrow> ys_Address svc)"

definition entry_backend :: "YAMLConfig \<Rightarrow> string \<Rightarrow> EntryPoint \<Rightarrow> string" where
  "entry_backend cfg name ep =
     (case find (\<lambda>(_, router). name \<in> set (yr_EntryPoints router) \<and> yr_Service router \<noteq> [] \<and>
                               gget (yc_Services cfg) (yr_Service router) \<noteq> None) (yc_Routers cfg) of
        None \<Rightarrow> ep_DefaultBackend ep
      | Some (_, router) \<Rightarrow>
          (case gget (yc_Services cfg) (yr_Service router) of None \<Rightarrow> ep_DefaultBackend ep | Some svc \<Rightarrow> service_backend svc))"

definition ascii_lower :: "char \<Rightarrow> char" where
  "ascii_lower c = (let n = of_char c :: nat in if 65 \<le> n \<and> n \<le> 90 then char_of (n + 32) else c)"

text \<open>\<^verbatim>\<open>strings.ToLower\<close> on the words compared here, which are ASCII.\<close>

definition entry_action_of :: "string \<Rightarrow> ActionType" where
  "entry_action_of a =
     (let w = map ascii_lower a in
      if w = ''block'' then ACTION_TYPE_BLOCK
      else if w = ''mock'' then ACTION_TYPE_MOCK
      else if w = ''approval'' then ACTION_TYPE_REQUIRE_APPROVAL
      else ACTION_TYPE_ALLOW)"

definition entry_fallback_of :: "string \<Rightarrow> FallbackAction" where
  "entry_fallback_of a =
     (let w = map ascii_lower a in
      if w = ''mock'' then FALLBACK_ACTION_MOCK else if w = ''close'' then FALLBACK_ACTION_CLOSE else FALLBACK_ACTION_UNSPECIFIED)"

definition entry_request :: "YAMLConfig \<Rightarrow> string \<Rightarrow> string \<Rightarrow> EntryPoint \<Rightarrow> CreateProxyRequest" where
  "entry_request cfg proxyID name ep =
     \<lparr>cr_Name = take 8 proxyID @ ''-'' @ name, cr_ListenAddr = ep_Address ep, cr_DefaultBackend = entry_backend cfg name ep,
      cr_DefaultAction = entry_action_of (ep_DefaultAction ep), cr_DefaultMock = StringToMockPreset (ep_DefaultMock ep),
      cr_FallbackAction = entry_fallback_of (ep_FallbackAction ep), cr_FallbackMock = StringToMockPreset (ep_FallbackMock ep),
      cr_CertPem = [], cr_KeyPem = [], cr_CaPem = [], cr_ClientAuthType = CLIENT_AUTH_AUTO, cr_HealthCheck = None\<rparr>"

text \<open>The loop over the entry points: the slice of the first eight bytes panics on a shorter id.\<close>

fun apply_entries ::
  "('c, 'd) command_env \<Rightarrow> YAMLConfig \<Rightarrow> string \<Rightarrow> (string \<times> EntryPoint) list \<Rightarrow> ('c, 'd) ProxyManager \<Rightarrow>
   (string list \<times> manager_error option \<times> ('c, 'd) ProxyManager) outcome" where
  "apply_entries env cfg proxyID [] pm = Ret ([], None, pm)"
| "apply_entries env cfg proxyID ((name, ep) # es) pm =
     (if length proxyID < 8 then Panics
      else obind (CreateProxy ((ce_node env)\<lparr>ne_uuid := ce_ids env name\<rparr>) (entry_request cfg proxyID name ep) pm) (\<lambda>(r, pm1).
           obind (apply_entries env cfg proxyID es pm1) (\<lambda>(ids, lastError, pm2).
             Ret (case r of
                    Inl e \<Rightarrow> (ids, case lastError of None \<Rightarrow> Some e | Some e' \<Rightarrow> Some e', pm2)
                  | Inr pid \<Rightarrow> (pid # ids, lastError, pm2)))))"

definition applyProxyTemplate ::
  "('c, 'd) command_env \<Rightarrow> ApplyProxyRequest \<Rightarrow> ('c, 'd) daemon \<Rightarrow> ((cmd_error + node_reply) \<times> ('c, 'd) daemon) outcome" where
  "applyProxyTemplate env req d =
     (case cw_yaml (ce_wire env) (apr_ConfigYaml req) of
        None \<Rightarrow> Ret (Inl BadYAML, d)
      | Some cfg \<Rightarrow>
          (let proxyID = apr_ProxyId req;
               old = (case gget (dn_applied d) proxyID of None \<Rightarrow> [] | Some a \<Rightarrow> ap_ListenerIDs a)
           in obind (remove_listeners (ce_node env) old (dn_pm d)) (\<lambda>pm1.
              obind (apply_entries env cfg proxyID (yc_EntryPoints cfg) pm1) (\<lambda>(ids, lastError, pm2).
                if ids = [] \<and> lastError \<noteq> None then Ret (Inl (NoListener (the lastError)), d\<lparr>dn_pm := pm2\<rparr>)
                else Ret (Inr RSuccess, saveAppliedProxies (d\<lparr>dn_pm := pm2,
                       dn_applied := gput proxyID (applied_entry proxyID (apr_RevisionNum req) (ne_now (ce_node env)) ids) (dn_applied d)\<rparr>))))))"

section \<open>The life of a proxy\<close>

definition createProxy :: "('c, 'd) command_env \<Rightarrow> string \<Rightarrow> ('c, 'd) daemon \<Rightarrow> ((cmd_error + node_reply) \<times> ('c, 'd) daemon) outcome" where
  "createProxy env params d =
     (case cw_create (ce_wire env) params of
        None \<Rightarrow> Ret (Inl BadRequest, d)
      | Some req \<Rightarrow> obind (CreateProxy (ce_node env) req (dn_pm d)) (\<lambda>r. Ret (on_pm (\<lambda>x. Inr (RCreated x)) r d)))"

text \<open>The manager reports its failures in the reply, not as an error, and \<^verbatim>\<open>deleteProxy\<close> looks at the error only.\<close>

definition deleteProxy :: "('c, 'd) command_env \<Rightarrow> string \<Rightarrow> ('c, 'd) daemon \<Rightarrow> ((cmd_error + node_reply) \<times> ('c, 'd) daemon) outcome" where
  "deleteProxy env params d =
     (case cw_id (ce_wire env) params of
        None \<Rightarrow> Ret (Inl BadRequest, d)
      | Some proxyId \<Rightarrow> obind (DisableProxy (ce_node env) proxyId (dn_pm d)) (\<lambda>r. Ret (on_pm (\<lambda>_. Inr RSuccess) r d)))"

definition enableProxy :: "('c, 'd) command_env \<Rightarrow> string \<Rightarrow> ('c, 'd) daemon \<Rightarrow> ((cmd_error + node_reply) \<times> ('c, 'd) daemon) outcome" where
  "enableProxy env params d =
     (case cw_id (ce_wire env) params of
        None \<Rightarrow> Ret (Inl BadRequest, d)
      | Some proxyId \<Rightarrow> obind (EnableProxy (ce_node env) proxyId (dn_pm d)) (\<lambda>r. Ret (on_pm (\<lambda>x. Inr (RManager x)) r d)))"

definition disableProxy :: "('c, 'd) command_env \<Rightarrow> string \<Rightarrow> ('c, 'd) daemon \<Rightarrow> ((cmd_error + node_reply) \<times> ('c, 'd) daemon) outcome" where
  "disableProxy env params d =
     (case cw_id (ce_wire env) params of
        None \<Rightarrow> Ret (Inl BadRequest, d)
      | Some proxyId \<Rightarrow> obind (DisableProxy (ce_node env) proxyId (dn_pm d)) (\<lambda>r. Ret (on_pm (\<lambda>x. Inr (RManager x)) r d)))"

definition updateProxy :: "('c, 'd) command_env \<Rightarrow> string \<Rightarrow> ('c, 'd) daemon \<Rightarrow> (cmd_error + node_reply) \<times> ('c, 'd) daemon" where
  "updateProxy env params d =
     (case cw_update (ce_wire env) params of
        None \<Rightarrow> (Inl BadRequest, d)
      | Some req \<Rightarrow> on_pm (\<lambda>x. Inr (RManager x)) (UpdateProxy (ce_node env) req (dn_pm d)) d)"

definition restartListeners :: "('c, 'd) command_env \<Rightarrow> ('c, 'd) daemon \<Rightarrow> ((cmd_error + node_reply) \<times> ('c, 'd) daemon) outcome" where
  "restartListeners env d =
     obind (RestartListeners (ce_node env) (dn_pm d)) (\<lambda>r. Ret (on_pm (\<lambda>n. Inr (RCount (wrap32 (int n)))) r d))"

definition reloadRules :: "('c, 'd) command_env \<Rightarrow> string \<Rightarrow> ('c, 'd) daemon \<Rightarrow> (cmd_error + node_reply) \<times> ('c, 'd) daemon" where
  "reloadRules env params d =
     (case cw_rules (ce_wire env) params of
        None \<Rightarrow> (Inl BadRequest, d)
      | Some newRules \<Rightarrow>
          (case fold (\<lambda>st (n, pm). case ReloadRules (ce_node env) (st_ProxyId st) newRules pm of
                                     (Inl _, pm') \<Rightarrow> (n, pm')
                                   | (Inr k, pm') \<Rightarrow> (wrap32 (n + k), pm'))
                  (pm_GetAllStatuses (ce_node env) (dn_pm d)) (0, dn_pm d) of
             (total_loaded, pm') \<Rightarrow> (Inr (RCount total_loaded), d\<lparr>dn_pm := pm'\<rparr>)))"

section \<open>Quick actions\<close>

definition validateIPOrCIDRHub :: "string \<Rightarrow> cmd_error option" where
  "validateIPOrCIDRHub input =
     (if input = [] then Some EmptyAddress
      else if CHR ''/'' \<in> set input then (if ParseCIDR input = None then Some BadCIDR else None)
      else if ParseIP input = None then Some BadIP
      else None)"

text \<open>Both quick actions, with the method of the store of global rules they call.\<close>

definition quick_action ::
  "(gotime \<Rightarrow> string \<Rightarrow> duration \<Rightarrow> GlobalRulesStore \<Rightarrow> string \<times> GlobalRulesStore) \<Rightarrow> ('c, 'd) command_env \<Rightarrow> string \<Rightarrow> ('c, 'd) daemon \<Rightarrow>
   (cmd_error + node_reply) \<times> ('c, 'd) daemon" where
  "quick_action act env params d =
     (case cw_address (ce_wire env) params of
        None \<Rightarrow> (Inl BadRequest, d)
      | Some (ip, durationSeconds) \<Rightarrow>
          (case validateIPOrCIDRHub ip of
             Some e \<Rightarrow> (Inl e, d)
           | None \<Rightarrow>
               (Inr RNone,
                d\<lparr>dn_pm := (dn_pm d)\<lparr>pm_GlobalRules :=
                   snd (act (ne_now (ce_node env)) ip (wrap64 (durationSeconds * second)) (pm_GlobalRules (dn_pm d)))\<rparr>\<rparr>)))"

definition blockIP :: "('c, 'd) command_env \<Rightarrow> string \<Rightarrow> ('c, 'd) daemon \<Rightarrow> (cmd_error + node_reply) \<times> ('c, 'd) daemon" where
  "blockIP env params d = quick_action BlockIP env params d"

definition allowIP :: "('c, 'd) command_env \<Rightarrow> string \<Rightarrow> ('c, 'd) daemon \<Rightarrow> (cmd_error + node_reply) \<times> ('c, 'd) daemon" where
  "allowIP env params d = quick_action AllowIP env params d"

definition listGlobalRules :: "('c, 'd) command_env \<Rightarrow> ('c, 'd) daemon \<Rightarrow> node_reply" where
  "listGlobalRules env d = RGlobalRules (gr_List (ne_now (ce_node env)) (pm_GlobalRules (dn_pm d)))"

definition removeGlobalRule :: "('c, 'd) command_env \<Rightarrow> string \<Rightarrow> ('c, 'd) daemon \<Rightarrow> (cmd_error + node_reply) \<times> ('c, 'd) daemon" where
  "removeGlobalRule env params d =
     (case cw_id (ce_wire env) params of
        None \<Rightarrow> (Inl BadRequest, d)
      | Some ruleId \<Rightarrow>
          (case gr_Remove ruleId (pm_GlobalRules (dn_pm d)) of
             (ok, g) \<Rightarrow> (Inr (if ok then RSuccess else RFailure ''Rule not found''), d\<lparr>dn_pm := (dn_pm d)\<lparr>pm_GlobalRules := g\<rparr>\<rparr>)))"

section \<open>Approvals\<close>

definition DefaultApprovalDurationSeconds :: int where
  "DefaultApprovalDurationSeconds = 300"

definition resolve_duration :: "ApprovalRetentionMode \<Rightarrow> int \<Rightarrow> int" where
  "resolve_duration mode secs =
     (let secs1 = (if mode = APPROVAL_RETENTION_MODE_CACHE \<and> secs \<le> 0 then DefaultApprovalDurationSeconds else secs)
      in if mode = APPROVAL_RETENTION_MODE_CONNECTION_ONLY \<and> secs1 < 0 then 0 else secs1)"

definition resolveApproval :: "('c, 'd) command_env \<Rightarrow> string \<Rightarrow> ('c, 'd) daemon \<Rightarrow> (cmd_error + node_reply) \<times> ('c, 'd) daemon" where
  "resolveApproval env params d =
     (case cw_resolve (ce_wire env) params of
        None \<Rightarrow> (Inl BadRequest, d)
      | Some req \<Rightarrow>
          (case pm_Approval (dn_pm d) of
             None \<Rightarrow> (Inl NoApprovalManager, d)
           | Some am \<Rightarrow>
               (let mode = (if rq_RetentionMode req = APPROVAL_RETENTION_MODE_UNSPECIFIED then APPROVAL_RETENTION_MODE_CACHE
                            else rq_RetentionMode req)
                in case ResolveWithRetention (rq_ReqId req) (rq_Allow req) (resolve_duration mode (rq_DurationSeconds req))
                          (rq_Reason req) mode am of
                     (meta, am') \<Rightarrow>
                       (if meta = None then Inl NoPendingApproval else Inr RSuccess,
                        d\<lparr>dn_pm := (dn_pm d)\<lparr>pm_Approval := Some am'\<rparr>\<rparr>))))"

text \<open>The filter of the list; \<open>params\<close> may be empty.\<close>

definition listActiveApprovals :: "('c, 'd) command_env \<Rightarrow> string \<Rightarrow> ('c, 'd) daemon \<Rightarrow> cmd_error + node_reply" where
  "listActiveApprovals env params d =
     (case pm_Approval (dn_pm d) of
        None \<Rightarrow> Inr (RApprovals [])
      | Some am \<Rightarrow>
          (case (if params = [] then Some ([], []) else cw_pair (ce_wire env) params) of
             None \<Rightarrow> Inl BadRequest
           | Some (proxyId, sourceIp) \<Rightarrow>
               Inr (RApprovals (filter (\<lambda>e. (proxyId = [] \<or> e_ProxyID e = proxyId) \<and> (sourceIp = [] \<or> e_SourceIP e = sourceIp))
                 (ac_GetActiveApprovals (ce_mem env) (ne_now (ce_node env)) (am_cache am))))))"

text \<open>The connections of a cancelled approval are closed one by one; the count is of those that could be.\<close>

fun close_each :: "('c, 'd) node_env \<Rightarrow> string \<Rightarrow> string list \<Rightarrow> ('c, 'd) ProxyManager \<Rightarrow> int \<times> ('c, 'd) ProxyManager" where
  "close_each env proxyID [] pm = (0, pm)"
| "close_each env proxyID (c # cs) pm =
     (case pm_CloseConnection env proxyID c pm of
        (err, pm1) \<Rightarrow>
          (case close_each env proxyID cs pm1 of
             (n, pm2) \<Rightarrow> (if err = None then wrap32 (n + 1) else n, pm2)))"

definition cancelApproval :: "('c, 'd) command_env \<Rightarrow> string \<Rightarrow> ('c, 'd) daemon \<Rightarrow> (cmd_error + node_reply) \<times> ('c, 'd) daemon" where
  "cancelApproval env params d =
     (case cw_cancel (ce_wire env) params of
        None \<Rightarrow> (Inl BadRequest, d)
      | Some (key, closeConnections) \<Rightarrow>
          (case pm_Approval (dn_pm d) of
             None \<Rightarrow> (Inr (RFailure ''Approval system not configured''), d)
           | Some am \<Rightarrow>
               (let parts = strings_Split (hd KeySeparator) key in
                if length parts < 2 then (Inr (RFailure ''Invalid approval key format''), d)
                else
                  (let sourceIP = parts ! 0; ruleID = parts ! 1; tls = (if length parts > 2 then parts ! 2 else []) in
                   case ac_GetEntry sourceIP ruleID tls (am_cache am) of
                     None \<Rightarrow> (Inr (RFailure ''Approval not found''), d)
                   | Some entry \<Rightarrow>
                       (case (if closeConnections then close_each (ce_node env) (e_ProxyID entry) (map fst (e_LiveConns entry)) (dn_pm d)
                              else (0, dn_pm d)) of
                          (n, pm1) \<Rightarrow>
                            (Inr (RClosed n),
                             d\<lparr>dn_pm := pm1\<lparr>pm_Approval :=
                                map_option (\<lambda>am. am\<lparr>am_cache := ac_Remove sourceIP ruleID tls (am_cache am)\<rparr>) (pm_Approval pm1)\<rparr>\<rparr>))))))"

section \<open>The dispatcher\<close>

text \<open>The names of the command types, \<^verbatim>\<open>api/hub/hub_common.proto\<close>.\<close>

definition CommandTypes :: "(int, string) gomap" where
  "CommandTypes =
     [(0, ''COMMAND_TYPE_UNSPECIFIED''), (2, ''COMMAND_TYPE_ADD_RULE''), (3, ''COMMAND_TYPE_REMOVE_RULE''),
      (4, ''COMMAND_TYPE_GET_ACTIVE_CONNECTIONS''), (5, ''COMMAND_TYPE_CLOSE_CONNECTION''), (6, ''COMMAND_TYPE_CLOSE_ALL_CONNECTIONS''),
      (7, ''COMMAND_TYPE_STATS_CONTROL''), (8, ''COMMAND_TYPE_LIST_PROXIES''), (9, ''COMMAND_TYPE_LIST_RULES''), (10, ''COMMAND_TYPE_STATUS''),
      (11, ''COMMAND_TYPE_GET_METRICS''), (20, ''COMMAND_TYPE_APPLY_PROXY''), (21, ''COMMAND_TYPE_UNAPPLY_PROXY''), (22, ''COMMAND_TYPE_GET_APPLIED''),
      (23, ''COMMAND_TYPE_PROXY_UPDATE''), (30, ''COMMAND_TYPE_RESOLVE_APPROVAL''), (40, ''COMMAND_TYPE_CREATE_PROXY''),
      (41, ''COMMAND_TYPE_DELETE_PROXY''), (42, ''COMMAND_TYPE_ENABLE_PROXY''), (43, ''COMMAND_TYPE_DISABLE_PROXY''),
      (44, ''COMMAND_TYPE_UPDATE_PROXY''), (45, ''COMMAND_TYPE_RESTART_LISTENERS''), (46, ''COMMAND_TYPE_RELOAD_RULES''),
      (50, ''COMMAND_TYPE_BLOCK_IP''), (51, ''COMMAND_TYPE_ALLOW_IP''), (52, ''COMMAND_TYPE_LIST_GLOBAL_RULES''),
      (53, ''COMMAND_TYPE_REMOVE_GLOBAL_RULE''), (60, ''COMMAND_TYPE_CONFIGURE_GEOIP''), (61, ''COMMAND_TYPE_GET_GEOIP_STATUS''),
      (62, ''COMMAND_TYPE_LOOKUP_IP''), (70, ''COMMAND_TYPE_LIST_ACTIVE_APPROVALS''), (71, ''COMMAND_TYPE_CANCEL_APPROVAL'')]"

definition geo_command :: "('c, 'd) command_env \<Rightarrow> int \<Rightarrow> string \<Rightarrow> cmd_error + node_reply" where
  "geo_command env n params = (case cw_geo (ce_wire env) n params of None \<Rightarrow> Inl GeoFailed | Some r \<Rightarrow> Inr (RGeo r))"

definition handleHubCommandInternal ::
  "('c, 'd) command_env \<Rightarrow> string \<Rightarrow> string \<Rightarrow> ('c, 'd) daemon \<Rightarrow> ((cmd_error + node_reply) \<times> ('c, 'd) daemon) outcome" where
  "handleHubCommandInternal env cmd params d =
     (let is = (\<lambda>a b. cmd = a \<or> cmd = b);
          only = (\<lambda>a. cmd = ''COMMAND_TYPE_'' @ a);
          query = (\<lambda>r. Ret (r, d))
      in
      if is ''COMMAND_TYPE_STATUS'' ''status'' then query (Inr (getStatus (ce_node env) (dn_pm d)))
      else if is ''COMMAND_TYPE_LIST_PROXIES'' ''list_proxies'' then query (Inr (RProxies (pm_GetAllStatuses (ce_node env) (dn_pm d))))
      else if is ''COMMAND_TYPE_LIST_RULES'' ''list_rules'' then query (listRules env params (dn_pm d))
      else if is ''COMMAND_TYPE_ADD_RULE'' ''add_rule'' then addRule env params d
      else if is ''COMMAND_TYPE_REMOVE_RULE'' ''remove_rule'' then Ret (removeRule env params d)
      else if is ''COMMAND_TYPE_GET_ACTIVE_CONNECTIONS'' ''get_connections'' then query (getConnections env params (dn_pm d))
      else if is ''COMMAND_TYPE_CLOSE_CONNECTION'' ''close_connection'' then Ret (closeConnection env params d)
      else if is ''COMMAND_TYPE_CLOSE_ALL_CONNECTIONS'' ''close_all_connections'' then Ret (closeAllConnections env params d)
      else if is ''COMMAND_TYPE_GET_METRICS'' ''get_metrics'' then query (Inr (getMetrics (ce_node env) (dn_pm d)))
      else if is ''COMMAND_TYPE_APPLY_PROXY'' ''apply_proxy'' then
        (case cw_apply (ce_wire env) params of Some req \<Rightarrow> applyProxyTemplate env req d | None \<Rightarrow> applyProxy env params d)
      else if is ''COMMAND_TYPE_UNAPPLY_PROXY'' ''unapply_proxy'' then unapplyProxy env params d
      else if is ''COMMAND_TYPE_GET_APPLIED'' ''get_applied'' then query (Inr (getAppliedProxies d))
      else if is ''COMMAND_TYPE_PROXY_UPDATE'' ''proxy_update'' then Ret (handleProxyUpdate env params d)
      else if is ''COMMAND_TYPE_RESOLVE_APPROVAL'' ''resolve_approval'' then Ret (resolveApproval env params d)
      else if only ''CREATE_PROXY'' then createProxy env params d
      else if only ''DELETE_PROXY'' then deleteProxy env params d
      else if only ''ENABLE_PROXY'' then enableProxy env params d
      else if only ''DISABLE_PROXY'' then disableProxy env params d
      else if only ''UPDATE_PROXY'' then Ret (updateProxy env params d)
      else if only ''RESTART_LISTENERS'' then restartListeners env d
      else if only ''RELOAD_RULES'' then Ret (reloadRules env params d)
      else if only ''BLOCK_IP'' then Ret (blockIP env params d)
      else if only ''ALLOW_IP'' then Ret (allowIP env params d)
      else if only ''LIST_GLOBAL_RULES'' then query (Inr (listGlobalRules env d))
      else if only ''REMOVE_GLOBAL_RULE'' then Ret (removeGlobalRule env params d)
      else if only ''CONFIGURE_GEOIP'' then query (geo_command env 60 params)
      else if only ''GET_GEOIP_STATUS'' then query (geo_command env 61 params)
      else if only ''LOOKUP_IP'' then query (geo_command env 62 params)
      else if only ''LIST_ACTIVE_APPROVALS'' then query (listActiveApprovals env params d)
      else if only ''CANCEL_APPROVAL'' then Ret (cancelApproval env params d)
      else query (Inl UnknownCommand))"

text \<open>A type without a name is written as a number, which is no command either.\<close>

definition HandleCommand :: "('c, 'd) command_env \<Rightarrow> ('c, 'd) daemon command_handler" where
  "HandleCommand env ty payload d =
     obind (handleHubCommandInternal env (case gget CommandTypes ty of None \<Rightarrow> ''?'' | Some n \<Rightarrow> n) payload d) (\<lambda>(r, d').
       Ret (case r of
              Inl e \<Rightarrow> (''ERROR'', cw_error (ce_wire env) e, [])
            | Inr x \<Rightarrow> (''OK'', [], cw_reply (ce_wire env) x), d'))"

section \<open>Applying configurations\<close>

lemma CreateProxy_Inl:
  assumes "CreateProxy env req m = Ret (Inl e, m')"
  shows "pm_proxies m' = pm_proxies m"
  using assms
  by (auto simp: CreateProxy_def CreateProxyWithID_def Let_def split: option.splits if_splits prod.splits)

lemma RemoveProxy_proxies:
  assumes "RemoveProxy env pid m = Ret m'"
  shows "gget (pm_proxies m') q = (if q = pid then None else gget (pm_proxies m) q)"
  using assms by (auto simp: RemoveProxy_def stop_health_def on_db_def Let_def split: option.splits)

lemma remove_listeners_proxies:
  "remove_listeners env is m = Ret m' \<Longrightarrow> gget (pm_proxies m') q = (if q \<in> set is then None else gget (pm_proxies m) q)"
proof (induction "is" arbitrary: m)
  case (Cons i "is")
  then obtain m1 where m1: "RemoveProxy env i m = Ret m1" "remove_listeners env is m1 = Ret m'" by auto
  then show ?case using Cons.IH [OF m1(2)] RemoveProxy_proxies [OF m1(1)] by auto
qed simp

lemma apply_entries_none:
  "apply_entries env cfg pid es m = Ret ([], err, m') \<Longrightarrow> pm_proxies m' = pm_proxies m"
proof (induction es arbitrary: m err)
  case (Cons e es)
  obtain name ep where e: "e = (name, ep)" by (cases e)
  obtain r m1 ids err1 m2 where r: "CreateProxy ((ce_node env)\<lparr>ne_uuid := ce_ids env name\<rparr>) (entry_request cfg pid name ep) m = Ret (r, m1)"
    and rest: "apply_entries env cfg pid es m1 = Ret (ids, err1, m2)"
    and res: "(case r of Inl e \<Rightarrow> (ids, case err1 of None \<Rightarrow> Some e | Some e' \<Rightarrow> Some e', m2) | Inr pid \<Rightarrow> (pid # ids, err1, m2)) = ([], err, m')"
    using Cons.prems by (auto simp: e split: if_splits prod.splits)
  obtain x where x: "r = Inl x" "ids = []" "m2 = m'" using res by (cases r) auto
  show ?case using Cons.IH rest CreateProxy_Inl r by (simp add: x)
qed simp

text \<open>(C40) When no listener of a new revision can be created, the command fails, but the listeners of the revision before are gone.
  The record of what is applied still names them, in memory and in its file.\<close>

theorem failed_apply_loses_listeners:
  assumes "applyProxyTemplate env req d = Ret (Inl (NoListener e), d')" and "gget (dn_applied d) (apr_ProxyId req) = Some old"
    and "i \<in> set (ap_ListenerIDs old)"
  shows "gget (pm_proxies (dn_pm d')) i = None \<and> gget (dn_applied d') (apr_ProxyId req) = Some old \<and> dn_appliedFile d' = dn_appliedFile d"
proof -
  obtain cfg pm1 err pm2 where r: "remove_listeners (ce_node env) (ap_ListenerIDs old) (dn_pm d) = Ret pm1"
    and a: "apply_entries env cfg (apr_ProxyId req) (yc_EntryPoints cfg) pm1 = Ret ([], err, pm2)" and d': "d' = d\<lparr>dn_pm := pm2\<rparr>"
    using assms(1,2) by (auto simp: applyProxyTemplate_def Let_def split: option.splits if_splits prod.splits)
  show ?thesis using remove_listeners_proxies [OF r, of i] apply_entries_none [OF a] assms(2,3) by (simp add: d')
qed

text \<open>A configuration whose id has fewer than eight bytes crashes the daemon as soon as it has an entry point.\<close>

theorem short_id_crashes:
  assumes "cw_apply (ce_wire env) params = Some req" and "cw_yaml (ce_wire env) (apr_ConfigYaml req) = Some cfg"
    and "yc_EntryPoints cfg \<noteq> []" and "length (apr_ProxyId req) < 8" and "gget (dn_applied d) (apr_ProxyId req) = None"
  shows "HandleCommand env 20 params d = Panics"
proof -
  obtain n ep es where "yc_EntryPoints cfg = (n, ep) # es" using assms(3) by (cases "yc_EntryPoints cfg") auto
  then have "applyProxyTemplate env req d = Panics" using assms(2,4,5) by (simp add: applyProxyTemplate_def)
  then show ?thesis using assms(1) by (simp add: HandleCommand_def handleHubCommandInternal_def CommandTypes_def Let_def)
qed

section \<open>Replies that do not tell the truth\<close>

lemma disable_one_keeps:
  assumes "disable_one env pid mp m = Ret (err, m')" and "gget (pm_proxies m) q \<noteq> None"
  shows "gget (pm_proxies m') q \<noteq> None"
  using assms by (auto simp: disable_one_def put_proxy_def stop_health_def on_db_def Let_def split: option.splits if_splits prod.splits)

text \<open>Deleting a proxy reports success for every id, also for one that does not exist, and a proxy that exists is never removed from the
  manager: it is only disabled.\<close>

theorem delete_pretends:
  assumes "cw_id (ce_wire env) params = Some pid" and "pid \<noteq> []" and "HandleCommand env 41 params d = Ret ((status, msg, dat), d')"
  shows "status = ''OK'' \<and> dat = cw_reply (ce_wire env) RSuccess \<and>
    (\<forall>q. gget (pm_proxies (dn_pm d)) q \<noteq> None \<longrightarrow> gget (pm_proxies (dn_pm d')) q \<noteq> None) \<and>
    (gget (pm_proxies (dn_pm d)) pid = None \<longrightarrow> d' = d)"
proof -
  obtain err m' where r: "DisableProxy (ce_node env) pid (dn_pm d) = Ret (err, m')" and d': "d' = d\<lparr>dn_pm := m'\<rparr>"
    and s: "status = ''OK''" "dat = cw_reply (ce_wire env) RSuccess"
    using assms(1,3) by (auto simp: HandleCommand_def handleHubCommandInternal_def CommandTypes_def deleteProxy_def on_pm_def)
  have "gget (pm_proxies m') q \<noteq> None" if "gget (pm_proxies (dn_pm d)) q \<noteq> None" for q
  proof (cases "gget (pm_proxies (dn_pm d)) pid")
    case (Some mp)
    then show ?thesis using r assms(2) disable_one_keeps [OF _ that] by (auto simp: DisableProxy_def)
  qed (use r assms(2) that in \<open>simp add: DisableProxy_def\<close>)
  moreover have "m' = dn_pm d" if "gget (pm_proxies (dn_pm d)) pid = None"
    using r assms(2) that by (simp add: DisableProxy_def)
  ultimately show ?thesis using s by (auto simp: d')
qed

text \<open>An update of an applied proxy reports success and changes nothing.\<close>

theorem update_pretends:
  assumes "cw_update (ce_wire env) params = Some req" and "up_ProxyId req \<noteq> []" and "gget (dn_applied d) (up_ProxyId req) \<noteq> None"
  shows "HandleCommand env 23 params d = Ret ((''OK'', [], cw_reply (ce_wire env) RSuccess), d)"
  using assms by (auto simp: HandleCommand_def handleHubCommandInternal_def CommandTypes_def handleProxyUpdate_def)

section \<open>The dispatcher is complete\<close>

lemma manager_replies:
  "fst (on_pm (manager_done ok) r d) \<noteq> Inl UnknownCommand" "fst (on_pm (\<lambda>x. Inr (g x)) r d) \<noteq> Inl UnknownCommand"
  "manager_done ok err \<noteq> Inl UnknownCommand"
  by (auto simp: on_pm_def manager_done_def split: option.splits)

lemma known_pure:
  "listRules env params pm \<noteq> Inl UnknownCommand" "fst (removeRule env params d) \<noteq> Inl UnknownCommand"
  "getConnections env params pm \<noteq> Inl UnknownCommand" "fst (closeConnection env params d) \<noteq> Inl UnknownCommand"
  "fst (closeAllConnections env params d) \<noteq> Inl UnknownCommand" "fst (handleProxyUpdate env params d) \<noteq> Inl UnknownCommand"
  "fst (resolveApproval env params d) \<noteq> Inl UnknownCommand" "fst (updateProxy env params d) \<noteq> Inl UnknownCommand"
  "fst (reloadRules env params d) \<noteq> Inl UnknownCommand" "fst (blockIP env params d) \<noteq> Inl UnknownCommand"
  "fst (allowIP env params d) \<noteq> Inl UnknownCommand" "fst (removeGlobalRule env params d) \<noteq> Inl UnknownCommand"
  "geo_command env n params \<noteq> Inl UnknownCommand" "listActiveApprovals env params d \<noteq> Inl UnknownCommand"
  by (simp_all add: listRules_def removeRule_def getConnections_def closeConnection_def closeAllConnections_def handleProxyUpdate_def
      resolveApproval_def updateProxy_def reloadRules_def blockIP_def allowIP_def quick_action_def validateIPOrCIDRHub_def removeGlobalRule_def
      geo_command_def listActiveApprovals_def manager_replies Let_def split: option.splits sum.splits prod.splits)

lemma known_cancel: "fst (cancelApproval env params d) \<noteq> Inl UnknownCommand"
  by (simp add: cancelApproval_def Let_def split: option.splits prod.splits)

lemma known_rules: "addRule env params d \<noteq> Ret (Inl UnknownCommand, d')"
  by (auto simp: addRule_def on_pm_def split: option.splits sum.splits)

lemma known_proxies:
  "createProxy env params d \<noteq> Ret (Inl UnknownCommand, d')" "deleteProxy env params d \<noteq> Ret (Inl UnknownCommand, d')"
  "enableProxy env params d \<noteq> Ret (Inl UnknownCommand, d')" "disableProxy env params d \<noteq> Ret (Inl UnknownCommand, d')"
  "restartListeners env d \<noteq> Ret (Inl UnknownCommand, d')"
  by (auto simp: createProxy_def deleteProxy_def enableProxy_def disableProxy_def restartListeners_def on_pm_def split: option.splits)

lemma known_unapply: "unapplyProxy env params d \<noteq> Ret (Inl UnknownCommand, d')"
  by (auto simp: unapplyProxy_def split: option.splits)

lemma known_apply: "applyProxy env params d \<noteq> Ret (Inl UnknownCommand, d')"
  by (auto simp: applyProxy_def Let_def split: option.splits sum.splits)

lemma known_template: "applyProxyTemplate env req d \<noteq> Ret (Inl UnknownCommand, d')"
  by (auto simp: applyProxyTemplate_def Let_def split: option.splits if_splits prod.splits)

lemmas known = known_pure known_cancel known_rules known_proxies known_unapply known_apply known_template

text \<open>(C33) Every command type of the protocol has a handler, with two exceptions: the unspecified type and the control of
  statistics, which are refused as unknown.\<close>

theorem commands_have_handlers:
  assumes "gget CommandTypes ty = Some cmd"
  shows "(\<exists>d'. handleHubCommandInternal env cmd params d = Ret (Inl UnknownCommand, d')) \<longleftrightarrow> ty \<in> {0, 7}"
proof -
  have "(ty, cmd) \<in> set CommandTypes" using assms by (rule gget_Some_mem)
  then show ?thesis
    unfolding CommandTypes_def list.set insert_iff empty_iff prod.inject
    by (elim disjE FalseE conjE) (simp_all add: handleHubCommandInternal_def prod_eq_iff known split: option.split)
qed

section \<open>Approvals\<close>

lemma pm_CloseConnection_approval: "pm_CloseConnection env proxyID connID pm = (err, pm') \<Longrightarrow> pm_Approval pm' = pm_Approval pm"
  by (auto simp: pm_CloseConnection_def put_proxy_def split: if_splits option.splits prod.splits)

lemma close_each_approval: "pm_Approval (snd (close_each env proxyID cs pm)) = pm_Approval pm"
proof (induction cs arbitrary: pm)
  case (Cons c cs)
  show ?case using Cons pm_CloseConnection_approval [of env proxyID c pm] by (auto split: prod.splits) (metis snd_conv)+
qed simp

lemma split_key:
  assumes "CHR 0x00 \<notin> set ip" and "CHR 0x00 \<notin> set rid" and "CHR 0x00 \<notin> set tls"
  shows "strings_Split (CHR 0x00) (buildKey ip rid tls) = (if tls = [] then [ip, rid] else [ip, rid, tls])"
  using assms by (simp add: buildKey_def KeySeparator_def strings_Split_append strings_Split_nosep)


section \<open>Examples\<close>

text \<open>A wire format that knows one request of every kind: ids are their own encoding.\<close>

definition demo_apply :: "string \<Rightarrow> ApplyProxyRequest" where
  "demo_apply pid = \<lparr>apr_ProxyId = pid, apr_RevisionNum = 2, apr_ConfigYaml = ''yaml''\<rparr>"

definition demo_yaml :: YAMLConfig where
  "demo_yaml =
     \<lparr>yc_EntryPoints = [(''web'', \<lparr>ep_Address = '':9090'', ep_DefaultAction = [], ep_DefaultBackend = ''b:80'', ep_DefaultMock = [],
        ep_FallbackAction = [], ep_FallbackMock = [], ep_TLS = None\<rparr>)], yc_Routers = [], yc_Services = []\<rparr>"

definition demo_update :: "string \<Rightarrow> UpdateProxyRequest" where
  "demo_update pid =
     \<lparr>up_ProxyId = pid, up_ListenAddr = '':1'', up_DefaultBackend = [], up_DefaultAction = ACTION_TYPE_BLOCK, up_DefaultMock = MOCK_PRESET_UNSPECIFIED\<rparr>"

definition demo_cmd_wire :: command_wire where
  "demo_cmd_wire =
     \<lparr>cw_id = Some, cw_addRule = (\<lambda>_. None), cw_pair = (\<lambda>_. None), cw_apply = (\<lambda>p. Some (demo_apply p)), cw_create = (\<lambda>_. None),
      cw_update = (\<lambda>p. Some (demo_update p)), cw_resolve = (\<lambda>_. None), cw_rules = (\<lambda>_. None), cw_address = (\<lambda>_. None),
      cw_cancel = (\<lambda>p. Some (p, True)), cw_yaml = (\<lambda>_. Some demo_yaml), cw_geo = (\<lambda>_ _. None),
      cw_reply = (\<lambda>r. if r = RSuccess then ''ok'' else ''reply''), cw_error = (\<lambda>_. ''failed'')\<rparr>"

text \<open>The transport to the listeners is down, so that no listener starts.\<close>

definition demo_cmd_env :: "(unit, ProxyModel list) command_env" where
  "demo_cmd_env =
     \<lparr>ce_node = (demo_node (\<lambda>_. demo_bind))\<lparr>ne_up := False\<rparr>, ce_wire = demo_cmd_wire, ce_ids = (\<lambda>n. ''id-'' @ n), ce_mem = (\<lambda>_. 0)\<rparr>"

definition demo_applied :: AppliedProxy where
  "demo_applied = applied_entry ''template-1'' 1 0 [''p'']"

definition demo_daemon :: "(unit, ProxyModel list) daemon" where
  "demo_daemon =
     \<lparr>dn_pm = (demo_manager [])\<lparr>pm_Approval := Some (NewApprovalManager\<lparr>am_cache := ac_Add 0 ''10.0.0.1'' ''r'' ''p'' [] True 60 []\<rparr>)\<rparr>,
      dn_applied = [(''template-1'', demo_applied)], dn_appliedFile = None, dn_writable = True\<rparr>"

lemmas demo_cmd_defs = demo_cmd_env_def demo_cmd_wire_def demo_apply_def demo_yaml_def demo_update_def demo_daemon_def demo_applied_def applied_entry_def

lemma new_ffi_state [simp]: "\<not> f_running (build_ffi up m cfg)" "f_up (build_ffi up m cfg) = up"
  by (simp_all add: build_ffi_def NewFfiListener_def ffi_SetStatsService_def ffi_SetApprovalManager_def ffi_SetGlobalRules_def ffi_SetNodeID_def
      ffi_SetFallback_def upd_core_def Let_def split: prod.split)

lemma CreateProxy_transport_down:
  assumes "pm_mode m = ListenerModeFfi" and "\<not> ne_up env" and "address_owner (cr_ListenAddr req) m = None"
  shows "CreateProxy env req m = Ret (Inl (ListenerStart (CoreErr TransportFailed)), m)"
  using assms by (simp add: CreateProxy_def CreateProxyWithID_def build_listener_def lis_Start_def ffi_Start_def Let_def)

lemma failed_apply_loses_listeners_witness:
  "\<exists>e d'. applyProxyTemplate demo_cmd_env (demo_apply ''template-1'') demo_daemon = Ret (Inl (NoListener e), d') \<and>
     gget (pm_proxies (dn_pm demo_daemon)) ''p'' \<noteq> None \<and> gget (pm_proxies (dn_pm d')) ''p'' = None \<and>
     gget (dn_applied d') ''template-1'' = Some demo_applied"
proof -
  obtain m where m: "RemoveProxy (ce_node demo_cmd_env) ''p'' (dn_pm demo_daemon) = Ret m" "pm_mode m = ListenerModeFfi" "pm_proxies m = []"
    by (simp add: RemoveProxy_def lis_Stop_def Stop_def stopEventForwarder_def stop_health_def on_db_def demo_daemon_def demo_cmd_env_def
        demo_run_defs Let_def)
  obtain e d' where r: "applyProxyTemplate demo_cmd_env (demo_apply ''template-1'') demo_daemon = Ret (Inl (NoListener e), d')"
    using m by (simp add: applyProxyTemplate_def CreateProxy_transport_down address_owner_def demo_apply_def demo_yaml_def demo_cmd_env_def
        demo_cmd_wire_def demo_daemon_def demo_applied_def applied_entry_def Let_def)
  have "gget (dn_applied demo_daemon) (apr_ProxyId (demo_apply ''template-1'')) = Some demo_applied" "''p'' \<in> set (ap_ListenerIDs demo_applied)"
    "gget (pm_proxies (dn_pm demo_daemon)) ''p'' \<noteq> None"
    by (simp_all add: demo_daemon_def demo_apply_def demo_applied_def applied_entry_def)
  with r failed_apply_loses_listeners [OF r] show ?thesis by (simp add: demo_apply_def)
qed

lemma short_id_crashes_witness: "HandleCommand demo_cmd_env 20 ''short'' demo_daemon = Panics"
  by (rule short_id_crashes [where req = "demo_apply ''short''" and cfg = demo_yaml]) (simp_all add: demo_cmd_defs)

lemma delete_pretends_witness:
  "HandleCommand demo_cmd_env 41 ''nothing'' demo_daemon = Ret ((''OK'', [], ''ok''), demo_daemon)"
proof -
  obtain status msg dat d' where r: "HandleCommand demo_cmd_env 41 ''nothing'' demo_daemon = Ret ((status, msg, dat), d')" and m: "msg = []"
    by (auto simp: HandleCommand_def handleHubCommandInternal_def CommandTypes_def deleteProxy_def DisableProxy_def on_pm_def demo_cmd_defs demo_run_defs)
  show ?thesis using delete_pretends [OF _ _ r, of "''nothing''"] r m by (simp add: demo_cmd_defs demo_run_defs)
qed

lemma update_pretends_witness:
  "HandleCommand demo_cmd_env 23 ''template-1'' demo_daemon = Ret ((''OK'', [], ''ok''), demo_daemon)"
  using update_pretends [of demo_cmd_env "''template-1''" "demo_update ''template-1''" demo_daemon] by (simp add: demo_cmd_defs)

lemma commands_have_handlers_witness:
  "(\<exists>d'. handleHubCommandInternal demo_cmd_env ''COMMAND_TYPE_STATS_CONTROL'' [] demo_daemon = Ret (Inl UnknownCommand, d')) \<and>
   \<not> (\<exists>d'. handleHubCommandInternal demo_cmd_env ''COMMAND_TYPE_LOOKUP_IP'' [] demo_daemon = Ret (Inl UnknownCommand, d'))"
  using commands_have_handlers [of 7 "''COMMAND_TYPE_STATS_CONTROL''" demo_cmd_env "[]" demo_daemon]
    commands_have_handlers [of 62 "''COMMAND_TYPE_LOOKUP_IP''" demo_cmd_env "[]" demo_daemon]
  by (simp add: CommandTypes_def)


end
