(* ===== verification/Spec2Isabelle.thy ===== *)
theory Spec2Isabelle
  imports Rule_Engine Rate_Limiter Global_Rules Anti_Replay Approval Cleanup Mock Listener Connection Health Proxy_Lifecycle Hub_Configs Hub_Pairing
    Node_Commands
begin

text \<open>
  Nitella is a TCP proxy that decides per connection what happens to it, with a hub through which an owner controls the proxies from
  afar. This library models the Go implementation: the node (\<^verbatim>\<open>pkg/node\<close>), the hub (\<^verbatim>\<open>pkg/hub\<close>), and what lies between
  the two, the node's client of the hub (\<^verbatim>\<open>pkg/hubclient\<close>), the envelopes it exchanges with the owner (\<^verbatim>\<open>pkg/crypto\<close>) and the
  commands it obeys (\<^verbatim>\<open>cmd/nitellad/hub.go\<close>). Every definition bears the name of the Go function it translates, with a prefix where
  two types have a method of the same name.

  \<^bold>\<open>How the parts interact.\<close> A listener of the node accepts a connection and runs its handler. The handler asks the store of global
  rules, then evaluates the rules of the listener in order of priority (each may carry a rate limiter), then possibly waits for an
  approval of the owner, and ends in a block, a mock or a proxied connection. The proxy manager owns the listeners, their rows in the
  database and the health checks of their backends. The node holds a stream of commands open to the hub. The owner sends
  a command to the hub with the routing token of a node; the hub forwards the sealed envelope without reading it; the node verifies the
  signature, opens the envelope, refuses what is old or was seen before, and calls the dispatcher, which works on the manager. The
  answer goes back the same way. Nodes get their certificates by registration or by pairing, which the hub relays.

  \<^bold>\<open>Vocabulary.\<close>
  \<^item> \<open>Nitella_Prelude\<close>: Go maps as association lists (interface \<open>go_map\<close>), times and durations, wrap-around, strings as bytes, the
    type \<open>outcome\<close> of code that returns, panics or waits for ever, and the interface \<open>swept_store\<close> of stores whose
    periodic cleanup must not change an answer.
  \<^item> \<open>Go_Net\<close>: the functions of Go's \<^verbatim>\<open>net\<close> package that the sources call. \<open>Proxy_Types\<close>: the protocol messages.

  \<^bold>\<open>The node.\<close>
  \<^item> \<open>Rule_Engine\<close> (\<^verbatim>\<open>rules.go\<close>): the matcher with its cache of compiled patterns equals a reference without cache.
  \<^item> \<open>Rate_Limiter\<close> (\<^verbatim>\<open>ratelimit.go\<close>), \<open>Global_Rules\<close> (\<^verbatim>\<open>global_rules.go\<close>), \<open>Anti_Replay\<close> (\<^verbatim>\<open>antireplay.go\<close>), \<open>Approval\<close>
    (\<^verbatim>\<open>approval.go\<close>), \<open>Cleanup\<close> (\<^verbatim>\<open>cleanup.go\<close>), \<open>Mock\<close> (\<^verbatim>\<open>mock.go\<close>, \<^verbatim>\<open>presets.go\<close>), \<open>Health\<close> (\<^verbatim>\<open>health/checker.go\<close>): a
    state record and one definition per method; what they decide, that limits and counters are exact in every reachable state, and that
    their cleanups are invisible.
  \<^item> \<open>Listener\<close> and \<open>Connection\<close> (\<^verbatim>\<open>listener.go\<close>): rules, subscribers, start and stop, and the connection handler; who reaches a
    backend, and that every path of the handler cleans up. The order of the rules is the interface \<open>rule_store\<close>, which
    the embedded listener, the in-process listener and the manager's listeners all implement.
  \<^item> \<open>Listener_Core\<close>, \<open>Process_Listener\<close>, \<open>Proxy_Manager\<close>, \<open>Proxy_Lifecycle\<close> (\<^verbatim>\<open>listener_core.go\<close>, \<^verbatim>\<open>ffi_listener.go\<close>,
    \<^verbatim>\<open>process_listener.go\<close>, \<^verbatim>\<open>manager.go\<close>): the life of a proxy; that a restart restores the stored rules and a reload replaces them.

  \<^bold>\<open>The hub.\<close>
  \<^item> \<open>Hub_Limits\<close> (\<^verbatim>\<open>pkg/tier\<close>, \<^verbatim>\<open>ratelimit\<close>; interface \<open>token_bucket\<close>, for both limiters), \<open>Hub_Store\<close> (\<^verbatim>\<open>store\<close>, \<^verbatim>\<open>model\<close>),
    \<open>Hub_Auth\<close> (\<^verbatim>\<open>auth/jwt.go\<close> and the interceptors), \<open>Hub_Server\<close> (\<^verbatim>\<open>server.go\<close>), \<open>Hub_Nodes\<close> (\<^verbatim>\<open>node_server.go\<close>,
    \<^verbatim>\<open>auth_server.go\<close>), \<open>Hub_Mobile\<close> and \<open>Hub_Configs\<close> (\<^verbatim>\<open>mobile_server.go\<close>, \<^verbatim>\<open>admin_server.go\<close>), \<open>Hub_Pairing\<close>
    (\<^verbatim>\<open>pairing_server.go\<close>).
  \<^item> \<open>Hub_Streams\<close> and \<open>Hub_Runs\<close>: the interleavings of all calls. An invariant ties the channels in the hub's maps to the calls that are
    open; from it follow that the calls do not panic and that messages reach those they are meant for.

  \<^bold>\<open>Between the two.\<close>
  \<^item> \<open>Crypto_Envelope\<close> (\<^verbatim>\<open>pkg/crypto\<close>): round trips of envelopes and key files, what a signature fixes, the arithmetic of the
    conversion between the two curves.
  \<^item> \<open>Node_Storage\<close> (\<^verbatim>\<open>storage.go\<close>, \<^verbatim>\<open>keyprotect.go\<close>): the files of a node; what is saved is loaded again.
  \<^item> \<open>Node_Client\<close> (\<^verbatim>\<open>client.go\<close>): only commands of the owner are executed, and once; alerts leave encrypted.
  \<^item> \<open>Node_Commands\<close> (\<^verbatim>\<open>cmd/nitellad/hub.go\<close>): the dispatcher and its handlers.
  \<^item> This theory: what a command of the owner does to the connections of the node.

  \<^bold>\<open>What is a parameter.\<close> Code outside the repository is an argument: the regular expression engine and SHA-256 (\<open>rule_env\<close>), the
  database engine (\<open>dbops\<close>, \<open>engine\<close>), JSON, YAML and protocol buffers (\<open>json_codec\<close>, \<open>wire_lib\<close>, \<open>command_wire\<close>,
  \<open>file_lib\<close>), the cryptographic primitives (\<open>crypto_lib\<close>), JWT and X.509, and the child process (\<open>child_ops\<close>). Where a property
  relies on one of them, the reliance is a named hypothesis such as \<open>crypto_laws\<close>, and an example instance satisfies it. Clock
  readings, random values and the results of network calls are inputs. Goroutines are interleaved at the points where the code
  releases its locks: a handler that waits or a call in phases takes what the others do meanwhile as an argument or as steps of a run.

  \<^bold>\<open>Bounds.\<close> No definition has fuel. Loops over Go collections are structural recursion or folds over lists. Two
  recursions are not structural and have a termination proof: Euclid's algorithm behind \<open>ModInverse\<close> and the trimming of
  runes in the prelude. Loops that run for the life of the process (tickers, accept, streams) are modelled by the body of one round, and
  runs are lists of rounds of any length. Integers are \<open>int\<close> with \<open>wrap32\<close> or \<open>wrap64\<close> where the code computes on
  fixed widths and the range matters, and words where it works on bits.

  \<^bold>\<open>Not modelled.\<close> Copying bytes between sockets and the splice system calls; issuing and parsing X.509 certificates; the TLS handshake
  and the pinning of the hub's certificate; peer-to-peer connections over WebRTC (\<^verbatim>\<open>pkg/p2p\<close>) and the signaling loop of the client;
  the user's side of pairing (\<^verbatim>\<open>pkg/pairing\<close>, \<^verbatim>\<open>doPairing\<close> of the daemon); the GeoIP databases and providers (\<^verbatim>\<open>pkg/geoip\<close>); the SQL of the
  statistics service; the controller behind the mobile application (\<^verbatim>\<open>pkg/core\<close>, \<^verbatim>\<open>pkg/service\<close>, \<^verbatim>\<open>app\<close>); command line tools and flags;
  the second implementation of the node in Rust (\<^verbatim>\<open>nitellad-rs\<close>). These are input and output, libraries, or another program. Log lines
  have no effect on the state and are left out.
\<close>

section \<open>From the owner's phone to a connection\<close>

lemma validated_block:
  assumes "cw_address (ce_wire env) params = Some (ip, secs)" and "validateIPOrCIDRHub ip = None"
  shows "HandleCommand env 50 params d = Ret ((''OK'', [], cw_reply (ce_wire env) RNone),
    d\<lparr>dn_pm := (dn_pm d)\<lparr>pm_GlobalRules :=
       snd (BlockIP (ne_now (ce_node env)) ip (wrap64 (secs * second)) (pm_GlobalRules (dn_pm d)))\<rparr>\<rparr>)"
  using assms by (simp add: HandleCommand_def handleHubCommandInternal_def CommandTypes_def blockIP_def quick_action_def)

lemma globally_blocked:
  assumes "w_global w = Some g" and "gr_Check g (source_ip (ce_conn cenv)) (ce_now cenv) = (True, ACTION_TYPE_BLOCK)" and "\<not> l_quit (w_p w)"
  shows "fst (handleConn cenv w) = GlobalBlocked"
  using assms by (simp add: handleConn_unfold global_phase_says global_says_def connected_def conn_register_def upd_p_def)


definition block_wire :: wire_lib where
  "block_wire = demo_wire\<lparr>wl_inner := \<lambda>_. Some (50, ''10.0.0.1'')\<rparr>"

definition block_env :: "(unit, ProxyModel list) command_env" where
  "block_env = demo_cmd_env\<lparr>ce_wire := demo_cmd_wire\<lparr>cw_address := \<lambda>p. Some (p, 0)\<rparr>\<rparr>"

lemma check_command_inner: "check_command lib (wire\<lparr>wl_inner := f\<rparr>) t cmd c = check_command lib wire t cmd c"
proof -
  have "wl_secure (wire\<lparr>wl_inner := f\<rparr>) = wl_secure wire" by simp
  then show ?thesis unfolding check_command_def by (simp only:)
qed


end
